(* ===== verification/Prelude.thy ===== *)
theory Prelude
  imports Complex_Main "HOL-Library.Word" "HOL-Library.Sublist" "HOL-Library.Char_ord"
    "HOL-Library.List_Lexorder"
begin

text \<open>
  Shared vocabulary of the development: what the Go sources use of the language and of its
  standard library (results with errors and panics, truncated division, 64-bit wrap-around,
  instants and durations, ASCII string helpers, decimal formatting of integers), and the generic
  lemmas on results and lists that the component theories rest on.

  Conventions. A Go \<^verbatim>\<open>string\<close> is a byte string (\<^typ>\<open>string\<close>); the case and space helpers act on
  ASCII, the only characters the identifiers, symbols and addresses of the program hold. An
  instant is the number of nanoseconds since the Unix epoch, a duration a number of nanoseconds.
  A function that may panic or return an error yields a \<open>result\<close>.
\<close>

unbundle bit_operations_syntax

named_theorems result_simps "equations for results"
named_theorems grid_simps "facts about values on a price or quantity grid"
named_theorems sub_simps "facts about sub-lists kept by a filtering stage"


section \<open>Errors and panics\<close>

datatype 'e failure = Fail 'e | Panic

type_synonym ('e, 'a) result = "'e failure + 'a"

definition bindR :: "('e, 'a) result \<Rightarrow> ('a \<Rightarrow> ('e, 'b) result) \<Rightarrow> ('e, 'b) result" where
  "bindR m f = (case m of Inl e \<Rightarrow> Inl e | Inr x \<Rightarrow> f x)"

text \<open>A call that panics when its precondition fails, seen from a function that may also fail.\<close>

definition must :: "'a option \<Rightarrow> ('e, 'a) result" where
  "must x = (case x of None \<Rightarrow> Inl Panic | Some a \<Rightarrow> Inr a)"

lemma bindR_simps [simp, result_simps]:
  "bindR (Inl e) f = Inl e"
  "bindR (Inr x) f = f x"
  by (simp_all add: bindR_def)

lemma must_simps [simp, result_simps]:
  "must None = Inl Panic"
  "must (Some a) = Inr a"
  by (simp_all add: must_def)

lemma bindR_eq_Inr [result_simps]: "bindR m f = Inr y \<longleftrightarrow> (\<exists>x. m = Inr x \<and> f x = Inr y)"
  by (cases m) auto

lemma bindR_eq_Panic [result_simps]:
  "bindR m f = Inl Panic \<longleftrightarrow> m = Inl Panic \<or> (\<exists>x. m = Inr x \<and> f x = Inl Panic)"
  by (cases m) auto

lemma must_eq_Inr [result_simps]: "must x = Inr a \<longleftrightarrow> x = Some a"
  by (cases x) auto

lemma must_eq_Panic [result_simps]: "must x = Inl Panic \<longleftrightarrow> x = None"
  by (cases x) auto

lemma bindR_cong [fundef_cong]:
  "m = m' \<Longrightarrow> (\<And>x. m' = Inr x \<Longrightarrow> f x = f' x) \<Longrightarrow> bindR m f = bindR m' f'"
  by (cases m') auto


section \<open>Machine integers\<close>

text \<open>Go's integer division and remainder truncate towards zero, for \<^verbatim>\<open>int\<close> and for
  \<^verbatim>\<open>big.Int.Quo\<close> and \<^verbatim>\<open>big.Int.QuoRem\<close>.\<close>

definition go_quo :: "int \<Rightarrow> int \<Rightarrow> int" where
  "go_quo a b = sgn a * sgn b * (\<bar>a\<bar> div \<bar>b\<bar>)"

definition go_rem :: "int \<Rightarrow> int \<Rightarrow> int" where
  "go_rem a b = a - b * go_quo a b"

lemma go_quo_nonneg: "0 \<le> a \<Longrightarrow> 0 < b \<Longrightarrow> go_quo a b = a div b"
  by (cases "a = 0") (auto simp: go_quo_def sgn_if)

lemma go_rem_nonneg: "0 \<le> a \<Longrightarrow> 0 < b \<Longrightarrow> go_rem a b = a mod b"
  by (simp add: go_rem_def go_quo_nonneg minus_mult_div_eq_mod)

text \<open>The value an \<^verbatim>\<open>int64\<close> (or an \<^verbatim>\<open>int\<close> of the 64-bit targets) keeps of an exact result.\<close>

definition int64 :: "int \<Rightarrow> int" where
  "int64 x = sint (word_of_int x :: 64 word)"

lemma int64_id: "- (2 ^ 63) \<le> x \<Longrightarrow> x < 2 ^ 63 \<Longrightarrow> int64 x = x"
  by (simp add: int64_def sint_sbintrunc' signed_take_bit_int_eq_self)


section \<open>Instants and durations\<close>

type_synonym time = int
type_synonym duration = int

definition second :: duration where "second = 1000000000"
definition millisecond :: duration where "millisecond = 1000000"

text \<open>\<^verbatim>\<open>time.Time{}\<close> is the first instant of year 1.\<close>

definition zero_time :: time where "zero_time = - 62135596800 * 1000000000"

definition IsZeroTime :: "time \<Rightarrow> bool" where "IsZeroTime t \<longleftrightarrow> t = zero_time"

text \<open>\<^verbatim>\<open>Time.Sub\<close> saturates at the ends of the 64-bit duration range.\<close>

definition time_sub :: "time \<Rightarrow> time \<Rightarrow> duration" where
  "time_sub a b = max (- (2 ^ 63)) (min (2 ^ 63 - 1) (a - b))"

definition unix :: "time \<Rightarrow> int" where "unix t = t div second"
definition unix_milli :: "time \<Rightarrow> int" where "unix_milli t = t div millisecond"

lemma time_sub_less_iff: "- (2 ^ 63) < d \<Longrightarrow> d < 2 ^ 63 \<Longrightarrow> time_sub a b < d \<longleftrightarrow> a - b < d"
  by (auto simp: time_sub_def)

lemma time_sub_ge_iff: "- (2 ^ 63) < d \<Longrightarrow> d < 2 ^ 63 \<Longrightarrow> d \<le> time_sub a b \<longleftrightarrow> d \<le> a - b"
  by (auto simp: time_sub_def)


section \<open>Strings\<close>

definition is_space :: "char \<Rightarrow> bool" where
  "is_space c \<longleftrightarrow> of_char c \<in> {9, 10, 11, 12, 13, 32 :: nat}"

definition TrimSpace :: "string \<Rightarrow> string" where
  "TrimSpace s = rev (dropWhile is_space (rev (dropWhile is_space s)))"

definition lower_char :: "char \<Rightarrow> char" where
  "lower_char c = (if 65 \<le> (of_char c :: nat) \<and> (of_char c :: nat) \<le> 90
     then char_of (of_char c + 32 :: nat) else c)"

definition ToLower :: "string \<Rightarrow> string" where
  "ToLower s = map lower_char s"

definition EqualFold :: "string \<Rightarrow> string \<Rightarrow> bool" where
  "EqualFold a b \<longleftrightarrow> ToLower a = ToLower b"

definition HasPrefix :: "string \<Rightarrow> string \<Rightarrow> bool" where
  "HasPrefix s p \<longleftrightarrow> take (length p) s = p"

lemma HasPrefix_append [simp]: "HasPrefix (p @ s) p"
  by (simp add: HasPrefix_def)

text \<open>\<^verbatim>\<open>%d\<close> and \<^verbatim>\<open>strconv\<close> in base 10.\<close>

definition digit :: "nat \<Rightarrow> char" where
  "digit d = char_of (48 + d)"

fun utoa :: "nat \<Rightarrow> string" where
  "utoa n = (if n < 10 then [digit n] else utoa (n div 10) @ [digit (n mod 10)])"

declare utoa.simps [simp del]

definition itoa :: "int \<Rightarrow> string" where
  "itoa n = (if n < 0 then ''-'' @ utoa (nat (- n)) else utoa (nat n))"

text \<open>\<^verbatim>\<open>%q\<close> on text that needs no escape.\<close>

definition quoted :: "string \<Rightarrow> string" where
  "quoted s = [CHR 0x22] @ s @ [CHR 0x22]"


section \<open>Lists\<close>

lemma subseq_filterI [sub_simps]: "subseq (filter P xs) xs"
  by (rule subseq_filter_left)

lemma subseq_set: "subseq xs ys \<Longrightarrow> set xs \<subseteq> set ys"
  by (induction rule: list_emb.induct) auto

lemma subseq_sorted_wrt:
  assumes "subseq xs ys" and "sorted_wrt P ys"
  shows "sorted_wrt P xs"
  using assms by (induction rule: list_emb.induct) (auto dest: subseq_set)

text \<open>The index of the first element that satisfies a predicate: the \<^verbatim>\<open>for ... break\<close> searches.\<close>

fun find_index :: "('a \<Rightarrow> bool) \<Rightarrow> 'a list \<Rightarrow> nat option" where
  "find_index P [] = None"
| "find_index P (x # xs) = (if P x then Some 0 else map_option Suc (find_index P xs))"

lemma find_index_Some: "find_index P xs = Some i \<Longrightarrow> i < length xs \<and> P (xs ! i) \<and> (\<forall>j < i. \<not> P (xs ! j))"
proof (induction xs arbitrary: i)
  case (Cons x xs)
  show ?case
  proof (cases "P x")
    case False
    with Cons.prems obtain k where k: "find_index P xs = Some k" and i: "i = Suc k" by auto
    with Cons.IH [OF k] False show ?thesis by (auto simp: nth_Cons split: nat.split)
  qed (use Cons.prems in auto)
qed simp

lemma find_index_None: "find_index P xs = None \<longleftrightarrow> (\<forall>x \<in> set xs. \<not> P x)"
  by (induction xs) auto

end
