(* ===== verification/Decimals.thy ===== *)
theory Decimals
  imports Prelude
begin

text \<open>
  \<^verbatim>\<open>internal/num/decimal.go\<close>: the exact decimal numbers of prices, quantities and money. The Go
  struct wraps a \<^verbatim>\<open>*big.Rat\<close> whose nil value every method reads as 0 (method \<^verbatim>\<open>rat\<close>), and no
  method mutates its receiver, so a decimal is a rational number. Division and quantisation
  panic outside their domain; here they return \<open>None\<close>.
\<close>

type_synonym Decimal = rat

definition FromInt64 :: "int \<Rightarrow> Decimal" where "FromInt64 v = of_int v"
definition One :: Decimal where "One = 1"
definition TenThousand :: Decimal where "TenThousand = 10000"

definition IsZero :: "Decimal \<Rightarrow> bool" where "IsZero d \<longleftrightarrow> d = 0"
definition IsPositive :: "Decimal \<Rightarrow> bool" where "IsPositive d \<longleftrightarrow> 0 < d"
definition Sign :: "Decimal \<Rightarrow> int" where "Sign d = (if d < 0 then -1 else if d = 0 then 0 else 1)"
definition Cmp :: "Decimal \<Rightarrow> Decimal \<Rightarrow> int" where "Cmp d e = Sign (d - e)"

definition Div :: "Decimal \<Rightarrow> Decimal \<Rightarrow> Decimal option" where
  "Div d e = (if IsZero e then None else Some (d / e))"

definition DecMin :: "Decimal \<Rightarrow> Decimal \<Rightarrow> Decimal" where
  "DecMin d e = (if Cmp d e \<le> 0 then d else e)"

definition DecMax :: "Decimal \<Rightarrow> Decimal \<Rightarrow> Decimal" where
  "DecMax d e = (if Cmp d e \<ge> 0 then d else e)"

text \<open>\<^verbatim>\<open>QuantizeDown\<close> divides numerator by denominator of the reduced quotient; \<^verbatim>\<open>QuantizeUp\<close> adds
  one when the remainder is not zero.\<close>

definition QuantizeDown :: "Decimal \<Rightarrow> Decimal \<Rightarrow> Decimal option" where
  "QuantizeDown d step =
     (if Sign step \<le> 0 \<or> Sign d < 0 then None
      else (let (a, b) = quotient_of (d / step); n = go_quo a b
            in Some (of_int n * step)))"

definition QuantizeUp :: "Decimal \<Rightarrow> Decimal \<Rightarrow> Decimal option" where
  "QuantizeUp d step =
     (if Sign step \<le> 0 \<or> Sign d < 0 then None
      else (let (a, b) = quotient_of (d / step); n = go_quo a b; rem = go_rem a b;
                m = (if rem \<noteq> 0 then n + 1 else n)
            in Some (of_int m * step)))"

text \<open>\<^verbatim>\<open>Fixed\<close> is \<^verbatim>\<open>big.Rat.FloatString\<close>: \<open>prec\<close> digits after the point, rounded half away from zero.\<close>

definition Fixed :: "Decimal \<Rightarrow> nat \<Rightarrow> string" where
  "Fixed d prec =
     (let (a, b) = quotient_of d in
      if b = 1 then itoa a @ (if prec > 0 then ''.'' @ replicate prec (CHR ''0'') else [])
      else let n = nat \<bar>a\<bar>; m = nat b; p = 10 ^ prec;
               q = n div m; r = ((n mod m) * p) div m; r2 = ((n mod m) * p) mod m;
               (q', r') = (if m \<le> r2 + r2
                           then (if r + 1 \<ge> p then (q + 1, r + 1 - p) else (q, r + 1))
                           else (q, r))
           in (if a < 0 then ''-'' else []) @ utoa q' @
              (if prec > 0 then ''.'' @ replicate (prec - length (utoa r')) (CHR ''0'') @ utoa r' else []))"

definition TrimRightChar :: "char \<Rightarrow> string \<Rightarrow> string" where
  "TrimRightChar c s = rev (dropWhile (\<lambda>x. x = c) (rev s))"

definition DecString :: "Decimal \<Rightarrow> string" where
  "DecString d =
     (if d = 0 then ''0''
      else let s = TrimRightChar (CHR ''.'') (TrimRightChar (CHR ''0'') (Fixed d 18))
           in if s = ''-0'' then ''0'' else s)"

lemmas dec_simps [simp] =
  FromInt64_def One_def TenThousand_def IsZero_def IsPositive_def

lemma Sign_simps [simp]:
  "Sign d \<le> 0 \<longleftrightarrow> d \<le> 0" "Sign d < 0 \<longleftrightarrow> d < 0" "0 < Sign d \<longleftrightarrow> 0 < d" "0 \<le> Sign d \<longleftrightarrow> 0 \<le> d"
  "Sign d = 0 \<longleftrightarrow> d = 0"
  by (auto simp: Sign_def)

lemma Cmp_simps [simp]:
  "Cmp d e \<le> 0 \<longleftrightarrow> d \<le> e" "Cmp d e < 0 \<longleftrightarrow> d < e" "0 < Cmp d e \<longleftrightarrow> e < d" "0 \<le> Cmp d e \<longleftrightarrow> e \<le> d"
  "Cmp d e = 0 \<longleftrightarrow> d = e"
  by (auto simp: Cmp_def)

lemma DecMin_eq [simp]: "DecMin d e = min d e"
  by (simp add: DecMin_def min_def)

lemma DecMax_eq [simp]: "DecMax d e = max d e"
  by (auto simp: DecMax_def max_def)


section \<open>Quantisation is rounding to the grid of a step\<close>

definition on_grid :: "Decimal \<Rightarrow> Decimal \<Rightarrow> bool" where
  "on_grid step d \<longleftrightarrow> of_int \<lfloor>d / step\<rfloor> * step = d"

lemma quotient_of_nonneg:
  assumes "quotient_of x = (a, b)" and "0 \<le> x"
  shows "0 \<le> a" "0 < b" "x = of_int a / of_int b" "a div b = \<lfloor>x\<rfloor>"
proof -
  show b: "0 < b" using assms(1) by (rule quotient_of_denom_pos)
  show x: "x = of_int a / of_int b" using assms(1) by (rule quotient_of_div)
  show "0 \<le> a" using assms(2) b by (simp add: x zero_le_divide_iff)
  show "a div b = \<lfloor>x\<rfloor>" by (simp add: x floor_divide_of_int_eq)
qed

lemma QuantizeDown_eq:
  assumes "0 < step" and "0 \<le> d"
  shows "QuantizeDown d step = Some (of_int \<lfloor>d / step\<rfloor> * step)"
proof -
  obtain a b where q: "quotient_of (d / step) = (a, b)" by fastforce
  have "0 \<le> d / step" using assms by simp
  note n = quotient_of_nonneg [OF q this]
  show ?thesis using assms n(1,2,4) by (simp add: QuantizeDown_def q go_quo_nonneg)
qed

lemma ceiling_of_quotient:
  assumes "quotient_of x = (a, b)" and "0 \<le> x"
  shows "(if a mod b \<noteq> 0 then a div b + 1 else a div b) = \<lceil>x\<rceil>"
proof -
  note n = quotient_of_nonneg [OF assms]
  show ?thesis
  proof (cases "a mod b = 0")
    case True
    then have "a = b * (a div b)" by auto
    then have "x = of_int (a div b)" using n(2,3)
      by (metis nonzero_mult_div_cancel_left of_int_0_eq_iff of_int_mult order_less_irrefl)
    with True show ?thesis by simp
  next
    case False
    then have "x \<noteq> of_int (a div b)"
      using n(2,3) by (metis mod_mult_self1_is_0 nonzero_eq_divide_eq of_int_eq_iff of_int_eq_0_iff
          of_int_mult order_less_irrefl mult.commute)
    with n(4) False show ?thesis by (simp add: ceiling_altdef)
  qed
qed

lemma QuantizeUp_eq:
  assumes "0 < step" and "0 \<le> d"
  shows "QuantizeUp d step = Some (of_int \<lceil>d / step\<rceil> * step)"
proof -
  obtain a b where q: "quotient_of (d / step) = (a, b)" by fastforce
  have x: "0 \<le> d / step" using assms by simp
  note n = quotient_of_nonneg [OF q x]
  have "QuantizeUp d step = Some (of_int (if a mod b \<noteq> 0 then a div b + 1 else a div b) * step)"
    using assms n(1,2) by (simp add: QuantizeUp_def q go_quo_nonneg go_rem_nonneg Let_def)
  then show ?thesis by (simp only: ceiling_of_quotient [OF q x])
qed

lemma QuantizeDown_None_iff: "QuantizeDown d step = None \<longleftrightarrow> step \<le> 0 \<or> d < 0"
  by (auto simp: QuantizeDown_def split: prod.split)

lemma QuantizeUp_None_iff: "QuantizeUp d step = None \<longleftrightarrow> step \<le> 0 \<or> d < 0"
  by (auto simp: QuantizeUp_def Let_def split: prod.split)

lemma QuantizeDown_SomeD:
  assumes "QuantizeDown d step = Some r"
  shows "0 < step" "0 \<le> d" "r = of_int \<lfloor>d / step\<rfloor> * step"
proof -
  from assms QuantizeDown_None_iff [of d step] show s: "0 < step" and d: "0 \<le> d" by auto
  from assms QuantizeDown_eq [OF s d] show "r = of_int \<lfloor>d / step\<rfloor> * step" by simp
qed

lemma QuantizeUp_SomeD:
  assumes "QuantizeUp d step = Some r"
  shows "0 < step" "0 \<le> d" "r = of_int \<lceil>d / step\<rceil> * step"
proof -
  from assms QuantizeUp_None_iff [of d step] show s: "0 < step" and d: "0 \<le> d" by auto
  from assms QuantizeUp_eq [OF s d] show "r = of_int \<lceil>d / step\<rceil> * step" by simp
qed

lemma on_gridI [grid_simps, intro]: "0 < step \<Longrightarrow> on_grid step (of_int k * step)"
  by (simp add: on_grid_def)

lemma on_grid_iff: "0 < step \<Longrightarrow> on_grid step d \<longleftrightarrow> (\<exists>k. d = of_int k * step)"
  by (metis on_gridI on_grid_def)

lemma on_grid_add_step [grid_simps]:
  assumes "0 < step" and "on_grid step d"
  shows "on_grid step (d + of_int n * step)"
proof -
  from assms obtain k where "d = of_int k * step" by (auto simp: on_grid_iff)
  then have "d + of_int n * step = of_int (k + n) * step" by (simp add: distrib_right)
  with assms(1) show ?thesis by (metis on_gridI)
qed

lemma on_grid_pos: "0 < step \<Longrightarrow> on_grid step d \<Longrightarrow> 0 < d \<Longrightarrow> step \<le> d"
proof -
  assume s: "0 < step" and g: "on_grid step d" and d: "0 < d"
  from s g obtain k where k: "d = of_int k * step" by (auto simp: on_grid_iff)
  with s d have "0 < k" by (simp add: zero_less_mult_iff)
  then have "1 \<le> (of_int k :: rat)" by (metis of_int_1_le_iff zless_imp_add1_zle add_0)
  with s k show ?thesis by (metis mult_le_cancel_right1 less_le_not_le)
qed

text \<open>What a client may rely on, whichever way the value is rounded.\<close>

locale grid_rounding =
  fixes quantize :: "Decimal \<Rightarrow> Decimal \<Rightarrow> Decimal option"
  assumes defined: "quantize d step = None \<longleftrightarrow> step \<le> 0 \<or> d < 0"
    and grid: "quantize d step = Some r \<Longrightarrow> on_grid step r"
    and near: "quantize d step = Some r \<Longrightarrow> \<bar>r - d\<bar> < step"
    and fixed: "0 < step \<Longrightarrow> 0 \<le> d \<Longrightarrow> on_grid step d \<Longrightarrow> quantize d step = Some d"
    and mono: "quantize d step = Some r \<Longrightarrow> quantize d' step = Some r' \<Longrightarrow> d \<le> d' \<Longrightarrow> r \<le> r'"
begin

lemma domain: "quantize d step = Some r \<Longrightarrow> 0 < step \<and> 0 \<le> d"
  using defined [of d step] by auto

lemma nonneg:
  assumes "quantize d step = Some r"
  shows "0 \<le> r"
proof -
  from domain [OF assms] have s: "0 < step" and d: "0 \<le> d" by auto
  have z: "quantize 0 step = Some 0" using s by (intro fixed) (auto simp: on_grid_def)
  from mono [OF z assms d] show ?thesis .
qed

lemma idempotent: "quantize d step = Some r \<Longrightarrow> quantize r step = Some r"
  using domain grid nonneg fixed by blast

end

lemma floor_ceiling_near:
  fixes d :: rat assumes "0 < step"
  shows "of_int \<lfloor>d / step\<rfloor> * step \<le> d" "d < of_int \<lfloor>d / step\<rfloor> * step + step"
    "d \<le> of_int \<lceil>d / step\<rceil> * step" "of_int \<lceil>d / step\<rceil> * step < d + step"
proof -
  have f: "of_int \<lfloor>d / step\<rfloor> \<le> d / step" "d / step < of_int \<lfloor>d / step\<rfloor> + 1" by linarith+
  have c: "d / step \<le> of_int \<lceil>d / step\<rceil>" "of_int \<lceil>d / step\<rceil> - 1 < d / step" by linarith+
  show "of_int \<lfloor>d / step\<rfloor> * step \<le> d" by (rule iffD1 [OF pos_le_divide_eq [OF assms] f(1)])
  show "d < of_int \<lfloor>d / step\<rfloor> * step + step" using f(2) assms by (simp add: pos_divide_less_eq distrib_right)
  show "d \<le> of_int \<lceil>d / step\<rceil> * step" by (rule iffD1 [OF pos_divide_le_eq [OF assms] c(1)])
  show "of_int \<lceil>d / step\<rceil> * step < d + step" using c(2) assms by (simp add: pos_less_divide_eq left_diff_distrib)
qed

interpretation down: grid_rounding QuantizeDown
proof
  fix d d' step r r' :: Decimal
  show "QuantizeDown d step = None \<longleftrightarrow> step \<le> 0 \<or> d < 0" by (rule QuantizeDown_None_iff)
  show "on_grid step r" if "QuantizeDown d step = Some r"
    using QuantizeDown_SomeD [OF that] by auto
  show "\<bar>r - d\<bar> < step" if "QuantizeDown d step = Some r"
    using QuantizeDown_SomeD [OF that] floor_ceiling_near [of step d] by (auto simp: abs_less_iff)
  show "QuantizeDown d step = Some d" if "0 < step" "0 \<le> d" "on_grid step d"
    using that QuantizeDown_eq [of step d] by (simp add: on_grid_def)
  show "r \<le> r'" if "QuantizeDown d step = Some r" "QuantizeDown d' step = Some r'" "d \<le> d'"
    using QuantizeDown_SomeD [OF that(1)] QuantizeDown_SomeD [OF that(2)] that(3)
    by (simp add: floor_mono divide_right_mono)
qed

interpretation up: grid_rounding QuantizeUp
proof
  fix d d' step r r' :: Decimal
  show "QuantizeUp d step = None \<longleftrightarrow> step \<le> 0 \<or> d < 0" by (rule QuantizeUp_None_iff)
  show "on_grid step r" if "QuantizeUp d step = Some r"
    using QuantizeUp_SomeD [OF that] by auto
  show "\<bar>r - d\<bar> < step" if "QuantizeUp d step = Some r"
    using QuantizeUp_SomeD [OF that] floor_ceiling_near [of step d] by (auto simp: abs_less_iff)
  show "QuantizeUp d step = Some d" if "0 < step" "0 \<le> d" "on_grid step d"
    using that QuantizeUp_eq [of step d] by (metis ceiling_of_int nonzero_mult_div_cancel_right
        less_irrefl on_grid_def)
  show "r \<le> r'" if "QuantizeUp d step = Some r" "QuantizeUp d' step = Some r'" "d \<le> d'"
    using QuantizeUp_SomeD [OF that(1)] QuantizeUp_SomeD [OF that(2)] that(3)
    by (simp add: ceiling_mono divide_right_mono)
qed

lemma QuantizeDown_le: "QuantizeDown d step = Some r \<Longrightarrow> r \<le> d"
  using QuantizeDown_SomeD floor_ceiling_near(1) by blast

lemma QuantizeUp_ge: "QuantizeUp d step = Some r \<Longrightarrow> d \<le> r"
  using QuantizeUp_SomeD floor_ceiling_near(3) by blast

lemma QuantizeUp_pos: "QuantizeUp d step = Some r \<Longrightarrow> 0 < d \<Longrightarrow> 0 < r"
  using QuantizeUp_ge by fastforce

lemma on_grid_ge_imp_QuantizeUp_le:
  assumes "QuantizeUp d step = Some r" "on_grid step g" "d \<le> g"
  shows "r \<le> g"
proof -
  from up.domain [OF assms(1)] assms(3) have "0 < step" "0 \<le> g" by auto
  with assms(2) have "QuantizeUp g step = Some g" by (intro up.fixed)
  with assms(1,3) show ?thesis by (metis up.mono)
qed

lemma on_grid_le_imp_QuantizeDown_ge:
  assumes "QuantizeDown d step = Some r" "on_grid step g" "0 \<le> g" "g \<le> d"
  shows "g \<le> r"
proof -
  from down.domain [OF assms(1)] have "0 < step" by auto
  with assms(2,3) have "QuantizeDown g step = Some g" by (intro down.fixed)
  with assms(1,4) show ?thesis by (metis down.mono)
qed

end
