(* ===== verification/DomainTypes.thy ===== *)
theory DomainTypes
  imports Decimals
begin

text \<open>
  \<^verbatim>\<open>internal/domain/types.go\<close>: the data every component exchanges. A Go string type with named
  constants is a datatype with one constructor per constant and one for any other text, which an
  exchange adapter can produce. Field names carry a prefix that tells the records apart.
\<close>

datatype Side = Buy | Sell | OtherSide string

datatype Mode = ModeShadow | ModeLive | OtherMode string

record Book =
  b_Venue :: string
  b_Symbol :: string
  b_BidPrice :: Decimal
  b_BidQty :: Decimal
  b_AskPrice :: Decimal
  b_AskQty :: Decimal
  b_Timestamp :: time

definition HasBid :: "Book \<Rightarrow> bool" where "HasBid b \<longleftrightarrow> IsPositive (b_BidPrice b)"
definition HasAsk :: "Book \<Rightarrow> bool" where "HasAsk b \<longleftrightarrow> IsPositive (b_AskPrice b)"
definition HasPrices :: "Book \<Rightarrow> bool" where "HasPrices b \<longleftrightarrow> HasBid b \<or> HasAsk b"
definition TwoSided :: "Book \<Rightarrow> bool" where "TwoSided b \<longleftrightarrow> HasBid b \<and> HasAsk b"

record ReferencePrice =
  rp_InstrumentID :: string
  rp_Price :: Decimal
  rp_Spot :: Decimal
  rp_TWAPReady :: bool
  rp_Confidence :: string
  rp_BlockNumber :: "64 word"
  rp_BlockTime :: time
  rp_ValidUntil :: time

record Quote =
  q_InstrumentID :: string
  q_Venue :: string
  q_Symbol :: string
  q_Side :: Side
  q_Level :: int
  q_Price :: Decimal
  q_Quantity :: Decimal
  q_Reference :: Decimal
  q_ValidUntil :: time

datatype OrderState = OrderNew | OrderPartiallyFilled | OrderFilled | OrderCanceled
  | OrderRejected | OrderExpired | OrderUnknown | OtherState string

record Order =
  o_Venue :: string
  o_OrderID :: string
  o_ClientID :: string
  o_Symbol :: string
  o_Side :: Side
  o_Price :: Decimal
  o_Quantity :: Decimal
  o_ExecutedQty :: Decimal
  o_State :: OrderState
  o_CreatedAt :: time

text \<open>The zero value \<^verbatim>\<open>domain.Order{}\<close>: an order slot nothing was written to.\<close>

definition zero_order :: Order where
  "zero_order = \<lparr>o_Venue = [], o_OrderID = [], o_ClientID = [], o_Symbol = [], o_Side = OtherSide [],
     o_Price = 0, o_Quantity = 0, o_ExecutedQty = 0, o_State = OtherState [], o_CreatedAt = zero_time\<rparr>"

record Balance =
  bal_Asset :: string
  bal_Free :: Decimal
  bal_Locked :: Decimal

record QuoteBudget =
  qb_ReserveBPS :: int
  qb_TargetOrders :: nat
  qb_EligibleOrders :: nat
  qb_BaseBudget :: Decimal
  qb_BaseRequired :: Decimal
  qb_QuoteBudget :: Decimal
  qb_QuoteRequired :: Decimal
  qb_BaseLimited :: bool
  qb_QuoteLimited :: bool

record MarketRules =
  mr_Symbol :: string
  mr_BaseAsset :: string
  mr_QuoteAsset :: string
  mr_PriceTick :: Decimal
  mr_QuantityStep :: Decimal
  mr_MinQuantity :: Decimal
  mr_MaxQuantity :: Decimal
  mr_MinNotional :: Decimal
  mr_MaxNotional :: Decimal
  mr_MinPrice :: Decimal
  mr_MaxPrice :: Decimal
  mr_MaxOpenOrders :: int

record Fill =
  fl_Venue :: string
  fl_TradeID :: string
  fl_OrderID :: string
  fl_Symbol :: string
  fl_Side :: Side
  fl_Price :: Decimal
  fl_Quantity :: Decimal
  fl_QuoteQuantity :: Decimal
  fl_Fee :: Decimal
  fl_FeeAsset :: string
  fl_Maker :: bool
  fl_Aggregate :: bool
  fl_Simulated :: bool
  fl_Timestamp :: time

text \<open>The names the string constants have in messages and in hashed seeds.\<close>

fun side_text :: "Side \<Rightarrow> string" where
  "side_text Buy = ''BUY''"
| "side_text Sell = ''SELL''"
| "side_text (OtherSide s) = s"

lemmas book_simps = HasBid_def HasAsk_def HasPrices_def TwoSided_def


section \<open>Quote lists\<close>

text \<open>No buy of the list is priced at or above a sell of the list.\<close>

definition no_self_cross :: "Quote list \<Rightarrow> bool" where
  "no_self_cross qs \<longleftrightarrow>
     list_all (\<lambda>x. list_all (\<lambda>y. q_Side x = Buy \<and> q_Side y = Sell \<longrightarrow> q_Price x < q_Price y) qs) qs"

text \<open>No quote would take liquidity from the book.\<close>

definition post_only :: "Book \<Rightarrow> Quote \<Rightarrow> bool" where
  "post_only b q \<longleftrightarrow>
     (HasAsk b \<and> q_Side q = Buy \<longrightarrow> q_Price q < b_AskPrice b) \<and>
     (HasBid b \<and> q_Side q = Sell \<longrightarrow> b_BidPrice b < q_Price q)"

definition notional :: "Quote \<Rightarrow> Decimal" where
  "notional q = q_Price q * q_Quantity q"

definition sells_total :: "Quote list \<Rightarrow> Decimal" where
  "sells_total qs = sum_list (map q_Quantity (filter (\<lambda>q. q_Side q = Sell) qs))"

definition buys_total :: "Quote list \<Rightarrow> Decimal" where
  "buys_total qs = sum_list (map notional (filter (\<lambda>q. q_Side q = Buy) qs))"

text \<open>The contract of a stage that only drops quotes: whatever a target list guaranteed, the list
  that is finally sent to the exchange guarantees too.\<close>

locale quote_stage =
  fixes stage :: "Quote list \<Rightarrow> Quote list"
  assumes keeps_order: "subseq (stage qs) qs"
begin

lemma stage_subset: "set (stage qs) \<subseteq> set qs"
  using keeps_order by (rule subseq_set)

lemma stage_all: "list_all P qs \<Longrightarrow> list_all P (stage qs)"
  using stage_subset by (auto simp: list_all_iff)

lemma stage_no_self_cross: "no_self_cross qs \<Longrightarrow> no_self_cross (stage qs)"
  using stage_subset unfolding no_self_cross_def list_all_iff by blast

lemma stage_sorted: "sorted_wrt P qs \<Longrightarrow> sorted_wrt P (stage qs)"
  using keeps_order by (rule subseq_sorted_wrt)

lemma stage_length: "length (stage qs) \<le> length qs"
  using keeps_order by (rule list_emb_length)

end

end
