(* ===== verification/ConfigTypes.thy ===== *)
theory ConfigTypes
  imports DomainTypes
begin

text \<open>
  \<^verbatim>\<open>internal/config/config.go\<close>, the data and its derived values: the published configuration, the
  effective values of optional strategy parameters and their normalisation. A Go \<^verbatim>\<open>int\<close> is an
  \<^typ>\<open>int\<close> within the 64-bit range. The maps of venues and markets are association lists, whose
  order is one of the orders a Go range loop may visit.
\<close>

record RPCConfig =
  rpc_URLs :: "string list"
  rpc_ChainID :: "64 word"
  rpc_RequestTimeoutMS :: int

record AssetConfig =
  as_Symbol :: string
  as_Address :: string
  as_Decimals :: int

record PairLegConfig =
  leg_PairAddress :: string
  leg_ExpectedFactory :: string
  leg_BaseToken :: string
  leg_QuoteToken :: string
  leg_MinQuoteReserve :: Decimal
  leg_MaxIdleSeconds :: int

record ReferenceConfig =
  ref_Type :: string
  ref_Legs :: "PairLegConfig list"
  ref_TWAPWindowSeconds :: int
  ref_MaxSpotTWAPDeviationBPS :: int
  ref_StaleAfterSeconds :: int
  ref_AllowSpotDuringWarmup :: bool

record StrategyConfig =
  st_HalfSpreadBPS :: int
  st_LevelSpacingBPS :: int
  st_Levels :: int
  st_OrderSize :: Decimal
  st_MinOrderNotional :: Decimal
  st_MaxOrderNotional :: Decimal
  st_RepriceThresholdBPS :: int
  st_BalanceReserveBPS :: int
  st_MaxVenueReferenceDeviationBPS :: int
  st_MaxVenueSpreadBPS :: int
  st_TargetBase :: Decimal
  st_MaxBaseDeviation :: Decimal
  st_InventorySkewBPS :: int
  st_QuoteRefreshSeconds :: int
  st_QuoteRefreshRatioBPS :: int
  st_MinOrderLifetimeSeconds :: int
  st_MaxOrderLifetimeSeconds :: int
  st_FillReplenishMinDelaySeconds :: int
  st_FillReplenishMaxDelaySeconds :: int
  st_PriceJitterTicks :: int
  st_BestLevels :: int
  st_BestLevelRefreshSeconds :: int

definition DefaultQuoteRefreshSeconds :: int where "DefaultQuoteRefreshSeconds = 45"
definition DefaultQuoteRefreshRatioBPS :: int where "DefaultQuoteRefreshRatioBPS = 1000"
definition DefaultMinOrderLifetimeSeconds :: int where "DefaultMinOrderLifetimeSeconds = 30"
definition DefaultMaxOrderLifetimeSeconds :: int where "DefaultMaxOrderLifetimeSeconds = 300"
definition DefaultFillReplenishMinDelaySeconds :: int where "DefaultFillReplenishMinDelaySeconds = 3"
definition DefaultFillReplenishMaxDelaySeconds :: int where "DefaultFillReplenishMaxDelaySeconds = 8"
definition DefaultPriceJitterTicks :: int where "DefaultPriceJitterTicks = 2"
definition DefaultBestLevels :: int where "DefaultBestLevels = 3"
definition DefaultBestRefreshSeconds :: int where "DefaultBestRefreshSeconds = 90"
definition MaxStrategyLevels :: int where "MaxStrategyLevels = 100"

lemmas default_defs [simp] =
  DefaultQuoteRefreshSeconds_def DefaultQuoteRefreshRatioBPS_def
  DefaultMinOrderLifetimeSeconds_def DefaultMaxOrderLifetimeSeconds_def
  DefaultFillReplenishMinDelaySeconds_def DefaultFillReplenishMaxDelaySeconds_def
  DefaultPriceJitterTicks_def DefaultBestLevels_def DefaultBestRefreshSeconds_def
  MaxStrategyLevels_def

definition EffectiveQuoteRefreshSeconds :: "StrategyConfig \<Rightarrow> int" where
  "EffectiveQuoteRefreshSeconds s =
     (if st_QuoteRefreshSeconds s > 0 then st_QuoteRefreshSeconds s else DefaultQuoteRefreshSeconds)"

definition EffectiveQuoteRefreshRatioBPS :: "StrategyConfig \<Rightarrow> int" where
  "EffectiveQuoteRefreshRatioBPS s =
     (if st_QuoteRefreshRatioBPS s > 0 then st_QuoteRefreshRatioBPS s else DefaultQuoteRefreshRatioBPS)"

definition EffectiveMinOrderLifetime :: "StrategyConfig \<Rightarrow> duration" where
  "EffectiveMinOrderLifetime s =
     (let seconds = (if st_MinOrderLifetimeSeconds s \<le> 0 then DefaultMinOrderLifetimeSeconds
                     else st_MinOrderLifetimeSeconds s)
      in int64 (seconds * second))"

definition EffectiveMaxOrderLifetime :: "StrategyConfig \<Rightarrow> duration" where
  "EffectiveMaxOrderLifetime s =
     (let seconds = (if st_MaxOrderLifetimeSeconds s \<le> 0 then DefaultMaxOrderLifetimeSeconds
                     else st_MaxOrderLifetimeSeconds s)
      in int64 (seconds * second))"

definition EffectiveFillReplenishMinDelay :: "StrategyConfig \<Rightarrow> duration" where
  "EffectiveFillReplenishMinDelay s =
     (let seconds = (if st_FillReplenishMinDelaySeconds s \<le> 0 then DefaultFillReplenishMinDelaySeconds
                     else st_FillReplenishMinDelaySeconds s)
      in int64 (seconds * second))"

definition EffectiveFillReplenishMaxDelay :: "StrategyConfig \<Rightarrow> duration" where
  "EffectiveFillReplenishMaxDelay s =
     (let seconds = (if st_FillReplenishMaxDelaySeconds s \<le> 0 then DefaultFillReplenishMaxDelaySeconds
                     else st_FillReplenishMaxDelaySeconds s)
      in int64 (seconds * second))"

definition EffectivePriceJitterTicks :: "StrategyConfig \<Rightarrow> int" where
  "EffectivePriceJitterTicks s =
     (if st_PriceJitterTicks s > 0 then st_PriceJitterTicks s else DefaultPriceJitterTicks)"

definition EffectiveBestLevels :: "StrategyConfig \<Rightarrow> int" where
  "EffectiveBestLevels s =
     (let levels = (if st_BestLevels s \<le> 0 then DefaultBestLevels else st_BestLevels s)
      in if levels > st_Levels s then st_Levels s else levels)"

definition EffectiveBestLevelRefreshSeconds :: "StrategyConfig \<Rightarrow> int" where
  "EffectiveBestLevelRefreshSeconds s =
     (if st_BestLevelRefreshSeconds s > 0 then st_BestLevelRefreshSeconds s
      else DefaultBestRefreshSeconds)"

definition RefreshOrdersPerCycle :: "StrategyConfig \<Rightarrow> int \<Rightarrow> int" where
  "RefreshOrdersPerCycle s orderCount =
     (if orderCount \<le> 0 then 0
      else let count = go_quo (int64 (orderCount * EffectiveQuoteRefreshRatioBPS s + 9999)) 10000
           in if count < 1 then 1 else if count > orderCount then orderCount else count)"

definition UsesOrderNotionalRange :: "StrategyConfig \<Rightarrow> bool" where
  "UsesOrderNotionalRange s \<longleftrightarrow> \<not> IsZero (st_MinOrderNotional s) \<or> \<not> IsZero (st_MaxOrderNotional s)"

record TradeSimulationConfig =
  sim_Enabled :: bool
  sim_SourceVenue :: string
  sim_MinQuantity :: Decimal
  sim_MaxQuantity :: Decimal
  sim_MinIntervalMS :: int
  sim_MaxIntervalMS :: int
  sim_BuyProbabilityBPS :: int
  sim_RecentLimit :: int

record InstrumentConfig =
  in_ID :: string
  in_Base :: AssetConfig
  in_Quote :: AssetConfig
  in_Reference :: ReferenceConfig
  in_Strategy :: StrategyConfig
  in_TradeSimulation :: TradeSimulationConfig

record VenueMarketConfig =
  m_Symbol :: string
  m_BaseAsset :: string
  m_QuoteAsset :: string
  m_PriceTick :: Decimal
  m_QuantityStep :: Decimal
  m_MinNotional :: Decimal
  m_MinQuantity :: Decimal
  m_MaxQuantity :: Decimal
  m_MaxNotional :: Decimal
  m_MinPrice :: Decimal
  m_MaxPrice :: Decimal
  m_MaxOpenOrders :: int
  m_MaxBaseCommitment :: Decimal
  m_MaxQuoteCommitment :: Decimal
  m_CredentialID :: int

record VenueConfig =
  v_Type :: string
  v_Environment :: string
  v_Enabled :: bool
  v_TradingEnabled :: bool
  v_DedicatedAccount :: bool
  v_BaseURL :: string
  v_SelfTradePrevention :: string
  v_Markets :: "(string \<times> VenueMarketConfig) list"

record Config =
  c_Mode :: Mode
  c_PollIntervalMS :: int
  c_AuditPath :: string
  c_AuditMaxBytes :: int
  c_AuditBackups :: int
  c_HeartbeatPath :: string
  c_WatchdogTimeoutSeconds :: int
  c_MarketFailureThreshold :: int
  c_MarketRecoveryThreshold :: int
  c_MarketErrorGraceSeconds :: int
  c_TradingProgressTimeoutSeconds :: int
  c_MaxConcurrentInstruments :: int
  c_RulesRefreshSeconds :: int
  c_RPC :: RPCConfig
  c_Instruments :: "InstrumentConfig list"
  c_Venues :: "(string \<times> VenueConfig) list"

definition PollInterval :: "Config \<Rightarrow> duration" where
  "PollInterval c = int64 (c_PollIntervalMS c * millisecond)"

definition RequestTimeout :: "Config \<Rightarrow> duration" where
  "RequestTimeout c = int64 (rpc_RequestTimeoutMS (c_RPC c) * millisecond)"

text \<open>\<^verbatim>\<open>NormalizeStrategySizing\<close>, one strategy of the loop and the loop.\<close>

definition or_default :: "int \<Rightarrow> int \<Rightarrow> int" where
  "or_default v d = (if v = 0 then d else v)"

definition normalize_strategy :: "StrategyConfig \<Rightarrow> StrategyConfig" where
  "normalize_strategy s =
    (let refresh = or_default (st_QuoteRefreshSeconds s) DefaultQuoteRefreshSeconds
     in s\<lparr>st_OrderSize := (if IsPositive (st_MinOrderNotional s) \<and> IsPositive (st_MaxOrderNotional s)
                           then 0 else st_OrderSize s),
          st_QuoteRefreshSeconds := refresh,
          st_QuoteRefreshRatioBPS := or_default (st_QuoteRefreshRatioBPS s) DefaultQuoteRefreshRatioBPS,
          st_MinOrderLifetimeSeconds := or_default (st_MinOrderLifetimeSeconds s) DefaultMinOrderLifetimeSeconds,
          st_MaxOrderLifetimeSeconds := or_default (st_MaxOrderLifetimeSeconds s) DefaultMaxOrderLifetimeSeconds,
          st_FillReplenishMinDelaySeconds :=
            or_default (st_FillReplenishMinDelaySeconds s) DefaultFillReplenishMinDelaySeconds,
          st_FillReplenishMaxDelaySeconds :=
            or_default (st_FillReplenishMaxDelaySeconds s) DefaultFillReplenishMaxDelaySeconds,
          st_PriceJitterTicks := or_default (st_PriceJitterTicks s) DefaultPriceJitterTicks,
          st_BestLevels := or_default (st_BestLevels s) (min DefaultBestLevels (st_Levels s)),
          st_BestLevelRefreshSeconds :=
            or_default (st_BestLevelRefreshSeconds s) (max DefaultBestRefreshSeconds refresh)\<rparr>)"

definition NormalizeStrategySizing :: "Config \<Rightarrow> Config" where
  "NormalizeStrategySizing c =
     c\<lparr>c_Instruments := map (\<lambda>i. i\<lparr>in_Strategy := normalize_strategy (in_Strategy i)\<rparr>) (c_Instruments c)\<rparr>"


section \<open>Facts about the derived values\<close>

lemma RefreshOrdersPerCycle_range:
  assumes "0 < n"
  shows "1 \<le> RefreshOrdersPerCycle s n \<and> RefreshOrdersPerCycle s n \<le> n"
  using assms by (auto simp: RefreshOrdersPerCycle_def Let_def)

lemma EffectiveBestLevels_le: "EffectiveBestLevels s \<le> st_Levels s"
  by (simp add: EffectiveBestLevels_def Let_def)

lemma or_default_idem [simp]: "or_default (or_default v d) d = or_default v d"
  by (simp add: or_default_def)

lemma normalize_strategy_idem: "normalize_strategy (normalize_strategy s) = normalize_strategy s"
  by (simp add: normalize_strategy_def Let_def)

end
