(* ===== verification/Samples.thy ===== *)
theory Samples
  imports ConfigTypes
begin

text \<open>
  Concrete inputs for the witnesses of the development: a strategy of two levels, one market, one
  book, one reference price, and the quotes the strategy generates for them.
\<close>

definition sample_strategy :: StrategyConfig where
  "sample_strategy = \<lparr>st_HalfSpreadBPS = 30, st_LevelSpacingBPS = 10, st_Levels = 2, st_OrderSize = 0,
     st_MinOrderNotional = 10, st_MaxOrderNotional = 20, st_RepriceThresholdBPS = 10,
     st_BalanceReserveBPS = 500, st_MaxVenueReferenceDeviationBPS = 300, st_MaxVenueSpreadBPS = 300,
     st_TargetBase = 0, st_MaxBaseDeviation = 100, st_InventorySkewBPS = 20,
     st_QuoteRefreshSeconds = 45, st_QuoteRefreshRatioBPS = 1000,
     st_MinOrderLifetimeSeconds = 30, st_MaxOrderLifetimeSeconds = 300,
     st_FillReplenishMinDelaySeconds = 3, st_FillReplenishMaxDelaySeconds = 8,
     st_PriceJitterTicks = 2, st_BestLevels = 1, st_BestLevelRefreshSeconds = 90\<rparr>"

definition sample_asset :: "string \<Rightarrow> AssetConfig" where
  "sample_asset s = \<lparr>as_Symbol = s, as_Address = [], as_Decimals = 18\<rparr>"

definition sample_instrument :: InstrumentConfig where
  "sample_instrument = \<lparr>in_ID = ''i'', in_Base = sample_asset ''B'', in_Quote = sample_asset ''USDT'',
     in_Reference = \<lparr>ref_Type = ''pancake_v2'', ref_Legs = [], ref_TWAPWindowSeconds = 60,
       ref_MaxSpotTWAPDeviationBPS = 100, ref_StaleAfterSeconds = 60, ref_AllowSpotDuringWarmup = False\<rparr>,
     in_Strategy = sample_strategy,
     in_TradeSimulation = \<lparr>sim_Enabled = False, sim_SourceVenue = [], sim_MinQuantity = 0, sim_MaxQuantity = 0,
       sim_MinIntervalMS = 0, sim_MaxIntervalMS = 0, sim_BuyProbabilityBPS = 0, sim_RecentLimit = 0\<rparr>\<rparr>"

definition sample_market :: VenueMarketConfig where
  "sample_market = \<lparr>m_Symbol = ''BUSDT'', m_BaseAsset = ''B'', m_QuoteAsset = ''USDT'',
     m_PriceTick = 1 / 1000, m_QuantityStep = 1 / 100, m_MinNotional = 5, m_MinQuantity = 1 / 100,
     m_MaxQuantity = 1000, m_MaxNotional = 0, m_MinPrice = 0, m_MaxPrice = 0, m_MaxOpenOrders = 100,
     m_MaxBaseCommitment = 0, m_MaxQuoteCommitment = 0, m_CredentialID = 0\<rparr>"

definition sample_now :: time where "sample_now = 1000 * second"

definition sample_book :: Book where
  "sample_book = \<lparr>b_Venue = ''v'', b_Symbol = ''BUSDT'', b_BidPrice = 199 / 100, b_BidQty = 5,
     b_AskPrice = 201 / 100, b_AskQty = 5, b_Timestamp = sample_now\<rparr>"

definition sample_reference :: ReferencePrice where
  "sample_reference = \<lparr>rp_InstrumentID = ''i'', rp_Price = 2, rp_Spot = 2, rp_TWAPReady = True,
     rp_Confidence = ''high'', rp_BlockNumber = 1, rp_BlockTime = sample_now, rp_ValidUntil = sample_now + 60 * second\<rparr>"

definition sample_quote :: "Side \<Rightarrow> int \<Rightarrow> Decimal \<Rightarrow> Decimal \<Rightarrow> Quote" where
  "sample_quote side level price quantity =
     \<lparr>q_InstrumentID = ''i'', q_Venue = ''v'', q_Symbol = ''BUSDT'', q_Side = side, q_Level = level,
      q_Price = price, q_Quantity = quantity, q_Reference = 2, q_ValidUntil = sample_now + 60 * second\<rparr>"

text \<open>The same instrument with a fixed order size and no refresh, and with one level of the notional
  range and no refresh.\<close>

definition ladder_instrument :: InstrumentConfig where
  "ladder_instrument = sample_instrument\<lparr>in_Strategy := sample_strategy\<lparr>st_QuoteRefreshSeconds := 0,
     st_OrderSize := 6, st_MinOrderNotional := 0, st_MaxOrderNotional := 0\<rparr>\<rparr>"

definition range_instrument :: InstrumentConfig where
  "range_instrument = sample_instrument\<lparr>in_Strategy := sample_strategy\<lparr>st_Levels := 1, st_QuoteRefreshSeconds := 0\<rparr>\<rparr>"

definition sample_quotes :: "Quote list" where
  "sample_quotes =
     [sample_quote Buy 0 (997 / 500) 6, sample_quote Sell 0 (1003 / 500) 6,
      sample_quote Buy 1 (249 / 125) 6, sample_quote Sell 1 (251 / 125) 6]"

definition range_quotes :: "Quote list" where
  "range_quotes = [sample_quote Buy 0 (997 / 500) (661 / 100), sample_quote Sell 0 (1003 / 500) (138 / 25)]"

lemmas sample_defs = sample_strategy_def sample_asset_def sample_instrument_def sample_market_def
  sample_now_def sample_book_def sample_reference_def second_def
  sample_quote_def sample_quotes_def ladder_instrument_def range_instrument_def range_quotes_def

end
