(* ===== verification/Oracle.thy ===== *)
theory Oracle
  imports Samples Sha256
begin

text \<open>
  \<^verbatim>\<open>internal/oracle/pancakev2/oracle.go\<close>: the reference price of an instrument from the reserves and
  the cumulative prices of PancakeSwap V2 pairs. The RPC client is a record of functions over the
  state \<open>'w\<close> of the world; bytes are numbers below 256. The oracle keeps, per pair, its metadata and
  the last cumulative prices. The mutex is not modelled.
\<close>

section \<open>Definitions\<close>

definition selectorGetReserves :: string where "selectorGetReserves = ''0x0902f1ac''"
definition selectorToken0 :: string where "selectorToken0 = ''0x0dfe1681''"
definition selectorToken1 :: string where "selectorToken1 = ''0xd21220a7''"
definition selectorDecimals :: string where "selectorDecimals = ''0x313ce567''"
definition selectorFactory :: string where "selectorFactory = ''0xc45a0155''"
definition selectorPrice0CumulativeLast :: string where "selectorPrice0CumulativeLast = ''0x5909c0d5''"
definition selectorPrice1CumulativeLast :: string where "selectorPrice1CumulativeLast = ''0x5a3d5493''"

definition q112 :: int where "q112 = 2 ^ 112"

record Block =
  bk_Number :: "64 word"
  bk_Timestamp :: "64 word"
  bk_Tag :: string

record 'w RPCClient =
  rpc_LatestBlock :: "'w \<Rightarrow> (string + Block) \<times> 'w"
  rpc_CallAt :: "string \<Rightarrow> string \<Rightarrow> string \<Rightarrow> 'w \<Rightarrow> (string + nat list) \<times> 'w"
  rpc_BatchCall :: "(string \<times> string) list \<Rightarrow> string \<Rightarrow> 'w \<Rightarrow> (string + nat list list) \<times> 'w"

record PairMetadata =
  pm_Token0 :: string
  pm_Token1 :: string
  pm_Decimals0 :: int
  pm_Decimals1 :: int
  pm_Factory :: string

record CumulativeSnapshot =
  cs_Price0 :: int
  cs_Price1 :: int
  cs_UnixTime :: "64 word"
  cs_TWAP0 :: Decimal
  cs_TWAP1 :: Decimal
  cs_Ready :: bool

record PairState =
  pst_meta :: PairMetadata
  pst_reserve0 :: int
  pst_reserve1 :: int
  pst_reserveTimestamp :: "32 word"
  pst_currentCumulative0 :: int
  pst_currentCumulative1 :: int
  pst_block :: Block

record LegPrice =
  lp_Spot :: Decimal
  lp_TWAP :: Decimal
  lp_Ready :: bool

record OracleState =
  or_metadata :: "string \<Rightarrow> PairMetadata option"
  or_snapshots :: "string \<Rightarrow> CumulativeSnapshot option"

definition NewOracle :: OracleState where
  "NewOracle = \<lparr>or_metadata = (\<lambda>_. None), or_snapshots = (\<lambda>_. None)\<rparr>"

definition wordInt :: "nat list \<Rightarrow> nat \<Rightarrow> int" where
  "wordInt data index =
    (let start = index * 32 in
     if length data < start + 32 then 0
     else int (foldl (\<lambda>n b. 256 * n + b) 0 (take 32 (drop start data))))"

definition wordAddress :: "nat list \<Rightarrow> string + string" where
  "wordAddress data =
    (if length data < 32 then Inl ''short address response''
     else Inr (''0x'' @ hex_encode (take 20 (drop 12 data))))"

definition normalizeAddress :: "string \<Rightarrow> string" where
  "normalizeAddress s =
    (let t = ToLower (TrimSpace s) in if \<not> HasPrefix t ''0x'' then ''0x'' @ t else t)"

definition is_hex :: "char \<Rightarrow> bool" where
  "is_hex c \<longleftrightarrow> (let n = of_char c :: nat in (48 \<le> n \<and> n \<le> 57) \<or> (97 \<le> n \<and> n \<le> 102) \<or> (65 \<le> n \<and> n \<le> 70))"

definition validAddress :: "string \<Rightarrow> bool" where
  "validAddress s \<longleftrightarrow> length s = 42 \<and> HasPrefix s ''0x'' \<and> list_all is_hex (drop 2 s)"

definition pow10 :: "int \<Rightarrow> int" where
  "pow10 decimals = 10 ^ nat decimals"

definition decimalAdjustment :: "int \<Rightarrow> int \<Rightarrow> Decimal" where
  "decimalAdjustment baseDecimals quoteDecimals = of_int (pow10 baseDecimals) / of_int (pow10 quoteDecimals)"

text \<open>\<^verbatim>\<open>getMetadata\<close>: five calls, each of which may fail.\<close>

definition callOr :: "'w RPCClient \<Rightarrow> string \<Rightarrow> string \<Rightarrow> string \<Rightarrow> string \<Rightarrow> 'w \<Rightarrow> (string + nat list) \<times> 'w" where
  "callOr rpc label to data tag w =
    (case rpc_CallAt rpc to data tag w of
       (Inl e, w') \<Rightarrow> (Inl (label @ '': '' @ e), w')
     | (Inr raw, w') \<Rightarrow> (Inr raw, w'))"

definition fetchMetadata :: "'w RPCClient \<Rightarrow> string \<Rightarrow> string \<Rightarrow> 'w \<Rightarrow> (string + PairMetadata) \<times> 'w" where
  "fetchMetadata rpc pair tag w =
    (case callOr rpc ''token0'' pair selectorToken0 tag w of (Inl e, w) \<Rightarrow> (Inl e, w) | (Inr t0raw, w) \<Rightarrow>
    (case callOr rpc ''token1'' pair selectorToken1 tag w of (Inl e, w) \<Rightarrow> (Inl e, w) | (Inr t1raw, w) \<Rightarrow>
    (case wordAddress t0raw of Inl e \<Rightarrow> (Inl e, w) | Inr t0 \<Rightarrow>
    (case wordAddress t1raw of Inl e \<Rightarrow> (Inl e, w) | Inr t1 \<Rightarrow>
    (case callOr rpc ''token0 decimals'' t0 selectorDecimals tag w of (Inl e, w) \<Rightarrow> (Inl e, w) | (Inr d0raw, w) \<Rightarrow>
    (case callOr rpc ''token1 decimals'' t1 selectorDecimals tag w of (Inl e, w) \<Rightarrow> (Inl e, w) | (Inr d1raw, w) \<Rightarrow>
    (case callOr rpc ''factory'' pair selectorFactory tag w of (Inl e, w) \<Rightarrow> (Inl e, w) | (Inr factoryRaw, w) \<Rightarrow>
    (case wordAddress factoryRaw of Inl e \<Rightarrow> (Inl e, w) | Inr factory \<Rightarrow>
      (Inr \<lparr>pm_Token0 = t0, pm_Token1 = t1, pm_Decimals0 = int64 (wordInt d0raw 0),
            pm_Decimals1 = int64 (wordInt d1raw 0), pm_Factory = factory\<rparr>, w)))))))))"

definition getMetadata :: "'w RPCClient \<Rightarrow> string \<Rightarrow> string \<Rightarrow> OracleState \<Rightarrow> 'w \<Rightarrow> (string + PairMetadata) \<times> OracleState \<times> 'w" where
  "getMetadata rpc pair tag s w =
    (case or_metadata s pair of
       Some meta \<Rightarrow> (Inr meta, s, w)
     | None \<Rightarrow>
         (case fetchMetadata rpc pair tag w of
            (Inl e, w') \<Rightarrow> (Inl e, s, w')
          | (Inr meta, w') \<Rightarrow> (Inr meta, s\<lparr>or_metadata := (or_metadata s)(pair \<mapsto> meta)\<rparr>, w')))"

text \<open>The state of a pair from the three replies: the cumulative prices are extended from the last
  update of the reserves to the block.\<close>

definition pairStateOf :: "PairMetadata \<Rightarrow> Block \<Rightarrow> nat list \<Rightarrow> nat list \<Rightarrow> nat list \<Rightarrow> string + PairState" where
  "pairStateOf meta block reservesRaw cum0Raw cum1Raw =
    (if length reservesRaw < 96 then Inl ''short getReserves response''
     else
       let reserve0 = wordInt reservesRaw 0; reserve1 = wordInt reservesRaw 1;
           reserveTS = word_of_int (wordInt reservesRaw 2) :: 32 word;
           cum0 = wordInt cum0Raw 0; cum1 = wordInt cum1Raw 0;
           elapsed = ucast (bk_Timestamp block) - reserveTS :: 32 word;
           extend = (elapsed > 0 \<and> reserve0 > 0 \<and> reserve1 > 0);
           price0 = go_quo (reserve1 * 2 ^ 112) reserve0; price1 = go_quo (reserve0 * 2 ^ 112) reserve1
       in Inr \<lparr>pst_meta = meta, pst_reserve0 = reserve0, pst_reserve1 = reserve1, pst_reserveTimestamp = reserveTS,
            pst_currentCumulative0 = (if extend then cum0 + price0 * uint elapsed else cum0),
            pst_currentCumulative1 = (if extend then cum1 + price1 * uint elapsed else cum1), pst_block = block\<rparr>)"

definition readPair :: "'w RPCClient \<Rightarrow> string \<Rightarrow> Block \<Rightarrow> OracleState \<Rightarrow> 'w
    \<Rightarrow> (string, PairState) result \<times> OracleState \<times> 'w" where
  "readPair rpc pair0 block s w =
    (let pair = normalizeAddress pair0 in
     if \<not> validAddress pair then (Inl (Fail ''invalid pair address''), s, w)
     else case getMetadata rpc pair (bk_Tag block) s w of
       (Inl e, s1, w1) \<Rightarrow> (Inl (Fail e), s1, w1)
     | (Inr meta, s1, w1) \<Rightarrow>
         (case rpc_BatchCall rpc [(pair, selectorGetReserves), (pair, selectorPrice0CumulativeLast),
                                  (pair, selectorPrice1CumulativeLast)] (bk_Tag block) w1 of
            (Inl e, w2) \<Rightarrow> (Inl (Fail (''read pair state: '' @ e)), s1, w2)
          | (Inr (r # c0 # c1 # _), w2) \<Rightarrow>
              (case pairStateOf meta block r c0 c1 of
                 Inl e \<Rightarrow> (Inl (Fail e), s1, w2) | Inr ps \<Rightarrow> (Inr ps, s1, w2))
          | (Inr _, w2) \<Rightarrow> (Inl Panic, s1, w2)))"

text \<open>\<^verbatim>\<open>readLeg\<close>: the checks of a leg's pair, its spot price, and the step of the cumulative snapshot.\<close>

definition legSpot :: "PairLegConfig \<Rightarrow> PairState \<Rightarrow> string + Decimal" where
  "legSpot leg ps =
    (let meta = pst_meta ps; base = normalizeAddress (leg_BaseToken leg); quote = normalizeAddress (leg_QuoteToken leg) in
     if leg_ExpectedFactory leg \<noteq> [] \<and> normalizeAddress (leg_ExpectedFactory leg) \<noteq> pm_Factory meta
     then Inl (''pair factory '' @ pm_Factory meta @ '' does not match expected '' @ normalizeAddress (leg_ExpectedFactory leg))
     else
       let sides = (if base = pm_Token0 meta \<and> quote = pm_Token1 meta
                    then Some (pst_reserve0 ps, pst_reserve1 ps, pm_Decimals0 meta, pm_Decimals1 meta)
                    else if base = pm_Token1 meta \<and> quote = pm_Token0 meta
                    then Some (pst_reserve1 ps, pst_reserve0 ps, pm_Decimals1 meta, pm_Decimals0 meta)
                    else None)
       in case sides of
            None \<Rightarrow> Inl ''configured base/quote tokens do not match pair''
          | Some (reserveBase, reserveQuote, baseDecimals, quoteDecimals) \<Rightarrow>
              let idle = ucast (bk_Timestamp (pst_block ps)) - pst_reserveTimestamp ps :: 32 word;
                  quoteUnits = of_int reserveQuote / of_int (pow10 quoteDecimals) :: Decimal
              in if reserveBase \<le> 0 \<or> reserveQuote \<le> 0 then Inl ''empty reserves''
                 else if leg_MaxIdleSeconds leg > 0 \<and> idle > word_of_int (leg_MaxIdleSeconds leg)
                 then Inl (''pair has not updated for '' @ utoa (unat idle) @ '' seconds'')
                 else if IsPositive (leg_MinQuoteReserve leg) \<and> Cmp quoteUnits (leg_MinQuoteReserve leg) < 0
                 then Inl (''quote reserve '' @ DecString quoteUnits @ '' below minimum '' @ DecString (leg_MinQuoteReserve leg))
                 else Inr (of_int reserveQuote / of_int reserveBase * decimalAdjustment baseDecimals quoteDecimals))"

definition twapOf :: "int \<Rightarrow> 64 word \<Rightarrow> int \<Rightarrow> int \<Rightarrow> Decimal" where
  "twapOf delta elapsed baseDecimals quoteDecimals =
    (let denominator = uint elapsed * q112
     in of_int delta / of_int denominator * decimalAdjustment baseDecimals quoteDecimals)"

definition stepSnapshot :: "CumulativeSnapshot option \<Rightarrow> bool \<Rightarrow> int \<Rightarrow> PairState \<Rightarrow> Decimal
    \<Rightarrow> (string + LegPrice) \<times> CumulativeSnapshot option" where
  "stepSnapshot previous baseIs0 windowSeconds ps spot =
    (let now = bk_Timestamp (pst_block ps);
         fresh = \<lparr>cs_Price0 = pst_currentCumulative0 ps, cs_Price1 = pst_currentCumulative1 ps, cs_UnixTime = now,
                  cs_TWAP0 = 0, cs_TWAP1 = 0, cs_Ready = False\<rparr>
     in case previous of
          None \<Rightarrow> (Inr \<lparr>lp_Spot = spot, lp_TWAP = 0, lp_Ready = False\<rparr>, Some fresh)
        | Some prev \<Rightarrow>
            if now \<le> cs_UnixTime prev then (Inr \<lparr>lp_Spot = spot, lp_TWAP = 0, lp_Ready = False\<rparr>, Some fresh)
            else
              let elapsed = now - cs_UnixTime prev in
              if elapsed < word_of_int windowSeconds
              then (Inr (if cs_Ready prev
                         then \<lparr>lp_Spot = spot, lp_TWAP = (if baseIs0 then cs_TWAP0 prev else cs_TWAP1 prev), lp_Ready = True\<rparr>
                         else \<lparr>lp_Spot = spot, lp_TWAP = 0, lp_Ready = False\<rparr>), previous)
              else
                let delta0 = pst_currentCumulative0 ps - cs_Price0 prev; delta1 = pst_currentCumulative1 ps - cs_Price1 prev in
                if delta0 \<le> 0 \<or> delta1 \<le> 0 then (Inl ''non-positive cumulative price delta'', previous)
                else
                  let meta = pst_meta ps;
                      twap0 = twapOf delta0 elapsed (pm_Decimals0 meta) (pm_Decimals1 meta);
                      twap1 = twapOf delta1 elapsed (pm_Decimals1 meta) (pm_Decimals0 meta)
                  in (Inr \<lparr>lp_Spot = spot, lp_TWAP = (if baseIs0 then twap0 else twap1), lp_Ready = True\<rparr>,
                      Some (fresh\<lparr>cs_TWAP0 := twap0, cs_TWAP1 := twap1, cs_Ready := True\<rparr>)))"

definition readLeg :: "'w RPCClient \<Rightarrow> PairLegConfig \<Rightarrow> int \<Rightarrow> Block \<Rightarrow> OracleState \<Rightarrow> 'w
    \<Rightarrow> (string, LegPrice) result \<times> OracleState \<times> 'w" where
  "readLeg rpc leg windowSeconds block s w =
    (case readPair rpc (leg_PairAddress leg) block s w of
       (Inl f, s1, w1) \<Rightarrow> (Inl f, s1, w1)
     | (Inr ps, s1, w1) \<Rightarrow>
         (case legSpot leg ps of
            Inl e \<Rightarrow> (Inl (Fail e), s1, w1)
          | Inr spot \<Rightarrow>
              let key = normalizeAddress (leg_PairAddress leg);
                  baseIs0 = (normalizeAddress (leg_BaseToken leg) = pm_Token0 (pst_meta ps))
              in case stepSnapshot (or_snapshots s1 key) baseIs0 windowSeconds ps spot of
                   (Inl e, _) \<Rightarrow> (Inl (Fail e), s1, w1)
                 | (Inr p, snap) \<Rightarrow> (Inr p, s1\<lparr>or_snapshots := (or_snapshots s1)(key := snap)\<rparr>, w1)))"

fun legLoop :: "'w RPCClient \<Rightarrow> int \<Rightarrow> Block \<Rightarrow> PairLegConfig list \<Rightarrow> Decimal \<times> Decimal \<times> bool \<Rightarrow> OracleState \<Rightarrow> 'w
    \<Rightarrow> (string, Decimal \<times> Decimal \<times> bool) result \<times> OracleState \<times> 'w" where
  "legLoop rpc window block [] acc s w = (Inr acc, s, w)"
| "legLoop rpc window block (leg # legs) (spot, twap, allReady) s w =
     (case readLeg rpc leg window block s w of
        (Inl (Fail e), s1, w1) \<Rightarrow> (Inl (Fail (''pair '' @ leg_PairAddress leg @ '': '' @ e)), s1, w1)
      | (Inl Panic, s1, w1) \<Rightarrow> (Inl Panic, s1, w1)
      | (Inr p, s1, w1) \<Rightarrow>
          legLoop rpc window block legs
            (if lp_Ready p then (spot * lp_Spot p, twap * lp_TWAP p, allReady)
             else (spot * lp_Spot p, twap, False)) s1 w1)"

datatype OracleError = RPCFailed string | UnsupportedType string | LegFailed string | WarmingUp
  | DeviationTooLarge Decimal int | BlockInFuture time | BlockStale time

text \<open>The decision of \<^verbatim>\<open>Price\<close> once the legs are read, with the clock at \<open>now\<close>: the choice of the price,
  then the age of the block.\<close>

definition priceFresh :: "InstrumentConfig \<Rightarrow> Block \<Rightarrow> Decimal \<Rightarrow> bool \<Rightarrow> time \<Rightarrow> Decimal \<Rightarrow> string
    \<Rightarrow> (OracleError, ReferencePrice) result" where
  "priceFresh ins block spot allReady now price confidence =
    (let ref = in_Reference ins;
         blockTime = sint (bk_Timestamp block) * second;
         staleAfter = int64 (ref_StaleAfterSeconds ref * second)
     in if blockTime > now + 15 * second then Inl (Fail (BlockInFuture blockTime))
        else if ref_StaleAfterSeconds ref > 0 \<and> time_sub now blockTime > staleAfter then Inl (Fail (BlockStale blockTime))
        else Inr \<lparr>rp_InstrumentID = in_ID ins, rp_Price = price, rp_Spot = spot, rp_TWAPReady = allReady,
               rp_Confidence = confidence, rp_BlockNumber = bk_Number block, rp_BlockTime = blockTime,
               rp_ValidUntil = now + (if staleAfter \<le> 0 then 15 * second else staleAfter)\<rparr>)"

definition priceOf :: "InstrumentConfig \<Rightarrow> Block \<Rightarrow> Decimal \<Rightarrow> Decimal \<Rightarrow> bool \<Rightarrow> time \<Rightarrow> (OracleError, ReferencePrice) result" where
  "priceOf ins block spot twap allReady now =
    (let ref = in_Reference ins;
         choice = (if \<not> allReady
                   then (if \<not> ref_AllowSpotDuringWarmup ref then Inl (Fail WarmingUp) else Inr (spot, ''warming_up''))
                   else if ref_MaxSpotTWAPDeviationBPS ref > 0
                   then bindR (must (Div \<bar>spot - twap\<bar> twap)) (\<lambda>relative.
                          let deviation = relative * TenThousand
                          in if Cmp deviation (FromInt64 (ref_MaxSpotTWAPDeviationBPS ref)) > 0
                             then Inl (Fail (DeviationTooLarge deviation (ref_MaxSpotTWAPDeviationBPS ref)))
                             else Inr (twap, ''high''))
                   else Inr (twap, ''high''))
     in bindR choice (\<lambda>(price, confidence). priceFresh ins block spot allReady now price confidence))"

definition OraclePrice :: "'w RPCClient \<Rightarrow> InstrumentConfig \<Rightarrow> time \<Rightarrow> OracleState \<Rightarrow> 'w
    \<Rightarrow> (OracleError, ReferencePrice) result \<times> OracleState \<times> 'w" where
  "OraclePrice rpc ins now s w =
    (if ref_Type (in_Reference ins) \<noteq> ''pancake_v2'' then (Inl (Fail (UnsupportedType (ref_Type (in_Reference ins)))), s, w)
     else case rpc_LatestBlock rpc w of
       (Inl e, w1) \<Rightarrow> (Inl (Fail (RPCFailed e)), s, w1)
     | (Inr block, w1) \<Rightarrow>
         (case legLoop rpc (ref_TWAPWindowSeconds (in_Reference ins)) block (ref_Legs (in_Reference ins)) (One, One, True) s w1 of
            (Inl (Fail e), s2, w2) \<Rightarrow> (Inl (Fail (LegFailed e)), s2, w2)
          | (Inl Panic, s2, w2) \<Rightarrow> (Inl Panic, s2, w2)
          | (Inr (spot, twap, allReady), s2, w2) \<Rightarrow> (priceOf ins block spot twap allReady now, s2, w2)))"

section \<open>Positive prices\<close>

text \<open>The invariant of the oracle's memory: the averages of a ready snapshot are positive.\<close>

definition snapshot_ok :: "CumulativeSnapshot \<Rightarrow> bool" where
  "snapshot_ok sn \<longleftrightarrow> (cs_Ready sn \<longrightarrow> 0 < cs_TWAP0 sn \<and> 0 < cs_TWAP1 sn)"

definition snapshots_ok :: "OracleState \<Rightarrow> bool" where
  "snapshots_ok s \<longleftrightarrow> (\<forall>key sn. or_snapshots s key = Some sn \<longrightarrow> snapshot_ok sn)"

lemma snapshots_ok_New: "snapshots_ok NewOracle"
  by (simp add: snapshots_ok_def NewOracle_def)

lemma pow10_pos [simp]: "0 < pow10 d"
  by (simp add: pow10_def)

lemma decimalAdjustment_pos [simp]: "0 < decimalAdjustment a b"
  by (simp add: decimalAdjustment_def)

lemma legSpot_pos: "legSpot leg ps = Inr spot \<Longrightarrow> 0 < spot"
  by (auto simp: legSpot_def Let_def split: if_splits option.splits)

lemma twap_pos:
  fixes now t :: "64 word"
  assumes "t < now" and "0 < delta"
  shows "0 < twapOf delta (now - t) a b"
proof -
  have "now - t \<noteq> 0" using assms(1) by auto
  then have "0 < uint (now - t)" by (metis uint_0_iff unsigned_greater_eq order_le_less)
  then have "0 < uint (now - t) * q112" by (simp add: q112_def)
  then show ?thesis using assms(2) by (simp add: twapOf_def Let_def del: of_int_mult)
qed

lemma stepSnapshot_ok:
  assumes "stepSnapshot previous baseIs0 window ps spot = (Inr p, snap)"
    and "\<And>sn. previous = Some sn \<Longrightarrow> snapshot_ok sn"
  shows "lp_Spot p = spot" "lp_Ready p \<Longrightarrow> 0 < lp_TWAP p" "\<And>sn. snap = Some sn \<Longrightarrow> snapshot_ok sn"
proof -
  note d = assms(1) [unfolded stepSnapshot_def Let_def]
  show "lp_Spot p = spot" using d by (auto split: option.splits if_splits)
  show "0 < lp_TWAP p" if "lp_Ready p"
    using d that assms(2) by (auto simp: snapshot_ok_def not_le twap_pos split: option.splits if_splits)
  show "snapshot_ok sn" if "snap = Some sn" for sn
    using d that assms(2) by (auto simp: snapshot_ok_def not_le twap_pos split: option.splits if_splits)
qed

lemma readPair_snapshots: "readPair rpc pair block s w = (r, s', w') \<Longrightarrow> or_snapshots s' = or_snapshots s"
  by (auto simp: readPair_def getMetadata_def Let_def split: if_splits option.splits sum.splits prod.splits list.splits)

lemma readLeg_ok:
  assumes "readLeg rpc leg window block s w = (r, s', w')" and "snapshots_ok s"
  shows "snapshots_ok s'" "\<And>p. r = Inr p \<Longrightarrow> 0 < lp_Spot p \<and> (lp_Ready p \<longrightarrow> 0 < lp_TWAP p)"
proof -
  obtain rp s1 w1 where rp: "readPair rpc (leg_PairAddress leg) block s w = (rp, s1, w1)" by (metis prod_cases3)
  from readPair_snapshots [OF rp] assms(2) have s1: "snapshots_ok s1" by (simp add: snapshots_ok_def)
  note r = assms(1) [unfolded readLeg_def rp prod.case]
  have "snapshots_ok s' \<and> (\<forall>p. r = Inr p \<longrightarrow> 0 < lp_Spot p \<and> (lp_Ready p \<longrightarrow> 0 < lp_TWAP p))"
  proof (cases rp)
    case (Inl f) with r s1 show ?thesis by auto
  next
    case rps: (Inr ps)
    show ?thesis
    proof (cases "legSpot leg ps")
      case (Inl e) with r s1 rps show ?thesis by auto
    next
      case spot: (Inr spot)
      let ?key = "normalizeAddress (leg_PairAddress leg)"
      let ?b = "normalizeAddress (leg_BaseToken leg) = pm_Token0 (pst_meta ps)"
      obtain q snap where st: "stepSnapshot (or_snapshots s1 ?key) ?b window ps spot = (q, snap)" by fastforce
      have prev: "\<And>sn. or_snapshots s1 ?key = Some sn \<Longrightarrow> snapshot_ok sn" using s1 by (auto simp: snapshots_ok_def)
      show ?thesis
      proof (cases q)
        case (Inl e) with r s1 rps spot st show ?thesis by (auto simp: Let_def)
      next
        case (Inr p)
        note ok = stepSnapshot_ok [OF st [unfolded Inr] prev]
        from r rps spot st Inr have "r = Inr p" "s' = s1\<lparr>or_snapshots := (or_snapshots s1)(?key := snap)\<rparr>"
          by (auto simp: Let_def)
        with ok s1 legSpot_pos [OF spot] show ?thesis by (auto simp: snapshots_ok_def)
      qed
    qed
  qed
  then show "snapshots_ok s'" "\<And>p. r = Inr p \<Longrightarrow> 0 < lp_Spot p \<and> (lp_Ready p \<longrightarrow> 0 < lp_TWAP p)" by auto
qed

lemma legLoop_ok:
  assumes "legLoop rpc window block legs (spot, twap, ready) s w = (r, s', w')" "snapshots_ok s" "0 < spot" "0 < twap"
  shows "snapshots_ok s' \<and> (\<forall>sp tw rd. r = Inr (sp, tw, rd) \<longrightarrow> 0 < sp \<and> 0 < tw)"
  using assms
proof (induction legs arbitrary: spot twap ready s w)
  case (Cons leg legs)
  obtain q s1 w1 where q: "readLeg rpc leg window block s w = (q, s1, w1)" by (metis prod_cases3)
  note ok = readLeg_ok [OF q Cons.prems(2)]
  show ?case
  proof (cases q)
    case (Inl f)
    with Cons.prems(1) q ok(1) show ?thesis by (cases f) auto
  next
    case (Inr p)
    show ?thesis
    proof (cases "lp_Ready p")
      case True
      with Cons.prems(1) q Inr have "legLoop rpc window block legs (spot * lp_Spot p, twap * lp_TWAP p, ready) s1 w1 = (r, s', w')"
        by simp
      from Cons.IH [OF this ok(1)] ok(2) [OF Inr] True Cons.prems show ?thesis by simp
    next
      case False
      with Cons.prems(1) q Inr have "legLoop rpc window block legs (spot * lp_Spot p, twap, False) s1 w1 = (r, s', w')"
        by simp
      from Cons.IH [OF this ok(1)] ok(2) [OF Inr] False Cons.prems show ?thesis by simp
    qed
  qed
qed auto

text \<open>What \<^verbatim>\<open>Price\<close> promises of a price it returns.\<close>

definition price_promise :: "ReferenceConfig \<Rightarrow> time \<Rightarrow> ReferencePrice \<Rightarrow> bool" where
  "price_promise ref now p \<longleftrightarrow>
     0 < rp_Price p \<and> 0 < rp_Spot p \<and> now < rp_ValidUntil p \<and>
     rp_BlockTime p \<le> now + 15 * second \<and>
     (ref_StaleAfterSeconds ref > 0 \<longrightarrow> time_sub now (rp_BlockTime p) \<le> int64 (ref_StaleAfterSeconds ref * second)) \<and>
     (if rp_TWAPReady p
      then ref_MaxSpotTWAPDeviationBPS ref > 0 \<longrightarrow>
             \<bar>rp_Spot p - rp_Price p\<bar> * 10000 \<le> of_int (ref_MaxSpotTWAPDeviationBPS ref) * rp_Price p
      else ref_AllowSpotDuringWarmup ref \<and> rp_Price p = rp_Spot p)"

lemma priceFresh_no_panic: "priceFresh ins block spot ready now price conf \<noteq> Inl Panic"
  by (simp add: priceFresh_def Let_def)

lemma priceOf_ok:
  assumes "0 < spot" "0 < twap"
  shows "priceOf ins block spot twap ready now \<noteq> Inl Panic"
    and "priceOf ins block spot twap ready now = Inr p \<Longrightarrow> price_promise (in_Reference ins) now p"
proof -
  have D: "Div \<bar>spot - twap\<bar> twap = Some (\<bar>spot - twap\<bar> / twap)" using assms by (simp add: Div_def)
  have le: "\<bar>spot - twap\<bar> * 10000 / twap \<le> m \<longleftrightarrow> \<bar>spot - twap\<bar> * 10000 \<le> m * twap" for m
    using assms by (simp add: field_simps)
  show "priceOf ins block spot twap ready now \<noteq> Inl Panic"
    by (auto simp: priceOf_def D Let_def result_simps priceFresh_no_panic split: if_splits)
  let ?ref = "in_Reference ins"
  let ?valid = "\<lambda>price conf. priceFresh ins block spot ready now price conf"
  show "price_promise (in_Reference ins) now p" if p: "priceOf ins block spot twap ready now = Inr p"
  proof -
    from p obtain price conf where
      c: "(if ready then price = twap \<and> (ref_MaxSpotTWAPDeviationBPS ?ref > 0 \<longrightarrow>
             \<bar>spot - twap\<bar> * 10000 \<le> of_int (ref_MaxSpotTWAPDeviationBPS ?ref) * twap)
           else ref_AllowSpotDuringWarmup ?ref \<and> price = spot)"
      and f: "?valid price conf = Inr p"
      by (auto simp: priceOf_def D Let_def le not_less result_simps split: if_splits)
    have pr: "rp_Price p = price" "rp_Spot p = spot" "rp_TWAPReady p = ready"
      using f by (auto simp: priceFresh_def Let_def split: if_splits)
    have t: "now < rp_ValidUntil p" "rp_BlockTime p \<le> now + 15 * second"
      "ref_StaleAfterSeconds ?ref > 0 \<Longrightarrow> time_sub now (rp_BlockTime p) \<le> int64 (ref_StaleAfterSeconds ?ref * second)"
      using f by (auto simp: priceFresh_def Let_def second_def not_less split: if_splits)
    show ?thesis unfolding price_promise_def pr using c t assms by (auto split: if_splits)
  qed
qed


section \<open>What the oracle relies on of its client\<close>

locale rpc_client =
  fixes rpc :: "'w RPCClient"
  assumes batch_exact: "rpc_BatchCall rpc calls tag w = (Inr replies, w') \<Longrightarrow> length replies = length calls"
begin

lemma readPair_no_panic: "readPair rpc pair block s w \<noteq> (Inl Panic, s', w')"
proof
  assume a: "readPair rpc pair block s w = (Inl Panic, s', w')"
  let ?calls = "[(normalizeAddress pair, selectorGetReserves), (normalizeAddress pair, selectorPrice0CumulativeLast),
    (normalizeAddress pair, selectorPrice1CumulativeLast)]"
  obtain m s1 w1 where m: "getMetadata rpc (normalizeAddress pair) (bk_Tag block) s w = (m, s1, w1)" by (metis prod_cases3)
  obtain b w2 where b: "rpc_BatchCall rpc ?calls (bk_Tag block) w1 = (b, w2)" by fastforce
  show False
  proof (cases b)
    case (Inl e) with a m b show ?thesis by (auto simp: readPair_def Let_def split: if_splits sum.splits)
  next
    case (Inr replies)
    with batch_exact b have "length replies = 3" by fastforce
    then obtain r c0 c1 where "replies = [r, c0, c1]" by (auto simp: numeral_3_eq_3 length_Suc_conv)
    with a m b Inr show ?thesis by (auto simp: readPair_def Let_def split: if_splits sum.splits)
  qed
qed

lemma readLeg_no_panic: "readLeg rpc leg window block s w \<noteq> (Inl Panic, s', w')"
  using readPair_no_panic by (auto simp: readLeg_def Let_def split: prod.splits sum.splits)

lemma legLoop_no_panic: "legLoop rpc window block legs (spot, twap, ready) s w \<noteq> (Inl Panic, s', w')"
  by (induction legs arbitrary: spot twap ready s w)
     (auto simp: readLeg_no_panic split: prod.splits sum.splits failure.splits)

lemma OraclePrice_safe:
  assumes p: "OraclePrice rpc ins now s w = (r, s', w')" and s: "snapshots_ok s"
  shows "snapshots_ok s' \<and> r \<noteq> Inl Panic \<and> (\<forall>p. r = Inr p \<longrightarrow> price_promise (in_Reference ins) now p)"
proof (cases "ref_Type (in_Reference ins) \<noteq> ''pancake_v2'' \<or> (\<exists>e w1. rpc_LatestBlock rpc w = (Inl e, w1))")
  case True
  with p s show ?thesis by (auto simp: OraclePrice_def split: if_splits)
next
  case False
  then obtain block w1 where b: "rpc_LatestBlock rpc w = (Inr block, w1)" by (metis old.sum.exhaust surj_pair)
  obtain l s2 w2 where l: "legLoop rpc (ref_TWAPWindowSeconds (in_Reference ins)) block (ref_Legs (in_Reference ins)) (One, One, True) s w1 = (l, s2, w2)"
    by (metis prod_cases3)
  have ok: "snapshots_ok s2" "\<And>sp tw rd. l = Inr (sp, tw, rd) \<Longrightarrow> 0 < sp \<and> 0 < tw"
    using legLoop_ok [OF l s] by auto
  show ?thesis
  proof (cases l)
    case (Inl f)
    with p b l False ok(1) legLoop_no_panic show ?thesis by (cases f) (auto simp: OraclePrice_def)
  next
    case (Inr t)
    obtain sp tw rd where t: "t = (sp, tw, rd)" by (metis prod_cases3)
    with Inr ok(2) have pos: "0 < sp" "0 < tw" by auto
    from p b l False Inr t have "r = priceOf ins block sp tw rd now" "s' = s2" by (auto simp: OraclePrice_def)
    with ok(1) priceOf_ok [OF pos] show ?thesis by auto
  qed
qed

end


section \<open>The average of constant reserves\<close>

lemma floor_ratio:
  assumes "(0 :: int) < a"
  shows "0 \<le> of_int (b * q112) / of_int a - (of_int (b * q112 div a) :: rat)"
    and "of_int (b * q112) / of_int a - of_int (b * q112 div a) < (1 :: rat)"
proof -
  have "of_int (b * q112 div a) = (of_int \<lfloor>of_int (b * q112) / (of_int a :: rat)\<rfloor> :: rat)"
    by (simp only: floor_divide_of_int_eq)
  then show "0 \<le> of_int (b * q112) / of_int a - (of_int (b * q112 div a) :: rat)"
    "of_int (b * q112) / of_int a - of_int (b * q112 div a) < (1 :: rat)"
    by (simp_all only:) linarith+
qed


lemma pairStateOf_frame:
  assumes "pairStateOf meta block r c0 c1 = Inr ps"
  shows "pst_meta ps = meta" "pst_block ps = block"
  using assms by (auto simp: pairStateOf_def Let_def split: if_splits)

lemma cumulative_extended:
  assumes "pairStateOf meta block r c0 c1 = Inr ps" and "0 < wordInt r 0" and "0 < wordInt r 1"
    and "0 \<le> wordInt r 2" "wordInt r 2 \<le> uint (bk_Timestamp block)" "uint (bk_Timestamp block) < 2 ^ 32"
  shows "pst_currentCumulative0 ps = wordInt c0 0 + (wordInt r 1 * q112 div wordInt r 0) * (uint (bk_Timestamp block) - wordInt r 2)"
    and "pst_currentCumulative1 ps = wordInt c1 0 + (wordInt r 0 * q112 div wordInt r 1) * (uint (bk_Timestamp block) - wordInt r 2)"
proof -
  let ?t = "ucast (bk_Timestamp block) :: 32 word" and ?ts = "word_of_int (wordInt r 2) :: 32 word"
  have t: "uint ?t = uint (bk_Timestamp block)" using assms(6) by (simp add: unsigned_ucast_eq take_bit_int_eq_self)
  have ts: "uint ?ts = wordInt r 2" using assms(4,5,6) by (simp add: uint_word_of_int_eq take_bit_int_eq_self)
  have e: "uint (?t - ?ts) = uint (bk_Timestamp block) - wordInt r 2"
    using assms(5) t ts by (metis uint_sub_lem)
  have q: "go_quo (wordInt r 1 * 2 ^ 112) (wordInt r 0) = wordInt r 1 * q112 div wordInt r 0"
    "go_quo (wordInt r 0 * 2 ^ 112) (wordInt r 1) = wordInt r 0 * q112 div wordInt r 1"
    using assms(2,3) by (simp_all add: go_quo_nonneg q112_def)
  have z: "\<not> 0 < ?t - ?ts \<Longrightarrow> uint (bk_Timestamp block) - wordInt r 2 = 0"
    using e by (metis word_neq_0_conv unsigned_0)
  note d = assms(1) [unfolded pairStateOf_def Let_def q]
  show "pst_currentCumulative0 ps = wordInt c0 0 + (wordInt r 1 * q112 div wordInt r 0) * (uint (bk_Timestamp block) - wordInt r 2)"
    "pst_currentCumulative1 ps = wordInt c1 0 + (wordInt r 0 * q112 div wordInt r 1) * (uint (bk_Timestamp block) - wordInt r 2)"
    using d e z assms(2,3) by (auto split: if_splits)
qed

lemma twapOf_constant:
  fixes elapsed :: "64 word" and bd qd qt :: int
  assumes "0 < uint elapsed" and "(0 :: int) < base"
  defines "adj \<equiv> decimalAdjustment bd qd"
  defines "spot \<equiv> of_int qt / of_int base * adj"
  shows "0 \<le> spot - twapOf (qt * q112 div base * uint elapsed) elapsed bd qd"
    and "spot - twapOf (qt * q112 div base * uint elapsed) elapsed bd qd < adj / of_int q112"
proof -
  have q: "(0 :: rat) < of_int q112" by (simp add: q112_def)
  have a: "0 < adj" by (simp add: adj_def)
  obtain n where n: "n = uint elapsed" "0 < n" using assms(1) by simp
  let ?d = "of_int (qt * q112) / of_int base - (of_int (qt * q112 div base) :: rat)"
  have e: "spot - twapOf (qt * q112 div base * uint elapsed) elapsed bd qd = ?d * (adj / of_int q112)"
    using n(2) assms(2) q by (simp add: twapOf_def spot_def adj_def [symmetric] Let_def field_simps flip: n(1))
  show "0 \<le> spot - twapOf (qt * q112 div base * uint elapsed) elapsed bd qd"
    unfolding e using floor_ratio(1) [OF assms(2)] q a by (intro mult_nonneg_nonneg) simp_all
  show "spot - twapOf (qt * q112 div base * uint elapsed) elapsed bd qd < adj / of_int q112"
    unfolding e using mult_strict_right_mono [OF floor_ratio(2) [OF assms(2)], of "adj / of_int q112"] q a by simp
qed

lemma price_positive:
  assumes "(0 :: int) < a" "a < q112" "0 < b"
  shows "0 < b * q112 div a"
proof -
  have "a \<le> b * q112" using assms mult_right_mono [of 1 b q112] by (simp add: q112_def)
  then show ?thesis using assms(1) by (simp add: pos_imp_zdiv_pos_iff)
qed


text \<open>The memory of the reading of a pair: the snapshot that a reading leaves when it refreshes it.\<close>

definition anchored :: "PairState \<Rightarrow> CumulativeSnapshot \<Rightarrow> bool" where
  "anchored ps sn \<longleftrightarrow> cs_Price0 sn = pst_currentCumulative0 ps \<and> cs_Price1 sn = pst_currentCumulative1 ps \<and>
     cs_UnixTime sn = bk_Timestamp (pst_block ps)"

text \<open>C31: Between two readings of a pair at least the window apart, with no trade in between (the same
  replies at both blocks, reserves of 112 bits), the leg becomes ready and its time-weighted average is the
  spot price of the reserves, from below, up to one unit of the 112-bit fixed-point price.\<close>

theorem twap_constant_reserves:
  assumes ps1: "pairStateOf meta b1 r c0 c1 = Inr ps1" and ps2: "pairStateOf meta b2 r c0 c1 = Inr ps2"
    and r0: "0 < wordInt r 0" "wordInt r 0 < q112" and r1: "0 < wordInt r 1" "wordInt r 1 < q112"
    and ts: "0 \<le> wordInt r 2" "wordInt r 2 \<le> uint (bk_Timestamp b1)"
    and t: "uint (bk_Timestamp b1) < uint (bk_Timestamp b2)" "uint (bk_Timestamp b2) < 2 ^ 32"
    and w: "0 \<le> window" "window \<le> uint (bk_Timestamp b2) - uint (bk_Timestamp b1)"
    and sn: "anchored ps1 sn"
  shows "\<exists>p sn'. stepSnapshot (Some sn) baseIs0 window ps2 spot = (Inr p, Some sn') \<and> lp_Ready p \<and> anchored ps2 sn' \<and>
     (let adj = (if baseIs0 then decimalAdjustment (pm_Decimals0 meta) (pm_Decimals1 meta)
                 else decimalAdjustment (pm_Decimals1 meta) (pm_Decimals0 meta));
          ratio = (if baseIs0 then of_int (wordInt r 1) / of_int (wordInt r 0)
                   else of_int (wordInt r 0) / of_int (wordInt r 1))
      in 0 \<le> ratio * adj - lp_TWAP p \<and> ratio * adj - lp_TWAP p < adj / 2 ^ 112)"
proof -
  let ?t1 = "bk_Timestamp b1" and ?t2 = "bk_Timestamp b2"
  let ?e = "?t2 - ?t1"
  note f1 = pairStateOf_frame [OF ps1] and f2 = pairStateOf_frame [OF ps2]
  note c1 = cumulative_extended [OF ps1 r0(1) r1(1) ts order.strict_trans [OF t]]
  note c2 = cumulative_extended [OF ps2 r0(1) r1(1) ts(1) order.trans [OF ts(2) less_imp_le [OF t(1)]] t(2)]
  have e: "uint ?e = uint ?t2 - uint ?t1" using t(1) by (metis uint_sub_lem less_imp_le)
  then have epos: "0 < uint ?e" using t(1) by simp
  have "0 \<le> uint ?t1" by simp
  then have "window < 2 ^ 32" using w t(2) by linarith
  then have "take_bit 64 window = window" using w(1) by (intro take_bit_int_eq_self) auto
  then have win: "\<not> ?e < word_of_int window" using w(2) e by (simp add: word_less_def uint_word_of_int_eq)
  have now: "\<not> ?t2 \<le> ?t1" using t(1) by (simp add: word_le_def)
  note p0 = price_positive [OF r0 r1(1)] and p1 = price_positive [OF r1 r0(1)]
  have sp: "cs_Price0 sn = pst_currentCumulative0 ps1" "cs_Price1 sn = pst_currentCumulative1 ps1"
    using sn by (simp_all add: anchored_def)
  have d0: "pst_currentCumulative0 ps2 - cs_Price0 sn = wordInt r 1 * q112 div wordInt r 0 * uint ?e"
    and d1: "pst_currentCumulative1 ps2 - cs_Price1 sn = wordInt r 0 * q112 div wordInt r 1 * uint ?e"
    unfolding sp c1 c2 e by (simp_all only: right_diff_distrib)
  have "0 < pst_currentCumulative0 ps2 - cs_Price0 sn" "0 < pst_currentCumulative1 ps2 - cs_Price1 sn"
    unfolding d0 d1 using p0 p1 epos by simp_all
  then have pos: "\<not> (pst_currentCumulative0 ps2 - cs_Price0 sn \<le> 0 \<or> pst_currentCumulative1 ps2 - cs_Price1 sn \<le> 0)" by simp
  have t1: "cs_UnixTime sn = ?t1" using sn f1 by (simp add: anchored_def)
  have q: "(of_int q112 :: rat) = 2 ^ 112" by (simp add: q112_def)
  show ?thesis
    using twapOf_constant [OF epos r0(1), of "wordInt r 1" "pm_Decimals0 meta" "pm_Decimals1 meta"]
      twapOf_constant [OF epos r1(1), of "wordInt r 0" "pm_Decimals1 meta" "pm_Decimals0 meta"]
    unfolding stepSnapshot_def Let_def option.case f2 t1 if_not_P [OF now] if_not_P [OF win] d0 d1 if_not_P [OF pos [unfolded d0 d1]] q
    by (simp add: anchored_def f2)
qed

text \<open>A reading that finds a pair at the block of its snapshot throws the average away: the leg is not
  ready, and it stays unready for every later reading within the window.\<close>

theorem same_block_discards_twap:
  assumes "cs_UnixTime sn = bk_Timestamp (pst_block ps)"
  shows "\<exists>p sn'. stepSnapshot (Some sn) baseIs0 window ps spot = (Inr p, Some sn') \<and> \<not> lp_Ready p \<and> anchored ps sn' \<and>
    (\<forall>baseIs0' ps' spot'. bk_Timestamp (pst_block ps') - bk_Timestamp (pst_block ps) < word_of_int window \<longrightarrow>
      (\<exists>q sn''. stepSnapshot (Some sn') baseIs0' window ps' spot' = (Inr q, Some sn'') \<and> \<not> lp_Ready q \<and> \<not> cs_Ready sn''))"
  using assms by (auto simp: stepSnapshot_def Let_def anchored_def)


text \<open>A pair with reserves 2 and 6, last updated at second 5, read at two blocks 70 seconds apart.\<close>

definition sample_word :: "nat \<Rightarrow> nat list" where "sample_word b = replicate 31 0 @ [b]"
definition sample_reserves :: "nat list" where "sample_reserves = sample_word 2 @ sample_word 6 @ sample_word 5"
definition sample_meta :: PairMetadata where
  "sample_meta = \<lparr>pm_Token0 = ''0xa'', pm_Token1 = ''0xb'', pm_Decimals0 = 18, pm_Decimals1 = 6, pm_Factory = ''0xc''\<rparr>"
definition sample_block :: "64 word \<Rightarrow> Block" where
  "sample_block t = \<lparr>bk_Number = 1, bk_Timestamp = t, bk_Tag = ''0x1''\<rparr>"
definition sample_pair :: "64 word \<Rightarrow> PairState" where
  "sample_pair t = projr (pairStateOf sample_meta (sample_block t) sample_reserves (sample_word 0) (sample_word 0))"
definition sample_snapshot :: "64 word \<Rightarrow> CumulativeSnapshot" where
  "sample_snapshot t = \<lparr>cs_Price0 = pst_currentCumulative0 (sample_pair t), cs_Price1 = pst_currentCumulative1 (sample_pair t),
     cs_UnixTime = t, cs_TWAP0 = 3, cs_TWAP1 = 1 / 3, cs_Ready = True\<rparr>"

lemma sample_words: "wordInt sample_reserves 0 = 2" "wordInt sample_reserves 1 = 6" "wordInt sample_reserves 2 = 5"
  by (simp_all add: wordInt_def sample_reserves_def sample_word_def eval_nat_numeral)

lemma sample_pairs: "pairStateOf sample_meta (sample_block t) sample_reserves (sample_word 0) (sample_word 0) = Inr (sample_pair t)"
  by (simp add: sample_pair_def pairStateOf_def Let_def) (simp add: sample_reserves_def sample_word_def)

lemma sample_anchored: "pst_block (sample_pair t) = sample_block t" "anchored (sample_pair t) (sample_snapshot t)"
proof -
  show "pst_block (sample_pair t) = sample_block t"
    by (rule pairStateOf_frame(2) [OF sample_pairs])
  then show "anchored (sample_pair t) (sample_snapshot t)"
    by (simp add: anchored_def sample_snapshot_def sample_block_def)
qed

theorem twap_constant_reserves_witness:
  "\<exists>p sn'. stepSnapshot (Some (sample_snapshot 10)) True 60 (sample_pair 80) 3 = (Inr p, Some sn') \<and> lp_Ready p \<and>
     lp_TWAP p \<le> 3 * 10 ^ 12 \<and> (3 * 10 ^ 12 - lp_TWAP p) * 2 ^ 112 < 10 ^ 12"
proof -
  have q: "q112 > 6" by (simp add: q112_def)
  have "decimalAdjustment 18 6 = 10 ^ 12" by (simp add: decimalAdjustment_def pow10_def)
  then show ?thesis
    using twap_constant_reserves [OF sample_pairs [of 10] sample_pairs [of 80], of 60 "sample_snapshot 10" True 3]
      q sample_anchored(2)
    by (auto simp: sample_words sample_words [unfolded One_nat_def] sample_block_def sample_meta_def Let_def)
qed

theorem same_block_discards_twap_witness:
  "\<exists>p sn'. stepSnapshot (Some (sample_snapshot 80)) True 60 (sample_pair 80) 3 = (Inr p, Some sn') \<and> \<not> lp_Ready p \<and>
    (\<exists>q sn''. stepSnapshot (Some sn') True 60 (sample_pair 139) 3 = (Inr q, Some sn'') \<and> \<not> lp_Ready q)"
proof -
  have "cs_UnixTime (sample_snapshot 80) = bk_Timestamp (pst_block (sample_pair 80))"
    by (simp add: sample_anchored sample_block_def sample_snapshot_def)
  from same_block_discards_twap [OF this, of True 60 3] obtain p sn' where
    p: "stepSnapshot (Some (sample_snapshot 80)) True 60 (sample_pair 80) 3 = (Inr p, Some sn')" "\<not> lp_Ready p"
    and l: "\<And>b ps' sp. bk_Timestamp (pst_block ps') - bk_Timestamp (pst_block (sample_pair 80)) < word_of_int 60 \<Longrightarrow>
      \<exists>q sn''. stepSnapshot (Some sn') b 60 ps' sp = (Inr q, Some sn'') \<and> \<not> lp_Ready q" by blast
  have "bk_Timestamp (pst_block (sample_pair 139)) - bk_Timestamp (pst_block (sample_pair 80)) < word_of_int 60"
    by (simp add: sample_anchored sample_block_def)
  from l [OF this] p show ?thesis by blast
qed

end
