(* ===== verification/Json.thy ===== *)
theory Json
  imports Prelude
begin

text \<open>
  What the program uses of \<^verbatim>\<open>encoding/json\<close>: the tree of a document, the fields of an object and
  the decoding of a field into a struct member. A payload is the sequence of bytes a store holds;
  it is empty, the text of a document, or raw text that is no document. The concrete text of a
  document (quoting, spacing) is not modelled, and objects carry the exact field names that
  \<^verbatim>\<open>json.Marshal\<close> writes. A leaf \<open>JDec\<close> is a string that holds the text of a decimal, by its value.
\<close>

datatype Json = JNull | JBool bool | JInt int | JStr string | JTime time | JDec rat
  | JArr "Json list" | JObj "(string \<times> Json) list"

datatype Payload = NoBytes | Doc Json | Raw string

text \<open>\<^verbatim>\<open>time.Time.MarshalJSON\<close> fails outside the years 0 to 9999.\<close>

definition json_time_ok :: "time \<Rightarrow> bool" where
  "json_time_ok t \<longleftrightarrow> - 62167219200 * second \<le> t \<and> t < 253402300800 * second"

text \<open>Decoding of scalar members; \<^verbatim>\<open>null\<close> and an absent field leave the zero value.\<close>

fun as_bool :: "Json \<Rightarrow> bool option" where
  "as_bool (JBool b) = Some b" | "as_bool _ = None"

fun as_int :: "Json \<Rightarrow> int option" where
  "as_int (JInt i) = Some i" | "as_int _ = None"

fun as_str :: "Json \<Rightarrow> string option" where
  "as_str (JStr s) = Some s" | "as_str _ = None"

fun as_time :: "Json \<Rightarrow> time option" where
  "as_time (JTime t) = Some t" | "as_time _ = None"

fun as_dec :: "Json \<Rightarrow> rat option" where
  "as_dec (JDec d) = Some d" | "as_dec _ = None"

fun as_obj :: "Json \<Rightarrow> (string \<times> Json) list option" where
  "as_obj (JObj fs) = Some fs" | "as_obj JNull = Some []" | "as_obj _ = None"

definition field :: "(string \<times> Json) list \<Rightarrow> string \<Rightarrow> (Json \<Rightarrow> 'a option) \<Rightarrow> 'a \<Rightarrow> 'a option" where
  "field fs name dec zero =
     (case map_of fs name of None \<Rightarrow> Some zero | Some JNull \<Rightarrow> Some zero | Some v \<Rightarrow> dec v)"

text \<open>A member written with \<^verbatim>\<open>omitempty\<close>.\<close>

definition omit_str :: "string \<Rightarrow> string \<Rightarrow> (string \<times> Json) list" where
  "omit_str name s = (if s = [] then [] else [(name, JStr s)])"

definition json_fields :: "Payload \<Rightarrow> (string \<times> Json) list option" where
  "json_fields p = (case p of Doc (JObj fs) \<Rightarrow> Some fs | Doc JNull \<Rightarrow> Some [] | _ \<Rightarrow> None)"



section \<open>Stores of durable state\<close>

text \<open>The \<^verbatim>\<open>StateStore\<close> interfaces of the fault manager and of the order manager have the same three
  operations. A store is a record of functions over the state of the world outside the process;
  an operation may fail with an error.\<close>

record 'w StateStore =
  ss_Load :: "string \<Rightarrow> 'w \<Rightarrow> (string + Payload) \<times> 'w"
  ss_Save :: "string \<Rightarrow> Payload \<Rightarrow> 'w \<Rightarrow> string option \<times> 'w"
  ss_Delete :: "string \<Rightarrow> 'w \<Rightarrow> string option \<times> 'w"

text \<open>What a client relies on: a load that succeeds returns what the last successful write left.\<close>

locale state_store =
  fixes ss :: "'w StateStore"
  assumes load_save: "\<lbrakk>ss_Save ss k p w = (None, w'); p \<noteq> NoBytes; ss_Load ss k w' = (Inr q, w'')\<rbrakk> \<Longrightarrow> q = p"
    and load_delete: "\<lbrakk>ss_Delete ss k w = (None, w'); ss_Load ss k w' = (Inr q, w'')\<rbrakk> \<Longrightarrow> q = NoBytes"

end
