(* ===== verification/Rpc.thy ===== *)
theory Rpc
  imports Oracle Json
begin

text \<open>
  \<^verbatim>\<open>internal/oracle/pancakev2/rpc.go\<close>: the JSON-RPC client of the oracle, with failover over its
  endpoints, batches whose replies are matched by request id, and a short-lived cache of the latest
  block. The HTTP transport is a parameter: a record of functions over the state \<open>'w\<close> of the world
  (the exchange of one request body for one reply, the validity of an address, the clock). The texts of
  \<^verbatim>\<open>encoding/json\<close> errors and of bodies inside errors are not modelled, and an object of a reply has its
  field names once and in lower case.
\<close>

section \<open>Definitions\<close>

record RPCState =
  rs_urls :: "string list"
  rs_nextID :: "64 word"
  rs_latestBlock :: Block
  rs_blockFetchedAt :: time

datatype HttpReply = DoError string | BodyError string | HttpBody int Payload

record 'w Http =
  http_UrlError :: "string \<Rightarrow> string option"
  http_Do :: "string \<Rightarrow> Json \<Rightarrow> nat \<Rightarrow> 'w \<Rightarrow> HttpReply \<times> 'w"
  http_Now :: "'w \<Rightarrow> time"

record RpcRequest =
  rq_ID :: "64 word"
  rq_Method :: string
  rq_Params :: Json

record RpcError =
  re_Code :: int
  re_Message :: string

record RpcResponse =
  rr_ID :: "64 word"
  rr_Result :: "Json option"
  rr_Error :: "RpcError option"

record PairInfo =
  pi_PairAddress :: string
  pi_Token0 :: string
  pi_Token1 :: string
  pi_Factory :: string

definition NewRPCClient :: "string list \<Rightarrow> RPCState" where
  "NewRPCClient urls = \<lparr>rs_urls = urls, rs_nextID = 0,
     rs_latestBlock = \<lparr>bk_Number = 0, bk_Timestamp = 0, bk_Tag = []\<rparr>, rs_blockFetchedAt = zero_time\<rparr>"

definition MarshalRequest :: "RpcRequest \<Rightarrow> Json" where
  "MarshalRequest r = JObj [(''jsonrpc'', JStr ''2.0''), (''id'', JInt (uint (rq_ID r))),
     (''method'', JStr (rq_Method r)), (''params'', rq_Params r)]"

definition as_uint64 :: "Json \<Rightarrow> 64 word option" where
  "as_uint64 j = (case j of JInt i \<Rightarrow> if 0 \<le> i \<and> i < 2 ^ 64 then Some (word_of_int i) else None | _ \<Rightarrow> None)"

definition as_rpc_error :: "Json \<Rightarrow> RpcError option" where
  "as_rpc_error j = (case as_obj j of None \<Rightarrow> None | Some fs \<Rightarrow>
     (case (field fs ''code'' as_int 0, field fs ''message'' as_str []) of
        (Some c, Some msg) \<Rightarrow> Some \<lparr>re_Code = c, re_Message = msg\<rparr> | _ \<Rightarrow> None))"

definition UnmarshalResponse :: "Json \<Rightarrow> RpcResponse option" where
  "UnmarshalResponse j = (case as_obj j of None \<Rightarrow> None | Some fs \<Rightarrow>
     (case (field fs ''jsonrpc'' as_str [], field fs ''id'' as_uint64 0, field fs ''error'' (map_option Some \<circ> as_rpc_error) None) of
        (Some _, Some i, Some e) \<Rightarrow> Some \<lparr>rr_ID = i, rr_Result = map_of fs ''result'', rr_Error = e\<rparr> | _ \<Rightarrow> None))"

text \<open>Decoding of a result into a Go string; the zero value stands for \<^verbatim>\<open>null\<close>, and a missing result is
  not a document.\<close>

definition result_string :: "Json option \<Rightarrow> string option" where
  "result_string r = (case r of Some (JStr s) \<Rightarrow> Some s | Some JNull \<Rightarrow> Some [] | _ \<Rightarrow> None)"

definition result_block :: "Json option \<Rightarrow> (string \<times> string) option" where
  "result_block r = (case r of None \<Rightarrow> None | Some j \<Rightarrow> (case as_obj j of None \<Rightarrow> None | Some fs \<Rightarrow>
     (case (field fs ''number'' as_str [], field fs ''timestamp'' as_str []) of
        (Some a, Some b) \<Rightarrow> Some (a, b) | _ \<Rightarrow> None)))"

definition jsonError :: string where "jsonError = ''json''"

definition rpcErrorText :: "RpcError \<Rightarrow> string" where
  "rpcErrorText e = ''rpc error '' @ itoa (re_Code e) @ '': '' @ re_Message e"

definition httpErrorText :: "int \<Rightarrow> string" where
  "httpErrorText status = ''rpc http '' @ itoa status"

definition noEndpoints :: string where "noEndpoints = ''no rpc endpoints configured''"

text \<open>One attempt of \<^verbatim>\<open>request\<close> at an endpoint.\<close>

definition tryReply :: "(Json option \<Rightarrow> 'a option) \<Rightarrow> HttpReply \<Rightarrow> string + 'a" where
  "tryReply out reply =
    (case reply of DoError e \<Rightarrow> Inl e | BodyError e \<Rightarrow> Inl e
     | HttpBody status body \<Rightarrow>
         if go_quo status 100 \<noteq> 2 then Inl (httpErrorText status)
         else case body of Doc j \<Rightarrow>
           (case UnmarshalResponse j of None \<Rightarrow> Inl jsonError
            | Some decoded \<Rightarrow>
                (case rr_Error decoded of Some e \<Rightarrow> Inl (rpcErrorText e)
                 | None \<Rightarrow> (case out (rr_Result decoded) of None \<Rightarrow> Inl jsonError | Some a \<Rightarrow> Inr a)))
         | _ \<Rightarrow> Inl jsonError)"

fun requestLoop :: "'w Http \<Rightarrow> string \<Rightarrow> Json \<Rightarrow> (Json option \<Rightarrow> 'a option) \<Rightarrow> string list \<Rightarrow> string option \<Rightarrow> 64 word \<Rightarrow> 'w
    \<Rightarrow> (string + 'a) \<times> 64 word \<times> 'w" where
  "requestLoop h method params out [] lastErr nextID w =
     (Inl (case lastErr of None \<Rightarrow> noEndpoints | Some e \<Rightarrow> e), nextID, w)"
| "requestLoop h method params out (endpoint # urls) lastErr nextID w =
     (let ident = nextID + 1; payload = MarshalRequest \<lparr>rq_ID = ident, rq_Method = method, rq_Params = params\<rparr> in
      case http_UrlError h endpoint of
        Some e \<Rightarrow> (Inl e, ident, w)
      | None \<Rightarrow>
          (case http_Do h endpoint payload (2 * 2 ^ 20) w of
             (reply, w1) \<Rightarrow>
               (case tryReply out reply of
                  Inr a \<Rightarrow> (Inr a, ident, w1)
                | Inl e \<Rightarrow> requestLoop h method params out urls (Some e) ident w1)))"

definition request :: "'w Http \<Rightarrow> string \<Rightarrow> Json \<Rightarrow> (Json option \<Rightarrow> 'a option) \<Rightarrow> RPCState \<Rightarrow> 'w
    \<Rightarrow> (string + 'a) \<times> RPCState \<times> 'w" where
  "request h method params out c w =
    (case requestLoop h method params out (rs_urls c) None (rs_nextID c) w of
       (r, nextID, w1) \<Rightarrow> (r, c\<lparr>rs_nextID := nextID\<rparr>, w1))"

text \<open>\<^verbatim>\<open>strconv\<close> in base 16 and \<^verbatim>\<open>hex.DecodeString\<close>.\<close>

definition TrimPrefix :: "string \<Rightarrow> string \<Rightarrow> string" where
  "TrimPrefix s p = (if HasPrefix s p then drop (length p) s else s)"

definition hex_val :: "char \<Rightarrow> nat option" where
  "hex_val c = (let n = of_char c :: nat in
     if 48 \<le> n \<and> n \<le> 57 then Some (n - 48) else if 97 \<le> n \<and> n \<le> 102 then Some (n - 87)
     else if 65 \<le> n \<and> n \<le> 70 then Some (n - 55) else None)"

fun parseUint16 :: "nat \<Rightarrow> string \<Rightarrow> string + nat" where
  "parseUint16 n [] = Inr n"
| "parseUint16 n (c # cs) =
     (case hex_val c of None \<Rightarrow> Inl ''invalid syntax''
      | Some d \<Rightarrow> if 16 * n + d < 2 ^ 64 then parseUint16 (16 * n + d) cs else Inl ''value out of range'')"

definition parseHexUint64 :: "string \<Rightarrow> string + 64 word" where
  "parseHexUint64 s0 =
    (let s = TrimPrefix s0 ''0x'' in
     if s = [] then Inr 0
     else case parseUint16 0 s of Inl e \<Rightarrow> Inl (''strconv.ParseUint: parsing '' @ quoted s @ '': '' @ e) | Inr n \<Rightarrow> Inr (of_nat n))"

fun formatUint16 :: "nat \<Rightarrow> string" where
  "formatUint16 n = (if n < 16 then [hex_digit n] else formatUint16 (n div 16) @ [hex_digit (n mod 16)])"

declare formatUint16.simps [simp del]

fun hexDecode :: "string \<Rightarrow> string + nat list" where
  "hexDecode [] = Inr []"
| "hexDecode [c] = Inl (case hex_val c of None \<Rightarrow> ''encoding/hex: invalid byte'' | Some _ \<Rightarrow> ''encoding/hex: odd length hex string'')"
| "hexDecode (a # b # cs) =
     (case (hex_val a, hex_val b) of
        (Some x, Some y) \<Rightarrow> (case hexDecode cs of Inl e \<Rightarrow> Inl e | Inr bs \<Rightarrow> Inr ((16 * x + y) # bs))
      | _ \<Rightarrow> Inl ''encoding/hex: invalid byte'')"

definition decodeHexResult :: "string \<Rightarrow> string + nat list" where
  "decodeHexResult result0 =
    (let r1 = TrimPrefix result0 ''0x''; result = (if length r1 mod 2 \<noteq> 0 then ''0'' @ r1 else r1) in
     case hexDecode result of Inl e \<Rightarrow> Inl (''decode eth_call result: '' @ e) | Inr b \<Rightarrow> Inr b)"

definition LatestBlock :: "'w Http \<Rightarrow> RPCState \<Rightarrow> 'w \<Rightarrow> (string + Block) \<times> RPCState \<times> 'w" where
  "LatestBlock h c w =
    (if \<not> IsZeroTime (rs_blockFetchedAt c) \<and> time_sub (http_Now h w) (rs_blockFetchedAt c) < 500 * millisecond
     then (Inr (rs_latestBlock c), c, w)
     else case request h ''eth_getBlockByNumber'' (JArr [JStr ''latest'', JBool False]) result_block c w of
       (Inl e, c1, w1) \<Rightarrow> (Inl e, c1, w1)
     | (Inr (rawNumber, rawTimestamp), c1, w1) \<Rightarrow>
         (case parseHexUint64 rawNumber of
            Inl e \<Rightarrow> (Inl (''decode block number: '' @ e), c1, w1)
          | Inr number \<Rightarrow>
              (case parseHexUint64 rawTimestamp of
                 Inl e \<Rightarrow> (Inl (''decode block timestamp: '' @ e), c1, w1)
               | Inr ts \<Rightarrow>
                   let block = \<lparr>bk_Number = number, bk_Timestamp = ts, bk_Tag = ''0x'' @ formatUint16 (unat number)\<rparr>
                   in (Inr block, c1\<lparr>rs_latestBlock := block, rs_blockFetchedAt := http_Now h w1\<rparr>, w1))))"

definition ChainID :: "'w Http \<Rightarrow> RPCState \<Rightarrow> 'w \<Rightarrow> (string + 64 word) \<times> RPCState \<times> 'w" where
  "ChainID h c w =
    (case request h ''eth_chainId'' (JArr []) result_string c w of
       (Inl e, c1, w1) \<Rightarrow> (Inl e, c1, w1) | (Inr raw, c1, w1) \<Rightarrow> (parseHexUint64 raw, c1, w1))"

definition callParams :: "string \<Rightarrow> string \<Rightarrow> string \<Rightarrow> Json" where
  "callParams to data tag = JArr [JObj [(''data'', JStr data), (''to'', JStr to)], JStr tag]"

definition CallAt :: "'w Http \<Rightarrow> string \<Rightarrow> string \<Rightarrow> string \<Rightarrow> RPCState \<Rightarrow> 'w \<Rightarrow> (string + nat list) \<times> RPCState \<times> 'w" where
  "CallAt h to data tag c w =
    (case request h ''eth_call'' (callParams to data tag) result_string c w of
       (Inl e, c1, w1) \<Rightarrow> (Inl e, c1, w1) | (Inr result, c1, w1) \<Rightarrow> (decodeHexResult result, c1, w1))"

text \<open>\<^verbatim>\<open>batchRequest\<close>: the replies are put at the index of the request that carries their id.\<close>

fun assignItems :: "(64 word \<Rightarrow> nat option) \<Rightarrow> RpcResponse list \<Rightarrow> (Json option option) list
    \<Rightarrow> string + (Json option option) list" where
  "assignItems indexByID [] results = Inr results"
| "assignItems indexByID (item # items) results =
     (case indexByID (rr_ID item) of
        None \<Rightarrow> Inl (''rpc batch returned unexpected id '' @ utoa (unat (rr_ID item)))
      | Some index \<Rightarrow>
          (case rr_Error item of
             Some e \<Rightarrow> Inl (rpcErrorText e)
           | None \<Rightarrow>
               if results ! index \<noteq> None then Inl (''rpc batch returned duplicate id '' @ utoa (unat (rr_ID item)))
               else assignItems indexByID items (results[index := Some (rr_Result item)])))"

definition numbered :: "64 word \<Rightarrow> (string \<times> Json) list \<Rightarrow> RpcRequest list" where
  "numbered nextID calls =
     map (\<lambda>(i, method, params). \<lparr>rq_ID = nextID + 1 + of_nat i, rq_Method = method, rq_Params = params\<rparr>)
       (zip [0..<length calls] calls)"

definition indexOf :: "RpcRequest list \<Rightarrow> 64 word \<Rightarrow> nat option" where
  "indexOf requests = map_of (rev (zip (map rq_ID requests) [0..<length requests]))"

fun unmarshalAll :: "Json list \<Rightarrow> RpcResponse list option" where
  "unmarshalAll [] = Some []"
| "unmarshalAll (j # js) =
     (case (UnmarshalResponse j, unmarshalAll js) of (Some r, Some rs) \<Rightarrow> Some (r # rs) | _ \<Rightarrow> None)"

definition UnmarshalResponses :: "Payload \<Rightarrow> string + RpcResponse list" where
  "UnmarshalResponses body =
    (let single = (case body of Doc j \<Rightarrow>
        (case UnmarshalResponse j of Some r \<Rightarrow> (case rr_Error r of Some e \<Rightarrow> Inl (rpcErrorText e) | None \<Rightarrow> Inl jsonError) | None \<Rightarrow> Inl jsonError)
        | _ \<Rightarrow> Inl jsonError)
     in case body of
          Doc JNull \<Rightarrow> Inr []
        | Doc (JArr js) \<Rightarrow> (case unmarshalAll js of Some rs \<Rightarrow> Inr rs | None \<Rightarrow> single)
        | _ \<Rightarrow> single)"

definition tryBatch :: "RpcRequest list \<Rightarrow> HttpReply \<Rightarrow> string + Json option list" where
  "tryBatch requests reply =
    (case reply of DoError e \<Rightarrow> Inl e | BodyError e \<Rightarrow> Inl e
     | HttpBody status body \<Rightarrow>
         if go_quo status 100 \<noteq> 2 then Inl (httpErrorText status)
         else case UnmarshalResponses body of
           Inl e \<Rightarrow> Inl e
         | Inr decoded \<Rightarrow>
             if length decoded \<noteq> length requests
             then Inl (''rpc batch returned '' @ utoa (length decoded) @ '' results for '' @ utoa (length requests) @ '' requests'')
             else case assignItems (indexOf requests) decoded (replicate (length requests) None) of
                    Inl e \<Rightarrow> Inl e
                  | Inr results \<Rightarrow> Inr (map (\<lambda>r. case r of Some v \<Rightarrow> v | None \<Rightarrow> None) results))"

fun batchLoop :: "'w Http \<Rightarrow> (string \<times> Json) list \<Rightarrow> string list \<Rightarrow> string option \<Rightarrow> 64 word \<Rightarrow> 'w
    \<Rightarrow> (string + Json option list) \<times> 64 word \<times> 'w" where
  "batchLoop h calls [] lastErr nextID w = (Inl (case lastErr of None \<Rightarrow> noEndpoints | Some e \<Rightarrow> e), nextID, w)"
| "batchLoop h calls (endpoint # urls) lastErr nextID w =
     (let requests = numbered nextID calls; ident = nextID + of_nat (length calls) in
      case http_UrlError h endpoint of
        Some e \<Rightarrow> (Inl e, ident, w)
      | None \<Rightarrow>
          (case http_Do h endpoint (JArr (map MarshalRequest requests)) (8 * 2 ^ 20) w of
             (reply, w1) \<Rightarrow>
               (case tryBatch requests reply of
                  Inr a \<Rightarrow> (Inr a, ident, w1)
                | Inl e \<Rightarrow> batchLoop h calls urls (Some e) ident w1)))"

definition batchRequest :: "'w Http \<Rightarrow> (string \<times> Json) list \<Rightarrow> RPCState \<Rightarrow> 'w
    \<Rightarrow> (string + Json option list) \<times> RPCState \<times> 'w" where
  "batchRequest h calls c w =
    (case batchLoop h calls (rs_urls c) None (rs_nextID c) w of
       (r, nextID, w1) \<Rightarrow> (r, c\<lparr>rs_nextID := nextID\<rparr>, w1))"

fun decodeResults :: "Json option list \<Rightarrow> string + nat list list" where
  "decodeResults [] = Inr []"
| "decodeResults (message # rest) =
     (case result_string message of None \<Rightarrow> Inl (''decode eth_call result: '' @ jsonError)
      | Some s \<Rightarrow>
          (case decodeHexResult s of Inl e \<Rightarrow> Inl e
           | Inr b \<Rightarrow> (case decodeResults rest of Inl e \<Rightarrow> Inl e | Inr bs \<Rightarrow> Inr (b # bs))))"

definition BatchCall :: "'w Http \<Rightarrow> (string \<times> string) list \<Rightarrow> string \<Rightarrow> RPCState \<Rightarrow> 'w
    \<Rightarrow> (string + nat list list) \<times> RPCState \<times> 'w" where
  "BatchCall h calls tag c w =
    (if calls = [] then (Inr [], c, w)
     else case batchRequest h (map (\<lambda>(to, data). (''eth_call'', callParams to data tag)) calls) c w of
       (Inl e, c1, w1) \<Rightarrow> (Inl e, c1, w1)
     | (Inr raw, c1, w1) \<Rightarrow> (decodeResults raw, c1, w1))"

definition zeroAddress :: string where
  "zeroAddress = ''0x'' @ replicate 40 (CHR ''0'')"

definition labelled :: "string \<Rightarrow> string + 'a \<Rightarrow> string + 'a" where
  "labelled label r = (case r of Inl e \<Rightarrow> Inl (label @ '': '' @ e) | Inr a \<Rightarrow> Inr a)"

definition InspectPair :: "'w Http \<Rightarrow> string \<Rightarrow> RPCState \<Rightarrow> 'w \<Rightarrow> (string + PairInfo) \<times> RPCState \<times> 'w" where
  "InspectPair h pairAddress0 c w =
    (let pairAddress = normalizeAddress pairAddress0 in
     case CallAt h pairAddress selectorToken0 ''latest'' c w of
       (Inl e, c, w) \<Rightarrow> (Inl (''read token0: '' @ e), c, w)
     | (Inr token0Raw, c, w) \<Rightarrow>
     (case CallAt h pairAddress selectorToken1 ''latest'' c w of
       (Inl e, c, w) \<Rightarrow> (Inl (''read token1: '' @ e), c, w)
     | (Inr token1Raw, c, w) \<Rightarrow>
     (case CallAt h pairAddress selectorFactory ''latest'' c w of
       (Inl e, c, w) \<Rightarrow> (Inl (''read factory: '' @ e), c, w)
     | (Inr factoryRaw, c, w) \<Rightarrow>
     (case labelled ''decode token0'' (wordAddress token0Raw) of Inl e \<Rightarrow> (Inl e, c, w) | Inr token0 \<Rightarrow>
     (case labelled ''decode token1'' (wordAddress token1Raw) of Inl e \<Rightarrow> (Inl e, c, w) | Inr token1 \<Rightarrow>
     (case labelled ''decode factory'' (wordAddress factoryRaw) of Inl e \<Rightarrow> (Inl e, c, w) | Inr factory \<Rightarrow>
       if token0 = token1 \<or> token0 = zeroAddress \<or> token1 = zeroAddress
       then (Inl ''pair returned invalid token addresses'', c, w)
       else (Inr \<lparr>pi_PairAddress = pairAddress, pi_Token0 = token0, pi_Token1 = token1, pi_Factory = factory\<rparr>, c, w)))))))"

text \<open>The client as the oracle uses it.\<close>

definition rpcClientOf :: "'w Http \<Rightarrow> (RPCState \<times> 'w) RPCClient" where
  "rpcClientOf h =
    \<lparr>rpc_LatestBlock = (\<lambda>(c, w). case LatestBlock h c w of (r, c1, w1) \<Rightarrow> (r, (c1, w1))),
     rpc_CallAt = (\<lambda>to data tag (c, w). case CallAt h to data tag c w of (r, c1, w1) \<Rightarrow> (r, (c1, w1))),
     rpc_BatchCall = (\<lambda>calls tag (c, w). case BatchCall h calls tag c w of (r, c1, w1) \<Rightarrow> (r, (c1, w1)))\<rparr>"

section \<open>Replies are matched to their requests\<close>

definition holes :: "'a option list \<Rightarrow> nat" where
  "holes xs = length (filter (\<lambda>x. x = None) xs)"

lemma holes_fill:
  "i < length xs \<Longrightarrow> xs ! i = None \<Longrightarrow> holes xs = Suc (holes (xs[i := Some v]))"
proof (induction xs arbitrary: i)
  case (Cons x xs)
  then show ?case by (cases i) (auto simp: holes_def)
qed simp

lemma holes_0: "holes xs = 0 \<longleftrightarrow> (\<forall>x \<in> set xs. x \<noteq> None)"
  by (auto simp: holes_def filter_empty_conv)

lemma assignItems_ok:
  assumes "assignItems index items rs = Inr out"
    and "\<And>d i. index d = Some i \<Longrightarrow> i < length rs"
  shows "length out = length rs \<and> holes rs = holes out + length items \<and>
    (\<forall>i < length rs. if rs ! i \<noteq> None then out ! i = rs ! i
       else \<forall>v. out ! i = Some v \<longrightarrow> (\<exists>item \<in> set items. index (rr_ID item) = Some i \<and> rr_Error item = None \<and> v = rr_Result item))"
  using assms
proof (induction items arbitrary: rs)
  case Nil
  then show ?case by auto
next
  case (Cons item items)
  from Cons.prems(1) obtain i where i: "index (rr_ID item) = Some i" "rr_Error item = None" "rs ! i = None"
    and rec: "assignItems index items (rs[i := Some (rr_Result item)]) = Inr out"
    by (auto split: option.splits if_splits)
  have il: "i < length rs" using Cons.prems(2) i(1) .
  have IH: "length out = length rs \<and> holes (rs[i := Some (rr_Result item)]) = holes out + length items \<and>
    (\<forall>k < length rs. if rs[i := Some (rr_Result item)] ! k \<noteq> None then out ! k = rs[i := Some (rr_Result item)] ! k
       else \<forall>v. out ! k = Some v \<longrightarrow> (\<exists>item \<in> set items. index (rr_ID item) = Some k \<and> rr_Error item = None \<and> v = rr_Result item))"
    using Cons.IH [OF rec] Cons.prems(2) by simp
  show ?case
  proof (intro conjI allI impI)
    show "length out = length rs" using IH by simp
    show "holes rs = holes out + length (item # items)" using IH holes_fill [OF il i(3), of "rr_Result item"] by simp
    fix k assume k: "k < length rs"
    show "if rs ! k \<noteq> None then out ! k = rs ! k
       else \<forall>v. out ! k = Some v \<longrightarrow> (\<exists>item \<in> set (item # items). index (rr_ID item) = Some k \<and> rr_Error item = None \<and> v = rr_Result item)"
    proof (cases "k = i")
      case True
      have "out ! k = Some (rr_Result item)" using IH il by (auto simp: True dest!: spec [of _ i])
      with True i show ?thesis by auto
    next
      case False
      then have n: "rs[i := Some (rr_Result item)] ! k = rs ! k" by simp
      from IH k have "if rs ! k \<noteq> None then out ! k = rs ! k
       else \<forall>v. out ! k = Some v \<longrightarrow> (\<exists>item \<in> set items. index (rr_ID item) = Some k \<and> rr_Error item = None \<and> v = rr_Result item)"
        unfolding n [symmetric] by blast
      then show ?thesis by (auto split: if_splits)
    qed
  qed
qed

lemma numbered_length [simp]: "length (numbered n calls) = length calls"
  by (simp add: numbered_def)

lemma numbered_ids: "i < length calls \<Longrightarrow> rq_ID (numbered n calls ! i) = n + 1 + of_nat i"
  by (simp add: numbered_def split: prod.split)

lemma indexOf_Some: "indexOf requests d = Some i \<Longrightarrow> i < length requests \<and> rq_ID (requests ! i) = d"
  by (auto simp: indexOf_def set_zip dest!: map_of_SomeD)

definition batch_answer :: "RpcRequest list \<Rightarrow> RpcResponse list \<Rightarrow> Json option list \<Rightarrow> bool" where
  "batch_answer requests decoded results \<longleftrightarrow>
     length decoded = length requests \<and> length results = length requests \<and>
     (\<forall>i < length requests. \<exists>item \<in> set decoded.
        rr_ID item = rq_ID (requests ! i) \<and> rr_Error item = None \<and> results ! i = rr_Result item)"

lemma tryBatch_ok:
  assumes "tryBatch requests reply = Inr results"
  shows "\<exists>status body decoded. reply = HttpBody status body \<and> UnmarshalResponses body = Inr decoded \<and>
    batch_answer requests decoded results"
proof -
  from assms obtain status body decoded out where
    r: "reply = HttpBody status body" "UnmarshalResponses body = Inr decoded" "length decoded = length requests"
    and a: "assignItems (indexOf requests) decoded (replicate (length requests) None) = Inr out"
    and res: "results = map (\<lambda>r. case r of Some v \<Rightarrow> v | None \<Rightarrow> None) out"
    by (auto simp: tryBatch_def split: HttpReply.splits if_splits sum.splits)
  have idx: "indexOf requests d = Some i \<Longrightarrow> i < length (replicate (length requests) (None :: Json option option))" for d i
    using indexOf_Some [of requests d i] by simp
  note ok = assignItems_ok [OF a idx]
  have "holes (replicate (length requests) (None :: Json option option)) = length requests"
    by (simp add: holes_def)
  with ok r(3) have h: "holes out = 0" and l: "length out = length requests" by simp_all
  have "\<exists>item \<in> set decoded. rr_ID item = rq_ID (requests ! i) \<and> rr_Error item = None \<and> results ! i = rr_Result item"
    if i: "i < length requests" for i
  proof -
    from h i l obtain v where v: "out ! i = Some v" by (metis holes_0 not_None_eq nth_mem)
    moreover from ok i have "\<forall>v. out ! i = Some v \<longrightarrow> (\<exists>item \<in> set decoded.
        indexOf requests (rr_ID item) = Some i \<and> rr_Error item = None \<and> v = rr_Result item)" by auto
    ultimately obtain item where "item \<in> set decoded" "indexOf requests (rr_ID item) = Some i" "rr_Error item = None" "v = rr_Result item"
      by blast
    moreover from this(2) have "rr_ID item = rq_ID (requests ! i)" by (simp add: indexOf_Some)
    ultimately show ?thesis using v i l by (auto simp: res)
  qed
  then show ?thesis using r l unfolding batch_answer_def by (auto simp: res)
qed

lemma batchLoop_ok:
  "batchLoop h calls urls e n w = (Inr results, n', w') \<Longrightarrow>
    \<exists>k w0 w1 endpoint status body decoded. endpoint \<in> set urls \<and>
      http_Do h endpoint (JArr (map MarshalRequest (numbered k calls))) (8 * 2 ^ 20) w0 = (HttpBody status body, w1) \<and>
      UnmarshalResponses body = Inr decoded \<and> batch_answer (numbered k calls) decoded results"
proof (induction h calls urls e n w rule: batchLoop.induct)
  case (2 h calls endpoint urls e n w)
  obtain reply w1 where r: "http_Do h endpoint (JArr (map MarshalRequest (numbered n calls))) (8 * 2 ^ 20) w = (reply, w1)"
    by fastforce
  show ?case
  proof (cases "tryBatch (numbered n calls) reply")
    case (Inr a)
    with 2(2) r have "a = results" by (auto simp: Let_def split: option.splits)
    with tryBatch_ok [OF Inr] r show ?thesis by (metis list.set_intros(1))
  next
    case (Inl err)
    with 2(2) r have u: "http_UrlError h endpoint = None" by (auto simp: Let_def split: option.splits)
    with Inl 2(2) r have rec: "batchLoop h calls urls (Some err) (n + of_nat (length calls)) w1 = (Inr results, n', w')"
      by (simp add: Let_def)
    from 2(1) [OF refl refl u r [symmetric] Inl rec] show ?thesis by (metis list.set_intros(2))
  qed
qed auto

lemma decodeResults_length: "decodeResults raw = Inr bs \<Longrightarrow> length bs = length raw"
  by (induction raw arbitrary: bs) (auto split: option.splits sum.splits)

lemma batchRequest_length:
  assumes "batchRequest h calls c w = (Inr raw, c', w')"
  shows "length raw = length calls"
proof -
  obtain r n w1 where b: "batchLoop h calls (rs_urls c) None (rs_nextID c) w = (r, n, w1)" by (metis prod_cases3)
  with assms have "r = Inr raw" by (simp add: batchRequest_def)
  with batchLoop_ok b show ?thesis by (fastforce simp: batch_answer_def)
qed

lemma BatchCall_length:
  assumes "BatchCall h calls tag c w = (Inr replies, c', w')"
  shows "length replies = length calls"
proof (cases "calls = []")
  case True
  with assms show ?thesis by (simp add: BatchCall_def)
next
  case False
  obtain r c1 w1 where b: "batchRequest h (map (\<lambda>(to, data). (''eth_call'', callParams to data tag)) calls) c w = (r, c1, w1)"
    by (metis prod_cases3)
  with assms False obtain raw where raw: "r = Inr raw" "decodeResults raw = Inr replies"
    by (cases r) (auto simp: BatchCall_def)
  from batchRequest_length [OF b [unfolded raw(1)]] decodeResults_length [OF raw(2)] show ?thesis by simp
qed

interpretation client: rpc_client "rpcClientOf h" for h
  by unfold_locales (auto simp: rpcClientOf_def dest: BatchCall_length split: prod.splits)

section \<open>Hexadecimal numbers\<close>

lemma hex_val_digit: "d < 16 \<Longrightarrow> hex_val (hex_digit d) = Some d"
  by (auto simp: hex_val_def hex_digit_def Let_def)

lemma parseUint16_append:
  "parseUint16 n (xs @ ys) = (case parseUint16 n xs of Inl e \<Rightarrow> Inl e | Inr m \<Rightarrow> parseUint16 m ys)"
  by (induction xs arbitrary: n) (auto split: option.splits)

lemma formatUint16_nonempty: "formatUint16 n \<noteq> []"
  by (subst formatUint16.simps) simp

lemma parse_format16: "n < 2 ^ 64 \<Longrightarrow> parseUint16 0 (formatUint16 n) = Inr n"
proof (induction n rule: formatUint16.induct)
  case (1 n)
  show ?case
  proof (cases "n < 16")
    case True
    then show ?thesis using 1(2) by (simp add: formatUint16.simps [of n] hex_val_digit)
  next
    case False
    then have "parseUint16 0 (formatUint16 (n div 16)) = Inr (n div 16)" using 1 by simp
    moreover have "16 * (n div 16) + n mod 16 = n" by simp
    ultimately show ?thesis using False 1(2)
      by (simp add: formatUint16.simps [of n] parseUint16_append hex_val_digit)
  qed
qed

lemma parse_tag: "parseHexUint64 (''0x'' @ formatUint16 (unat n)) = Inr n"
proof -
  have "unat n < 2 ^ 64" using unsigned_less [of n, where ?'a = nat] by simp
  then show ?thesis
    by (simp add: parseHexUint64_def TrimPrefix_def HasPrefix_def formatUint16_nonempty parse_format16)
qed


section \<open>The cached block\<close>

text \<open>A block is named by its tag.\<close>

definition block_ok :: "Block \<Rightarrow> bool" where
  "block_ok b \<longleftrightarrow> parseHexUint64 (bk_Tag b) = Inr (bk_Number b)"

definition cache_ok :: "RPCState \<Rightarrow> bool" where
  "cache_ok c \<longleftrightarrow> (\<not> IsZeroTime (rs_blockFetchedAt c) \<longrightarrow> block_ok (rs_latestBlock c))"

lemma request_frame:
  assumes "request h m p out c w = (r, c', w')"
  shows "rs_urls c' = rs_urls c" "rs_latestBlock c' = rs_latestBlock c" "rs_blockFetchedAt c' = rs_blockFetchedAt c"
proof -
  obtain q n w1 where "requestLoop h m p out (rs_urls c) None (rs_nextID c) w = (q, n, w1)" by (metis prod_cases3)
  with assms have c': "c' = c\<lparr>rs_nextID := n\<rparr>" by (simp add: request_def)
  show "rs_urls c' = rs_urls c" "rs_latestBlock c' = rs_latestBlock c" "rs_blockFetchedAt c' = rs_blockFetchedAt c"
    by (simp_all add: c')
qed

lemma LatestBlock_ok:
  assumes "LatestBlock h c w = (r, c', w')" and "cache_ok c"
  shows "cache_ok c' \<and> (\<forall>b. r = Inr b \<longrightarrow> block_ok b)"
proof (cases "\<not> IsZeroTime (rs_blockFetchedAt c) \<and> time_sub (http_Now h w) (rs_blockFetchedAt c) < 500 * millisecond")
  case True
  with assms show ?thesis by (auto simp: LatestBlock_def cache_ok_def)
next
  case False
  obtain q c1 w1 where q: "request h ''eth_getBlockByNumber'' (JArr [JStr ''latest'', JBool False]) result_block c w = (q, c1, w1)"
    by (metis prod_cases3)
  have c1: "cache_ok c1" using request_frame [OF q] assms(2) by (simp add: cache_ok_def)
  note d = assms(1) [unfolded LatestBlock_def if_not_P [OF False] q prod.case]
  show ?thesis
  proof (cases q)
    case (Inl e) with d c1 show ?thesis by auto
  next
    case (Inr nt)
    with d c1 show ?thesis
      by (cases nt) (auto simp: Let_def cache_ok_def block_ok_def parse_tag [simplified] split: sum.splits)
  qed
qed

text \<open>C40: Every block the client returns carries a tag that denotes its own number, freshly read or
  cached, and the cache keeps that invariant, so that a price reads the state of the pair at the very block
  whose timestamp it uses; within half a second of a successful read the client answers from its cache
  without a request.\<close>

theorem block_tag_denotes_number:
  assumes "LatestBlock h c w = (Inr b, c', w')" and "cache_ok c"
  shows "parseHexUint64 (bk_Tag b) = Inr (bk_Number b) \<and> cache_ok c' \<and>
    (\<forall>v. \<not> IsZeroTime (rs_blockFetchedAt c') \<and> rs_latestBlock c' = b \<and>
       time_sub (http_Now h v) (rs_blockFetchedAt c') < 500 * millisecond \<longrightarrow> LatestBlock h c' v = (Inr b, c', v))"
  using LatestBlock_ok [OF assms] by (auto simp: block_ok_def LatestBlock_def)

text \<open>C32: A batch is answered by one endpoint, in the order of the calls: the reply at each position is the
  result of a response that carries the id of the request at that position and no error, whatever the order
  in which the endpoint sent its responses.\<close>

theorem batch_in_call_order:
  assumes "batchRequest h calls c w = (Inr raw, c', w')"
  shows "\<exists>endpoint \<in> set (rs_urls c). \<exists>k w0 w1 status body decoded.
    http_Do h endpoint (JArr (map MarshalRequest (numbered k calls))) (8 * 2 ^ 20) w0 = (HttpBody status body, w1) \<and>
    UnmarshalResponses body = Inr decoded \<and> length decoded = length calls \<and> length raw = length calls \<and>
    (\<forall>i < length calls. \<exists>item \<in> set decoded.
       rr_ID item = k + 1 + of_nat i \<and> rr_Error item = None \<and> raw ! i = rr_Result item)"
proof -
  obtain r n w2 where b: "batchLoop h calls (rs_urls c) None (rs_nextID c) w = (r, n, w2)" by (metis prod_cases3)
  with assms have "r = Inr raw" by (simp add: batchRequest_def)
  from batchLoop_ok [OF b [unfolded this]] obtain k w0 w1 endpoint status body decoded where
    "endpoint \<in> set (rs_urls c)"
    "http_Do h endpoint (JArr (map MarshalRequest (numbered k calls))) (8 * 2 ^ 20) w0 = (HttpBody status body, w1)"
    "UnmarshalResponses body = Inr decoded" and a: "batch_answer (numbered k calls) decoded raw" by blast
  moreover have "\<forall>i < length calls. \<exists>item \<in> set decoded.
       rr_ID item = k + 1 + of_nat i \<and> rr_Error item = None \<and> raw ! i = rr_Result item"
    using a numbered_ids [of _ calls k] by (simp add: batch_answer_def)
  moreover have "length decoded = length calls" "length raw = length calls"
    using a by (simp_all add: batch_answer_def)
  ultimately show ?thesis by blast
qed

lemma requestLoop_failover:
  assumes "\<forall>u \<in> set urls. http_UrlError h u = None" and "good \<in> set urls"
    and "\<And>q lim v. \<exists>a. tryReply out (fst (http_Do h good (MarshalRequest q) lim v)) = Inr a"
  shows "\<exists>a n' w'. requestLoop h m params out urls e n w = (Inr a, n', w')"
  using assms(1,2)
proof (induction urls arbitrary: e n w)
  case (Cons u urls)
  let ?p = "MarshalRequest \<lparr>rq_ID = n + 1, rq_Method = m, rq_Params = params\<rparr>"
  obtain reply w1 where r: "http_Do h u ?p (2 * 2 ^ 20) w = (reply, w1)" by fastforce
  show ?case
  proof (cases "tryReply out reply")
    case (Inr a)
    with r Cons.prems(1) show ?thesis by (simp add: Let_def)
  next
    case (Inl err)
    then have "u \<noteq> good" using assms(3) [of "\<lparr>rq_ID = n + 1, rq_Method = m, rq_Params = params\<rparr>" "2 * 2 ^ 20" w] r by auto
    with Cons have "\<exists>a n' w'. requestLoop h m params out urls (Some err) (n + 1) w1 = (Inr a, n', w')" by auto
    with Inl r Cons.prems(1) show ?thesis by (simp add: Let_def)
  qed
qed simp

text \<open>A request succeeds whenever one of the configured endpoints answers, wherever it stands in the
  list: the failures of the endpoints before it are skipped.\<close>

theorem request_failover:
  assumes "\<forall>u \<in> set (rs_urls c). http_UrlError h u = None" and "good \<in> set (rs_urls c)"
    and "\<forall>q lim v. \<exists>a. tryReply out (fst (http_Do h good (MarshalRequest q) lim v)) = Inr a"
  shows "\<exists>a c' w'. request h m params out c w = (Inr a, c', w')"
  using requestLoop_failover [of "rs_urls c" h good out m params None "rs_nextID c" w] assms
  by (auto simp: request_def)

text \<open>C14: Over the JSON-RPC client, a price request never panics, keeps the oracle's memory well formed, and a
  price it returns is positive and unexpired, from a block at most 15 seconds in the future and no older than the
  configured limit; it is the average, within the configured deviation of the spot price, or, only where the
  configuration allows it during warm-up, the spot price itself.\<close>

theorem oracle_price_safe:
  assumes "OraclePrice (rpcClientOf h) ins now s cw = (r, s', cw')" and "snapshots_ok s"
  shows "snapshots_ok s' \<and> r \<noteq> Inl Panic \<and> (\<forall>p. r = Inr p \<longrightarrow> price_promise (in_Reference ins) now p)"
  using assms by (rule client.OraclePrice_safe)


section \<open>Witnesses\<close>

text \<open>A transport whose first endpoint is down and whose second answers every single request with a block
  and every batch with its responses in reverse order.\<close>

fun sample_response :: "Json \<Rightarrow> Json" where
  "sample_response (JObj fs) = JObj [(''id'', the (map_of fs ''id'')),
     (''result'', JObj [(''number'', JStr ''0x2a''), (''timestamp'', JStr ''0x10'')])]"
| "sample_response j = JNull"

definition sample_http :: "time Http" where
  "sample_http = \<lparr>http_UrlError = (\<lambda>_. None),
     http_Do = (\<lambda>endpoint payload lim w. if endpoint = ''a'' then (DoError ''refused'', w)
       else (HttpBody 200 (Doc (case payload of JArr js \<Rightarrow> JArr (rev (map sample_response js)) | j \<Rightarrow> sample_response j)), w)),
     http_Now = (\<lambda>w. w)\<rparr>"

definition sample_client :: RPCState where "sample_client = NewRPCClient [''a'', ''b'']"

lemma sample_cache: "cache_ok sample_client"
  by (simp add: cache_ok_def sample_client_def NewRPCClient_def IsZeroTime_def)

lemmas sample_rpc = sample_http_def sample_client_def NewRPCClient_def request_def tryReply_def MarshalRequest_def
  UnmarshalResponse_def as_uint64_def field_def result_block_def go_quo_def

lemma sample_tag: "formatUint16 42 = ''2a''"
  by code_simp

lemma sample_latest:
  "\<exists>c'. LatestBlock sample_http sample_client 7 = (Inr \<lparr>bk_Number = 42, bk_Timestamp = 16, bk_Tag = ''0x2a''\<rparr>, c', 7)"
  by (simp add: sample_rpc LatestBlock_def IsZeroTime_def Let_def parseHexUint64_def TrimPrefix_def HasPrefix_def
      hex_val_def sample_tag)

theorem block_tag_denotes_number_witness:
  "\<exists>b c' w'. LatestBlock sample_http sample_client 7 = (Inr b, c', w') \<and> bk_Number b = 42 \<and>
     parseHexUint64 (bk_Tag b) = Inr 42"
proof -
  obtain c' where l: "LatestBlock sample_http sample_client 7 = (Inr \<lparr>bk_Number = 42, bk_Timestamp = 16, bk_Tag = ''0x2a''\<rparr>, c', 7)"
    using sample_latest by blast
  from block_tag_denotes_number [OF l sample_cache] l show ?thesis by simp
qed

lemma sample_uint64: "as_uint64 (JInt (uint d)) = Some d"
  using unsigned_less [of d, where ?'a = int] by (simp add: as_uint64_def)

theorem request_failover_witness:
  "\<exists>a c' w'. request sample_http ''eth_getBlockByNumber'' JNull Some sample_client 7 = (Inr a, c', w')"
proof -
  have "\<exists>a. tryReply Some (fst (http_Do sample_http ''b'' (MarshalRequest q) lim v)) = Inr a" for q lim v
    using sample_uint64 [of "rq_ID q"]
    by (simp add: sample_http_def tryReply_def MarshalRequest_def UnmarshalResponse_def field_def go_quo_def)
  moreover have "\<forall>u \<in> set (rs_urls sample_client). http_UrlError sample_http u = None" by (simp add: sample_http_def)
  moreover have "''b'' \<in> set (rs_urls sample_client)" by (simp add: sample_client_def NewRPCClient_def)
  ultimately show ?thesis by (intro request_failover) blast+
qed

theorem batch_in_call_order_witness:
  "\<exists>raw c' w'. batchRequest sample_http [(''m'', JNull), (''n'', JNull)] sample_client 7 = (Inr raw, c', w') \<and> length raw = 2"
proof -
  obtain raw c' where b: "batchRequest sample_http [(''m'', JNull), (''n'', JNull)] sample_client 7 = (Inr raw, c', 7)"
    by (simp add: sample_rpc batchRequest_def numbered_def tryBatch_def UnmarshalResponses_def indexOf_def Let_def)
  from batch_in_call_order [OF b] have "length raw = 2" by auto
  with b show ?thesis by blast
qed

theorem oracle_price_safe_witness:
  "\<exists>r s' cw'. OraclePrice (rpcClientOf sample_http) sample_instrument (17 * second) NewOracle (sample_client, 7) = (r, s', cw') \<and>
     (\<exists>p. r = Inr p \<and> price_promise (in_Reference sample_instrument) (17 * second) p)"
proof -
  obtain b c' where l: "LatestBlock sample_http sample_client 7 = (Inr b, c', 7)" and b: "b = \<lparr>bk_Number = 42, bk_Timestamp = 16, bk_Tag = ''0x2a''\<rparr>"
    using sample_latest by blast
  obtain p where p: "OraclePrice (rpcClientOf sample_http) sample_instrument (17 * second) NewOracle (sample_client, 7) = (Inr p, NewOracle, (c', 7))"
    by (simp add: OraclePrice_def rpcClientOf_def l b sample_instrument_def priceOf_def Div_def priceFresh_def int64_def second_def time_sub_def)
  from oracle_price_safe [OF p snapshots_ok_New] p show ?thesis by blast
qed

end
