(* ===== verification/Venue.thy ===== *)
theory Venue
  imports DomainTypes
begin

text \<open>
  \<^verbatim>\<open>internal/venue\<close>: the interface of exchange adapters (\<^verbatim>\<open>venue.go\<close>), the placement dispatcher
  (\<^verbatim>\<open>batch.go\<close>), the adapter catalogue (\<^verbatim>\<open>spec.go\<close>). An adapter is a record of functions over the
  state \<open>'w\<close> of the world outside the process; an optional Go interface it may implement is an
  optional field. A world also carries the instant of the current operation and, for the
  statements about what is sent to an exchange, the log of the mutating calls and of the write
  guard's verdicts, in the order they happen, the states the world was in when the guard was asked
  (\<open>w_asked\<close>, one per verdict) and, for each step of the order manager that sent something, the
  client it was for and its part of both (\<open>w_steps\<close>); no operation reads these three. \<open>w_guardErr\<close> is the variable \<^verbatim>\<open>guardErr\<close>
  that the order manager's closure captures. An error is its text.
\<close>

section \<open>Definitions\<close>

definition ClientKey :: "string \<Rightarrow> string \<Rightarrow> string" where
  "ClientKey venueName instrumentID = ToLower (TrimSpace venueName) @ ''|'' @ ToLower (TrimSpace instrumentID)"

record PlaceRequest =
  pr_Symbol :: string
  pr_Side :: Side
  pr_Price :: Decimal
  pr_Quantity :: Decimal
  pr_ClientID :: string
  pr_FenceGeneration :: "64 word"

record Capabilities =
  cap_ClientOrderIDs :: bool
  cap_NativeBatchPlace :: bool
  cap_NativeBatchCancel :: bool
  cap_OrderLookup :: bool
  cap_RecentFills :: bool
  cap_MarketRules :: bool

datatype Call = CGuard bool | CPlace PlaceRequest | CPlaceBatch "PlaceRequest list"
  | CCancel string string | CCancelBatch string "string list"

record 'w Client =
  cl_Name :: string
  cl_TopBook :: "string \<Rightarrow> 'w \<Rightarrow> (string + Book) \<times> 'w"
  cl_Balances :: "'w \<Rightarrow> (string + Balance list) \<times> 'w"
  cl_OpenOrders :: "string \<Rightarrow> 'w \<Rightarrow> (string + Order list) \<times> 'w"
  cl_PlacePostOnly :: "PlaceRequest \<Rightarrow> 'w \<Rightarrow> (string + Order) \<times> 'w"
  cl_CancelOrder :: "string \<Rightarrow> string \<Rightarrow> 'w \<Rightarrow> string option \<times> 'w"
  cl_Capabilities :: "Capabilities option"
  cl_BatchPlacer :: "(PlaceRequest list \<Rightarrow> 'w \<Rightarrow> (Order list \<times> string option) \<times> 'w) option"
  cl_BatchCanceler :: "(string \<Rightarrow> string list \<Rightarrow> 'w \<Rightarrow> string option \<times> 'w) option"
  cl_OrderReader :: "(string \<Rightarrow> string \<Rightarrow> 'w \<Rightarrow> (string + Order) \<times> 'w) option"
  cl_FillReader :: "(string \<Rightarrow> int \<Rightarrow> 'w \<Rightarrow> (string + Fill list) \<times> 'w) option"
  cl_RuleReader :: "(string \<Rightarrow> 'w \<Rightarrow> (string + MarketRules) \<times> 'w) option"
  cl_StateIdentity :: "string option"

record 'w World =
  w_ext :: 'w
  w_log :: "Call list"
  w_now :: time
  w_guardErr :: "string option"
  w_asked :: "'w list"
  w_steps :: "('w Client \<times> Call list \<times> 'w list) list"

definition CapabilitiesOf :: "'w Client \<Rightarrow> Capabilities" where
  "CapabilitiesOf client =
    (let base = (case cl_Capabilities client of
                   Some c \<Rightarrow> c
                 | None \<Rightarrow> \<lparr>cap_ClientOrderIDs = True, cap_NativeBatchPlace = False, cap_NativeBatchCancel = False,
                     cap_OrderLookup = False, cap_RecentFills = False, cap_MarketRules = False\<rparr>)
     in base\<lparr>cap_NativeBatchPlace := cl_BatchPlacer client \<noteq> None,
             cap_NativeBatchCancel := cl_BatchCanceler client \<noteq> None,
             cap_OrderLookup := cl_OrderReader client \<noteq> None,
             cap_RecentFills := cl_FillReader client \<noteq> None,
             cap_MarketRules := cl_RuleReader client \<noteq> None\<rparr>)"

definition ManagesAllOrders :: "'w Client \<Rightarrow> bool" where
  "ManagesAllOrders client \<longleftrightarrow> \<not> cap_ClientOrderIDs (CapabilitiesOf client)"

text \<open>A call into the world: the reply and the world after it; a mutating call is logged.\<close>

definition call_ext :: "('w \<Rightarrow> 'a \<times> 'w) \<Rightarrow> 'w World \<Rightarrow> 'a \<times> 'w World" where
  "call_ext f W = (let (a, e) = f (w_ext W) in (a, W\<lparr>w_ext := e\<rparr>))"

definition mutate :: "Call \<Rightarrow> ('w \<Rightarrow> 'a \<times> 'w) \<Rightarrow> 'w World \<Rightarrow> 'a \<times> 'w World" where
  "mutate c f W = call_ext f (W\<lparr>w_log := w_log W @ [c]\<rparr>)"

text \<open>The check before a mutation, \<^verbatim>\<open>BeforePlace\<close>: no check, or one that returns an error.\<close>

type_synonym 'w Before = "('w World \<Rightarrow> string option \<times> 'w World) option"

definition run_before :: "'w Before \<Rightarrow> 'w World \<Rightarrow> string option \<times> 'w World" where
  "run_before before W = (case before of None \<Rightarrow> (None, W) | Some b \<Rightarrow> b W)"

text \<open>The fallback loop over the requests from \<open>index\<close>; \<open>orders\<close> has one slot per request.\<close>

fun placeLoop :: "'w Client \<Rightarrow> 'w Before \<Rightarrow> nat \<Rightarrow> PlaceRequest list \<Rightarrow> Order list \<Rightarrow> 'w World
    \<Rightarrow> (Order list \<times> string option) \<times> 'w World" where
  "placeLoop client before index [] orders W = ((orders, None), W)"
| "placeLoop client before index (request # requests) orders W =
     (case run_before before W of
        (Some e, W1) \<Rightarrow> ((orders, Some e), W1)
      | (None, W1) \<Rightarrow>
          (case mutate (CPlace request) (cl_PlacePostOnly client request) W1 of
             (Inl e, W2) \<Rightarrow> ((orders, Some e), W2)
           | (Inr order, W2) \<Rightarrow> placeLoop client before (index + 1) requests (orders[index := order]) W2))"

definition PlacePostOnlyBatch :: "'w Client \<Rightarrow> PlaceRequest list \<Rightarrow> 'w Before \<Rightarrow> 'w World
    \<Rightarrow> (Order list \<times> string option) \<times> 'w World" where
  "PlacePostOnlyBatch client requests before W =
    (let orders = replicate (length requests) zero_order in
     if requests = [] then ((orders, None), W)
     else case cl_BatchPlacer client of
       Some batch \<Rightarrow>
         (case run_before before W of
            (Some e, W1) \<Rightarrow> ((orders, Some e), W1)
          | (None, W1) \<Rightarrow>
              (case mutate (CPlaceBatch requests) (batch requests) W1 of
                 ((result, err), W2) \<Rightarrow>
                   if length result \<noteq> length requests
                   then (let lengthErr = ''native batch returned '' @ itoa (int (length result)) @ '' results for ''
                               @ itoa (int (length requests)) @ '' requests''
                         in ((result, Some (case err of None \<Rightarrow> lengthErr
                                            | Some e \<Rightarrow> lengthErr @ [CHR 0x0A] @ e)), W2))
                   else ((result, err), W2)))
     | None \<Rightarrow> placeLoop client before 0 requests orders W)"

text \<open>\<^verbatim>\<open>spec.go\<close>.\<close>

record AdapterSpec =
  asp_Type :: string
  asp_Name :: string
  asp_ProductionBaseURL :: string
  asp_TestnetBaseURL :: string
  asp_DefaultSelfTradePrevention :: string
  asp_RequiresSelfTradePrevention :: bool
  asp_RequiresDedicatedAccount :: bool

definition adapterSpecs :: "AdapterSpec list" where
  "adapterSpecs =
    [\<lparr>asp_Type = ''binance'', asp_Name = ''Binance'', asp_ProductionBaseURL = ''https://api.binance.com'',
      asp_TestnetBaseURL = ''https://testnet.binance.vision'', asp_DefaultSelfTradePrevention = ''EXPIRE_BOTH'',
      asp_RequiresSelfTradePrevention = True, asp_RequiresDedicatedAccount = False\<rparr>,
     \<lparr>asp_Type = ''mgbx'', asp_Name = ''MGBX'', asp_ProductionBaseURL = ''https://open.mgbx.com'',
      asp_TestnetBaseURL = [], asp_DefaultSelfTradePrevention = [],
      asp_RequiresSelfTradePrevention = False, asp_RequiresDedicatedAccount = True\<rparr>]"

definition AdapterSpecFor :: "string \<Rightarrow> AdapterSpec option" where
  "AdapterSpecFor typeName = find (\<lambda>spec. asp_Type spec = ToLower (TrimSpace typeName)) adapterSpecs"

text \<open>The registry of adapter factories. A factory has a type name and a constructor, which may be
  missing, may fail, and may return no client.\<close>

record ClientOptions =
  co_Name :: string
  co_StateIdentity :: string
  co_BaseURL :: string
  co_APIKey :: string
  co_APISecret :: string
  co_SelfTradePrevention :: string
  co_Timeout :: duration

record 'w FactoryFunc =
  ff_VenueType :: string
  ff_New :: "(ClientOptions \<Rightarrow> string + 'w Client option) option"

type_synonym 'w Registry = "string \<Rightarrow> 'w FactoryFunc option"

definition FactoryType :: "'w FactoryFunc \<Rightarrow> string" where
  "FactoryType f = ToLower (TrimSpace (ff_VenueType f))"

definition FactoryBuild :: "'w FactoryFunc \<Rightarrow> ClientOptions \<Rightarrow> string + 'w Client option" where
  "FactoryBuild f options =
    (case ff_New f of
       None \<Rightarrow> Inl (''venue factory '' @ quoted (FactoryType f) @ '' has no constructor'')
     | Some new \<Rightarrow> new options)"

definition Register :: "'w FactoryFunc option \<Rightarrow> 'w Registry \<Rightarrow> string + 'w Registry" where
  "Register factory r =
    (case factory of
       None \<Rightarrow> Inl ''venue factory is nil''
     | Some f \<Rightarrow>
         let typeName = ToLower (TrimSpace (FactoryType f)) in
         if typeName = [] then Inl ''venue factory type is required''
         else if r typeName \<noteq> None then Inl (''venue factory '' @ quoted typeName @ '' is already registered'')
         else Inr (r(typeName \<mapsto> f)))"

fun registerAll :: "'w FactoryFunc option list \<Rightarrow> 'w Registry \<Rightarrow> string + 'w Registry" where
  "registerAll [] r = Inr r"
| "registerAll (f # fs) r = (case Register f r of Inl e \<Rightarrow> Inl e | Inr r' \<Rightarrow> registerAll fs r')"

definition NewRegistry :: "'w FactoryFunc option list \<Rightarrow> string + 'w Registry" where
  "NewRegistry factories = registerAll factories (\<lambda>_. None)"

definition RegistryBuild :: "'w Registry \<Rightarrow> string \<Rightarrow> ClientOptions \<Rightarrow> string + 'w Client" where
  "RegistryBuild r typeName options =
    (let normalized = ToLower (TrimSpace typeName) in
     case r normalized of
       None \<Rightarrow> Inl (''unsupported venue type '' @ quoted typeName)
     | Some f \<Rightarrow>
         (case FactoryBuild f options of
            Inl e \<Rightarrow> Inl (''build venue '' @ normalized @ '': '' @ e)
          | Inr None \<Rightarrow> Inl (''venue factory '' @ quoted normalized @ '' returned a nil client'')
          | Inr (Some client) \<Rightarrow> Inr client))"

end
