(* ===== verification/OMS.thy ===== *)
theory OMS
  imports Venue Json Sha256 Samples "HOL-Library.AList"
begin

text \<open>
  \<^verbatim>\<open>internal/oms/reconciler.go\<close>: the order manager. Once per cycle it compares the target quotes of a
  market with the orders open on the exchange and either places missing orders or cancels stale
  ones, never both; it tracks orders whose creation or cancellation is not yet visible, blocks a
  market whose state is uncertain, and persists all of it in a \<^verbatim>\<open>StateStore\<close>. Every exchange mutation
  passes the write guard first. A Go map whose iteration order is arbitrary is an association
  list in one such order, a set of identifiers a list; all readings of the clock in one operation
  return the instant of the world; \<^verbatim>\<open>sort.Slice\<close> is a stable sort.
\<close>

section \<open>State\<close>

definition managedPrefix :: string where "managedPrefix = ''fm-''"
definition maxOrderMutationsPerCycle :: int where "maxOrderMutationsPerCycle = 20"
definition maxBatchCancelSize :: nat where "maxBatchCancelSize = 20"
definition pendingCreateLookupDelay :: duration where "pendingCreateLookupDelay = 2 * second"
definition pendingCreateMaxAge :: duration where "pendingCreateMaxAge = 30 * second"
definition pendingCancelRetryDelay :: duration where "pendingCancelRetryDelay = 5 * second"
definition maxCancelAttempts :: int where "maxCancelAttempts = 3"

record Result =
  rs_Kept :: nat
  rs_Canceled :: nat
  rs_Placed :: nat
  rs_Pending :: nat

definition zero_result :: Result where
  "zero_result = \<lparr>rs_Kept = 0, rs_Canceled = 0, rs_Placed = 0, rs_Pending = 0\<rparr>"

record RefreshPolicy =
  rf_MinOrderAge :: duration
  rf_MaxOrderAge :: duration
  rf_MaxRefreshesPerCycle :: int

record PendingCreate =
  pc_OrderID :: string
  pc_Quote :: Quote
  pc_SubmittedAt :: time
  pc_LastChecked :: time

record PendingCancelBatch =
  pb_OrderIDs :: "string list"
  pb_SubmittedAt :: time
  pb_Attempts :: int

record PersistedState =
  ps_Blocked :: string
  ps_PendingCancels :: "PendingCancelBatch option"
  ps_PendingCreates :: "(string \<times> PendingCreate) list"

record Reconciler =
  rc_blocked :: "string \<Rightarrow> string option"
  rc_pendingCancels :: "string \<Rightarrow> PendingCancelBatch option"
  rc_pendingCreates :: "string \<Rightarrow> (string \<times> PendingCreate) list"
  rc_loaded :: "string \<Rightarrow> bool"

definition NewReconciler :: Reconciler where
  "NewReconciler = \<lparr>rc_blocked = (\<lambda>_. None), rc_pendingCancels = (\<lambda>_. None), rc_pendingCreates = (\<lambda>_. []),
     rc_loaded = (\<lambda>_. False)\<rparr>"

type_synonym 'w WriteGuard = "('w \<Rightarrow> string option \<times> 'w) option"


section \<open>The persisted document\<close>

text \<open>The value of a decimal's text: 18 digits after the point, rounded half away from zero.\<close>

definition round18 :: "Decimal \<Rightarrow> Decimal" where
  "round18 d = (if d < 0 then - of_int \<lfloor>- d * 10 ^ 18 + 1 / 2\<rfloor> else of_int \<lfloor>d * 10 ^ 18 + 1 / 2\<rfloor>) / 10 ^ 18"

definition side_of :: "string \<Rightarrow> Side" where
  "side_of s = (if s = ''BUY'' then Buy else if s = ''SELL'' then Sell else OtherSide s)"

definition MarshalQuote :: "Quote \<Rightarrow> Json option" where
  "MarshalQuote q =
    (if json_time_ok (q_ValidUntil q)
     then Some (JObj [(''instrument_id'', JStr (q_InstrumentID q)), (''venue'', JStr (q_Venue q)),
       (''symbol'', JStr (q_Symbol q)), (''side'', JStr (side_text (q_Side q))), (''level'', JInt (q_Level q)),
       (''price'', JDec (round18 (q_Price q))), (''quantity'', JDec (round18 (q_Quantity q))),
       (''reference'', JDec (round18 (q_Reference q))), (''valid_until'', JTime (q_ValidUntil q))])
     else None)"

definition zero_quote :: Quote where
  "zero_quote = \<lparr>q_InstrumentID = [], q_Venue = [], q_Symbol = [], q_Side = OtherSide [], q_Level = 0,
     q_Price = 0, q_Quantity = 0, q_Reference = 0, q_ValidUntil = zero_time\<rparr>"

definition UnmarshalQuote :: "Json \<Rightarrow> Quote option" where
  "UnmarshalQuote j =
    Option.bind (as_obj j) (\<lambda>fs.
    Option.bind (field fs ''instrument_id'' as_str []) (\<lambda>ins.
    Option.bind (field fs ''venue'' as_str []) (\<lambda>venue.
    Option.bind (field fs ''symbol'' as_str []) (\<lambda>symbol.
    Option.bind (field fs ''side'' as_str []) (\<lambda>side.
    Option.bind (field fs ''level'' as_int 0) (\<lambda>level.
    Option.bind (field fs ''price'' as_dec 0) (\<lambda>price.
    Option.bind (field fs ''quantity'' as_dec 0) (\<lambda>quantity.
    Option.bind (field fs ''reference'' as_dec 0) (\<lambda>ref.
    Option.bind (field fs ''valid_until'' as_time zero_time) (\<lambda>valid.
      Some \<lparr>q_InstrumentID = ins, q_Venue = venue, q_Symbol = symbol, q_Side = side_of side, q_Level = level,
            q_Price = price, q_Quantity = quantity, q_Reference = ref, q_ValidUntil = valid\<rparr>))))))))))"

definition MarshalCreate :: "PendingCreate \<Rightarrow> Json option" where
  "MarshalCreate c =
    Option.bind (MarshalQuote (pc_Quote c)) (\<lambda>quote.
      if json_time_ok (pc_SubmittedAt c) \<and> json_time_ok (pc_LastChecked c)
      then Some (JObj [(''OrderID'', JStr (pc_OrderID c)), (''Quote'', quote),
        (''SubmittedAt'', JTime (pc_SubmittedAt c)), (''LastChecked'', JTime (pc_LastChecked c))])
      else None)"

definition UnmarshalCreate :: "Json \<Rightarrow> PendingCreate option" where
  "UnmarshalCreate j =
    Option.bind (as_obj j) (\<lambda>fs.
    Option.bind (field fs ''OrderID'' as_str []) (\<lambda>order.
    Option.bind (field fs ''Quote'' UnmarshalQuote zero_quote) (\<lambda>quote.
    Option.bind (field fs ''SubmittedAt'' as_time zero_time) (\<lambda>submitted.
    Option.bind (field fs ''LastChecked'' as_time zero_time) (\<lambda>checked.
      Some \<lparr>pc_OrderID = order, pc_Quote = quote, pc_SubmittedAt = submitted, pc_LastChecked = checked\<rparr>)))))"

text \<open>Every element of a list must convert.\<close>

fun map_all :: "('a \<Rightarrow> 'b option) \<Rightarrow> 'a list \<Rightarrow> 'b list option" where
  "map_all f [] = Some []"
| "map_all f (x # xs) = Option.bind (f x) (\<lambda>y. Option.bind (map_all f xs) (\<lambda>ys. Some (y # ys)))"

definition MarshalBatch :: "PendingCancelBatch \<Rightarrow> Json option" where
  "MarshalBatch b =
    (if json_time_ok (pb_SubmittedAt b)
     then Some (JObj [(''OrderIDs'', JObj (map (\<lambda>i. (i, JObj [])) (pb_OrderIDs b))),
       (''SubmittedAt'', JTime (pb_SubmittedAt b)), (''Attempts'', JInt (pb_Attempts b))])
     else None)"

definition UnmarshalBatch :: "Json \<Rightarrow> PendingCancelBatch option" where
  "UnmarshalBatch j =
    Option.bind (as_obj j) (\<lambda>fs.
    Option.bind (field fs ''OrderIDs'' as_obj []) (\<lambda>ids.
    Option.bind (field fs ''SubmittedAt'' as_time zero_time) (\<lambda>submitted.
    Option.bind (field fs ''Attempts'' as_int 0) (\<lambda>attempts.
      Some \<lparr>pb_OrderIDs = map fst ids, pb_SubmittedAt = submitted, pb_Attempts = attempts\<rparr>))))"

definition MarshalState :: "PersistedState \<Rightarrow> Payload option" where
  "MarshalState s =
    Option.bind (case ps_PendingCancels s of
                   None \<Rightarrow> Some []
                 | Some b \<Rightarrow> map_option (\<lambda>j. [(''pending_cancels'', j)]) (MarshalBatch b)) (\<lambda>cancels.
    Option.bind (map_all (\<lambda>(k, c). map_option (Pair k) (MarshalCreate c)) (ps_PendingCreates s)) (\<lambda>creates.
      Some (Doc (JObj (omit_str ''blocked'' (ps_Blocked s) @ cancels @
        (if creates = [] then [] else [(''pending_creates'', JObj creates)]))))))"

definition UnmarshalState :: "Payload \<Rightarrow> PersistedState option" where
  "UnmarshalState p =
    Option.bind (json_fields p) (\<lambda>fs.
    Option.bind (field fs ''blocked'' as_str []) (\<lambda>blocked.
    Option.bind (field fs ''pending_cancels'' (\<lambda>j. map_option Some (UnmarshalBatch j)) None) (\<lambda>cancels.
    Option.bind (field fs ''pending_creates''
        (\<lambda>j. Option.bind (as_obj j) (map_all (\<lambda>(k, c). map_option (Pair k) (UnmarshalCreate c)))) []) (\<lambda>creates.
      Some \<lparr>ps_Blocked = blocked, ps_PendingCancels = cancels, ps_PendingCreates = creates\<rparr>))))"



section \<open>Operations\<close>

definition IsManaged :: "Order \<Rightarrow> bool" where
  "IsManaged order \<longleftrightarrow> HasPrefix (o_ClientID order) managedPrefix"

definition ManagedOrders :: "Order list \<Rightarrow> bool \<Rightarrow> Order list" where
  "ManagedOrders orders manageAll = filter (\<lambda>order. manageAll \<or> IsManaged order) orders"

definition ManagedOrdersFor :: "'w Client \<Rightarrow> Order list \<Rightarrow> Order list" where
  "ManagedOrdersFor client orders = ManagedOrders orders (ManagesAllOrders client)"

definition stateKey :: "'w Client \<Rightarrow> string \<Rightarrow> string" where
  "stateKey client instrumentID =
    (let identity = (case cl_StateIdentity client of
                       Some s \<Rightarrow> if s \<noteq> [] then s else cl_Name client
                     | None \<Rightarrow> cl_Name client)
     in identity @ '':'' @ instrumentID)"

definition sameTarget :: "Quote \<Rightarrow> Quote \<Rightarrow> bool" where
  "sameTarget left right \<longleftrightarrow> q_Side left = q_Side right \<and> Cmp (q_Price left) (q_Price right) = 0 \<and>
     Cmp (q_Quantity left) (q_Quantity right) = 0"

definition isActiveOrder :: "OrderState \<Rightarrow> bool" where
  "isActiveOrder state \<longleftrightarrow> state = OrderNew \<or> state = OrderPartiallyFilled \<or> state = OrderUnknown"

definition withinBPS :: "Decimal \<Rightarrow> Decimal \<Rightarrow> int \<Rightarrow> bool" where
  "withinBPS a b threshold \<longleftrightarrow>
    (if IsZero a \<or> IsZero b then False
     else let deviation = \<bar>a - b\<bar> * TenThousand;
              tolerance = b * FromInt64 threshold
          in Cmp deviation tolerance \<le> 0)"

definition clientID :: "string \<Rightarrow> Quote \<Rightarrow> 64 word \<Rightarrow> time \<Rightarrow> string" where
  "clientID instrumentID quote fenceGeneration now =
    (let seed = instrumentID @ ''|'' @ q_Venue quote @ ''|'' @ side_text (q_Side quote) @ ''|'' @ itoa (q_Level quote)
                @ ''|'' @ utoa (unat fenceGeneration) @ ''|'' @ itoa (int64 now)
     in managedPrefix @ ''g'' @ format36 (unat fenceGeneration) @ ''-'' @ hex_encode (take 8 (sha256 seed)))"

text \<open>The state of a market in memory and in the store.\<close>

definition persistState :: "'w StateStore option \<Rightarrow> string \<Rightarrow> Reconciler \<Rightarrow> 'w World \<Rightarrow> string option \<times> 'w World" where
  "persistState store key r W =
    (case store of
       None \<Rightarrow> (None, W)
     | Some ss \<Rightarrow>
         let state = \<lparr>ps_Blocked = (case rc_blocked r key of None \<Rightarrow> [] | Some e \<Rightarrow> e),
                      ps_PendingCancels = (case rc_pendingCancels r key of
                         Some b \<Rightarrow> if pb_OrderIDs b \<noteq> [] then Some b else None | None \<Rightarrow> None),
                      ps_PendingCreates = rc_pendingCreates r key\<rparr>;
             emptyState = (ps_Blocked state = [] \<and> ps_PendingCancels state = None \<and> ps_PendingCreates state = [])
         in if emptyState then call_ext (ss_Delete ss key) W
            else (case MarshalState state of
                    None \<Rightarrow> (Some ''json'', W)
                  | Some payload \<Rightarrow> call_ext (ss_Save ss key payload) W))"

definition ensureLoadedOMS :: "'w StateStore option \<Rightarrow> string \<Rightarrow> Reconciler \<Rightarrow> 'w World
    \<Rightarrow> string option \<times> Reconciler \<times> 'w World" where
  "ensureLoadedOMS store key r W =
    (if rc_loaded r key then (None, r, W)
     else let r1 = r\<lparr>rc_loaded := (rc_loaded r)(key := True)\<rparr> in
       case store of
         None \<Rightarrow> (None, r1, W)
       | Some ss \<Rightarrow>
           (case call_ext (ss_Load ss key) W of
              (Inl e, W1) \<Rightarrow> (Some e, r1\<lparr>rc_loaded := (rc_loaded r1)(key := False)\<rparr>, W1)
            | (Inr payload, W1) \<Rightarrow>
                if payload = NoBytes then (None, r1, W1)
                else (case UnmarshalState payload of
                        None \<Rightarrow> (Some ''json'', r1\<lparr>rc_loaded := (rc_loaded r1)(key := False)\<rparr>, W1)
                      | Some saved \<Rightarrow>
                          (None, r1\<lparr>rc_blocked := (if ps_Blocked saved \<noteq> []
                                       then (rc_blocked r1)(key \<mapsto> ps_Blocked saved) else rc_blocked r1),
                                    rc_pendingCancels := (case ps_PendingCancels saved of
                                       Some b \<Rightarrow> (rc_pendingCancels r1)(key \<mapsto> b) | None \<Rightarrow> rc_pendingCancels r1),
                                    rc_pendingCreates := (if ps_PendingCreates saved \<noteq> []
                                       then (rc_pendingCreates r1)(key := ps_PendingCreates saved)
                                       else rc_pendingCreates r1)\<rparr>, W1))))"

definition block :: "'w StateStore option \<Rightarrow> string \<Rightarrow> string \<Rightarrow> Reconciler \<Rightarrow> 'w World \<Rightarrow> Reconciler \<times> 'w World" where
  "block store key err r W =
    (let r1 = r\<lparr>rc_blocked := (rc_blocked r)(key \<mapsto> err)\<rparr> in (r1, snd (persistState store key r1 W)))"

definition addPendingCreate :: "string \<Rightarrow> PendingCreate \<Rightarrow> Reconciler \<Rightarrow> Reconciler" where
  "addPendingCreate key creation r =
    r\<lparr>rc_pendingCreates := (rc_pendingCreates r)
       (key := AList.update (pc_OrderID creation) creation (rc_pendingCreates r key))\<rparr>"

definition removePendingCreate :: "string \<Rightarrow> string \<Rightarrow> Reconciler \<Rightarrow> Reconciler" where
  "removePendingCreate key orderID r =
    r\<lparr>rc_pendingCreates := (rc_pendingCreates r)(key := AList.delete orderID (rc_pendingCreates r key))\<rparr>"

definition setPendingCancels :: "string \<Rightarrow> string list \<Rightarrow> time \<Rightarrow> Reconciler \<Rightarrow> Reconciler" where
  "setPendingCancels key pending now r =
    (let attempts = (case rc_pendingCancels r key of Some current \<Rightarrow> pb_Attempts current + 1 | None \<Rightarrow> 1)
     in r\<lparr>rc_pendingCancels := (rc_pendingCancels r)
           (key \<mapsto> \<lparr>pb_OrderIDs = pending, pb_SubmittedAt = now, pb_Attempts = attempts\<rparr>)\<rparr>)"

text \<open>Whether the market still waits for the exchange to confirm cancellations; an error when the
  orders survived the last attempt.\<close>

definition waitingForCancelConfirmation :: "string \<Rightarrow> Order list \<Rightarrow> time \<Rightarrow> Reconciler
    \<Rightarrow> (string + bool) \<times> Reconciler" where
  "waitingForCancelConfirmation key orders now r =
    (case rc_pendingCancels r key of
       None \<Rightarrow> (Inr False, r)
     | Some pending \<Rightarrow>
         if pb_OrderIDs pending = [] then (Inr False, r)
         else
           let remaining = remdups (filter (\<lambda>i. i \<in> set (pb_OrderIDs pending)) (map o_OrderID orders)) in
           if remaining = [] then (Inr False, r\<lparr>rc_pendingCancels := (rc_pendingCancels r)(key := None)\<rparr>)
           else
             let r1 = r\<lparr>rc_pendingCancels := (rc_pendingCancels r)(key \<mapsto> pending\<lparr>pb_OrderIDs := remaining\<rparr>)\<rparr> in
             if time_sub now (pb_SubmittedAt pending) < pendingCancelRetryDelay then (Inr True, r1)
             else if pb_Attempts pending \<ge> maxCancelAttempts
             then (Inl (''orders remain open after '' @ itoa (pb_Attempts pending) @ '' cancellation attempts''), r1)
             else (Inr False, r1))"

definition checkWriteGuard :: "'w WriteGuard \<Rightarrow> 'w World \<Rightarrow> string option \<times> 'w World" where
  "checkWriteGuard guard W =
    (case guard of
       None \<Rightarrow> (None, W)
     | Some g \<Rightarrow>
         (case call_ext g W of
            (None, W1) \<Rightarrow> (None, W1\<lparr>w_log := w_log W1 @ [CGuard True], w_asked := w_asked W1 @ [w_ext W]\<rparr>)
          | (Some e, W1) \<Rightarrow> (Some (''exchange write rejected by fencing guard: '' @ e),
                            W1\<lparr>w_log := w_log W1 @ [CGuard False], w_asked := w_asked W1 @ [w_ext W]\<rparr>)))"

text \<open>\<^verbatim>\<open>cancelOrders\<close>: chunks of a native batch, or one order at a time.\<close>

function chunks :: "nat \<Rightarrow> 'a list \<Rightarrow> 'a list list" where
  "chunks n xs = (if n = 0 \<or> xs = [] then [] else take n xs # chunks n (drop n xs))"
  by pat_completeness auto
termination
  by (relation "measure (\<lambda>(_, xs). length xs)") auto

declare chunks.simps [simp del]

fun cancelChunks :: "(string \<Rightarrow> string list \<Rightarrow> 'w \<Rightarrow> string option \<times> 'w) \<Rightarrow> 'w WriteGuard \<Rightarrow> string
    \<Rightarrow> string list list \<Rightarrow> 'w World \<Rightarrow> string option \<times> 'w World" where
  "cancelChunks batch guard symbol [] W = (None, W)"
| "cancelChunks batch guard symbol (ids # rest) W =
     (case checkWriteGuard guard W of
        (Some e, W1) \<Rightarrow> (Some e, W1)
      | (None, W1) \<Rightarrow>
          (case mutate (CCancelBatch symbol ids) (batch symbol ids) W1 of
             (Some e, W2) \<Rightarrow> (Some e, W2)
           | (None, W2) \<Rightarrow> cancelChunks batch guard symbol rest W2))"

fun cancelSingles :: "'w Client \<Rightarrow> 'w WriteGuard \<Rightarrow> string \<Rightarrow> string list \<Rightarrow> 'w World \<Rightarrow> string option \<times> 'w World" where
  "cancelSingles client guard symbol [] W = (None, W)"
| "cancelSingles client guard symbol (orderID # rest) W =
     (case checkWriteGuard guard W of
        (Some e, W1) \<Rightarrow> (Some e, W1)
      | (None, W1) \<Rightarrow>
          (case mutate (CCancel symbol orderID) (cl_CancelOrder client symbol orderID) W1 of
             (Some e, W2) \<Rightarrow> (Some (''cancel order '' @ orderID @ '': '' @ e), W2)
           | (None, W2) \<Rightarrow> cancelSingles client guard symbol rest W2))"

definition cancelOrders :: "'w Client \<Rightarrow> string \<Rightarrow> Order list \<Rightarrow> 'w WriteGuard \<Rightarrow> 'w World \<Rightarrow> string option \<times> 'w World" where
  "cancelOrders client symbol orders guard W =
    (if orders = [] then (None, W)
     else case cl_BatchCanceler client of
       Some batch \<Rightarrow> cancelChunks batch guard symbol (chunks maxBatchCancelSize (map o_OrderID orders)) W
     | None \<Rightarrow> cancelSingles client guard symbol (map o_OrderID orders) W)"


text \<open>The text of \<^verbatim>\<open>age.Round(time.Second)\<close> for an age that is not negative.\<close>

definition roundedAge :: "duration \<Rightarrow> string" where
  "roundedAge age =
    (let secs = (age + second div 2) div second;
         h = secs div 3600; m = secs mod 3600 div 60; s = secs mod 60
     in if secs * second \<ge> 2 ^ 63 then ''2562047h47m16.854775807s''
        else if h > 0 then itoa h @ ''h'' @ itoa m @ ''m'' @ itoa s @ ''s''
        else if m > 0 then itoa m @ ''m'' @ itoa s @ ''s''
        else itoa s @ ''s'')"

text \<open>\<^verbatim>\<open>activePendingCreates\<close>: the loop over the creations not visible on the book.\<close>

fun pendingLoop :: "'w StateStore option \<Rightarrow> 'w Client \<Rightarrow> string \<Rightarrow> string \<Rightarrow> PendingCreate list \<Rightarrow> Reconciler \<Rightarrow> 'w World
    \<Rightarrow> (string + PendingCreate list) \<times> Reconciler \<times> 'w World" where
  "pendingLoop store client key symbol [] r W = (Inr [], r, W)"
| "pendingLoop store client key symbol (creation # rest) r W =
    (let now = w_now W;
         age = time_sub now (pc_SubmittedAt creation);
         keep = (\<lambda>c r W. case pendingLoop store client key symbol rest r W of
                   (Inl e, r', W') \<Rightarrow> (Inl e, r', W')
                 | (Inr active, r', W') \<Rightarrow> (Inr (c # active), r', W'))
     in case cl_OrderReader client of
          Some reader \<Rightarrow>
            if age \<ge> pendingCreateLookupDelay \<and>
               (IsZeroTime (pc_LastChecked creation) \<or> time_sub now (pc_LastChecked creation) \<ge> pendingCreateLookupDelay)
            then
              let (reply, W1) = call_ext (reader symbol (pc_OrderID creation)) W;
                  checked = creation\<lparr>pc_LastChecked := now\<rparr>;
                  refreshed = (let r1 = addPendingCreate key checked r in
                     case persistState store key r1 W1 of
                       (Some e, W2) \<Rightarrow> (Inl e, r1, W2)
                     | (None, W2) \<Rightarrow> keep checked r1 W2)
              in case reply of
                   Inr order \<Rightarrow>
                     if \<not> isActiveOrder (o_State order)
                     then (let r1 = removePendingCreate key (pc_OrderID creation) r in
                           case persistState store key r1 W1 of
                             (Some e, W2) \<Rightarrow> (Inl e, r1, W2)
                           | (None, W2) \<Rightarrow> pendingLoop store client key symbol rest r1 W2)
                     else refreshed
                 | Inl e \<Rightarrow>
                     if age \<ge> pendingCreateMaxAge
                     then (Inl (''pending order '' @ pc_OrderID creation @ '' status remains uncertain after '' @
                             roundedAge age @ '': '' @ e), r, W1)
                     else refreshed
            else keep creation r W
        | None \<Rightarrow>
            if age \<ge> pendingCreateMaxAge
            then (Inl (''pending order '' @ pc_OrderID creation @ '' was not confirmed after '' @ roundedAge age), r, W)
            else keep creation r W)"

definition activePendingCreates :: "'w StateStore option \<Rightarrow> 'w Client \<Rightarrow> string \<Rightarrow> string \<Rightarrow> Order list \<Rightarrow> Reconciler
    \<Rightarrow> 'w World \<Rightarrow> (string + PendingCreate list) \<times> Reconciler \<times> 'w World" where
  "activePendingCreates store client key symbol orders r W =
    (let invisible = filter (\<lambda>(i, _). i \<notin> set (map o_OrderID orders)) (rc_pendingCreates r key);
         r1 = r\<lparr>rc_pendingCreates := (rc_pendingCreates r)(key := invisible)\<rparr>
     in case persistState store key r1 W of
          (Some e, W1) \<Rightarrow> (Inl e, r1, W1)
        | (None, W1) \<Rightarrow> pendingLoop store client key symbol (map snd invisible) r1 W1)"

text \<open>The matching of targets and orders. Flags are lists with one entry per quote or order.\<close>

record Matching =
  mt_quotes :: "bool list"
  mt_orders :: "bool list"
  mt_scheduled :: "bool list"
  mt_refreshes :: int
  mt_kept :: nat

definition firstFree :: "(Quote \<Rightarrow> bool) \<Rightarrow> bool list \<Rightarrow> Quote list \<Rightarrow> nat option" where
  "firstFree P matched quotes = find_index (\<lambda>(m, q). \<not> m \<and> P q) (zip matched quotes)"

definition matchPending :: "Quote list \<Rightarrow> bool list \<Rightarrow> PendingCreate \<Rightarrow> bool list" where
  "matchPending quotes matched creation =
    (case firstFree (sameTarget (pc_Quote creation)) matched quotes of
       Some i \<Rightarrow> matched[i := True] | None \<Rightarrow> matched)"

definition remaining :: "Order \<Rightarrow> Decimal" where
  "remaining order = o_Quantity order - o_ExecutedQty order"

definition exactMatch :: "int \<Rightarrow> Order \<Rightarrow> Quote \<Rightarrow> bool" where
  "exactMatch threshold order q \<longleftrightarrow>
     o_Side order = q_Side q \<and> Cmp (remaining order) (q_Quantity q) = 0 \<and> withinBPS (o_Price order) (q_Price q) threshold"

definition nearMatch :: "int \<Rightarrow> Order \<Rightarrow> Quote \<Rightarrow> bool" where
  "nearMatch threshold order q \<longleftrightarrow> o_Side order = q_Side q \<and> withinBPS (o_Price order) (q_Price q) threshold"

definition expiredIndices :: "RefreshPolicy \<Rightarrow> Order list \<Rightarrow> time \<Rightarrow> nat list" where
  "expiredIndices refresh managed now =
    sort_key (\<lambda>i. o_CreatedAt (managed ! i))
      (filter (\<lambda>i. \<not> IsZeroTime (o_CreatedAt (managed ! i)) \<and>
                   time_sub now (o_CreatedAt (managed ! i)) \<ge> rf_MaxOrderAge refresh) [0..<length managed])"

text \<open>One step of each of the three loops, for the order with index \<open>i\<close>.\<close>

definition scheduleExpired :: "RefreshPolicy \<Rightarrow> int \<Rightarrow> Quote list \<Rightarrow> Order list \<Rightarrow> Matching \<Rightarrow> nat \<Rightarrow> Matching" where
  "scheduleExpired refresh threshold quotes managed mt i =
    (if mt_refreshes mt \<ge> rf_MaxRefreshesPerCycle refresh then mt
     else case firstFree (exactMatch threshold (managed ! i)) (mt_quotes mt) quotes of
            Some j \<Rightarrow> mt\<lparr>mt_quotes := (mt_quotes mt)[j := True], mt_scheduled := (mt_scheduled mt)[i := True],
                         mt_refreshes := mt_refreshes mt + 1\<rparr>
          | None \<Rightarrow> mt)"

definition keepExact :: "int \<Rightarrow> Quote list \<Rightarrow> Order list \<Rightarrow> Matching \<Rightarrow> nat \<Rightarrow> Matching" where
  "keepExact threshold quotes managed mt i =
    (if mt_scheduled mt ! i then mt
     else case firstFree (exactMatch threshold (managed ! i)) (mt_quotes mt) quotes of
            Some j \<Rightarrow> mt\<lparr>mt_orders := (mt_orders mt)[i := True], mt_quotes := (mt_quotes mt)[j := True],
                         mt_kept := mt_kept mt + 1\<rparr>
          | None \<Rightarrow> mt)"

definition isYoung :: "RefreshPolicy \<Rightarrow> Order \<Rightarrow> time \<Rightarrow> bool" where
  "isYoung refresh order now \<longleftrightarrow> rf_MinOrderAge refresh > 0 \<and> \<not> IsZeroTime (o_CreatedAt order) \<and>
     time_sub now (o_CreatedAt order) < rf_MinOrderAge refresh"

definition rotateNear :: "RefreshPolicy \<Rightarrow> int \<Rightarrow> Quote list \<Rightarrow> Order list \<Rightarrow> time \<Rightarrow> Matching \<Rightarrow> nat \<Rightarrow> Matching" where
  "rotateNear refresh threshold quotes managed now mt i =
    (if mt_orders mt ! i \<or> mt_scheduled mt ! i \<or> IsPositive (o_ExecutedQty (managed ! i)) then mt
     else case firstFree (nearMatch threshold (managed ! i)) (mt_quotes mt) quotes of
            None \<Rightarrow> mt
          | Some j \<Rightarrow>
              if isYoung refresh (managed ! i) now \<or> mt_refreshes mt \<ge> rf_MaxRefreshesPerCycle refresh
              then mt\<lparr>mt_quotes := (mt_quotes mt)[j := True], mt_orders := (mt_orders mt)[i := True],
                      mt_kept := mt_kept mt + 1\<rparr>
              else mt\<lparr>mt_quotes := (mt_quotes mt)[j := True], mt_scheduled := (mt_scheduled mt)[i := True],
                      mt_refreshes := mt_refreshes mt + 1\<rparr>)"

definition matchTargets :: "RefreshPolicy \<Rightarrow> int \<Rightarrow> Quote list \<Rightarrow> Order list \<Rightarrow> PendingCreate list \<Rightarrow> time \<Rightarrow> Matching" where
  "matchTargets refresh threshold quotes managed pending now =
    (let mt0 = \<lparr>mt_quotes = foldl (matchPending quotes) (replicate (length quotes) False) pending,
                mt_orders = replicate (length managed) False, mt_scheduled = replicate (length managed) False,
                mt_refreshes = 0, mt_kept = 0\<rparr>;
         mt1 = (if rf_MaxRefreshesPerCycle refresh > 0 \<and> rf_MaxOrderAge refresh > 0
                then foldl (scheduleExpired refresh threshold quotes managed) mt0 (expiredIndices refresh managed now)
                else mt0);
         mt2 = foldl (keepExact threshold quotes managed) mt1 [0..<length managed]
     in if rf_MaxRefreshesPerCycle refresh > 0
        then foldl (rotateNear refresh threshold quotes managed now) mt2 [0..<length managed]
        else mt2)"

text \<open>\<^verbatim>\<open>placeMissing\<close>: the confirmed orders of the reply, in order.\<close>

fun confirmLoop :: "'w StateStore option \<Rightarrow> string \<Rightarrow> (Order \<times> Quote) list \<Rightarrow> Result \<Rightarrow> Reconciler \<Rightarrow> 'w World
    \<Rightarrow> (Result \<times> string option) \<times> Reconciler \<times> 'w World" where
  "confirmLoop store key [] result r W = ((result, None), r, W)"
| "confirmLoop store key ((order, quote) # rest) result r W =
    (if o_OrderID order = [] then confirmLoop store key rest result r W
     else if isActiveOrder (o_State order)
     then (let r1 = addPendingCreate key \<lparr>pc_OrderID = o_OrderID order, pc_Quote = quote,
                      pc_SubmittedAt = w_now W, pc_LastChecked = zero_time\<rparr> r
           in case persistState store key r1 W of
                (Some e, W1) \<Rightarrow>
                  (case block store key (''persist accepted order '' @ o_OrderID order @ '': '' @ e) r1 W1 of
                     (r2, W2) \<Rightarrow> ((result, Some e), r2, W2))
              | (None, W1) \<Rightarrow>
                  confirmLoop store key rest
                    (result\<lparr>rs_Pending := rs_Pending result + 1, rs_Placed := rs_Placed result + 1\<rparr>) r1 W1)
     else confirmLoop store key rest (result\<lparr>rs_Placed := rs_Placed result + 1\<rparr>) r W)"

definition placeRequests :: "string \<Rightarrow> Quote list \<Rightarrow> 64 word \<Rightarrow> time \<Rightarrow> PlaceRequest list" where
  "placeRequests instrumentID selected fenceGeneration now =
    map (\<lambda>q. \<lparr>pr_Symbol = q_Symbol q, pr_Side = q_Side q, pr_Price = q_Price q, pr_Quantity = q_Quantity q,
              pr_ClientID = clientID instrumentID q fenceGeneration now, pr_FenceGeneration = fenceGeneration\<rparr>) selected"

definition guardClosure :: "'w WriteGuard \<Rightarrow> 'w Before" where
  "guardClosure guard = Some (\<lambda>W. let (e, W1) = checkWriteGuard guard W in (e, W1\<lparr>w_guardErr := e\<rparr>))"

definition selectMissing :: "Quote list \<Rightarrow> bool list \<Rightarrow> nat \<Rightarrow> Quote list" where
  "selectMissing quotes matched limit = take limit (map snd (filter (\<lambda>(m, q). \<not> m) (zip matched quotes)))"

definition placeMissing :: "'w StateStore option \<Rightarrow> 'w Client \<Rightarrow> string \<Rightarrow> string \<Rightarrow> Quote list \<Rightarrow> bool list \<Rightarrow> nat \<Rightarrow> Result
    \<Rightarrow> 'w WriteGuard \<Rightarrow> 64 word \<Rightarrow> Reconciler \<Rightarrow> 'w World \<Rightarrow> (Result \<times> string option) \<times> Reconciler \<times> 'w World" where
  "placeMissing store client key instrumentID quotes matched limit result guard fenceGeneration r W =
    (let selectedQuotes = selectMissing quotes matched limit;
         requests = placeRequests instrumentID selectedQuotes fenceGeneration (w_now W);
         ((orders, submitErr), W1) = PlacePostOnlyBatch client requests (guardClosure guard) (W\<lparr>w_guardErr := None\<rparr>)
     in case confirmLoop store key (zip orders selectedQuotes) result r W1 of
          ((result1, Some e), r1, W2) \<Rightarrow> ((result1, Some e), r1, W2)
        | ((result1, None), r1, W2) \<Rightarrow>
            (case submitErr of
               Some e \<Rightarrow>
                 if w_guardErr W1 \<noteq> None \<and> w_guardErr W1 = Some e then ((result1, Some e), r1, W2)
                 else (case block store key (''submit batch may be partially unknown: '' @ e) r1 W2 of
                         (r2, W3) \<Rightarrow> ((result1, Some e), r2, W3))
             | None \<Rightarrow>
                 if length orders \<noteq> length requests
                 then (let e = ''venue returned '' @ itoa (int (length orders)) @ '' order results for '' @
                               itoa (int (length requests)) @ '' requests''
                       in case block store key e r1 W2 of (r2, W3) \<Rightarrow> ((result1, Some e), r2, W3))
                 else (case find_index (\<lambda>order. o_OrderID order = []) orders of
                         Some index \<Rightarrow>
                           (let e = ''venue returned an empty order id for batch item '' @ itoa (int index)
                            in case block store key e r1 W2 of (r2, W3) \<Rightarrow> ((result1, Some e), r2, W3))
                       | None \<Rightarrow> ((result1, None), r1, W2))))"


text \<open>The orders to cancel: materially stale orders first, then the scheduled refreshes, at most a
  cycle's worth.\<close>

definition cancelSelection :: "Order list \<Rightarrow> Matching \<Rightarrow> Order list" where
  "cancelSelection managed mt =
    (let stale = map ((!) managed) (filter (\<lambda>i. \<not> mt_orders mt ! i \<and> \<not> mt_scheduled mt ! i) [0..<length managed]);
         scheduled = map ((!) managed) (filter (\<lambda>i. mt_scheduled mt ! i) [0..<length managed]);
         first = take (nat maxOrderMutationsPerCycle) stale
     in first @ take (nat maxOrderMutationsPerCycle - length first) scheduled)"

text \<open>\<^verbatim>\<open>ReconcileWithOrdersGuardedPolicy\<close> from the matching on.\<close>

definition cancelStale :: "'w StateStore option \<Rightarrow> 'w Client \<Rightarrow> string \<Rightarrow> string \<Rightarrow> Order list \<Rightarrow> Result \<Rightarrow> 'w WriteGuard
    \<Rightarrow> Reconciler \<Rightarrow> 'w World \<Rightarrow> (Result \<times> string option) \<times> Reconciler \<times> 'w World" where
  "cancelStale store client key symbol toCancel result0 guard r W =
    (let result = result0\<lparr>rs_Canceled := length toCancel\<rparr> in
     if toCancel \<noteq> []
     then (case cancelOrders client symbol toCancel guard W of
             (Some e, W1) \<Rightarrow>
               (case block store key (''cancel order batch: '' @ e) r W1 of
                  (r1, W2) \<Rightarrow>
                    ((\<lparr>rs_Kept = rs_Kept result, rs_Canceled = 0, rs_Placed = 0, rs_Pending = rs_Pending result\<rparr>, Some e), r1, W2))
           | (None, W1) \<Rightarrow>
               let r1 = setPendingCancels key (remdups (map o_OrderID toCancel)) (w_now W1) r in
               case persistState store key r1 W1 of
                 (Some e, W2) \<Rightarrow> ((result, Some (''persist pending cancels: '' @ e)), r1, W2)
               | (None, W2) \<Rightarrow> ((result, None), r1, W2))
     else ((result, None), r, W))"

definition converge :: "'w StateStore option \<Rightarrow> 'w Client \<Rightarrow> string \<Rightarrow> string \<Rightarrow> Quote list \<Rightarrow> int \<Rightarrow> Order list
    \<Rightarrow> PendingCreate list \<Rightarrow> 'w WriteGuard \<Rightarrow> 64 word \<Rightarrow> RefreshPolicy \<Rightarrow> Reconciler \<Rightarrow> 'w World
    \<Rightarrow> (Result \<times> string option) \<times> Reconciler \<times> 'w World" where
  "converge store client key instrumentID quotes threshold managed pending guard fenceGeneration refresh r W =
    (let mt = matchTargets refresh threshold quotes managed pending (w_now W);
         result = \<lparr>rs_Kept = mt_kept mt, rs_Canceled = 0, rs_Placed = 0, rs_Pending = length pending\<rparr>;
         vacancies = int (length quotes) - int (length managed) - int (length pending)
     in if vacancies > 0
        then placeMissing store client key instrumentID quotes (mt_quotes mt)
               (nat (min vacancies maxOrderMutationsPerCycle)) result guard fenceGeneration r W
        else cancelStale store client key (q_Symbol (hd quotes)) (cancelSelection managed mt) result guard r W)"

definition ReconcileWithOrdersGuardedPolicy :: "'w StateStore option \<Rightarrow> 'w Client \<Rightarrow> string \<Rightarrow> Quote list \<Rightarrow> int
    \<Rightarrow> Order list \<Rightarrow> 'w WriteGuard \<Rightarrow> 64 word \<Rightarrow> RefreshPolicy \<Rightarrow> Reconciler \<Rightarrow> 'w World
    \<Rightarrow> (Result \<times> string option) \<times> Reconciler \<times> 'w World" where
  "ReconcileWithOrdersGuardedPolicy store client instrumentID quotes threshold orders guard fenceGeneration refresh r0 W0 =
    (let key = stateKey client instrumentID in
     case ensureLoadedOMS store key r0 W0 of
       (Some e, r, W) \<Rightarrow> ((zero_result, Some (''load OMS state: '' @ e)), r, W)
     | (None, r, W) \<Rightarrow>
         (case rc_blocked r key of
            Some e \<Rightarrow> ((zero_result, Some (''venue market blocked after uncertain order state: '' @ e)), r, W)
          | None \<Rightarrow>
              if quotes = [] then ((zero_result, Some ''empty quote target''), r, W)
              else
                let managed = ManagedOrdersFor client orders;
                    (waiting, r1) = waitingForCancelConfirmation key managed (w_now W) r
                in case persistState store key r1 W of
                     (Some e, W1) \<Rightarrow> ((zero_result, Some e), r1, W1)
                   | (None, W1) \<Rightarrow>
                       (case waiting of
                          Inl e \<Rightarrow> (case block store key e r1 W1 of (r2, W2) \<Rightarrow> ((zero_result, Some e), r2, W2))
                        | Inr True \<Rightarrow> ((zero_result, None), r1, W1)
                        | Inr False \<Rightarrow>
                            (case activePendingCreates store client key (q_Symbol (hd quotes)) managed r1 W1 of
                               (Inl e, r2, W2) \<Rightarrow>
                                 (case block store key e r2 W2 of (r3, W3) \<Rightarrow> ((zero_result, Some e), r3, W3))
                             | (Inr pending, r2, W2) \<Rightarrow>
                                 converge store client key instrumentID quotes threshold managed pending guard
                                   fenceGeneration refresh r2 W2))))"

definition noRefresh :: RefreshPolicy where
  "noRefresh = \<lparr>rf_MinOrderAge = 0, rf_MaxOrderAge = 0, rf_MaxRefreshesPerCycle = 0\<rparr>"

definition ReconcileWithOrdersGuarded :: "'w StateStore option \<Rightarrow> 'w Client \<Rightarrow> string \<Rightarrow> Quote list \<Rightarrow> int
    \<Rightarrow> Order list \<Rightarrow> 'w WriteGuard \<Rightarrow> 64 word \<Rightarrow> Reconciler \<Rightarrow> 'w World
    \<Rightarrow> (Result \<times> string option) \<times> Reconciler \<times> 'w World" where
  "ReconcileWithOrdersGuarded store client instrumentID quotes threshold orders guard fenceGeneration =
     ReconcileWithOrdersGuardedPolicy store client instrumentID quotes threshold orders guard fenceGeneration noRefresh"

definition ReconcileWithOrders :: "'w StateStore option \<Rightarrow> 'w Client \<Rightarrow> string \<Rightarrow> Quote list \<Rightarrow> int
    \<Rightarrow> Order list \<Rightarrow> Reconciler \<Rightarrow> 'w World \<Rightarrow> (Result \<times> string option) \<times> Reconciler \<times> 'w World" where
  "ReconcileWithOrders store client instrumentID quotes threshold orders =
     ReconcileWithOrdersGuarded store client instrumentID quotes threshold orders None 0"

definition Reconcile :: "'w StateStore option \<Rightarrow> 'w Client \<Rightarrow> string \<Rightarrow> Quote list \<Rightarrow> int
    \<Rightarrow> Reconciler \<Rightarrow> 'w World \<Rightarrow> (Result \<times> string option) \<times> Reconciler \<times> 'w World" where
  "Reconcile store client instrumentID quotes threshold r W =
    (if quotes = [] then ((zero_result, Some ''empty quote target''), r, W)
     else case call_ext (cl_OpenOrders client (q_Symbol (hd quotes))) W of
       (Inl e, W1) \<Rightarrow> ((zero_result, Some e), r, W1)
     | (Inr orders, W1) \<Rightarrow> ReconcileWithOrders store client instrumentID quotes threshold orders r W1)"

text \<open>\<^verbatim>\<open>CancelManagedGuardedWithResult\<close>: also the creations that are not visible yet are cancelled.\<close>

definition withPending :: "Order list \<Rightarrow> (string \<times> PendingCreate) list \<Rightarrow> Order list" where
  "withPending managed creates =
    managed @ map (\<lambda>(i, c). zero_order\<lparr>o_OrderID := i, o_Symbol := q_Symbol (pc_Quote c)\<rparr>)
      (filter (\<lambda>(i, _). i \<notin> set (map o_OrderID managed)) creates)"

definition CancelManagedGuardedWithResult :: "'w StateStore option \<Rightarrow> 'w Client \<Rightarrow> string \<Rightarrow> string \<Rightarrow> 'w WriteGuard
    \<Rightarrow> Reconciler \<Rightarrow> 'w World \<Rightarrow> (nat \<times> string option) \<times> Reconciler \<times> 'w World" where
  "CancelManagedGuardedWithResult store client instrumentID symbol guard r0 W0 =
    (case call_ext (cl_OpenOrders client symbol) W0 of
       (Inl e, W1) \<Rightarrow> ((0, Some e), r0, W1)
     | (Inr orders, W1) \<Rightarrow>
         let key = stateKey client instrumentID in
         (case ensureLoadedOMS store key r0 W1 of
            (Some e, r, W) \<Rightarrow> ((0, Some (''load OMS state: '' @ e)), r, W)
          | (None, r, W) \<Rightarrow>
              let managed = ManagedOrdersFor client orders;
                  (waiting, r1) = waitingForCancelConfirmation key managed (w_now W) r
              in case persistState store key r1 W of
                   (Some e, W2) \<Rightarrow> ((0, Some e), r1, W2)
                 | (None, W2) \<Rightarrow>
                     (case waiting of
                        Inl e \<Rightarrow> ((0, Some e), r1, W2)
                      | Inr True \<Rightarrow> ((0, None), r1, W2)
                      | Inr False \<Rightarrow>
                          let targets = withPending managed (rc_pendingCreates r1 key) in
                          (case cancelOrders client symbol targets guard W2 of
                             (Some e, W3) \<Rightarrow> (case block store key e r1 W3 of (r2, W4) \<Rightarrow> ((0, Some e), r2, W4))
                           | (None, W3) \<Rightarrow>
                               let r2 = setPendingCancels key (remdups (map o_OrderID targets)) (w_now W3) r1;
                                   r3 = r2\<lparr>rc_pendingCreates := (rc_pendingCreates r2)(key := [])\<rparr>
                               in case persistState store key r3 W3 of
                                    (e, W4) \<Rightarrow> ((length targets, e), r3, W4)))))"

definition ClearBlocked :: "'w StateStore option \<Rightarrow> 'w Client \<Rightarrow> string \<Rightarrow> Reconciler \<Rightarrow> 'w World
    \<Rightarrow> string option \<times> Reconciler \<times> 'w World" where
  "ClearBlocked store client instrumentID r0 W0 =
    (let key = stateKey client instrumentID in
     case ensureLoadedOMS store key r0 W0 of
       (Some e, r, W) \<Rightarrow> (Some e, r, W)
     | (None, r, W) \<Rightarrow>
         let r1 = r\<lparr>rc_blocked := (rc_blocked r)(key := None)\<rparr>
         in case persistState store key r1 W of (e, W1) \<Rightarrow> (e, r1, W1))"

end
