(* ===== verification/OMSProofs.thy ===== *)
theory OMSProofs
  imports OMS
begin

text \<open>
  The order manager's guarantees about what it sends to an exchange, read off the log of calls:
  which operations send nothing, that every write follows an accepted guard check, and what a
  cycle may place or cancel.
\<close>

section \<open>The log of calls\<close>

fun is_check :: "Call \<Rightarrow> bool" where
  "is_check (CGuard _) = True" | "is_check _ = False"

fun places_of :: "Call \<Rightarrow> PlaceRequest list" where
  "places_of (CPlace p) = [p]" | "places_of (CPlaceBatch ps) = ps" | "places_of _ = []"

fun cancels_of :: "Call \<Rightarrow> string list" where
  "cancels_of (CCancel _ i) = [i]" | "cancels_of (CCancelBatch _ is) = is" | "cancels_of _ = []"

definition places :: "Call list \<Rightarrow> PlaceRequest list" where "places cs = concat (map places_of cs)"
definition cancels :: "Call list \<Rightarrow> string list" where "cancels cs = concat (map cancels_of cs)"

lemma log_simps [simp]:
  "places [] = []" "cancels [] = []"
  "places (c # cs) = places_of c @ places cs" "cancels (c # cs) = cancels_of c @ cancels cs"
  "places (xs @ ys) = places xs @ places ys" "cancels (xs @ ys) = cancels xs @ cancels ys"
  by (simp_all add: places_def cancels_def)

text \<open>With a guard, accepted checks and writes alternate, and a rejected check is the last entry.\<close>

fun fenced :: "Call list \<Rightarrow> bool" where
  "fenced [] = True"
| "fenced [c] = (c = CGuard False)"
| "fenced (c # d # cs) = (c = CGuard True \<and> \<not> is_check d \<and> fenced cs)"

text \<open>The calls an operation adds to the log.\<close>

definition sent :: "'w World \<Rightarrow> 'w World \<Rightarrow> Call list" where
  "sent W W' = drop (length (w_log W)) (w_log W')"

definition extends :: "'w World \<Rightarrow> 'w World \<Rightarrow> bool" where
  "extends W W' \<longleftrightarrow> w_log W' = w_log W @ sent W W' \<and> w_now W' = w_now W"

definition silent :: "'w World \<Rightarrow> 'w World \<Rightarrow> bool" where
  "silent W W' \<longleftrightarrow> w_log W' = w_log W \<and> w_now W' = w_now W \<and> w_asked W' = w_asked W \<and> w_steps W' = w_steps W"

lemma silent_refl [simp, intro]: "silent W W"
  by (simp add: silent_def)

lemma silent_trans [trans]: "silent W W1 \<Longrightarrow> silent W1 W2 \<Longrightarrow> silent W W2"
  by (simp add: silent_def)

lemma silent_sent: "silent W W1 \<Longrightarrow> sent W W1 = []"
  by (simp add: silent_def sent_def)

lemma sentI: "w_log W' = w_log W @ cs \<Longrightarrow> sent W W' = cs"
  by (simp add: sent_def)

lemma sent_silent_left: "silent W W1 \<Longrightarrow> sent W W2 = sent W1 W2"
  by (simp add: sent_def silent_def)

lemma sent_silent_right: "silent W1 W2 \<Longrightarrow> sent W W2 = sent W W1"
  by (simp add: sent_def silent_def)

lemma call_ext_silent [simp]: "silent W (snd (call_ext f W))"
  by (simp add: call_ext_def silent_def split: prod.split)

lemma call_ext_silentD: "call_ext f W = (a, W') \<Longrightarrow> silent W W'"
  using call_ext_silent [of W f] by simp

lemma mutate_log: "mutate c f W = (a, W') \<Longrightarrow> w_log W' = w_log W @ [c] \<and> w_now W' = w_now W"
  by (auto simp: mutate_def call_ext_def split: prod.splits)

lemma persistState_silent: "persistState store key r W = (e, W') \<Longrightarrow> silent W W'"
  by (auto simp: persistState_def Let_def split: option.splits if_splits dest: call_ext_silentD)

lemma ensureLoadedOMS_silent: "ensureLoadedOMS store key r W = (e, r', W') \<Longrightarrow> silent W W'"
  by (auto simp: ensureLoadedOMS_def Let_def split: option.splits if_splits prod.splits sum.splits dest: call_ext_silentD)

lemma block_silent: "block store key err r W = (r', W') \<Longrightarrow> silent W W' \<and> rc_blocked r' key = Some err"
  using persistState_silent [of store key "r\<lparr>rc_blocked := (rc_blocked r)(key \<mapsto> err)\<rparr>" W]
  by (auto simp: block_def Let_def prod_eq_iff)

lemma pendingLoop_silent:
  "pendingLoop store client key symbol cs r W = (res, r', W') \<Longrightarrow> silent W W'"
proof (induction cs arbitrary: r W res r' W')
  case (Cons c cs)
  have keep: "silent W1 W'"
    if "(case pendingLoop store client key symbol cs r1 W1 of
            (Inl e, r', W') \<Rightarrow> (Inl e, r', W')
          | (Inr active, r', W') \<Rightarrow> (Inr (c' # active), r', W')) = (res, r', W')" for r1 W1 c'
    using that Cons.IH [of r1 W1] by (auto split: prod.splits sum.splits)
  from Cons.prems show ?case
    by (auto simp: Let_def split: option.splits if_splits prod.splits sum.splits
        dest!: keep persistState_silent call_ext_silentD Cons.IH intro: silent_trans)
qed simp


lemma activePendingCreates_silent:
  "activePendingCreates store client key symbol orders r W = (res, r', W') \<Longrightarrow> silent W W'"
  by (auto simp: activePendingCreates_def Let_def split: option.splits prod.splits
      dest!: persistState_silent pendingLoop_silent intro: silent_trans)


section \<open>Guarded writes\<close>

text \<open>What a sequence of writes behind the guard adds to the log.\<close>

definition guarded_by :: "'w WriteGuard \<Rightarrow> Call list \<Rightarrow> bool" where
  "guarded_by guard cs \<longleftrightarrow> (case guard of Some _ \<Rightarrow> fenced cs | None \<Rightarrow> list_all (\<lambda>c. \<not> is_check c) cs)"

lemma guarded_by_Nil [simp, intro]: "guarded_by guard []"
  by (cases guard) (auto simp: guarded_by_def)

lemma checkWriteGuard_log:
  assumes "checkWriteGuard guard W = (e, W')"
  shows "w_now W' = w_now W"
    and "w_log W' = w_log W @ (case guard of None \<Rightarrow> [] | Some _ \<Rightarrow> [CGuard (e = None)])"
    and "guard = None \<Longrightarrow> e = None"
  using assms
  by (auto simp: checkWriteGuard_def silent_def split: option.splits prod.splits dest: call_ext_silentD)

lemma guarded_by_rejected: "guard = Some g \<Longrightarrow> guarded_by guard [CGuard False]"
  by (simp add: guarded_by_def)

lemma guarded_by_step:
  assumes "\<not> is_check c" "guarded_by guard cs"
  shows "guarded_by guard ((case guard of None \<Rightarrow> [] | Some _ \<Rightarrow> [CGuard True]) @ c # cs)"
  using assms by (cases guard) (auto simp: guarded_by_def)

text \<open>One accepted check and the write behind it, followed by more guarded calls; and a rejection.\<close>

lemma guarded_write:
  assumes "checkWriteGuard guard W = (None, W1)" "w_log W1' = w_log W1" "mutate c f W1' = (m, W2)" "\<not> is_check c"
    and "w_log W' = w_log W2 @ cs" "guarded_by guard cs"
  obtains cs' where "w_log W' = w_log W @ cs'" "guarded_by guard cs'"
    "places cs' = places_of c @ places cs" "cancels cs' = cancels_of c @ cancels cs"
proof
  let ?pre = "(case guard of None \<Rightarrow> [] | Some _ \<Rightarrow> [CGuard True]) :: Call list"
  have "w_log W2 = w_log W @ ?pre @ [c]"
    using mutate_log [OF assms(3)] checkWriteGuard_log(2) [OF assms(1)] assms(2) by (auto split: option.splits)
  with assms(5) show "w_log W' = w_log W @ (?pre @ c # cs)" by simp
  show "guarded_by guard (?pre @ c # cs)" by (rule guarded_by_step [OF assms(4,6)])
  show "places (?pre @ c # cs) = places_of c @ places cs" "cancels (?pre @ c # cs) = cancels_of c @ cancels cs"
    by (auto split: option.split)
qed

lemma guard_rejects:
  assumes "checkWriteGuard guard W = (Some e, W1)"
  shows "w_log W1 = w_log W @ [CGuard False]" "guarded_by guard [CGuard False]"
  using checkWriteGuard_log [OF assms] by (auto simp: guarded_by_def split: option.splits)

text \<open>The verdicts in a log, and what ties them to the guard: each is the guard's answer in the state the
  world was in when it was asked. Cancellations name one symbol.\<close>

fun verdicts :: "Call list \<Rightarrow> bool list" where
  "verdicts [] = []"
| "verdicts (CGuard b # cs) = b # verdicts cs"
| "verdicts (c # cs) = verdicts cs"

lemma verdicts_append [simp]: "verdicts (xs @ ys) = verdicts xs @ verdicts ys"
  by (induction xs rule: verdicts.induct) simp_all

definition accepts :: "'w WriteGuard \<Rightarrow> 'w \<Rightarrow> bool" where
  "accepts guard w \<longleftrightarrow> (case guard of None \<Rightarrow> True | Some g \<Rightarrow> fst (g w) = None)"

fun cancels_in :: "string \<Rightarrow> Call \<Rightarrow> bool" where
  "cancels_in symb (CCancel s _) = (s = symb)"
| "cancels_in symb (CCancelBatch s _) = (s = symb)"
| "cancels_in symb _ = True"

definition tied :: "'w WriteGuard \<Rightarrow> string \<Rightarrow> 'w World \<Rightarrow> 'w World \<Rightarrow> bool" where
  "tied guard symb W W' \<longleftrightarrow> w_steps W' = w_steps W \<and>
     (\<exists>cs ws. w_log W' = w_log W @ cs \<and> w_asked W' = w_asked W @ ws \<and> verdicts cs = map (accepts guard) ws \<and>
        list_all (cancels_in symb) cs)"

lemma silent_tied: "silent W W' \<Longrightarrow> tied guard symb W W'"
  by (auto simp: silent_def tied_def)

lemma tied_trans [trans]: "tied guard symb W W1 \<Longrightarrow> tied guard symb W1 W2 \<Longrightarrow> tied guard symb W W2"
  unfolding tied_def by (elim conjE exE) (rule conjI, simp, rule exI, rule exI, auto)

lemma tied_guardErr [simp]:
  "tied guard symb W (W1\<lparr>w_guardErr := x\<rparr>) = tied guard symb W W1" "tied guard symb (W\<lparr>w_guardErr := x\<rparr>) W1 = tied guard symb W W1"
  by (simp_all add: tied_def)

lemma checkWriteGuard_tied:
  assumes "checkWriteGuard guard W = (e, W')"
  shows "tied guard symb W W'"
proof (cases guard)
  case None
  with assms show ?thesis by (simp add: checkWriteGuard_def silent_tied)
next
  case (Some g)
  obtain x w where x: "g (w_ext W) = (x, w)" by fastforce
  have "W' = W\<lparr>w_ext := w, w_log := w_log W @ [CGuard (x = None)], w_asked := w_asked W @ [w_ext W]\<rparr>"
    using assms Some x by (cases x) (simp_all add: checkWriteGuard_def call_ext_def)
  moreover have "accepts guard (w_ext W) = (x = None)" by (simp add: accepts_def Some x)
  ultimately show ?thesis unfolding tied_def
    by (intro conjI exI [of _ "[CGuard (x = None)]"] exI [of _ "[w_ext W]"]) simp_all
qed

lemma mutate_tied:
  assumes "mutate c f W = (a, W')" "\<not> is_check c" "cancels_in symb c"
  shows "tied guard symb W W'"
proof -
  have "verdicts [c] = []" using assms(2) by (cases c) simp_all
  with assms show ?thesis
    by (auto simp: mutate_def call_ext_def tied_def split: prod.splits intro!: exI [of _ "[c]"])
qed

text \<open>A loop that checks the guard before every call and stops at the first error.\<close>

locale guarded_loop =
  fixes loop :: "'i list \<Rightarrow> 'w World \<Rightarrow> string option \<times> 'w World"
    and guard :: "'w WriteGuard"
    and call :: "'i \<Rightarrow> Call"
    and act :: "'i \<Rightarrow> 'w \<Rightarrow> string option \<times> 'w"
    and wrap :: "'i \<Rightarrow> string \<Rightarrow> string"
  assumes loop_Nil: "loop [] W = (None, W)"
    and loop_Cons: "loop (i # is) W =
      (case checkWriteGuard guard W of
         (Some e, W1) \<Rightarrow> (Some e, W1)
       | (None, W1) \<Rightarrow>
           (case mutate (call i) (act i) W1 of
              (Some e, W2) \<Rightarrow> (Some (wrap i e), W2)
            | (None, W2) \<Rightarrow> loop is W2))"
    and call_is_write: "\<not> is_check (call i)" "places_of (call i) = []"
begin

lemma loop_log:
  "loop is W = (e, W') \<Longrightarrow>
    w_now W' = w_now W \<and> (\<exists>cs. w_log W' = w_log W @ cs \<and> guarded_by guard cs \<and> places cs = [] \<and>
      prefix (cancels cs) (concat (map (\<lambda>i. cancels_of (call i)) is)) \<and>
      (e = None \<longrightarrow> cancels cs = concat (map (\<lambda>i. cancels_of (call i)) is)))"
proof (induction "is" arbitrary: W e W')
  case Nil
  then show ?case by (simp add: loop_Nil)
next
  case (Cons i "is")
  obtain g W1 where g: "checkWriteGuard guard W = (g, W1)" by fastforce
  show ?case
  proof (cases g)
    case (Some x)
    with Cons.prems g have "W' = W1" "e = Some x" by (auto simp: loop_Cons)
    with guard_rejects [of guard W x W1] checkWriteGuard_log(1) [OF g] g Some show ?thesis
      by (intro conjI exI [of _ "[CGuard False]"]) auto
  next
    case None
    obtain m W2 where m: "mutate (call i) (act i) W1 = (m, W2)" by fastforce
    have now: "w_now W2 = w_now W" using mutate_log [OF m] checkWriteGuard_log(1) [OF g] by simp
    have "w_now W' = w_now W2 \<and> (\<exists>cs. w_log W' = w_log W2 @ cs \<and> guarded_by guard cs \<and> places cs = [] \<and>
        (if m = None then prefix (cancels cs) (concat (map (\<lambda>i. cancels_of (call i)) is)) \<and>
           (e = None \<longrightarrow> cancels cs = concat (map (\<lambda>i. cancels_of (call i)) is)) else cs = [] \<and> e \<noteq> None))"
      using Cons g None m by (cases m) (auto simp: loop_Cons)
    then obtain cs where nw: "w_now W' = w_now W2" and cs: "w_log W' = w_log W2 @ cs" "guarded_by guard cs" "places cs = []"
      "if m = None then prefix (cancels cs) (concat (map (\<lambda>i. cancels_of (call i)) is)) \<and>
           (e = None \<longrightarrow> cancels cs = concat (map (\<lambda>i. cancels_of (call i)) is)) else cs = [] \<and> e \<noteq> None"
      by blast
    obtain cs' where cs': "w_log W' = w_log W @ cs'" "guarded_by guard cs'"
      "places cs' = places_of (call i) @ places cs" "cancels cs' = cancels_of (call i) @ cancels cs"
      by (rule guarded_write [OF g [unfolded None] refl m call_is_write(1) cs(1,2)])
    show ?thesis
      by (intro conjI exI [of _ cs'] cs'(1,2)) (use cs' cs nw now call_is_write(2) in \<open>auto split: if_splits\<close>)
  qed
qed

lemma loop_tied: "(\<And>i. cancels_in symb (call i)) \<Longrightarrow> loop is W = (e, W') \<Longrightarrow> tied guard symb W W'"
proof (induction "is" arbitrary: W e W')
  case Nil
  then show ?case by (simp add: loop_Nil silent_tied)
next
  case (Cons i "is")
  obtain g W1 where g: "checkWriteGuard guard W = (g, W1)" by fastforce
  note t1 = checkWriteGuard_tied [OF g, of symb]
  show ?case
  proof (cases g)
    case (Some x)
    with Cons.prems g t1 show ?thesis by (simp add: loop_Cons)
  next
    case None
    obtain m W2 where m: "mutate (call i) (act i) W1 = (m, W2)" by fastforce
    note t2 = tied_trans [OF t1 mutate_tied [OF m call_is_write(1) Cons.prems(1)]]
    show ?thesis
    proof (cases m)
      case None
      with Cons.prems g \<open>g = None\<close> m have "loop is W2 = (e, W')" by (simp add: loop_Cons)
      from tied_trans [OF t2 Cons.IH [OF Cons.prems(1) this]] show ?thesis .
    next
      case (Some x)
      with Cons.prems g \<open>g = None\<close> m t2 show ?thesis by (simp add: loop_Cons)
    qed
  qed
qed

end

interpretation chunk_loop: guarded_loop "cancelChunks batch guard symbol" guard "CCancelBatch symbol" "batch symbol" "\<lambda>_ e. e"
  for batch guard symbol
  by unfold_locales (auto split: prod.splits option.splits)

interpretation single_loop: guarded_loop "cancelSingles client guard symbol" guard "CCancel symbol"
  "cl_CancelOrder client symbol" "\<lambda>i e. ''cancel order '' @ i @ '': '' @ e"
  for client guard symbol
  by unfold_locales (auto split: prod.splits option.splits)

lemma concat_chunks: "0 < n \<Longrightarrow> concat (chunks n xs) = xs"
proof (induction n xs rule: chunks.induct)
  case (1 n xs)
  then show ?case by (subst chunks.simps) auto
qed

lemma chunks_bound: "c \<in> set (chunks n xs) \<Longrightarrow> length c \<le> n"
proof (induction n xs rule: chunks.induct)
  case (1 n xs)
  then show ?case by (subst (asm) (2) chunks.simps) (auto split: if_splits)
qed

lemma cancelOrders_log:
  assumes "cancelOrders client symbol orders guard W = (e, W')"
  shows "w_now W' = w_now W \<and> (\<exists>cs. w_log W' = w_log W @ cs \<and> guarded_by guard cs \<and> places cs = [] \<and>
      prefix (cancels cs) (map o_OrderID orders) \<and> (e = None \<longrightarrow> cancels cs = map o_OrderID orders))"
proof (cases "orders = []")
  case True
  with assms show ?thesis by (auto simp: cancelOrders_def intro: exI [of _ "[]"])
next
  case False
  have n: "concat (chunks maxBatchCancelSize (map o_OrderID orders)) = map o_OrderID orders"
    by (rule concat_chunks) (simp add: maxBatchCancelSize_def)
  show ?thesis
  proof (cases "cl_BatchCanceler client")
    case None
    with assms False single_loop.loop_log [of client guard symbol "map o_OrderID orders" W e W'] show ?thesis
      by (simp add: cancelOrders_def comp_def)
  next
    case (Some batch)
    with assms False n chunk_loop.loop_log [of batch guard symbol "chunks maxBatchCancelSize (map o_OrderID orders)" W e W']
    show ?thesis by (simp add: cancelOrders_def)
  qed
qed

lemma cancelOrders_tied: "cancelOrders client symbol orders guard W = (e, W') \<Longrightarrow> tied guard symbol W W'"
  by (auto simp: cancelOrders_def silent_tied split: if_splits option.splits
      intro: chunk_loop.loop_tied single_loop.loop_tied)

text \<open>The placement dispatcher behind the guard.\<close>

lemma guardClosure_run:
  assumes "run_before (guardClosure guard) W = (e, W1)"
  obtains W0 where "checkWriteGuard guard W = (e, W0)" "W1 = W0\<lparr>w_guardErr := e\<rparr>"
  using assms by (auto simp: run_before_def guardClosure_def Let_def split: prod.splits)

lemma placeLoop_log:
  "placeLoop client (guardClosure guard) n reqs os W = ((orders, e), W') \<Longrightarrow>
    length orders = length os \<and> w_now W' = w_now W \<and>
    (\<exists>cs. w_log W' = w_log W @ cs \<and> guarded_by guard cs \<and> cancels cs = [] \<and>
      prefix (places cs) reqs \<and> (e = None \<longrightarrow> places cs = reqs))"
proof (induction reqs arbitrary: n os W)
  case (Cons q reqs)
  obtain g W1 where rb: "run_before (guardClosure guard) W = (g, W1)" by fastforce
  obtain W0 where g: "checkWriteGuard guard W = (g, W0)" and W1: "W1 = W0\<lparr>w_guardErr := g\<rparr>"
    by (rule guardClosure_run [OF rb])
  show ?case
  proof (cases g)
    case (Some x)
    with Cons.prems rb have "W' = W1" "orders = os" "e = Some x" by auto
    with guard_rejects [of guard W x W0] checkWriteGuard_log(1) [OF g] g Some W1 show ?thesis
      by (intro conjI exI [of _ "[CGuard False]"]) auto
  next
    case None
    obtain m W2 where m: "mutate (CPlace q) (cl_PlacePostOnly client q) W1 = (m, W2)" by fastforce
    have now: "w_now W2 = w_now W" using mutate_log [OF m] checkWriteGuard_log(1) [OF g] W1 by simp
    have "length orders = length os \<and> w_now W' = w_now W2 \<and>
      (\<exists>cs. w_log W' = w_log W2 @ cs \<and> guarded_by guard cs \<and> cancels cs = [] \<and>
        prefix (places cs) reqs \<and> (e = None \<longrightarrow> places cs = reqs))"
    proof (cases m)
      case (Inl x)
      with Cons.prems rb None m show ?thesis by auto
    next
      case (Inr order)
      with Cons.prems rb None m have "placeLoop client (guardClosure guard) (n + 1) reqs (os[n := order]) W2 = ((orders, e), W')"
        by simp
      from Cons.IH [OF this] show ?thesis by simp
    qed
    then obtain cs where nw: "length orders = length os" "w_now W' = w_now W2" and cs: "w_log W' = w_log W2 @ cs"
      "guarded_by guard cs" "cancels cs = []" "prefix (places cs) reqs" "e = None \<longrightarrow> places cs = reqs" by blast
    have w1: "w_log W1 = w_log W0" by (simp add: W1)
    obtain cs' where cs': "w_log W' = w_log W @ cs'" "guarded_by guard cs'"
      "places cs' = places_of (CPlace q) @ places cs" "cancels cs' = cancels_of (CPlace q) @ cancels cs"
      by (rule guarded_write [OF g [unfolded None] w1 m _ cs(1,2)]) simp
    show ?thesis by (intro conjI exI [of _ cs'] cs'(1,2)) (use cs' cs nw now in auto)
  qed
qed auto

lemma PlacePostOnlyBatch_log:
  assumes "PlacePostOnlyBatch client reqs (guardClosure guard) W = ((orders, e), W')"
  shows "w_now W' = w_now W \<and> (\<exists>cs. w_log W' = w_log W @ cs \<and> guarded_by guard cs \<and> cancels cs = [] \<and>
      prefix (places cs) reqs \<and> (e = None \<longrightarrow> places cs = reqs))"
proof (cases "reqs = []")
  case True
  with assms show ?thesis by (auto simp: PlacePostOnlyBatch_def)
next
  case False
  show ?thesis
  proof (cases "cl_BatchPlacer client")
    case None
    with assms False placeLoop_log [of client guard 0 reqs] show ?thesis by (simp add: PlacePostOnlyBatch_def)
  next
    case (Some batch)
    obtain g W1 where rb: "run_before (guardClosure guard) W = (g, W1)" by fastforce
    obtain W0 where g: "checkWriteGuard guard W = (g, W0)" and W1: "W1 = W0\<lparr>w_guardErr := g\<rparr>"
      by (rule guardClosure_run [OF rb])
    show ?thesis
    proof (cases g)
      case S: (Some x)
      with assms False Some rb have "W' = W1" "e = Some x" by (auto simp: PlacePostOnlyBatch_def)
      with guard_rejects [of guard W x W0] checkWriteGuard_log(1) [OF g] g S W1 show ?thesis
        by (intro conjI exI [of _ "[CGuard False]"]) auto
    next
      case None
      obtain res W2 where m: "mutate (CPlaceBatch reqs) (batch reqs) W1 = (res, W2)" by fastforce
      have W2: "W' = W2"
        using assms False Some rb None m by (auto simp: PlacePostOnlyBatch_def Let_def split: prod.splits if_splits)
      have now: "w_now W2 = w_now W" using mutate_log [OF m] checkWriteGuard_log(1) [OF g] W1 by simp
      have w1: "w_log W1 = w_log W0" by (simp add: W1)
      obtain cs' where cs': "w_log W2 = w_log W @ cs'" "guarded_by guard cs'"
        "places cs' = places_of (CPlaceBatch reqs) @ places []" "cancels cs' = cancels_of (CPlaceBatch reqs) @ cancels []"
        by (rule guarded_write [OF g [unfolded None] w1 m, where cs = "[]" and W' = W2]) simp_all
      show ?thesis unfolding W2 by (intro conjI exI [of _ cs'] cs'(1,2)) (use cs' now in auto)
    qed
  qed
qed



lemma run_before_tied: "run_before (guardClosure guard) W = (e, W') \<Longrightarrow> tied guard symb W W'"
  by (erule guardClosure_run) (auto dest: checkWriteGuard_tied)

lemma placeLoop_tied: "placeLoop client (guardClosure guard) n reqs os W = (out, W') \<Longrightarrow> tied guard symb W W'"
proof (induction reqs arbitrary: n os W)
  case (Cons q reqs)
  obtain g W1 where g: "run_before (guardClosure guard) W = (g, W1)" by fastforce
  note t1 = run_before_tied [OF g, of symb]
  show ?case
  proof (cases g)
    case (Some x)
    with Cons.prems g t1 show ?thesis by simp
  next
    case None
    obtain m W2 where m: "mutate (CPlace q) (cl_PlacePostOnly client q) W1 = (m, W2)" by fastforce
    have t2: "tied guard symb W W2" by (rule tied_trans [OF t1 mutate_tied [OF m]]) simp_all
    show ?thesis
    proof (cases m)
      case (Inl x)
      with Cons.prems g None m t2 show ?thesis by simp
    next
      case (Inr ord)
      with Cons.prems g None m have "placeLoop client (guardClosure guard) (n + 1) reqs (os[n := ord]) W2 = (out, W')" by simp
      from tied_trans [OF t2 Cons.IH [OF this]] show ?thesis .
    qed
  qed
qed (simp add: silent_tied)

lemma PlacePostOnlyBatch_tied:
  assumes "PlacePostOnlyBatch client reqs (guardClosure guard) W = (out, W')"
  shows "tied guard symb W W'"
proof (cases "reqs = [] \<or> cl_BatchPlacer client = None")
  case True
  show ?thesis
  proof (cases "reqs = []")
    case True
    with assms show ?thesis by (simp add: PlacePostOnlyBatch_def silent_tied)
  next
    case False
    with assms True have "placeLoop client (guardClosure guard) 0 reqs (replicate (length reqs) zero_order) W = (out, W')"
      by (simp add: PlacePostOnlyBatch_def Let_def)
    then show ?thesis by (rule placeLoop_tied)
  qed
next
  case False
  then obtain batch where batch: "cl_BatchPlacer client = Some batch" by blast
  obtain g W1 where g: "run_before (guardClosure guard) W = (g, W1)" by fastforce
  obtain m W2 where m: "mutate (CPlaceBatch reqs) (batch reqs) W1 = (m, W2)" by fastforce
  note t1 = run_before_tied [OF g, of symb]
  have t2: "tied guard symb W1 W2" by (rule mutate_tied [OF m]) simp_all
  have "W' = W1 \<or> W' = W2" using assms False batch g m
    by (auto simp: PlacePostOnlyBatch_def Let_def split: option.splits prod.splits if_splits)
  with t1 tied_trans [OF t1 t2] show ?thesis by blast
qed

section \<open>One cycle\<close>

lemma confirmLoop_log:
  "confirmLoop store key ps result r W = ((res, e), r', W') \<Longrightarrow>
    silent W W' \<and> rs_Kept res = rs_Kept result \<and> rs_Canceled res = rs_Canceled result \<and>
    rs_Pending result \<le> rs_Pending res \<and> rs_Pending res \<le> rs_Pending result + length ps \<and>
    rs_Placed result \<le> rs_Placed res \<and> rs_Placed res \<le> rs_Placed result + length ps \<and>
    (e \<noteq> None \<longrightarrow> rc_blocked r' key \<noteq> None)"
proof (induction ps arbitrary: result r W)
  case (Cons p ps)
  obtain order quote where p: "p = (order, quote)" by fastforce
  consider "o_OrderID order = []" | "o_OrderID order \<noteq> []" "\<not> isActiveOrder (o_State order)"
    | "o_OrderID order \<noteq> []" "isActiveOrder (o_State order)" by blast
  then show ?case
  proof cases
    case 3
    define r1 where "r1 = addPendingCreate key \<lparr>pc_OrderID = o_OrderID order, pc_Quote = quote,
                      pc_SubmittedAt = w_now W, pc_LastChecked = zero_time\<rparr> r"
    obtain x W1 where x: "persistState store key r1 W = (x, W1)" by fastforce
    note sx = persistState_silent [OF x]
    show ?thesis
    proof (cases x)
      case None
      with Cons.prems p 3 x have "confirmLoop store key ps
          (result\<lparr>rs_Pending := rs_Pending result + 1, rs_Placed := rs_Placed result + 1\<rparr>) r1 W1 = ((res, e), r', W')"
        by (simp add: r1_def [symmetric])
      from Cons.IH [OF this] sx show ?thesis by (auto intro: silent_trans)
    next
      case (Some y)
      obtain r2 W2 where b: "block store key (''persist accepted order '' @ o_OrderID order @ '': '' @ y) r1 W1 = (r2, W2)" by fastforce
      with Cons.prems p 3 x Some have "res = result" "r' = r2" "W' = W2" by (auto simp: r1_def [symmetric])
      with block_silent [OF b] sx show ?thesis by (auto intro: silent_trans)
    qed
  next
    case 2
    with Cons.prems p have "confirmLoop store key ps (result\<lparr>rs_Placed := rs_Placed result + 1\<rparr>) r W = ((res, e), r', W')" by simp
    from Cons.IH [OF this] show ?thesis by auto
  next
    case 1
    with Cons.prems p have "confirmLoop store key ps result r W = ((res, e), r', W')" by simp
    from Cons.IH [OF this] show ?thesis by auto
  qed
qed simp

lemma clientID_managed [simp]: "HasPrefix (clientID ins q gen now) managedPrefix"
  by (simp add: clientID_def Let_def)

text \<open>A request is for a target quote and carries the manager's identifier and fence generation.\<close>

definition request_for :: "Quote list \<Rightarrow> 64 word \<Rightarrow> PlaceRequest \<Rightarrow> bool" where
  "request_for quotes gen p \<longleftrightarrow> HasPrefix (pr_ClientID p) managedPrefix \<and> pr_FenceGeneration p = gen \<and>
     list_ex (\<lambda>q. pr_Symbol p = q_Symbol q \<and> pr_Side p = q_Side q \<and> pr_Price p = q_Price q \<and>
       pr_Quantity p = q_Quantity q) quotes"

lemma selectMissing_subset: "set (selectMissing quotes matched n) \<subseteq> set quotes"
proof
  fix q assume "q \<in> set (selectMissing quotes matched n)"
  then obtain m where "(m, q) \<in> set (zip matched quotes)" by (auto simp: selectMissing_def dest!: in_set_takeD)
  then show "q \<in> set quotes" by (rule set_zip_rightD)
qed

lemma selectMissing_length: "length (selectMissing quotes matched n) \<le> n"
  by (simp add: selectMissing_def)

lemma placeRequests_ok:
  "list_all (request_for quotes gen) (placeRequests ins (selectMissing quotes matched n) gen now)"
  using selectMissing_subset [of quotes matched n]
  by (auto simp: placeRequests_def list_all_iff list_ex_iff request_for_def)

text \<open>What a cycle may do to the exchange.\<close>

definition cycle_log :: "'w WriteGuard \<Rightarrow> Quote list \<Rightarrow> 64 word \<Rightarrow> Order list \<Rightarrow> Call list \<Rightarrow> bool" where
  "cycle_log guard quotes gen managed cs \<longleftrightarrow>
     guarded_by guard cs \<and> (places cs = [] \<or> cancels cs = []) \<and>
     length (places cs) \<le> 20 \<and> length (cancels cs) \<le> 20 \<and>
     (places cs \<noteq> [] \<longrightarrow> length managed + length (places cs) \<le> length quotes) \<and>
     list_all (request_for quotes gen) (places cs) \<and> set (cancels cs) \<subseteq> o_OrderID ` set managed"

lemma cycle_log_Nil [simp, intro]: "cycle_log guard quotes gen managed []"
  by (auto simp: cycle_log_def)

lemma list_all_prefix: "prefix xs ys \<Longrightarrow> list_all P ys \<Longrightarrow> list_all P xs"
  by (auto simp: prefix_def)

lemma placeMissing_log:
  assumes "placeMissing store client key ins quotes matched n result guard gen r W = ((res, e), r', W')"
    and "n \<le> 20" "length managed + n \<le> length quotes"
  shows "\<exists>cs. w_log W' = w_log W @ cs \<and> w_now W' = w_now W \<and> cycle_log guard quotes gen managed cs \<and>
    rs_Pending res \<le> rs_Pending result + n \<and> rs_Canceled res = rs_Canceled result"
proof -
  define sel where "sel = selectMissing quotes matched n"
  define reqs where "reqs = placeRequests ins sel gen (w_now W)"
  have len: "length reqs \<le> n" "length sel \<le> n" using selectMissing_length [of quotes matched n]
    by (simp_all add: reqs_def sel_def placeRequests_def)
  obtain orders se W1 where p: "PlacePostOnlyBatch client reqs (guardClosure guard) (W\<lparr>w_guardErr := None\<rparr>) = ((orders, se), W1)"
    by (metis prod.collapse)
  from PlacePostOnlyBatch_log [OF p] obtain cs where n1: "w_now W1 = w_now W" and cs: "w_log W1 = w_log W @ cs"
    "guarded_by guard cs" "cancels cs = []" "prefix (places cs) reqs" by auto
  obtain res1 ce r1 W2 where c: "confirmLoop store key (zip orders sel) result r W1 = ((res1, ce), r1, W2)"
    by (metis prod.collapse)
  note C = confirmLoop_log [OF c]
  have out: "res = res1 \<and> silent W2 W'"
    using assms(1) unfolding placeMissing_def Let_def sel_def [symmetric] reqs_def [symmetric] p c prod.case
    by (auto split: option.splits if_splits prod.splits dest!: block_silent)
  have "w_log W' = w_log W @ cs" "w_now W' = w_now W" using out C cs(1) n1 by (auto simp: silent_def)
  moreover have "cycle_log guard quotes gen managed cs"
  proof -
    have "length (places cs) \<le> n" using prefix_length_le [OF cs(4)] len by simp
    moreover have "list_all (request_for quotes gen) (places cs)"
      by (rule list_all_prefix [OF cs(4)]) (auto simp: reqs_def sel_def placeRequests_ok)
    ultimately show ?thesis using cs assms(2,3) by (auto simp: cycle_log_def)
  qed
  moreover have "rs_Pending res \<le> rs_Pending result + n" "rs_Canceled res = rs_Canceled result" using out C len(2) by auto
  ultimately show ?thesis by blast
qed

lemma placeMissing_tied:
  assumes "placeMissing store client key ins quotes matched n result guard gen r W = (out, r', W')"
  shows "tied guard symb W W'"
proof -
  let ?sel = "selectMissing quotes matched n"
  obtain orders se W1 where p: "PlacePostOnlyBatch client (placeRequests ins ?sel gen (w_now W)) (guardClosure guard)
      (W\<lparr>w_guardErr := None\<rparr>) = ((orders, se), W1)" by (metis prod.collapse)
  obtain res1 ce r1 W2 where c: "confirmLoop store key (zip orders ?sel) result r W1 = ((res1, ce), r1, W2)" by (metis prod.collapse)
  have "silent W2 W'" using assms unfolding placeMissing_def Let_def p c prod.case
    by (auto split: option.splits if_splits prod.splits dest!: block_silent)
  with confirmLoop_log [OF c] have s: "silent W1 W'" by (blast intro: silent_trans)
  have "tied guard symb W W1" using PlacePostOnlyBatch_tied [OF p, of symb] by simp
  from tied_trans [OF this silent_tied [OF s]] show ?thesis .
qed

lemma cancelSelection_ok:
  shows "set (cancelSelection managed mt) \<subseteq> set managed" and "length (cancelSelection managed mt) \<le> 20"
proof -
  show "set (cancelSelection managed mt) \<subseteq> set managed"
    by (auto simp: cancelSelection_def Let_def dest!: in_set_takeD)
  show "length (cancelSelection managed mt) \<le> 20"
    by (simp add: cancelSelection_def Let_def maxOrderMutationsPerCycle_def)
qed

lemma cancelStale_log:
  assumes "cancelStale store client key symbol targets result guard r W = ((res, e), r', W')"
    and "set targets \<subseteq> set managed" "length targets \<le> 20"
  shows "\<exists>cs. w_log W' = w_log W @ cs \<and> w_now W' = w_now W \<and> cycle_log guard quotes gen managed cs \<and> places cs = []"
proof (cases "targets = []")
  case True
  with assms(1) show ?thesis by (auto simp: cancelStale_def intro!: exI [of _ "[]"])
next
  case False
  obtain x W1 where x: "cancelOrders client symbol targets guard W = (x, W1)" by fastforce
  from cancelOrders_log [OF x] obtain cs where n1: "w_now W1 = w_now W" and cs: "w_log W1 = w_log W @ cs"
    "guarded_by guard cs" "places cs = []" "prefix (cancels cs) (map o_OrderID targets)" by blast
  have out: "silent W1 W'"
    using assms(1) False x
    by (auto simp: cancelStale_def Let_def split: option.splits prod.splits dest!: block_silent persistState_silent)
  have "length (cancels cs) \<le> 20" "set (cancels cs) \<subseteq> o_OrderID ` set managed"
    using prefix_length_le [OF cs(4)] set_mono_prefix [OF cs(4)] assms(2,3) by auto
  with cs n1 out show ?thesis by (intro exI [of _ cs]) (auto simp: cycle_log_def silent_def)
qed

lemma converge_tied:
  assumes "converge store client key ins quotes threshold managed pending guard gen refresh r W = (out, r', W')"
  shows "tied guard (q_Symbol (hd quotes)) W W'"
proof -
  have "tied guard (q_Symbol (hd quotes)) W W'"
    if c: "cancelStale store client key (q_Symbol (hd quotes)) targets result guard r W = (out, r', W')" for targets result
  proof (cases "targets = []")
    case True
    with c show ?thesis by (auto simp: cancelStale_def silent_tied)
  next
    case False
    obtain x W1 where x: "cancelOrders client (q_Symbol (hd quotes)) targets guard W = (x, W1)" by fastforce
    have "silent W1 W'" using c False x
      by (auto simp: cancelStale_def Let_def split: option.splits prod.splits dest!: block_silent persistState_silent)
    with cancelOrders_tied [OF x] show ?thesis by (auto intro: tied_trans silent_tied)
  qed
  with assms show ?thesis by (auto simp: converge_def Let_def split: if_splits intro: placeMissing_tied)
qed

lemma converge_log:
  assumes "converge store client key ins quotes threshold managed pending guard gen refresh r W = ((res, e), r', W')"
  shows "\<exists>cs. w_log W' = w_log W @ cs \<and> w_now W' = w_now W \<and> cycle_log guard quotes gen managed cs \<and>
    (places cs \<noteq> [] \<longrightarrow> length managed + rs_Pending res \<le> length quotes)"
proof -
  define mt where "mt = matchTargets refresh threshold quotes managed pending (w_now W)"
  define result where "result = \<lparr>rs_Kept = mt_kept mt, rs_Canceled = 0, rs_Placed = 0, rs_Pending = length pending\<rparr>"
  define vac where "vac = int (length quotes) - int (length managed) - int (length pending)"
  show ?thesis
  proof (cases "vac > 0")
    case True
    have lim: "nat (min vac maxOrderMutationsPerCycle) \<le> 20" "nat (min vac maxOrderMutationsPerCycle) \<le> nat vac"
      by (auto simp: maxOrderMutationsPerCycle_def)
    with True have fits: "length managed + nat (min vac maxOrderMutationsPerCycle) \<le> length quotes"
      "length managed + (length pending + nat (min vac maxOrderMutationsPerCycle)) \<le> length quotes"
      by (auto simp: vac_def)
    from assms True have "placeMissing store client key ins quotes (mt_quotes mt) (nat (min vac maxOrderMutationsPerCycle)) result
        guard gen r W = ((res, e), r', W')"
      by (simp add: converge_def Let_def mt_def [symmetric] vac_def [symmetric] result_def [symmetric])
    from placeMissing_log [OF this lim(1) fits(1)] fits(2) show ?thesis by (auto simp: result_def)
  next
    case False
    with assms have "cancelStale store client key (q_Symbol (hd quotes)) (cancelSelection managed mt) result guard r W = ((res, e), r', W')"
      by (simp add: converge_def Let_def mt_def [symmetric] vac_def [symmetric] result_def [symmetric])
    from cancelStale_log [OF this cancelSelection_ok, of quotes gen] show ?thesis by blast
  qed
qed


lemma withPending_ids: "set (map o_OrderID (withPending managed creates)) = o_OrderID ` set managed \<union> fst ` set creates"
  by (force simp: withPending_def)

section \<open>Uncertain outcomes\<close>

lemma loaded_simps [simp]:
  "rc_loaded (addPendingCreate key c r) = rc_loaded r"
  "rc_loaded (removePendingCreate key i r) = rc_loaded r"
  "rc_loaded (setPendingCancels key is now r) = rc_loaded r"
  "rc_loaded (fst (block store key e r W)) = rc_loaded r"
  by (simp_all add: addPendingCreate_def removePendingCreate_def setPendingCancels_def block_def Let_def)

lemma block_loaded: "block store key e r W = (r', W') \<Longrightarrow> rc_loaded r' = rc_loaded r"
  using loaded_simps(4) [of store key e r W] by simp

lemma confirmLoop_loaded: "confirmLoop store key ps result r W = (out, r', W') \<Longrightarrow> rc_loaded r' = rc_loaded r"
proof (induction ps arbitrary: result r W)
  case (Cons p ps)
  then show ?case
    by (cases p) (auto simp: Let_def split: if_splits option.splits prod.splits dest!: block_loaded)
qed simp

lemma guardClosure_rejected:
  assumes "run_before (guardClosure guard) W = (Some e, W1)"
  shows "w_log W1 = w_log W @ [CGuard False]" "w_guardErr W1 = Some e"
proof -
  obtain W0 where g: "checkWriteGuard guard W = (Some e, W0)" and W1: "W1 = W0\<lparr>w_guardErr := Some e\<rparr>"
    by (rule guardClosure_run [OF assms])
  from guard_rejects(1) [OF g] W1 show "w_log W1 = w_log W @ [CGuard False]" "w_guardErr W1 = Some e" by simp_all
qed

lemma run_before_guardErr: "run_before (guardClosure guard) W = (None, W1) \<Longrightarrow> w_guardErr W1 = None"
  by (auto simp: run_before_def guardClosure_def Let_def split: prod.splits)

lemma mutate_guardErr: "mutate c f W = (a, W') \<Longrightarrow> w_guardErr W' = w_guardErr W"
  by (auto simp: mutate_def call_ext_def split: prod.splits)

text \<open>The captured guard error is set exactly when the last call was a rejected check.\<close>

lemma placeLoop_guardErr:
  "placeLoop client (guardClosure guard) n reqs os W = (out, W') \<Longrightarrow> w_guardErr W = None \<Longrightarrow>
     w_guardErr W' \<noteq> None \<Longrightarrow> \<exists>cs. w_log W' = w_log W @ cs @ [CGuard False]"
proof (induction reqs arbitrary: n os W)
  case (Cons q reqs)
  obtain g W1 where rb: "run_before (guardClosure guard) W = (g, W1)" by fastforce
  show ?case
  proof (cases g)
    case (Some x)
    with Cons.prems rb guardClosure_rejected(1) [of guard W x W1] show ?thesis by auto
  next
    case None
    obtain m W2 where m: "mutate (CPlace q) (cl_PlacePostOnly client q) W1 = (m, W2)" by fastforce
    from run_before_guardErr rb None mutate_guardErr [OF m] have g2: "w_guardErr W2 = None" by metis
    obtain W0 where g: "checkWriteGuard guard W = (None, W0)" and W1: "W1 = W0\<lparr>w_guardErr := None\<rparr>"
      using guardClosure_run rb None by metis
    have l2: "\<exists>cs. w_log W2 = w_log W @ cs"
      using mutate_log [OF m] W1 checkWriteGuard_log(2) [OF g] by auto
    from Cons.prems rb None m g2 Cons.IH [of "n + 1" _ W2] l2 show ?thesis
      by (cases m) (auto, metis append.assoc)
  qed
qed simp

lemma PlacePostOnlyBatch_guardErr:
  assumes "PlacePostOnlyBatch client reqs (guardClosure guard) W = (out, W')" "w_guardErr W = None" "w_guardErr W' \<noteq> None"
  shows "\<exists>cs. w_log W' = w_log W @ cs @ [CGuard False]"
proof (cases "reqs = []")
  case False
  show ?thesis
  proof (cases "cl_BatchPlacer client")
    case None
    with assms False placeLoop_guardErr show ?thesis by (simp add: PlacePostOnlyBatch_def)
  next
    case (Some batch)
    obtain g W1 where rb: "run_before (guardClosure guard) W = (g, W1)" by fastforce
    show ?thesis
    proof (cases g)
      case S: (Some x)
      with assms False Some rb guardClosure_rejected(1) [of guard W x W1] show ?thesis
        by (auto simp: PlacePostOnlyBatch_def intro: exI [of _ "[]"])
    next
      case None
      with assms False Some rb run_before_guardErr [of guard W W1] show ?thesis
        by (auto simp: PlacePostOnlyBatch_def Let_def split: prod.splits if_splits dest!: mutate_guardErr)
    qed
  qed
qed (use assms in \<open>auto simp: PlacePostOnlyBatch_def\<close>)

lemma placeMissing_uncertain:
  assumes "placeMissing store client key ins quotes matched n result guard gen r W = ((res, Some e), r', W')"
  shows "(rc_blocked r' key \<noteq> None \<or> (\<exists>cs. w_log W' = w_log W @ cs @ [CGuard False])) \<and> rc_loaded r' = rc_loaded r"
proof -
  define sel where "sel = selectMissing quotes matched n"
  define reqs where "reqs = placeRequests ins sel gen (w_now W)"
  obtain orders se W1 where p: "PlacePostOnlyBatch client reqs (guardClosure guard) (W\<lparr>w_guardErr := None\<rparr>) = ((orders, se), W1)"
    by (metis prod.collapse)
  obtain res1 ce r1 W2 where c: "confirmLoop store key (zip orders sel) result r W1 = ((res1, ce), r1, W2)"
    by (metis prod.collapse)
  note C = confirmLoop_log [OF c] and L = confirmLoop_loaded [OF c]
  have "rc_blocked r' key \<noteq> None \<or> (w_guardErr W1 \<noteq> None \<and> W' = W2)"
    using assms C unfolding placeMissing_def Let_def sel_def [symmetric] reqs_def [symmetric] p c prod.case
    by (auto split: option.splits if_splits prod.splits dest!: block_silent)
  moreover have "rc_loaded r' = rc_loaded r"
    using assms L unfolding placeMissing_def Let_def sel_def [symmetric] reqs_def [symmetric] p c prod.case
    by (auto split: option.splits if_splits prod.splits dest!: block_loaded)
  moreover have "\<exists>cs. w_log W2 = w_log W @ cs @ [CGuard False]" if "w_guardErr W1 \<noteq> None"
    using PlacePostOnlyBatch_guardErr [OF p _ that] C by (auto simp: silent_def)
  ultimately show ?thesis by blast
qed


lemma ensureLoadedOMS_loaded: "ensureLoadedOMS store key r W = (None, r', W') \<Longrightarrow> rc_loaded r' key"
  by (auto simp: ensureLoadedOMS_def Let_def split: option.splits if_splits prod.splits sum.splits)

lemma waiting_loaded: "waitingForCancelConfirmation key orders now r = (b, r') \<Longrightarrow> rc_loaded r' = rc_loaded r"
  by (auto simp: waitingForCancelConfirmation_def Let_def split: option.splits if_splits)

lemma waiting_creates: "waitingForCancelConfirmation key orders now r = (b, r') \<Longrightarrow> rc_pendingCreates r' = rc_pendingCreates r"
  by (auto simp: waitingForCancelConfirmation_def Let_def split: option.splits if_splits)

lemma pendingLoop_loaded:
  "pendingLoop store client key symbol cs r W = (res, r', W') \<Longrightarrow> rc_loaded r' = rc_loaded r"
proof (induction cs arbitrary: r W res r' W')
  case (Cons c cs)
  have keep: "rc_loaded r' = rc_loaded r1"
    if "(case pendingLoop store client key symbol cs r1 W1 of
            (Inl e, r', W') \<Rightarrow> (Inl e, r', W')
          | (Inr active, r', W') \<Rightarrow> (Inr (c' # active), r', W')) = (res, r', W')" for r1 W1 c'
    using that Cons.IH [of r1 W1] by (auto split: prod.splits sum.splits)
  from Cons.prems show ?case
    by (auto simp: Let_def split: option.splits if_splits prod.splits sum.splits dest!: keep Cons.IH)
qed simp

lemma activePendingCreates_loaded:
  "activePendingCreates store client key symbol orders r W = (res, r', W') \<Longrightarrow> rc_loaded r' = rc_loaded r"
  by (auto simp: activePendingCreates_def Let_def split: option.splits prod.splits dest!: pendingLoop_loaded)

text \<open>A cycle sends nothing, or it converges from a state that is loaded and not blocked.\<close>

lemma reconcile_cases:
  assumes "ReconcileWithOrdersGuardedPolicy store client ins quotes threshold orders guard gen refresh r0 W0 = (out, r', W')"
  obtains "silent W0 W'"
  | pending r2 W2 where "silent W0 W2" "rc_loaded r2 (stateKey client ins)"
    "converge store client (stateKey client ins) ins quotes threshold (ManagedOrdersFor client orders) pending guard gen refresh r2 W2
      = (out, r', W')"
    "rc_loaded r0 (stateKey client ins) \<Longrightarrow> rc_pendingCreates r0 (stateKey client ins) = [] \<Longrightarrow> pending = []"
proof -
  let ?key = "stateKey client ins" and ?managed = "ManagedOrdersFor client orders"
  obtain e1 r W where l: "ensureLoadedOMS store ?key r0 W0 = (e1, r, W)" by (metis prod.collapse)
  note sl = ensureLoadedOMS_silent [OF l]
  obtain wt r1 where wt: "waitingForCancelConfirmation ?key ?managed (w_now W) r = (wt, r1)" by fastforce
  obtain e2 W1 where p: "persistState store ?key r1 W = (e2, W1)" by fastforce
  note sp = silent_trans [OF sl persistState_silent [OF p]]
  obtain ap r2 W2 where a: "activePendingCreates store client ?key (q_Symbol (hd quotes)) ?managed r1 W1 = (ap, r2, W2)"
    by (metis prod.collapse)
  note sa = silent_trans [OF sp activePendingCreates_silent [OF a]]
  let ?go = "e1 = None \<and> rc_blocked r ?key = None \<and> quotes \<noteq> [] \<and> e2 = None \<and> wt = Inr False"
  consider pending where ?go "ap = Inr pending" | x where ?go "ap = Inl x" | "\<not> ?go" by (cases ap) blast+
  then show thesis
  proof cases
    case 1
    have "rc_loaded r2 ?key"
      using ensureLoadedOMS_loaded l 1(1) waiting_loaded [OF wt] activePendingCreates_loaded [OF a] by metis
    moreover have "converge store client ?key ins quotes threshold ?managed pending guard gen refresh r2 W2 = (out, r', W')"
      using 1 assms l wt p a by (simp add: ReconcileWithOrdersGuardedPolicy_def Let_def)
    moreover have "pending = []" if "rc_loaded r0 ?key" "rc_pendingCreates r0 ?key = []"
      using a 1 l that waiting_creates [OF wt]
      by (auto simp: activePendingCreates_def ensureLoadedOMS_def Let_def split: option.splits prod.splits)
    ultimately show thesis using sa that(2) by blast
  next
    case 2
    obtain r3 W3 where b: "block store ?key x r2 W2 = (r3, W3)" by fastforce
    have "W' = W3" using assms l wt p a 2 b by (simp add: ReconcileWithOrdersGuardedPolicy_def Let_def)
    with block_silent [OF b] sa show thesis using that(1) by (auto intro: silent_trans)
  next
    case 3
    have "W' = W \<or> W' = W1 \<or> (\<exists>x r3. block store ?key x r1 W1 = (r3, W'))"
      using assms l wt p 3
      by (auto simp: ReconcileWithOrdersGuardedPolicy_def Let_def split: option.splits if_splits sum.splits bool.splits prod.splits)
    then show thesis using sl sp that(1) by (auto intro: silent_trans dest!: block_silent)
  qed
qed

lemma reconcile_log:
  assumes "ReconcileWithOrdersGuardedPolicy store client ins quotes threshold orders guard gen refresh r0 W0 = ((res, e), r', W')"
  shows "w_log W' = w_log W0 @ sent W0 W'" "cycle_log guard quotes gen (ManagedOrdersFor client orders) (sent W0 W')"
    "places (sent W0 W') \<noteq> [] \<Longrightarrow> length (ManagedOrdersFor client orders) + rs_Pending res \<le> length quotes"
proof -
  have "\<exists>cs. w_log W' = w_log W0 @ cs \<and> cycle_log guard quotes gen (ManagedOrdersFor client orders) cs \<and>
    (places cs \<noteq> [] \<longrightarrow> length (ManagedOrdersFor client orders) + rs_Pending res \<le> length quotes)"
    using assms
  proof (cases rule: reconcile_cases)
    case 1
    then show ?thesis by (intro exI [of _ "[]"]) (simp add: silent_def)
  next
    case (2 pending r2 W2)
    from converge_log [OF 2(3)] 2(1) show ?thesis by (auto simp: silent_def)
  qed
  then obtain cs where cs: "w_log W' = w_log W0 @ cs" "cycle_log guard quotes gen (ManagedOrdersFor client orders) cs"
    "places cs \<noteq> [] \<longrightarrow> length (ManagedOrdersFor client orders) + rs_Pending res \<le> length quotes" by blast
  then have "sent W0 W' = cs" by (simp add: sent_def)
  with cs show "w_log W' = w_log W0 @ sent W0 W'" "cycle_log guard quotes gen (ManagedOrdersFor client orders) (sent W0 W')"
    "places (sent W0 W') \<noteq> [] \<Longrightarrow> length (ManagedOrdersFor client orders) + rs_Pending res \<le> length quotes" by auto
qed

lemma reconcile_tied:
  assumes "ReconcileWithOrdersGuardedPolicy store client ins quotes threshold orders guard gen refresh r0 W0 = (out, r', W')"
  shows "tied guard (q_Symbol (hd quotes)) W0 W'"
  using assms
proof (cases rule: reconcile_cases)
  case 1
  then show ?thesis by (rule silent_tied)
next
  case (2 pending r2 W2)
  from tied_trans [OF silent_tied [OF 2(1)] converge_tied [OF 2(3)]] show ?thesis .
qed

lemma reconcile_empty:
  "ReconcileWithOrdersGuardedPolicy store client ins [] threshold orders guard gen refresh r0 W0 = (out, r', W') \<Longrightarrow> silent W0 W'"
  by (auto simp: ReconcileWithOrdersGuardedPolicy_def Let_def split: option.splits prod.splits dest!: ensureLoadedOMS_silent)

lemma cancelStale_no_places:
  assumes "cancelStale store client key symbol targets result guard r W = (out, r', W')"
  shows "places (sent W W') = []"
proof (cases "targets = []")
  case True
  with assms show ?thesis by (simp add: cancelStale_def sent_def)
next
  case False
  obtain x W1 where x: "cancelOrders client symbol targets guard W = (x, W1)" by fastforce
  from cancelOrders_log [OF x] obtain cs where cs: "w_log W1 = w_log W @ cs" "places cs = []" by blast
  have "silent W1 W'" using assms False x
    by (auto simp: cancelStale_def Let_def split: option.splits prod.splits dest!: block_silent persistState_silent)
  with cs show ?thesis by (simp add: sent_def silent_def)
qed

lemma reconcile_uncertain:
  assumes "ReconcileWithOrdersGuardedPolicy store client ins quotes threshold orders guard gen refresh r0 W0 = ((res, Some e), r', W')"
    and "places (sent W0 W') \<noteq> []" and "last (sent W0 W') \<noteq> CGuard False"
  shows "rc_blocked r' (stateKey client ins) \<noteq> None \<and> rc_loaded r' (stateKey client ins)"
  using assms(1)
proof (cases rule: reconcile_cases)
  case 1
  with assms(2) show ?thesis by (simp add: silent_sent)
next
  case (2 pending r2 W2)
  define mt where "mt = matchTargets refresh threshold quotes (ManagedOrdersFor client orders) pending (w_now W2)"
  define result where "result = \<lparr>rs_Kept = mt_kept mt, rs_Canceled = 0, rs_Placed = 0, rs_Pending = length pending\<rparr>"
  define vac where "vac = int (length quotes) - int (length (ManagedOrdersFor client orders)) - int (length pending)"
  have ne: "places (sent W2 W') \<noteq> []" "last (sent W2 W') \<noteq> CGuard False"
    using assms(2,3) sent_silent_left [OF 2(1), of W'] by simp_all
  have "vac > 0"
  proof (rule ccontr)
    assume "\<not> vac > 0"
    with 2(3) have "cancelStale store client (stateKey client ins) (q_Symbol (hd quotes))
        (cancelSelection (ManagedOrdersFor client orders) mt) result guard r2 W2 = ((res, Some e), r', W')"
      by (simp add: converge_def Let_def mt_def [symmetric] vac_def [symmetric] result_def [symmetric])
    from cancelStale_no_places [OF this] ne(1) show False by contradiction
  qed
  with 2(3) have "placeMissing store client (stateKey client ins) ins quotes (mt_quotes mt)
      (nat (min vac maxOrderMutationsPerCycle)) result guard gen r2 W2 = ((res, Some e), r', W')"
    by (simp add: converge_def Let_def mt_def [symmetric] vac_def [symmetric] result_def [symmetric])
  from placeMissing_uncertain [OF this] 2(2) ne(2) show ?thesis by (auto simp: sent_def)
qed



section \<open>A book that equals the target\<close>

lemma find_index_eqI: "i < length xs \<Longrightarrow> P (xs ! i) \<Longrightarrow> (\<And>j. j < i \<Longrightarrow> \<not> P (xs ! j)) \<Longrightarrow> find_index P xs = Some i"
proof (induction xs arbitrary: i)
  case (Cons x xs)
  show ?case
  proof (cases i)
    case 0
    with Cons.prems show ?thesis by simp
  next
    case (Suc k)
    have "find_index P xs = Some k" using Cons.prems Suc by (intro Cons.IH) force+
    moreover have "\<not> P x" using Cons.prems(3) [of 0] Suc by simp
    ultimately show ?thesis using Suc by simp
  qed
qed simp

lemma firstFree_next:
  assumes "k < length quotes" "P (quotes ! k)"
  shows "firstFree P (replicate k True @ replicate (length quotes - k) False) quotes = Some k"
  unfolding firstFree_def by (rule find_index_eqI) (use assms in \<open>auto simp: nth_append\<close>)

definition exact_order :: "Order \<Rightarrow> Quote \<Rightarrow> bool" where
  "exact_order ord q \<longleftrightarrow> o_Side ord = q_Side q \<and> o_Price ord = q_Price q \<and> remaining ord = q_Quantity q \<and> 0 < q_Price q"

lemma exact_order_matches: "exact_order ord q \<Longrightarrow> 0 \<le> threshold \<Longrightarrow> exactMatch threshold ord q"
  by (simp add: exact_order_def exactMatch_def withinBPS_def)

lemma replicate_set_next: "k < n \<Longrightarrow> (replicate k True @ replicate (n - k) False)[k := True] = replicate (Suc k) True @ replicate (n - Suc k) False"
proof -
  assume "k < n"
  then obtain m where n: "n = Suc (k + m)" by (auto simp: less_iff_Suc_add)
  show ?thesis by (simp add: n list_update_append replicate_app_Cons_same)
qed

lemma keepExact_all:
  assumes "list_all2 exact_order managed quotes" "0 \<le> threshold" "k \<le> length managed"
  shows "foldl (keepExact threshold quotes managed)
     \<lparr>mt_quotes = replicate (length quotes) False, mt_orders = replicate (length managed) False,
      mt_scheduled = replicate (length managed) False, mt_refreshes = 0, mt_kept = 0\<rparr> [0..<k] =
   \<lparr>mt_quotes = replicate k True @ replicate (length quotes - k) False,
    mt_orders = replicate k True @ replicate (length managed - k) False,
    mt_scheduled = replicate (length managed) False, mt_refreshes = 0, mt_kept = k\<rparr>"
  using assms(3)
proof (induction k)
  case (Suc k)
  have n: "length quotes = length managed" using list_all2_lengthD [OF assms(1)] by simp
  have k: "k < length quotes" using Suc.prems n by simp
  have m: "exactMatch threshold (managed ! k) (quotes ! k)"
    using list_all2_nthD [OF assms(1)] k n assms(2) by (simp add: exact_order_matches)
  from Suc show ?case
    using firstFree_next [OF k, of "exactMatch threshold (managed ! k)"] m k n replicate_set_next [OF k]
    by (simp add: keepExact_def)
qed simp

lemma matchTargets_exact:
  assumes "list_all2 exact_order managed quotes" "0 \<le> threshold"
  shows "matchTargets noRefresh threshold quotes managed [] now =
   \<lparr>mt_quotes = replicate (length quotes) True, mt_orders = replicate (length managed) True,
    mt_scheduled = replicate (length managed) False, mt_refreshes = 0, mt_kept = length managed\<rparr>"
  using keepExact_all [OF assms, of "length managed"] list_all2_lengthD [OF assms(1)]
  by (simp add: matchTargets_def noRefresh_def)

lemma converge_exact:
  assumes "list_all2 exact_order managed quotes" "0 \<le> threshold"
  shows "converge store client key ins quotes threshold managed [] guard gen noRefresh r W =
    ((\<lparr>rs_Kept = length managed, rs_Canceled = 0, rs_Placed = 0, rs_Pending = 0\<rparr>, None), r, W)"
proof -
  have "cancelSelection managed (matchTargets noRefresh threshold quotes managed [] (w_now W)) = []"
    unfolding matchTargets_exact [OF assms] by (auto simp: cancelSelection_def filter_empty_conv)
  then show ?thesis
    using list_all2_lengthD [OF assms(1)]
    by (simp add: converge_def matchTargets_exact [OF assms] cancelStale_def)
qed

end
