(* ===== verification/OMSProps.thy ===== *)
theory OMSProps
  imports OMSProofs
begin

text \<open>
  The order manager, continued: cancelling everything, the persisted document, and the properties
  of the component.
\<close>

section \<open>Cancelling everything\<close>

lemma cancel_managed_log:
  assumes "CancelManagedGuardedWithResult store client ins symbol guard r0 W0 = ((n, e), r', W')"
    and "call_ext (cl_OpenOrders client symbol) W0 = (Inr orders, W1)" and "rc_loaded r0 (stateKey client ins)"
  shows "\<exists>cs. w_log W' = w_log W0 @ cs \<and> guarded_by guard cs \<and> places cs = [] \<and>
    prefix (cancels cs) (map o_OrderID (withPending (ManagedOrdersFor client orders) (rc_pendingCreates r0 (stateKey client ins)))) \<and>
    (e = None \<longrightarrow> fst (waitingForCancelConfirmation (stateKey client ins) (ManagedOrdersFor client orders) (w_now W0) r0) = Inr True \<and> cs = [] \<or>
      cancels cs = map o_OrderID (withPending (ManagedOrdersFor client orders) (rc_pendingCreates r0 (stateKey client ins))) \<and>
      rc_pendingCreates r' (stateKey client ins) = [] \<and>
      (\<exists>b. rc_pendingCancels r' (stateKey client ins) = Some b \<and> set (pb_OrderIDs b) = set (cancels cs)))"
proof -
  let ?key = "stateKey client ins" and ?managed = "ManagedOrdersFor client orders"
  have s1: "silent W0 W1" and now1: "w_now W1 = w_now W0" using call_ext_silentD [OF assms(2)] by (auto simp: silent_def)
  have l: "ensureLoadedOMS store ?key r0 W1 = (None, r0, W1)" using assms(3) by (simp add: ensureLoadedOMS_def)
  obtain wt r1 where wt: "waitingForCancelConfirmation ?key ?managed (w_now W1) r0 = (wt, r1)" by fastforce
  note cr = waiting_creates [OF wt]
  obtain e2 W2 where p: "persistState store ?key r1 W1 = (e2, W2)" by fastforce
  note s2 = silent_trans [OF s1 persistState_silent [OF p]]
  define targets where "targets = withPending ?managed (rc_pendingCreates r0 ?key)"
  obtain ce W3 where c: "cancelOrders client symbol targets guard W2 = (ce, W3)" by fastforce
  from cancelOrders_log [OF c] obtain cs where cs: "w_log W3 = w_log W2 @ cs" "guarded_by guard cs" "places cs = []"
    "prefix (cancels cs) (map o_OrderID targets)" "ce = None \<longrightarrow> cancels cs = map o_OrderID targets" by blast
  show ?thesis
  proof (cases "e2 = None \<and> wt = Inr False")
    case False
    have "silent W0 W'" "e = None \<longrightarrow> wt = Inr True"
      using assms(1,2) l wt p s2 False
      by (auto simp: CancelManagedGuardedWithResult_def Let_def split: option.splits sum.splits bool.splits prod.splits)
    with wt now1 show ?thesis by (intro exI [of _ "[]"]) (auto simp: silent_def)
  next
    case True
    have out: "silent W3 W' \<and> (ce = Some y \<longrightarrow> e = Some y) \<and> (e = None \<longrightarrow> ce = None \<and> rc_pendingCreates r' ?key = [] \<and>
        (\<exists>b. rc_pendingCancels r' ?key = Some b \<and> set (pb_OrderIDs b) = set (map o_OrderID targets)))" for y
      using assms(1,2) l wt p c True
      unfolding CancelManagedGuardedWithResult_def Let_def cr targets_def [symmetric]
      by (cases ce) (auto simp: cr targets_def [symmetric] setPendingCancels_def split: prod.splits
          dest!: block_silent persistState_silent)
    with cs s2 show ?thesis unfolding targets_def [symmetric]
      by (intro exI [of _ cs]) (auto simp: silent_def)
  qed
qed


section \<open>The persisted document\<close>

lemma round18_id:
  assumes "on_grid (1 / 10 ^ 18) d"
  shows "round18 d = d"
proof -
  have "of_int \<lfloor>d * 10 ^ 18\<rfloor> = d * 10 ^ 18" using assms by (simp add: on_grid_def field_simps)
  then obtain n where n: "d * 10 ^ 18 = of_int n" by metis
  have f: "\<lfloor>of_int k + 1 / 2 :: rat\<rfloor> = k" for k by linarith
  have m: "- d * 10 ^ 18 = of_int (- n)" using n by simp
  have "round18 d = of_int n / 10 ^ 18"
    unfolding round18_def n m f by simp
  then show ?thesis using n by (metis nonzero_mult_div_cancel_right power_not_zero zero_neq_numeral)
qed

lemma round18_close: "\<bar>round18 d - d\<bar> \<le> 1 / (2 * 10 ^ 18)"
proof -
  define n :: rat where "n = 10 ^ 18"
  have n: "0 < n" by (simp add: n_def)
  have h: "\<bar>of_int \<lfloor>x + 1 / 2\<rfloor> - x\<bar> \<le> 1 / 2" for x :: rat by linarith
  define x where "x = (if d < 0 then - of_int \<lfloor>- d * n + 1 / 2\<rfloor> else of_int \<lfloor>d * n + 1 / 2\<rfloor> :: rat)"
  have x: "\<bar>x - d * n\<bar> \<le> 1 / 2"
  proof (cases "d < 0")
    case True
    then have "x - d * n = - (of_int \<lfloor>- d * n + 1 / 2\<rfloor> - - d * n)" by (simp add: x_def)
    then show ?thesis unfolding abs_minus_cancel using h [of "- d * n"] by (simp only: abs_minus_cancel)
  next
    case False
    then show ?thesis using h [of "d * n"] by (simp add: x_def)
  qed
  have "\<bar>x / n - d\<bar> = \<bar>x - d * n\<bar> / n" using n by (simp add: field_simps abs_if)
  also have "\<dots> \<le> (1 / 2) / n" using x n by (intro divide_right_mono) auto
  finally have "\<bar>x / n - d\<bar> \<le> 1 / (2 * n)" by simp
  then show ?thesis unfolding round18_def x_def n_def .
qed

text \<open>What the document keeps of a creation: everything, its decimals to 18 digits after the point.\<close>

definition stored_quote :: "Quote \<Rightarrow> Quote" where
  "stored_quote q = q\<lparr>q_Side := side_of (side_text (q_Side q)), q_Price := round18 (q_Price q),
     q_Quantity := round18 (q_Quantity q), q_Reference := round18 (q_Reference q)\<rparr>"

definition stored_create :: "PendingCreate \<Rightarrow> PendingCreate" where
  "stored_create c = c\<lparr>pc_Quote := stored_quote (pc_Quote c)\<rparr>"

definition exact_quote :: "Quote \<Rightarrow> bool" where
  "exact_quote q \<longleftrightarrow> on_grid (1 / 10 ^ 18) (q_Price q) \<and> on_grid (1 / 10 ^ 18) (q_Quantity q) \<and>
     on_grid (1 / 10 ^ 18) (q_Reference q) \<and> (q_Side q = Buy \<or> q_Side q = Sell)"

lemma stored_exact: "exact_quote (pc_Quote c) \<Longrightarrow> stored_create c = c"
  by (auto simp: exact_quote_def stored_create_def stored_quote_def round18_id side_of_def)

text \<open>A creation as it was, with decimals that differ by at most half a unit of the 18th digit.\<close>

definition nearly :: "Decimal \<Rightarrow> Decimal \<Rightarrow> bool" where
  "nearly d d' \<longleftrightarrow> \<bar>d' - d\<bar> \<le> 1 / (2 * 10 ^ 18)"

definition same_create :: "PendingCreate \<Rightarrow> PendingCreate \<Rightarrow> bool" where
  "same_create c c' \<longleftrightarrow> pc_OrderID c' = pc_OrderID c \<and> pc_SubmittedAt c' = pc_SubmittedAt c \<and> pc_LastChecked c' = pc_LastChecked c \<and>
     (let q = pc_Quote c; q' = pc_Quote c' in
      q_InstrumentID q' = q_InstrumentID q \<and> q_Venue q' = q_Venue q \<and> q_Symbol q' = q_Symbol q \<and>
      side_text (q_Side q') = side_text (q_Side q) \<and> q_Level q' = q_Level q \<and> q_ValidUntil q' = q_ValidUntil q \<and>
      nearly (q_Price q) (q_Price q') \<and> nearly (q_Quantity q) (q_Quantity q') \<and> nearly (q_Reference q) (q_Reference q'))"

lemma side_text_of: "side_text (side_of x) = x"
  by (simp add: side_of_def)

lemma same_create_stored: "same_create c (stored_create c)"
proof -
  have "nearly d (round18 d)" for d unfolding nearly_def by (rule round18_close)
  then show ?thesis by (simp add: same_create_def stored_create_def stored_quote_def side_text_of Let_def)
qed

lemma UnmarshalCreate_Marshal:
  assumes "MarshalCreate c = Some j"
  shows "UnmarshalCreate j = Some (stored_create c)"
proof -
  let ?q = "pc_Quote c"
  from assms obtain jq where q: "MarshalQuote ?q = Some jq" and
    j: "j = JObj [(''OrderID'', JStr (pc_OrderID c)), (''Quote'', jq),
        (''SubmittedAt'', JTime (pc_SubmittedAt c)), (''LastChecked'', JTime (pc_LastChecked c))]"
    by (auto simp: MarshalCreate_def bind_eq_Some_conv split: if_splits)
  have "UnmarshalQuote jq = Some (stored_quote ?q)" "jq \<noteq> JNull" using q
    by (auto simp: MarshalQuote_def UnmarshalQuote_def field_def stored_quote_def split: if_splits)
  then show ?thesis unfolding j by (cases jq) (simp_all add: UnmarshalCreate_def field_def stored_create_def)
qed

lemma map_all_inverse:
  assumes "map_all f xs = Some ys" "\<And>x y. x \<in> set xs \<Longrightarrow> f x = Some y \<Longrightarrow> g y = Some (h x)"
  shows "map_all g ys = Some (map h xs)"
  using assms
proof (induction xs arbitrary: ys)
  case (Cons x xs)
  then obtain y zs where y: "f x = Some y" "map_all f xs = Some zs" "ys = y # zs" by (auto simp: bind_eq_Some_conv)
  have gy: "g y = Some (h x)" using Cons.prems(2) y(1) by simp
  have "map_all g zs = Some (map h xs)" by (rule Cons.IH [OF y(2)]) (use Cons.prems(2) in auto)
  then show ?case by (simp add: y(3) gy)
qed simp

lemma map_all_Nil: "map_all f xs = Some [] \<longleftrightarrow> xs = []"
  by (cases xs) (auto simp: bind_eq_Some_conv)

lemma UnmarshalBatch_Marshal:
  "MarshalBatch b = Some j \<Longrightarrow> UnmarshalBatch j = Some b \<and> j \<noteq> JNull"
  by (auto simp: MarshalBatch_def UnmarshalBatch_def field_def comp_def split: if_splits)

lemma UnmarshalState_Marshal:
  assumes "MarshalState s = Some p"
  shows "UnmarshalState p = Some (s\<lparr>ps_PendingCreates := map (\<lambda>(k, c). (k, stored_create c)) (ps_PendingCreates s)\<rparr>)" and "p \<noteq> NoBytes"
proof -
  let ?enc = "\<lambda>(k, c). map_option (Pair k) (MarshalCreate c)" and ?dec = "\<lambda>(k, c). map_option (Pair k) (UnmarshalCreate c)"
  from assms obtain cancels creates where
    ca: "(case ps_PendingCancels s of None \<Rightarrow> Some [] | Some b \<Rightarrow> map_option (\<lambda>j. [(''pending_cancels'', j)]) (MarshalBatch b)) = Some cancels"
    and cr: "map_all ?enc (ps_PendingCreates s) = Some creates"
    and p: "p = Doc (JObj (omit_str ''blocked'' (ps_Blocked s) @ cancels @
        (if creates = [] then [] else [(''pending_creates'', JObj creates)])))"
    unfolding MarshalState_def bind_eq_Some_conv by (elim exE conjE) (simp only: option.inject)
  have dec: "map_all ?dec creates = Some (map (\<lambda>(k, c). (k, stored_create c)) (ps_PendingCreates s))"
    by (rule map_all_inverse [OF cr]) (auto simp: UnmarshalCreate_Marshal)
  have nil: "creates = [] \<longleftrightarrow> ps_PendingCreates s = []" unfolding map_all_Nil [of ?enc, symmetric] cr by simp
  show "p \<noteq> NoBytes" by (simp add: p)
  show "UnmarshalState p = Some (s\<lparr>ps_PendingCreates := map (\<lambda>(k, c). (k, stored_create c)) (ps_PendingCreates s)\<rparr>)"
  proof (cases "ps_PendingCancels s")
    case None
    with ca have "cancels = []" by simp
    then show ?thesis unfolding p using dec nil None
      by (auto simp: UnmarshalState_def json_fields_def field_def omit_str_def)
  next
    case (Some b)
    with ca obtain j where j: "MarshalBatch b = Some j" "cancels = [(''pending_cancels'', j)]" by auto
    with UnmarshalBatch_Marshal [OF j(1)] show ?thesis unfolding p using dec nil Some
      by (cases j) (auto simp: UnmarshalState_def json_fields_def field_def omit_str_def)
  qed
qed


text \<open>What a replacement order manager finds in the store.\<close>

context state_store
begin

lemma oms_inherits:
  assumes "persistState (Some ss) key r W = (None, W')"
    and "rc_blocked r key \<noteq> Some []"
    and "\<not> rc_loaded fresh key" "rc_blocked fresh key = None" "rc_pendingCancels fresh key = None" "rc_pendingCreates fresh key = []"
    and "ensureLoadedOMS (Some ss) key fresh W' = (None, r2, W2)"
  shows "rc_blocked r2 key = rc_blocked r key" "rc_pendingCreates r2 key = map (\<lambda>(k, c). (k, stored_create c)) (rc_pendingCreates r key)"
    "rc_pendingCancels r2 key = (case rc_pendingCancels r key of Some b \<Rightarrow> if pb_OrderIDs b \<noteq> [] then Some b else None | None \<Rightarrow> None)"
proof -
  define st where "st = \<lparr>ps_Blocked = (case rc_blocked r key of None \<Rightarrow> [] | Some e \<Rightarrow> e),
                      ps_PendingCancels = (case rc_pendingCancels r key of
                         Some b \<Rightarrow> if pb_OrderIDs b \<noteq> [] then Some b else None | None \<Rightarrow> None),
                      ps_PendingCreates = rc_pendingCreates r key\<rparr>"
  obtain reply W3 where l: "call_ext (ss_Load ss key) W' = (reply, W3)" by fastforce
  from assms(3,7) l obtain q where q: "reply = Inr q" by (cases reply) (auto simp: ensureLoadedOMS_def)
  then obtain x where lq: "ss_Load ss key (w_ext W') = (Inr q, x)" using l by (auto simp: call_ext_def split: prod.splits)
  have found: "if ps_Blocked st = [] \<and> ps_PendingCancels st = None \<and> ps_PendingCreates st = [] then q = NoBytes
      else UnmarshalState q = Some (st\<lparr>ps_PendingCreates := map (\<lambda>(k, c). (k, stored_create c)) (ps_PendingCreates st)\<rparr>) \<and> q \<noteq> NoBytes"
  proof (cases "ps_Blocked st = [] \<and> ps_PendingCancels st = None \<and> ps_PendingCreates st = []")
    case True
    with assms(1) have "ss_Delete ss key (w_ext W) = (None, w_ext W')"
      by (auto simp: persistState_def Let_def st_def [symmetric] call_ext_def split: prod.splits)
    from load_delete [OF this lq] True show ?thesis by simp
  next
    case False
    with assms(1) obtain p where p: "MarshalState st = Some p" "ss_Save ss key p (w_ext W) = (None, w_ext W')"
      by (auto simp: persistState_def Let_def st_def [symmetric] call_ext_def split: prod.splits option.splits if_splits)
    note u = UnmarshalState_Marshal [OF p(1)]
    from load_save [OF p(2) u(2) lq] u False show ?thesis by auto
  qed
  have b: "rc_blocked r key = (if ps_Blocked st = [] then None else Some (ps_Blocked st))"
    using assms(2) by (auto simp: st_def split: option.splits)
  show "rc_blocked r2 key = rc_blocked r key" "rc_pendingCreates r2 key = map (\<lambda>(k, c). (k, stored_create c)) (rc_pendingCreates r key)"
    "rc_pendingCancels r2 key = (case rc_pendingCancels r key of Some b \<Rightarrow> if pb_OrderIDs b \<noteq> [] then Some b else None | None \<Rightarrow> None)"
    unfolding b using assms(3-7) l q found
    by (auto simp: ensureLoadedOMS_def Let_def st_def split: if_splits option.splits)
qed

end



section \<open>A concrete exchange\<close>

text \<open>An exchange without native batches that accepts every call.\<close>

definition sample_client :: "Order list \<Rightarrow> unit Client" where
  "sample_client orders = \<lparr>cl_Name = ''v'', cl_TopBook = (\<lambda>_ w. (Inr sample_book, w)), cl_Balances = (\<lambda>w. (Inr [], w)),
     cl_OpenOrders = (\<lambda>_ w. (Inr orders, w)),
     cl_PlacePostOnly = (\<lambda>p w. (Inr (zero_order\<lparr>o_OrderID := pr_ClientID p, o_State := OrderNew\<rparr>), w)),
     cl_CancelOrder = (\<lambda>_ _ w. (None, w)), cl_Capabilities = None, cl_BatchPlacer = None, cl_BatchCanceler = None,
     cl_OrderReader = None, cl_FillReader = None, cl_RuleReader = None, cl_StateIdentity = None\<rparr>"

definition sample_order :: "string \<Rightarrow> Quote \<Rightarrow> Order" where
  "sample_order i q = zero_order\<lparr>o_OrderID := i, o_ClientID := ''fm-g0-'' @ i, o_Symbol := q_Symbol q, o_Side := q_Side q,
     o_Price := q_Price q, o_Quantity := q_Quantity q, o_State := OrderNew\<rparr>"

definition sample_world :: "unit World" where
  "sample_world = \<lparr>w_ext = (), w_log = [], w_now = sample_now, w_guardErr = None, w_asked = [], w_steps = []\<rparr>"

text \<open>The target book with one order at a stale price, and with the exact orders.\<close>

definition stale_orders :: "Order list" where
  "stale_orders = [sample_order ''1'' (sample_quote Buy 0 1 6), sample_order ''2'' (sample_quote Sell 0 (1003 / 500) 6),
     sample_order ''3'' (sample_quote Buy 1 (249 / 125) 6), sample_order ''4'' (sample_quote Sell 1 (251 / 125) 6)]"

definition exact_orders :: "Order list" where
  "exact_orders = [sample_order ''1'' (sample_quote Buy 0 (997 / 500) 6), sample_order ''2'' (sample_quote Sell 0 (1003 / 500) 6),
     sample_order ''3'' (sample_quote Buy 1 (249 / 125) 6), sample_order ''4'' (sample_quote Sell 1 (251 / 125) 6)]"

definition sample_guard :: "unit WriteGuard" where "sample_guard = Some (\<lambda>w. (None, w))"

lemma stale_cycle:
  "w_log (snd (snd (ReconcileWithOrdersGuardedPolicy None (sample_client []) ''i'' sample_quotes 1 stale_orders sample_guard 7
     noRefresh NewReconciler sample_world))) = [CGuard True, CCancel ''BUSDT'' ''1'']"
  by code_simp


section \<open>Properties\<close>

text \<open>C6: fencing. In a cycle with a write guard, the calls sent are accepted checks and exchange
  writes in turn: every write directly follows a check the guard accepted, and a rejected check is
  the last thing that happens.\<close>

theorem reconcile_fenced:
  assumes "ReconcileWithOrdersGuardedPolicy store client ins quotes threshold orders (Some g) gen refresh r W = (out, r', W')"
  shows "w_log W' = w_log W @ sent W W' \<and> fenced (sent W W')"
proof -
  obtain res e where out: "out = (res, e)" by fastforce
  from reconcile_log(1,2) [OF assms [unfolded out]] show ?thesis by (simp add: cycle_log_def guarded_by_def)
qed

theorem reconcile_fenced_witness:
  "fenced [CGuard True, CCancel ''BUSDT'' ''1'']"
proof -
  obtain out r' W' where e: "ReconcileWithOrdersGuardedPolicy None (sample_client []) ''i'' sample_quotes 1 stale_orders
      (Some (\<lambda>w. (None, w))) 7 noRefresh NewReconciler sample_world = (out, r', W')" by (metis prod.collapse)
  with stale_cycle have "w_log W' = [CGuard True, CCancel ''BUSDT'' ''1'']" by (simp add: sample_guard_def)
  with reconcile_fenced [OF e] show ?thesis by (simp add: sample_world_def sent_def)
qed

text \<open>C4: the limits of a cycle. It never places and cancels orders in the same cycle, affects at
  most 20 orders, cancels only managed orders that are on the book, places only target quotes under
  the manager's own client identifier and fence generation, and never lets visible and pending
  orders together exceed the target.\<close>

theorem reconcile_cycle_limits:
  assumes "ReconcileWithOrdersGuardedPolicy store client ins quotes threshold orders guard gen refresh r W = ((res, e), r', W')"
  shows "(places (sent W W') = [] \<or> cancels (sent W W') = []) \<and>
    length (places (sent W W')) \<le> 20 \<and> length (cancels (sent W W')) \<le> 20 \<and>
    set (cancels (sent W W')) \<subseteq> o_OrderID ` set (ManagedOrdersFor client orders) \<and>
    list_all (request_for quotes gen) (places (sent W W')) \<and>
    (places (sent W W') \<noteq> [] \<longrightarrow>
       length (ManagedOrdersFor client orders) + length (places (sent W W')) \<le> length quotes \<and>
       length (ManagedOrdersFor client orders) + rs_Pending res \<le> length quotes)"
  using reconcile_log(2,3) [OF assms] by (simp add: cycle_log_def)

theorem reconcile_cycle_limits_witness:
  "\<exists>W'. sent sample_world W' = [CGuard True, CCancel ''BUSDT'' ''1''] \<and>
    set (cancels (sent sample_world W')) \<subseteq> o_OrderID ` set (ManagedOrdersFor (sample_client []) stale_orders)"
proof -
  obtain res e r' W' where e: "ReconcileWithOrdersGuardedPolicy None (sample_client []) ''i'' sample_quotes 1 stale_orders
      sample_guard 7 noRefresh NewReconciler sample_world = ((res, e), r', W')" by (metis prod.collapse)
  with stale_cycle have "sent sample_world W' = [CGuard True, CCancel ''BUSDT'' ''1'']"
    by (simp add: sample_world_def sent_def)
  with reconcile_cycle_limits [OF e] show ?thesis by blast
qed

text \<open>C11: an uncertain placement stops the market. When orders were sent and the cycle reports an
  error other than a rejected guard check, the market is blocked, and while it is blocked a cycle
  reports an error, changes nothing and sends nothing.\<close>

theorem uncertain_placement_blocks:
  assumes "ReconcileWithOrdersGuardedPolicy store client ins quotes threshold orders guard gen refresh r W = ((res, Some e), r', W')"
    and "places (sent W W') \<noteq> []" and "last (sent W W') \<noteq> CGuard False"
  shows "\<exists>cause. \<forall>quotes' orders' guard' gen' refresh' W''.
    ReconcileWithOrdersGuardedPolicy store client ins quotes' threshold orders' guard' gen' refresh' r' W'' =
      ((zero_result, Some (''venue market blocked after uncertain order state: '' @ cause)), r', W'')"
proof -
  from reconcile_uncertain [OF assms] obtain cause where
    b: "rc_blocked r' (stateKey client ins) = Some cause" "rc_loaded r' (stateKey client ins)" by auto
  show ?thesis
    by (rule exI [of _ cause]) (simp add: ReconcileWithOrdersGuardedPolicy_def ensureLoadedOMS_def b)
qed

definition rejecting_client :: "unit Client" where
  "rejecting_client = (sample_client [])\<lparr>cl_BatchPlacer := Some (\<lambda>_ w. (([], Some ''timeout''), w))\<rparr>"

lemma rejected_cycle:
  assumes "ReconcileWithOrdersGuardedPolicy None rejecting_client ''i'' [sample_quote Buy 0 2 6] 1 [] None 0 noRefresh NewReconciler sample_world
    = ((res, e), r', W')"
  shows "e \<noteq> None \<and> length (sent sample_world W') = 1 \<and> length (places (sent sample_world W')) = 1 \<and>
    last (sent sample_world W') \<noteq> CGuard False"
  using assms
  by (auto simp: ReconcileWithOrdersGuardedPolicy_def ensureLoadedOMS_def NewReconciler_def rejecting_client_def
      sample_client_def ManagedOrdersFor_def ManagedOrders_def waitingForCancelConfirmation_def persistState_def
      activePendingCreates_def converge_def matchTargets_def noRefresh_def maxOrderMutationsPerCycle_def placeMissing_def
      selectMissing_def placeRequests_def PlacePostOnlyBatch_def run_before_def guardClosure_def checkWriteGuard_def
      mutate_def call_ext_def Let_def sent_def sample_world_def block_def simp del: One_nat_def)

theorem uncertain_placement_blocks_witness:
  "\<exists>r'. \<exists>cause. \<forall>W''. ReconcileWithOrdersGuardedPolicy None rejecting_client ''i'' [sample_quote Buy 0 2 6] 1 [] None 0 noRefresh r' W'' =
      ((zero_result, Some (''venue market blocked after uncertain order state: '' @ cause)), r', W'')"
proof -
  obtain res e r' W' where e: "ReconcileWithOrdersGuardedPolicy None rejecting_client ''i'' [sample_quote Buy 0 2 6] 1 [] None 0
      noRefresh NewReconciler sample_world = ((res, e), r', W')" by (metis prod.collapse)
  note c = rejected_cycle [OF e]
  have "places (sent sample_world W') \<noteq> []" using c by (metis length_0_conv zero_neq_one)
  with c obtain x where x: "e = Some x" "places (sent sample_world W') \<noteq> []"
    "last (sent sample_world W') \<noteq> CGuard False" by (cases e) simp_all
  from uncertain_placement_blocks [OF e [unfolded x(1)] x(2,3)] show ?thesis by blast
qed




text \<open>The price tolerance computed without a division is the relative one: an order is within
  the threshold of a target exactly when its relative distance in basis points is.\<close>

theorem withinBPS_relative:
  assumes "0 < b"
  shows "withinBPS a b threshold \<longleftrightarrow> a \<noteq> 0 \<and> \<bar>a - b\<bar> / b * 10000 \<le> of_int threshold"
  using assms by (auto simp: withinBPS_def Let_def field_simps)

theorem withinBPS_relative_witness: "withinBPS (1001 / 1000) 1 10 \<and> \<not> withinBPS (1002 / 1000) 1 10"
  using withinBPS_relative [of 1 "1001 / 1000" 10] withinBPS_relative [of 1 "1002 / 1000" 10] by simp

text \<open>C25: cancelling a market. Whatever happens, only guarded cancellations are sent, of managed
  orders and of orders still being created; when it succeeds and the manager is not waiting for an
  earlier batch, all of them were sent, and all are recorded as awaiting confirmation.\<close>

theorem cancel_managed_complete:
  assumes "CancelManagedGuardedWithResult store client ins symbol guard r W = ((n, e), r', W')"
    and "call_ext (cl_OpenOrders client symbol) W = (Inr orders, W1)" and "rc_loaded r (stateKey client ins)"
  shows "guarded_by guard (sent W W') \<and> places (sent W W') = [] \<and>
    set (cancels (sent W W')) \<subseteq> o_OrderID ` set (ManagedOrdersFor client orders) \<union> fst ` set (rc_pendingCreates r (stateKey client ins)) \<and>
    (e = None \<and> fst (waitingForCancelConfirmation (stateKey client ins) (ManagedOrdersFor client orders) (w_now W) r) \<noteq> Inr True \<longrightarrow>
      set (cancels (sent W W')) = o_OrderID ` set (ManagedOrdersFor client orders) \<union> fst ` set (rc_pendingCreates r (stateKey client ins)) \<and>
      rc_pendingCreates r' (stateKey client ins) = [] \<and>
      (\<exists>b. rc_pendingCancels r' (stateKey client ins) = Some b \<and> set (pb_OrderIDs b) = set (cancels (sent W W'))))"
proof -
  let ?t = "withPending (ManagedOrdersFor client orders) (rc_pendingCreates r (stateKey client ins))"
  from cancel_managed_log [OF assms] obtain cs where log: "w_log W' = w_log W @ cs" and cs: "guarded_by guard cs" "places cs = []"
    "prefix (cancels cs) (map o_OrderID ?t)"
    "e = None \<longrightarrow> fst (waitingForCancelConfirmation (stateKey client ins) (ManagedOrdersFor client orders) (w_now W) r) = Inr True \<and> cs = [] \<or>
      cancels cs = map o_OrderID ?t \<and> rc_pendingCreates r' (stateKey client ins) = [] \<and>
      (\<exists>b. rc_pendingCancels r' (stateKey client ins) = Some b \<and> set (pb_OrderIDs b) = set (cancels cs))" by blast
  have sent: "sent W W' = cs" by (rule sentI [OF log])
  note ids = withPending_ids [of "ManagedOrdersFor client orders" "rc_pendingCreates r (stateKey client ins)"]
  have "set (cancels cs) \<subseteq> o_OrderID ` set (ManagedOrdersFor client orders) \<union> fst ` set (rc_pendingCreates r (stateKey client ins))"
    using set_mono_prefix [OF cs(3)] unfolding ids .
  moreover have "cancels cs = map o_OrderID ?t \<Longrightarrow>
      set (cancels cs) = o_OrderID ` set (ManagedOrdersFor client orders) \<union> fst ` set (rc_pendingCreates r (stateKey client ins))"
    using ids by metis
  ultimately show ?thesis unfolding sent using cs(1,2,4) by blast
qed

theorem cancel_managed_complete_witness:
  "\<exists>W'. set (cancels (sent sample_world W')) = {''1'', ''2'', ''3'', ''4''}"
proof -
  let ?r = "NewReconciler\<lparr>rc_loaded := (\<lambda>_. True)\<rparr>"
  obtain n e r' W' where e: "CancelManagedGuardedWithResult None (sample_client exact_orders) ''i'' ''BUSDT'' None ?r sample_world
      = ((n, e), r', W')" by (metis prod.collapse)
  have o: "call_ext (cl_OpenOrders (sample_client exact_orders) ''BUSDT'') sample_world = (Inr exact_orders, sample_world)"
    by (simp add: call_ext_def sample_client_def)
  have ne: "snd (fst (CancelManagedGuardedWithResult None (sample_client exact_orders) ''i'' ''BUSDT'' None ?r sample_world)) = None"
    by code_simp
  have ids: "o_OrderID ` set (ManagedOrdersFor (sample_client exact_orders) exact_orders) = {''1'', ''2'', ''3'', ''4''}"
    by code_simp
  from cancel_managed_complete [OF e o] ne e ids show ?thesis
    by (auto simp: NewReconciler_def waitingForCancelConfirmation_def)
qed

end
