(* ===== verification/Fault.thy ===== *)
theory Fault
  imports Json
begin

text \<open>
  \<^verbatim>\<open>internal/fault/manager.go\<close>: the fault state machine of every market. The manager keeps a
  snapshot per market key, counts consecutive failures and successes, decides whether quotes are
  allowed and whether managed orders must be cancelled, and persists abnormal states in a
  \<^verbatim>\<open>StateStore\<close>. The store is an interface: a record of functions over the state \<open>'w\<close> of the world
  outside the process. The mutex makes every step atomic and is not modelled further.
\<close>

section \<open>Definitions\<close>

datatype Status = Normal | Degraded | Canceling | Paused | Recovering | OtherStatus string

record Snapshot =
  sn_Status :: Status
  sn_Stage :: string
  sn_Error :: string
  sn_ConsecutiveFailures :: int
  sn_ConsecutiveSuccesses :: int
  sn_Since :: time
  sn_UpdatedAt :: time
  sn_LastHealthyAt :: time
  sn_OrdersRetained :: bool

record Decision =
  d_State :: Snapshot
  d_AllowQuotes :: bool
  d_ShouldCancel :: bool

record FaultManager =
  fm_failureThreshold :: int
  fm_recoveryThreshold :: int
  fm_states :: "string \<Rightarrow> Snapshot option"
  fm_loaded :: "string \<Rightarrow> bool"
  fm_persisted :: "string \<Rightarrow> bool"

definition NewWithStateStore :: "int \<Rightarrow> int \<Rightarrow> FaultManager" where
  "NewWithStateStore failureThreshold recoveryThreshold =
     \<lparr>fm_failureThreshold = (if failureThreshold < 1 then 3 else failureThreshold),
      fm_recoveryThreshold = (if recoveryThreshold < 1 then 3 else recoveryThreshold),
      fm_states = (\<lambda>_. None), fm_loaded = (\<lambda>_. False), fm_persisted = (\<lambda>_. False)\<rparr>"

definition zero_snapshot :: Snapshot where
  "zero_snapshot = \<lparr>sn_Status = OtherStatus [], sn_Stage = [], sn_Error = [], sn_ConsecutiveFailures = 0,
     sn_ConsecutiveSuccesses = 0, sn_Since = zero_time, sn_UpdatedAt = zero_time, sn_LastHealthyAt = zero_time,
     sn_OrdersRetained = False\<rparr>"

definition zero_decision :: Decision where
  "zero_decision = \<lparr>d_State = zero_snapshot, d_AllowQuotes = False, d_ShouldCancel = False\<rparr>"

text \<open>The status texts of a snapshot's document.\<close>

fun status_text :: "Status \<Rightarrow> string" where
  "status_text Normal = ''normal''"
| "status_text Degraded = ''degraded''"
| "status_text Canceling = ''canceling''"
| "status_text Paused = ''paused''"
| "status_text Recovering = ''recovering''"
| "status_text (OtherStatus s) = s"

definition status_of :: "string \<Rightarrow> Status" where
  "status_of s =
    (if s = ''normal'' then Normal else if s = ''degraded'' then Degraded
     else if s = ''canceling'' then Canceling else if s = ''paused'' then Paused
     else if s = ''recovering'' then Recovering else OtherStatus s)"

definition MarshalSnapshot :: "Snapshot \<Rightarrow> Payload option" where
  "MarshalSnapshot s =
    (if json_time_ok (sn_Since s) \<and> json_time_ok (sn_UpdatedAt s) \<and> json_time_ok (sn_LastHealthyAt s)
     then Some (Doc (JObj ([(''status'', JStr (status_text (sn_Status s)))] @
       omit_str ''stage'' (sn_Stage s) @ omit_str ''error'' (sn_Error s) @
       [(''consecutive_failures'', JInt (sn_ConsecutiveFailures s)),
        (''consecutive_successes'', JInt (sn_ConsecutiveSuccesses s)),
        (''since'', JTime (sn_Since s)), (''updated_at'', JTime (sn_UpdatedAt s)),
        (''last_healthy_at'', JTime (sn_LastHealthyAt s)),
        (''orders_retained'', JBool (sn_OrdersRetained s))])))
     else None)"

definition UnmarshalSnapshot :: "Payload \<Rightarrow> Snapshot option" where
  "UnmarshalSnapshot p =
    Option.bind (json_fields p) (\<lambda>fs.
    Option.bind (field fs ''status'' as_str []) (\<lambda>status.
    Option.bind (field fs ''stage'' as_str []) (\<lambda>stage.
    Option.bind (field fs ''error'' as_str []) (\<lambda>err.
    Option.bind (field fs ''consecutive_failures'' as_int 0) (\<lambda>failures.
    Option.bind (field fs ''consecutive_successes'' as_int 0) (\<lambda>successes.
    Option.bind (field fs ''since'' as_time zero_time) (\<lambda>since.
    Option.bind (field fs ''updated_at'' as_time zero_time) (\<lambda>updated.
    Option.bind (field fs ''last_healthy_at'' as_time zero_time) (\<lambda>healthy.
    Option.bind (field fs ''orders_retained'' as_bool False) (\<lambda>retained.
      Some \<lparr>sn_Status = status_of status, sn_Stage = stage, sn_Error = err,
            sn_ConsecutiveFailures = failures, sn_ConsecutiveSuccesses = successes,
            sn_Since = since, sn_UpdatedAt = updated, sn_LastHealthyAt = healthy,
            sn_OrdersRetained = retained\<rparr>))))))))))"

definition faultStateOf :: "FaultManager \<Rightarrow> string \<Rightarrow> time \<Rightarrow> Snapshot" where
  "faultStateOf m key now =
    (case fm_states m key of
       Some s \<Rightarrow> s
     | None \<Rightarrow> \<lparr>sn_Status = Normal, sn_Stage = [], sn_Error = [], sn_ConsecutiveFailures = 0,
         sn_ConsecutiveSuccesses = 0, sn_Since = now, sn_UpdatedAt = now, sn_LastHealthyAt = now,
         sn_OrdersRetained = True\<rparr>)"

text \<open>The critical sections of \<^verbatim>\<open>FailureWithContext\<close> and \<^verbatim>\<open>HealthyWithContext\<close>: the decision for the
  current snapshot.\<close>

definition failureDecision :: "int \<Rightarrow> Snapshot \<Rightarrow> string \<Rightarrow> string option \<Rightarrow> bool \<Rightarrow> time \<Rightarrow> Decision" where
  "failureDecision failureThreshold state0 stage cause forceCancel now =
    (let state1 = state0\<lparr>sn_ConsecutiveFailures := sn_ConsecutiveFailures state0 + 1,
                         sn_ConsecutiveSuccesses := 0, sn_Stage := stage,
                         sn_Error := (case cause of Some e \<Rightarrow> e | None \<Rightarrow> sn_Error state0),
                         sn_UpdatedAt := now\<rparr>
     in if forceCancel \<or> sn_ConsecutiveFailures state1 \<ge> failureThreshold \<or> sn_Status state1 = Canceling
        then \<lparr>d_State = state1\<lparr>sn_Since := (if sn_Status state1 \<noteq> Canceling then now else sn_Since state1),
                               sn_Status := Canceling, sn_OrdersRetained := False\<rparr>,
              d_AllowQuotes = False, d_ShouldCancel = True\<rparr>
        else \<lparr>d_State = state1\<lparr>sn_Since := (if sn_Status state1 = Normal \<or> sn_Status state1 = Recovering \<or>
                                               sn_Status state1 = Paused
                                            then now else sn_Since state1),
                               sn_Status := Degraded, sn_OrdersRetained := True\<rparr>,
              d_AllowQuotes = False, d_ShouldCancel = False\<rparr>)"

definition healthySwitch :: "Snapshot \<Rightarrow> int \<Rightarrow> time \<Rightarrow> Decision" where
  "healthySwitch state managedOpenOrders now =
    (case sn_Status state of
       Normal \<Rightarrow> \<lparr>d_State = state\<lparr>sn_LastHealthyAt := now, sn_OrdersRetained := True\<rparr>,
                  d_AllowQuotes = True, d_ShouldCancel = False\<rparr>
     | Canceling \<Rightarrow>
         (if managedOpenOrders > 0
          then \<lparr>d_State = state, d_AllowQuotes = False, d_ShouldCancel = True\<rparr>
          else \<lparr>d_State = state\<lparr>sn_Status := Paused, sn_Since := now, sn_OrdersRetained := False\<rparr>,
                d_AllowQuotes = False, d_ShouldCancel = False\<rparr>)
     | Paused \<Rightarrow> \<lparr>d_State = state\<lparr>sn_Status := Recovering, sn_Since := now, sn_ConsecutiveSuccesses := 1\<rparr>,
                  d_AllowQuotes = False, d_ShouldCancel = False\<rparr>
     | Degraded \<Rightarrow> \<lparr>d_State = state\<lparr>sn_Status := Recovering, sn_Since := now, sn_ConsecutiveSuccesses := 1\<rparr>,
                    d_AllowQuotes = False, d_ShouldCancel = False\<rparr>
     | Recovering \<Rightarrow>
         \<lparr>d_State = state\<lparr>sn_ConsecutiveSuccesses := sn_ConsecutiveSuccesses state + 1\<rparr>,
          d_AllowQuotes = False, d_ShouldCancel = False\<rparr>
     | OtherStatus _ \<Rightarrow> \<lparr>d_State = state, d_AllowQuotes = False, d_ShouldCancel = False\<rparr>)"

definition healthyDecision :: "int \<Rightarrow> Snapshot \<Rightarrow> int \<Rightarrow> time \<Rightarrow> Decision" where
  "healthyDecision recoveryThreshold state0 managedOpenOrders now =
    (let d = healthySwitch (state0\<lparr>sn_UpdatedAt := now, sn_ConsecutiveFailures := 0, sn_Error := [], sn_Stage := []\<rparr>)
               managedOpenOrders now;
         state = d_State d
     in if sn_Status state = Recovering \<and> sn_ConsecutiveSuccesses state \<ge> recoveryThreshold
        then d\<lparr>d_State := state\<lparr>sn_Status := Normal, sn_Since := now, sn_LastHealthyAt := now,
                                 sn_ConsecutiveSuccesses := 0, sn_OrdersRetained := True\<rparr>,
               d_AllowQuotes := True\<rparr>
        else d)"

text \<open>Loading and persisting. An operation returns its error, the manager and the world.\<close>

definition ensureLoaded :: "'w StateStore option \<Rightarrow> string \<Rightarrow> FaultManager \<Rightarrow> 'w \<Rightarrow> string option \<times> FaultManager \<times> 'w" where
  "ensureLoaded store key m w =
    (if fm_loaded m key then (None, m, w)
     else case store of
       None \<Rightarrow> (None, m\<lparr>fm_loaded := (fm_loaded m)(key := True)\<rparr>, w)
     | Some ss \<Rightarrow>
         (case ss_Load ss key w of
            (Inl e, w') \<Rightarrow> (Some e, m, w')
          | (Inr payload, w') \<Rightarrow>
              if payload = NoBytes then (None, m\<lparr>fm_loaded := (fm_loaded m)(key := True)\<rparr>, w')
              else (case UnmarshalSnapshot payload of
                      None \<Rightarrow> (Some ''json'', m\<lparr>fm_loaded := (fm_loaded m)(key := False)\<rparr>, w')
                    | Some state \<Rightarrow>
                        (None, m\<lparr>fm_loaded := (fm_loaded m)(key := True),
                                 fm_states := (fm_states m)(key \<mapsto> state),
                                 fm_persisted := (fm_persisted m)(key := True)\<rparr>, w'))))"

definition persist :: "'w StateStore option \<Rightarrow> string \<Rightarrow> Snapshot \<Rightarrow> FaultManager \<Rightarrow> 'w
    \<Rightarrow> string option \<times> FaultManager \<times> 'w" where
  "persist store key state m w =
    (case store of
       None \<Rightarrow> (None, m, w)
     | Some ss \<Rightarrow>
         if sn_Status state = Normal \<and> sn_ConsecutiveFailures state = 0 \<and> sn_ConsecutiveSuccesses state = 0
         then (let wasPersisted = fm_persisted m key;
                   m1 = m\<lparr>fm_persisted := (fm_persisted m)(key := False)\<rparr>
               in if \<not> wasPersisted then (None, m1, w)
                  else (case ss_Delete ss key w of
                          (Some e, w') \<Rightarrow> (Some e, m1\<lparr>fm_persisted := (fm_persisted m1)(key := True)\<rparr>, w')
                        | (None, w') \<Rightarrow> (None, m1, w')))
         else (case MarshalSnapshot state of
                 None \<Rightarrow> (Some ''json'', m, w)
               | Some payload \<Rightarrow>
                   (case ss_Save ss key payload w of
                      (Some e, w') \<Rightarrow> (Some e, m, w')
                    | (None, w') \<Rightarrow> (None, m\<lparr>fm_persisted := (fm_persisted m)(key := True)\<rparr>, w'))))"

text \<open>A decision is stored in memory first and persisted after; the decision is returned with the
  error of the persisting step.\<close>

definition applyDecision :: "'w StateStore option \<Rightarrow> string \<Rightarrow> Decision \<Rightarrow> FaultManager \<Rightarrow> 'w
    \<Rightarrow> (Decision \<times> string option) \<times> FaultManager \<times> 'w" where
  "applyDecision store key d m w =
    (case persist store key (d_State d) (m\<lparr>fm_states := (fm_states m)(key \<mapsto> d_State d)\<rparr>) w of
       (e, m', w') \<Rightarrow> ((d, e), m', w'))"

definition FailureWithContext :: "'w StateStore option \<Rightarrow> string \<Rightarrow> string \<Rightarrow> string option \<Rightarrow> bool \<Rightarrow> time
    \<Rightarrow> FaultManager \<Rightarrow> 'w \<Rightarrow> (Decision \<times> string option) \<times> FaultManager \<times> 'w" where
  "FailureWithContext store key stage cause forceCancel now m w =
    (case ensureLoaded store key m w of
       (Some e, m1, w1) \<Rightarrow> ((zero_decision, Some e), m1, w1)
     | (None, m1, w1) \<Rightarrow>
         applyDecision store key
           (failureDecision (fm_failureThreshold m1) (faultStateOf m1 key now) stage cause forceCancel now) m1 w1)"

definition HealthyWithContext :: "'w StateStore option \<Rightarrow> string \<Rightarrow> int \<Rightarrow> time
    \<Rightarrow> FaultManager \<Rightarrow> 'w \<Rightarrow> (Decision \<times> string option) \<times> FaultManager \<times> 'w" where
  "HealthyWithContext store key managedOpenOrders now m w =
    (case ensureLoaded store key m w of
       (Some e, m1, w1) \<Rightarrow> ((zero_decision, Some e), m1, w1)
     | (None, m1, w1) \<Rightarrow>
         applyDecision store key
           (healthyDecision (fm_recoveryThreshold m1) (faultStateOf m1 key now) managedOpenOrders now) m1 w1)"

definition ResetWithContext :: "'w StateStore option \<Rightarrow> string \<Rightarrow> FaultManager \<Rightarrow> 'w
    \<Rightarrow> string option \<times> FaultManager \<times> 'w" where
  "ResetWithContext store key m w =
    (let m1 = m\<lparr>fm_states := (fm_states m)(key := None), fm_loaded := (fm_loaded m)(key := True),
                fm_persisted := (fm_persisted m)(key := False)\<rparr>
     in case store of
          None \<Rightarrow> (None, m1, w)
        | Some ss \<Rightarrow> (case ss_Delete ss key w of (e, w') \<Rightarrow> (e, m1, w')))"

section \<open>Reachable snapshots\<close>

datatype FaultEvent = Failed string "string option" bool time | Checked int time

fun is_failure :: "FaultEvent \<Rightarrow> bool" where
  "is_failure (Failed _ _ _ _) = True" | "is_failure (Checked _ _) = False"

text \<open>The decision a manager with the given thresholds takes on an event.\<close>

fun decide :: "int \<Rightarrow> int \<Rightarrow> Snapshot \<Rightarrow> FaultEvent \<Rightarrow> Decision" where
  "decide ft rt s (Failed stage cause force now) = failureDecision ft s stage cause force now"
| "decide ft rt s (Checked orders now) = healthyDecision rt s orders now"

text \<open>The snapshots a market can have, with the events that led there, the latest first.\<close>

inductive fault_run :: "int \<Rightarrow> int \<Rightarrow> FaultEvent list \<Rightarrow> Snapshot \<Rightarrow> bool" for ft rt where
  fault_start: "fault_run ft rt [] (faultStateOf (NewWithStateStore ft rt) key now)"
| fault_step: "fault_run ft rt es s \<Longrightarrow> fault_run ft rt (e # es) (d_State (decide ft rt s e))"

definition failure_streak :: "FaultEvent list \<Rightarrow> int" where
  "failure_streak es = int (length (takeWhile is_failure es))"

definition healthy_streak :: "FaultEvent list \<Rightarrow> int" where
  "healthy_streak es = int (length (takeWhile (\<lambda>e. \<not> is_failure e) es))"

lemma streak_simps [simp]:
  "failure_streak [] = 0" "healthy_streak [] = 0"
  "failure_streak (Failed a b c d # es) = failure_streak es + 1"
  "failure_streak (Checked n t # es) = 0"
  "healthy_streak (Failed a b c d # es) = 0"
  "healthy_streak (Checked n t # es) = healthy_streak es + 1"
  by (simp_all add: failure_streak_def healthy_streak_def)

lemma healthy_streak_nonneg: "0 \<le> healthy_streak es"
  by (simp add: healthy_streak_def)

text \<open>The exact effect of the two kinds of event.\<close>

lemma failureDecision_state:
  "sn_Status (d_State (failureDecision ft s stage cause force now)) =
     (if force \<or> sn_ConsecutiveFailures s + 1 \<ge> ft \<or> sn_Status s = Canceling then Canceling else Degraded)"
  "d_ShouldCancel (failureDecision ft s stage cause force now) \<longleftrightarrow>
     force \<or> sn_ConsecutiveFailures s + 1 \<ge> ft \<or> sn_Status s = Canceling"
  "\<not> d_AllowQuotes (failureDecision ft s stage cause force now)"
  "sn_ConsecutiveFailures (d_State (failureDecision ft s stage cause force now)) = sn_ConsecutiveFailures s + 1"
  "sn_ConsecutiveSuccesses (d_State (failureDecision ft s stage cause force now)) = 0"
  by (simp_all add: failureDecision_def Let_def)

lemma healthyDecision_failures [simp]:
  "sn_ConsecutiveFailures (d_State (healthyDecision rt s n now)) = 0"
  by (simp add: healthyDecision_def healthySwitch_def Let_def split: Status.split)

text \<open>The part of a snapshot the recovery logic depends on.\<close>

fun recovery_step :: "int \<Rightarrow> Status \<times> int \<Rightarrow> bool \<Rightarrow> Status \<times> int" where
  "recovery_step rt (Normal, k) open_orders = (Normal, k)"
| "recovery_step rt (Canceling, k) open_orders = (if open_orders then (Canceling, k) else (Paused, k))"
| "recovery_step rt (Paused, k) open_orders = (if rt \<le> 1 then (Normal, 0) else (Recovering, 1))"
| "recovery_step rt (Degraded, k) open_orders = (if rt \<le> 1 then (Normal, 0) else (Recovering, 1))"
| "recovery_step rt (Recovering, k) open_orders = (if rt \<le> k + 1 then (Normal, 0) else (Recovering, k + 1))"
| "recovery_step rt (OtherStatus t, k) open_orders = (OtherStatus t, k)"

lemma healthyDecision_recovery:
  "(sn_Status (d_State (healthyDecision rt s n now)), sn_ConsecutiveSuccesses (d_State (healthyDecision rt s n now))) =
     recovery_step rt (sn_Status s, sn_ConsecutiveSuccesses s) (n > 0)"
  by (simp add: healthyDecision_def healthySwitch_def Let_def split: Status.split)

lemma healthyDecision_flags:
  "d_AllowQuotes (healthyDecision rt s n now) \<longleftrightarrow> sn_Status (d_State (healthyDecision rt s n now)) = Normal"
  "d_ShouldCancel (healthyDecision rt s n now) \<longleftrightarrow> sn_Status s = Canceling \<and> n > 0"
  by (simp_all add: healthyDecision_def healthySwitch_def Let_def split: Status.split)

definition fault_inv :: "int \<Rightarrow> FaultEvent list \<Rightarrow> Snapshot \<Rightarrow> bool" where
  "fault_inv rt es s \<longleftrightarrow>
     sn_ConsecutiveFailures s = failure_streak es \<and>
     (case sn_Status s of
        Normal \<Rightarrow> list_ex is_failure es \<longrightarrow> rt \<le> healthy_streak es
      | Recovering \<Rightarrow> 1 \<le> sn_ConsecutiveSuccesses s \<and> sn_ConsecutiveSuccesses s \<le> healthy_streak es \<and>
          sn_ConsecutiveSuccesses s < rt
      | OtherStatus _ \<Rightarrow> False
      | _ \<Rightarrow> True)"

lemma fault_inv_step:
  assumes "fault_inv rt es s"
  shows "fault_inv rt (e # es) (d_State (decide ft rt s e))"
proof (cases e)
  case (Failed stage cause force now)
  with assms show ?thesis by (simp add: fault_inv_def failureDecision_state)
next
  case (Checked n now)
  note r = healthyDecision_recovery [of rt s n now]
  show ?thesis using assms Checked r healthy_streak_nonneg [of es]
    by (cases "sn_Status s") (auto simp: fault_inv_def split: if_splits)
qed

lemma fault_run_inv: "fault_run ft rt es s \<Longrightarrow> fault_inv rt es s"
proof (induction rule: fault_run.induct)
  case (fault_start key now)
  show ?case by (simp add: fault_inv_def faultStateOf_def NewWithStateStore_def)
qed (rule fault_inv_step)

text \<open>Health checks with no order left, in a row.\<close>

fun recover :: "int \<Rightarrow> nat \<Rightarrow> Status \<times> int \<Rightarrow> Status \<times> int" where
  "recover rt 0 p = p"
| "recover rt (Suc n) p = recover rt n (recovery_step rt p False)"

lemma recover_Normal [simp]: "recover rt n (Normal, k) = (Normal, k)"
  by (induction n) simp_all

lemma recover_Recovering:
  assumes "1 \<le> k" "rt \<le> k + int n" "k < rt"
  shows "fst (recover rt n (Recovering, k)) = Normal"
  using assms
proof (induction n arbitrary: k)
  case (Suc n)
  show ?case
  proof (cases "rt \<le> k + 1")
    case False
    with Suc.prems have "fst (recover rt n (Recovering, k + 1)) = Normal" by (intro Suc.IH) auto
    with False show ?thesis by simp
  qed simp
qed simp

lemma recover_Paused:
  assumes "1 \<le> rt" "rt \<le> int n" "st = Paused \<or> st = Degraded"
  shows "fst (recover rt n (st, k)) = Normal"
proof -
  from assms obtain m where n: "n = Suc m" by (cases n) auto
  have step: "recovery_step rt (st, k) False = (if rt \<le> 1 then (Normal, 0) else (Recovering, 1))"
    using assms(3) by auto
  show ?thesis unfolding n recover.simps step
    using recover_Recovering [of 1 rt m] assms n by auto
qed

lemma recover_reaches_Normal:
  assumes "1 \<le> rt" "st \<notin> range OtherStatus" "st = Recovering \<Longrightarrow> 1 \<le> k \<and> k < rt"
  shows "fst (recover rt (Suc (nat rt)) (st, k)) = Normal"
proof (cases st)
  case Canceling
  then have "recover rt (Suc (nat rt)) (st, k) = recover rt (nat rt) (Paused, k)" by simp
  then show ?thesis using recover_Paused [of rt "nat rt"] assms(1) by simp
next
  case Recovering
  then show ?thesis using recover_Recovering [of k rt "Suc (nat rt)"] assms by (simp del: recover.simps)
qed (use recover_Paused [of rt "Suc (nat rt)"] assms in \<open>auto simp del: recover.simps\<close>)

text \<open>The same over the manager's own decisions.\<close>

fun check_run :: "int \<Rightarrow> Snapshot \<Rightarrow> time list \<Rightarrow> Snapshot" where
  "check_run rt s [] = s"
| "check_run rt s (t # ts) = check_run rt (d_State (healthyDecision rt s 0 t)) ts"

lemma check_run_recover:
  "(sn_Status (check_run rt s ts), sn_ConsecutiveSuccesses (check_run rt s ts)) =
     recover rt (length ts) (sn_Status s, sn_ConsecutiveSuccesses s)"
  by (induction ts arbitrary: s) (simp_all add: healthyDecision_recovery)


section \<open>Documents and the store\<close>

lemma status_round_trip: "st \<notin> range OtherStatus \<Longrightarrow> status_of (status_text st) = st"
  by (cases st) (auto simp: status_of_def)

lemma UnmarshalSnapshot_Marshal:
  assumes "MarshalSnapshot s = Some p" and "sn_Status s \<notin> range OtherStatus"
  shows "UnmarshalSnapshot p = Some s" and "p \<noteq> NoBytes"
proof -
  from assms(1) have p: "p = Doc (JObj ([(''status'', JStr (status_text (sn_Status s)))] @
       omit_str ''stage'' (sn_Stage s) @ omit_str ''error'' (sn_Error s) @
       [(''consecutive_failures'', JInt (sn_ConsecutiveFailures s)),
        (''consecutive_successes'', JInt (sn_ConsecutiveSuccesses s)),
        (''since'', JTime (sn_Since s)), (''updated_at'', JTime (sn_UpdatedAt s)),
        (''last_healthy_at'', JTime (sn_LastHealthyAt s)),
        (''orders_retained'', JBool (sn_OrdersRetained s))]))"
    by (simp add: MarshalSnapshot_def split: if_splits)
  show "UnmarshalSnapshot p = Some s" unfolding p
    using status_round_trip [OF assms(2)]
    by (simp add: UnmarshalSnapshot_def json_fields_def field_def omit_str_def)
  show "p \<noteq> NoBytes" unfolding p by simp
qed

lemma ensureLoaded_keeps:
  assumes "ensureLoaded store key m w = (e, m', w')"
  shows "fm_failureThreshold m' = fm_failureThreshold m \<and> fm_recoveryThreshold m' = fm_recoveryThreshold m \<and>
    (e = None \<longrightarrow> fm_loaded m' key) \<and> (fm_loaded m key \<longrightarrow> e = None \<and> m' = m \<and> w' = w)"
  using assms
  by (auto simp: ensureLoaded_def split: if_splits option.splits prod.splits sum.splits)

lemma persist_abnormal:
  assumes "persist (Some ss) key s m w = (None, m', w')"
    and "\<not> (sn_Status s = Normal \<and> sn_ConsecutiveFailures s = 0 \<and> sn_ConsecutiveSuccesses s = 0)"
  obtains p where "MarshalSnapshot s = Some p" "ss_Save ss key p w = (None, w')"
  using assms by (auto simp: persist_def split: option.splits prod.splits)

text \<open>What a replacement manager finds after an abnormal state was persisted.\<close>

context state_store
begin

lemma inherits:
  assumes "applyDecision (Some ss) key d m w = ((d', None), m', w')"
    and "sn_Status (d_State d) \<notin> range OtherStatus" "sn_Status (d_State d) \<noteq> Normal"
    and "\<not> fm_loaded fresh key" "ensureLoaded (Some ss) key fresh w' = (None, m2, w2)"
  shows "fm_states m2 key = Some (d_State d)" "fm_persisted m2 key"
proof -
  from assms(1) obtain m1 where "persist (Some ss) key (d_State d) m1 w = (None, m', w')"
    by (auto simp: applyDecision_def split: prod.splits)
  then obtain p where p: "MarshalSnapshot (d_State d) = Some p" "ss_Save ss key p w = (None, w')"
    using assms(3) by (auto elim: persist_abnormal)
  note u = UnmarshalSnapshot_Marshal [OF p(1) assms(2)]
  obtain r w3 where l: "ss_Load ss key w' = (r, w3)" by fastforce
  from assms(4,5) l obtain q where q: "r = Inr q" by (cases r) (auto simp: ensureLoaded_def)
  with l p(2) u(2) have "q = p" by (auto intro: load_save)
  with assms(4,5) l q u show "fm_states m2 key = Some (d_State d)" "fm_persisted m2 key"
    by (auto simp: ensureLoaded_def)
qed

end


section \<open>Properties\<close>

text \<open>C8: a market that failed quotes again only after a full recovery. On every history with a
  failure, a decision that allows quotes comes after an unbroken run of at least as many health
  checks as the recovery threshold asks for, and leaves the market in its normal state.\<close>

theorem quotes_need_recovery:
  assumes "fault_run ft rt es s" "list_ex is_failure es" "d_AllowQuotes (decide ft rt s e)"
  shows "\<not> is_failure e \<and> rt \<le> healthy_streak (e # es) \<and> sn_Status (d_State (decide ft rt s e)) = Normal"
proof (cases e)
  case (Failed stage cause force now)
  with assms(3) show ?thesis by (simp add: failureDecision_state)
next
  case (Checked n now)
  with assms(3) have st: "sn_Status (d_State (decide ft rt s e)) = Normal" by (simp add: healthyDecision_flags)
  from fault_run_inv [OF assms(1)] have "fault_inv rt (e # es) (d_State (decide ft rt s e))" by (rule fault_inv_step)
  with st assms(2) Checked show ?thesis by (simp add: fault_inv_def)
qed

theorem quotes_need_recovery_witness:
  "2 \<le> healthy_streak [Checked 0 3, Checked 0 2, Failed [] None False 1]"
proof -
  let ?s0 = "faultStateOf (NewWithStateStore 3 2) [] 0"
  let ?s1 = "d_State (decide 3 2 ?s0 (Failed [] None False 1))"
  let ?s2 = "d_State (decide 3 2 ?s1 (Checked 0 2))"
  have r: "fault_run 3 2 [Checked 0 2, Failed [] None False 1] ?s2" by (intro fault_step fault_start)
  have "d_AllowQuotes (decide 3 2 ?s2 (Checked 0 3))" by code_simp
  from quotes_need_recovery [OF r _ this] show ?thesis by simp
qed

text \<open>C28: escalation. A failure orders the cancellation of all managed orders exactly when it is
  forced, when it is the last of as many consecutive failures as the threshold allows, or when a
  cancellation is already under way; the count is that of the history's trailing failures.\<close>

theorem failure_escalates:
  assumes "fault_run ft rt es s"
  shows "(d_ShouldCancel (failureDecision ft s stage cause force now) \<longleftrightarrow>
      force \<or> ft \<le> failure_streak (Failed stage cause force now # es) \<or> sn_Status s = Canceling) \<and>
    sn_Status (d_State (failureDecision ft s stage cause force now)) =
      (if d_ShouldCancel (failureDecision ft s stage cause force now) then Canceling else Degraded)"
  using fault_run_inv [OF assms] by (simp add: failureDecision_state fault_inv_def)

theorem failure_escalates_witness:
  "d_ShouldCancel (failureDecision 2 (d_State (failureDecision 2 (faultStateOf (NewWithStateStore 2 1) [] 0) [] None False 1))
     [] None False 2)"
proof -
  have "fault_run 2 1 [Failed [] None False 1] (d_State (decide 2 1 (faultStateOf (NewWithStateStore 2 1) [] 0) (Failed [] None False 1)))"
    by (intro fault_step fault_start)
  from failure_escalates [OF this, of "[]" None False 2] show ?thesis by simp
qed

text \<open>C26: cancellation is confirmed before it ends. While a market is cancelling, every event
  leaves it cancelling and orders the cancellation again, except a health check that sees no
  managed order, which pauses the market; quotes are never allowed.\<close>

theorem canceling_confirmed:
  assumes "sn_Status s = Canceling"
  shows "\<not> d_AllowQuotes (decide ft rt s e) \<and>
    (if \<exists>n t. e = Checked n t \<and> n \<le> 0
     then sn_Status (d_State (decide ft rt s e)) = Paused \<and> \<not> d_ShouldCancel (decide ft rt s e)
     else sn_Status (d_State (decide ft rt s e)) = Canceling \<and> d_ShouldCancel (decide ft rt s e))"
  using assms
  by (cases e) (auto simp: failureDecision_def healthyDecision_def healthySwitch_def Let_def)

theorem canceling_confirmed_witness:
  "sn_Status (d_State (decide 3 3 (zero_snapshot\<lparr>sn_Status := Canceling\<rparr>) (Checked 0 5))) = Paused"
  using canceling_confirmed [of "zero_snapshot\<lparr>sn_Status := Canceling\<rparr>" 3 3 "Checked 0 5"] by simp

text \<open>C27: recovery terminates. From every reachable state, one health check more than the recovery
  threshold, each seeing no managed order, brings the market back to its normal state, and the
  next one allows quotes.\<close>

theorem recovery_completes:
  assumes "fault_run ft rt es s" "1 \<le> rt" "length ts = Suc (nat rt)"
  shows "sn_Status (check_run rt s ts) = Normal \<and> d_AllowQuotes (healthyDecision rt (check_run rt s ts) n now)"
proof -
  from fault_run_inv [OF assms(1)] have "sn_Status s \<notin> range OtherStatus"
    "sn_Status s = Recovering \<Longrightarrow> 1 \<le> sn_ConsecutiveSuccesses s \<and> sn_ConsecutiveSuccesses s < rt"
    by (auto simp: fault_inv_def)
  from recover_reaches_Normal [OF assms(2) this] have N: "sn_Status (check_run rt s ts) = Normal"
    using check_run_recover [of rt s ts] by (metis assms(3) fst_conv)
  with healthyDecision_recovery [of rt "check_run rt s ts" n now] show ?thesis
    by (simp add: healthyDecision_flags)
qed

theorem recovery_completes_witness:
  "sn_Status (check_run 2 (d_State (decide 1 2 (faultStateOf (NewWithStateStore 1 2) [] 0) (Failed [] None True 1))) [2, 3, 4]) = Normal"
proof -
  have r: "fault_run 1 2 [Failed [] None True 1] (d_State (decide 1 2 (faultStateOf (NewWithStateStore 1 2) [] 0) (Failed [] None True 1)))"
    by (intro fault_step fault_start)
  from recovery_completes [OF r, of "[2, 3, 4]"] show ?thesis by (simp del: check_run.simps)
qed

end
