(* ===== verification/RuntimeStore.thy ===== *)
theory RuntimeStore
  imports OMSProps Fault
begin

text \<open>
  \<^verbatim>\<open>internal/runtimeops/store.go\<close>: the durable state of the running engine in Redis. Modelled are the
  stores of the order manager and of the fault manager, the market leases with their fence
  generations, the pause and reconcile controls, the throttled trading progress, the applied
  version and the watchdog status. The Redis server is a parameter: a record of its commands over
  its state \<open>'s\<close>, and of the behaviour of the connection, on which a call may fail before or after
  it took effect. The laws of the commands are the locale \<open>redis_server\<close>. A Lua script runs
  atomically on the server.
\<close>

section \<open>Definitions\<close>

record 's RedisServer =
  rs_link :: "'s \<Rightarrow> (bool \<times> string) option"
  rs_get :: "string \<Rightarrow> 's \<Rightarrow> Payload option"
  rs_set :: "string \<Rightarrow> Payload \<Rightarrow> duration \<Rightarrow> 's \<Rightarrow> 's"
  rs_del :: "string \<Rightarrow> 's \<Rightarrow> 's"
  rs_incr :: "string \<Rightarrow> 's \<Rightarrow> int \<times> 's"
  rs_pexpire :: "string \<Rightarrow> duration \<Rightarrow> 's \<Rightarrow> 's"
  rs_hset :: "string \<Rightarrow> string \<Rightarrow> Payload \<Rightarrow> 's \<Rightarrow> 's"
  rs_hdel :: "string \<Rightarrow> string \<Rightarrow> 's \<Rightarrow> 's"
  rs_hgetall :: "string \<Rightarrow> 's \<Rightarrow> (string \<times> Payload) list"

text \<open>A command over the connection: its reply, or the error of a lost call, which may have been
  carried out.\<close>

definition redis_call :: "'s RedisServer \<Rightarrow> ('s \<Rightarrow> 'a \<times> 's) \<Rightarrow> 's \<Rightarrow> (string + 'a) \<times> 's" where
  "redis_call rd f s =
    (case rs_link rd s of
       None \<Rightarrow> (Inr (fst (f s)), snd (f s))
     | Some (applied, e) \<Rightarrow> (Inl e, if applied then snd (f s) else s))"

definition redis_do :: "'s RedisServer \<Rightarrow> ('s \<Rightarrow> 's) \<Rightarrow> 's \<Rightarrow> string option \<times> 's" where
  "redis_do rd f s =
    (case redis_call rd (\<lambda>s. ((), f s)) s of (Inl e, s') \<Rightarrow> (Some e, s') | (Inr _, s') \<Rightarrow> (None, s'))"

definition omsStatePrefix :: string where "omsStatePrefix = ''fluxmaker:oms:state:''"
definition faultStatePrefix :: string where "faultStatePrefix = ''fluxmaker:fault:state:''"
definition marketLeasePrefix :: string where "marketLeasePrefix = ''fluxmaker:lease:market:''"
definition marketFencePrefix :: string where "marketFencePrefix = ''fluxmaker:lease:generation:''"
definition pausedKey :: string where "pausedKey = ''fluxmaker:control:paused''"
definition reconcileKey :: string where "reconcileKey = ''fluxmaker:control:reconcile''"
definition tradingProgressKey :: string where "tradingProgressKey = ''fluxmaker:runtime:trading-progress''"
definition appliedVersionKey :: string where "appliedVersionKey = ''fluxmaker:runtime:applied-version''"
definition watchdogKey :: string where "watchdogKey = ''fluxmaker:runtime:watchdog''"

text \<open>The two state stores. No Redis client means that nothing is stored.\<close>

definition loadPayload :: "'s RedisServer \<Rightarrow> string \<Rightarrow> 's \<Rightarrow> (string + Payload) \<times> 's" where
  "loadPayload rd key s =
    (case redis_call rd (\<lambda>s. (rs_get rd key s, s)) s of
       (Inl e, s') \<Rightarrow> (Inl e, s')
     | (Inr None, s') \<Rightarrow> (Inr NoBytes, s')
     | (Inr (Some payload), s') \<Rightarrow> (Inr payload, s'))"

definition LoadOMSState :: "'s RedisServer option \<Rightarrow> string \<Rightarrow> 's \<Rightarrow> (string + Payload) \<times> 's" where
  "LoadOMSState rdo key s = (case rdo of None \<Rightarrow> (Inr NoBytes, s) | Some rd \<Rightarrow> loadPayload rd (omsStatePrefix @ key) s)"

definition SaveOMSState :: "'s RedisServer option \<Rightarrow> string \<Rightarrow> Payload \<Rightarrow> 's \<Rightarrow> string option \<times> 's" where
  "SaveOMSState rdo key payload s =
    (case rdo of None \<Rightarrow> (None, s)
     | Some rd \<Rightarrow> redis_do rd (rs_set rd (omsStatePrefix @ key) payload (7 * 24 * 3600 * second)) s)"

definition DeleteOMSState :: "'s RedisServer option \<Rightarrow> string \<Rightarrow> 's \<Rightarrow> string option \<times> 's" where
  "DeleteOMSState rdo key s =
    (case rdo of None \<Rightarrow> (None, s) | Some rd \<Rightarrow> redis_do rd (rs_del rd (omsStatePrefix @ key)) s)"

definition LoadFaultState :: "'s RedisServer option \<Rightarrow> string \<Rightarrow> 's \<Rightarrow> (string + Payload) \<times> 's" where
  "LoadFaultState rdo key s = (case rdo of None \<Rightarrow> (Inr NoBytes, s) | Some rd \<Rightarrow> loadPayload rd (faultStatePrefix @ key) s)"

definition SaveFaultState :: "'s RedisServer option \<Rightarrow> string \<Rightarrow> Payload \<Rightarrow> 's \<Rightarrow> string option \<times> 's" where
  "SaveFaultState rdo key payload s =
    (case rdo of None \<Rightarrow> (None, s) | Some rd \<Rightarrow> redis_do rd (rs_set rd (faultStatePrefix @ key) payload 0) s)"

definition DeleteFaultState :: "'s RedisServer option \<Rightarrow> string \<Rightarrow> 's \<Rightarrow> string option \<times> 's" where
  "DeleteFaultState rdo key s =
    (case rdo of None \<Rightarrow> (None, s) | Some rd \<Rightarrow> redis_do rd (rs_del rd (faultStatePrefix @ key)) s)"

definition OMSStore :: "'s RedisServer option \<Rightarrow> 's StateStore" where
  "OMSStore rdo = \<lparr>ss_Load = LoadOMSState rdo, ss_Save = SaveOMSState rdo, ss_Delete = DeleteOMSState rdo\<rparr>"

definition FaultStore :: "'s RedisServer option \<Rightarrow> 's StateStore" where
  "FaultStore rdo = \<lparr>ss_Load = LoadFaultState rdo, ss_Save = SaveFaultState rdo, ss_Delete = DeleteFaultState rdo\<rparr>"

text \<open>Market leases. The value of a lease is the owner, a colon and the generation; the script splits
  it at the last colon that only digits follow.\<close>

definition lease_text :: "string \<Rightarrow> nat \<Rightarrow> string" where
  "lease_text owner generation = owner @ '':'' @ utoa generation"

definition is_digit :: "char \<Rightarrow> bool" where
  "is_digit c \<longleftrightarrow> 48 \<le> (of_char c :: nat) \<and> (of_char c :: nat) \<le> 57"

definition digits_value :: "string \<Rightarrow> nat" where
  "digits_value ds = foldl (\<lambda>n c. 10 * n + (of_char c - 48)) 0 ds"

definition lease_match :: "string \<Rightarrow> (string \<times> nat) option" where
  "lease_match text =
    (let r = rev text; ds = takeWhile is_digit r
     in case dropWhile is_digit r of
          c # rest \<Rightarrow> if c = CHR '':'' \<and> ds \<noteq> [] then Some (rev rest, digits_value (rev ds)) else None
        | [] \<Rightarrow> None)"

fun payload_text :: "Payload \<Rightarrow> string option" where
  "payload_text (Raw t) = Some t" | "payload_text _ = None"

definition acquireScript :: "'s RedisServer \<Rightarrow> string \<Rightarrow> string \<Rightarrow> string \<Rightarrow> duration \<Rightarrow> 's \<Rightarrow> int \<times> 's" where
  "acquireScript rd leaseKey fenceKey owner ttl s =
    (case rs_get rd leaseKey s of
       Some current \<Rightarrow>
         (case Option.bind (payload_text current) lease_match of
            Some (currentOwner, generation) \<Rightarrow>
              if currentOwner = owner then (int generation, rs_pexpire rd leaseKey ttl s) else (0, s)
          | None \<Rightarrow> (0, s))
     | None \<Rightarrow>
         (let (generation, s1) = rs_incr rd fenceKey s
          in (generation, rs_set rd leaseKey (Raw (lease_text owner (nat generation))) ttl s1)))"

definition AcquireMarketLease :: "'s RedisServer option \<Rightarrow> string \<Rightarrow> string \<Rightarrow> duration \<Rightarrow> 's
    \<Rightarrow> (64 word \<times> string option) \<times> 's" where
  "AcquireMarketLease rdo key owner ttl0 s =
    (case rdo of
       None \<Rightarrow> ((1, None), s)
     | Some rd \<Rightarrow>
         let ttl = (if ttl0 \<le> 0 then 30 * second else ttl0) in
         case redis_call rd (acquireScript rd (marketLeasePrefix @ key) (marketFencePrefix @ key) owner ttl) s of
           (Inl e, s') \<Rightarrow> ((0, Some e), s')
         | (Inr result, s') \<Rightarrow> ((if result \<le> 0 then 0 else word_of_int result, None), s'))"

definition holdsLease :: "'s RedisServer \<Rightarrow> string \<Rightarrow> string \<Rightarrow> 64 word \<Rightarrow> 's \<Rightarrow> bool" where
  "holdsLease rd key owner generation s \<longleftrightarrow>
     rs_get rd (marketLeasePrefix @ key) s = Some (Raw (lease_text owner (unat generation)))"

definition ValidateMarketLease :: "'s RedisServer option \<Rightarrow> string \<Rightarrow> string \<Rightarrow> 64 word \<Rightarrow> 's
    \<Rightarrow> (bool \<times> string option) \<times> 's" where
  "ValidateMarketLease rdo key owner generation s =
    (case rdo of
       None \<Rightarrow> ((True, None), s)
     | Some rd \<Rightarrow>
         (case redis_call rd (\<lambda>s. (holdsLease rd key owner generation s, s)) s of
            (Inl e, s') \<Rightarrow> ((False, Some e), s')
          | (Inr ok, s') \<Rightarrow> ((ok, None), s')))"

definition ReleaseMarketLease :: "'s RedisServer option \<Rightarrow> string \<Rightarrow> string \<Rightarrow> 64 word \<Rightarrow> 's \<Rightarrow> string option \<times> 's" where
  "ReleaseMarketLease rdo key owner generation s =
    (case rdo of
       None \<Rightarrow> (None, s)
     | Some rd \<Rightarrow>
         redis_do rd (\<lambda>s. if holdsLease rd key owner generation s then rs_del rd (marketLeasePrefix @ key) s else s) s)"



text \<open>Controls. Reasons tell a soft close from an emergency stop.\<close>

definition ReasonManualPause :: string where "ReasonManualPause = ''manual_pause''"
definition ReasonEmergencyCancel :: string where "ReasonEmergencyCancel = ''emergency_cancel''"

record PauseState =
  pa_InstrumentID :: string
  pa_Paused :: bool
  pa_Reason :: string
  pa_RequestedBy :: int
  pa_RequestedAt :: time

record ReconcileRequest =
  rr_InstrumentID :: string
  rr_RequestedBy :: int
  rr_RequestedAt :: time

text \<open>\<^verbatim>\<open>SetPaused\<close> and \<^verbatim>\<open>RequestReconcile\<close> ignore an encoding error, so that an empty payload would be
  stored; the clock stays within the encodable years.\<close>

definition MarshalPause :: "PauseState \<Rightarrow> Payload" where
  "MarshalPause p =
    (if json_time_ok (pa_RequestedAt p)
     then Doc (JObj [(''instrument_id'', JStr (pa_InstrumentID p)), (''paused'', JBool (pa_Paused p)),
       (''reason'', JStr (pa_Reason p)), (''requested_by'', JInt (pa_RequestedBy p)),
       (''requested_at'', JTime (pa_RequestedAt p))])
     else NoBytes)"

definition UnmarshalPause :: "Payload \<Rightarrow> PauseState option" where
  "UnmarshalPause p =
    Option.bind (json_fields p) (\<lambda>fs.
    Option.bind (field fs ''instrument_id'' as_str []) (\<lambda>i.
    Option.bind (field fs ''paused'' as_bool False) (\<lambda>b.
    Option.bind (field fs ''reason'' as_str []) (\<lambda>r.
    Option.bind (field fs ''requested_by'' as_int 0) (\<lambda>u.
    Option.bind (field fs ''requested_at'' as_time zero_time) (\<lambda>t.
      Some \<lparr>pa_InstrumentID = i, pa_Paused = b, pa_Reason = r, pa_RequestedBy = u, pa_RequestedAt = t\<rparr>))))))"

definition MarshalReconcile :: "ReconcileRequest \<Rightarrow> Payload" where
  "MarshalReconcile r =
    (if json_time_ok (rr_RequestedAt r)
     then Doc (JObj [(''instrument_id'', JStr (rr_InstrumentID r)), (''requested_by'', JInt (rr_RequestedBy r)),
       (''requested_at'', JTime (rr_RequestedAt r))])
     else NoBytes)"

definition UnmarshalReconcile :: "Payload \<Rightarrow> ReconcileRequest option" where
  "UnmarshalReconcile p =
    Option.bind (json_fields p) (\<lambda>fs.
    Option.bind (field fs ''instrument_id'' as_str []) (\<lambda>i.
    Option.bind (field fs ''requested_by'' as_int 0) (\<lambda>u.
    Option.bind (field fs ''requested_at'' as_time zero_time) (\<lambda>t.
      Some \<lparr>rr_InstrumentID = i, rr_RequestedBy = u, rr_RequestedAt = t\<rparr>))))"

definition SetPaused :: "'s RedisServer \<Rightarrow> string \<Rightarrow> string \<Rightarrow> int \<Rightarrow> time \<Rightarrow> 's \<Rightarrow> (string + PauseState) \<times> 's" where
  "SetPaused rd instrumentID reason userID now s =
    (if instrumentID = [] then (Inl ''instrument id is required'', s)
     else
       let state = \<lparr>pa_InstrumentID = instrumentID, pa_Paused = True, pa_Reason = reason, pa_RequestedBy = userID,
                    pa_RequestedAt = now\<rparr>
       in case redis_do rd (rs_hset rd pausedKey instrumentID (MarshalPause state)) s of
            (Some e, s') \<Rightarrow> (Inl e, s')
          | (None, s') \<Rightarrow> (Inr state, s'))"

definition Resume :: "'s RedisServer \<Rightarrow> string \<Rightarrow> 's \<Rightarrow> string option \<times> 's" where
  "Resume rd instrumentID s = redis_do rd (rs_hdel rd pausedKey instrumentID) s"

text \<open>The entries of a hash that decode, in one of the orders of the reply.\<close>

definition decodeHash :: "(Payload \<Rightarrow> 'a option) \<Rightarrow> (string \<times> Payload) list \<Rightarrow> (string \<times> 'a) list" where
  "decodeHash dec kvs = List.map_filter (\<lambda>(k, p). map_option (Pair k) (dec p)) kvs"

definition PausedControls :: "'s RedisServer option \<Rightarrow> 's \<Rightarrow> (string + (string \<times> PauseState) list) \<times> 's" where
  "PausedControls rdo s =
    (case rdo of
       None \<Rightarrow> (Inr [], s)
     | Some rd \<Rightarrow>
         (case redis_call rd (\<lambda>s. (rs_hgetall rd pausedKey s, s)) s of
            (Inl e, s') \<Rightarrow> (Inl e, s')
          | (Inr kvs, s') \<Rightarrow> (Inr (decodeHash UnmarshalPause kvs), s')))"

definition RequestReconcile :: "'s RedisServer \<Rightarrow> string \<Rightarrow> int \<Rightarrow> time \<Rightarrow> 's \<Rightarrow> (ReconcileRequest \<times> string option) \<times> 's" where
  "RequestReconcile rd instrumentID userID now s =
    (let request = \<lparr>rr_InstrumentID = instrumentID, rr_RequestedBy = userID, rr_RequestedAt = now\<rparr>
     in case redis_do rd (rs_hset rd reconcileKey instrumentID (MarshalReconcile request)) s of
          (e, s') \<Rightarrow> ((request, e), s'))"

definition Reconciles :: "'s RedisServer \<Rightarrow> 's \<Rightarrow> (string + (string \<times> ReconcileRequest) list) \<times> 's" where
  "Reconciles rd s =
    (case redis_call rd (\<lambda>s. (rs_hgetall rd reconcileKey s, s)) s of
       (Inl e, s') \<Rightarrow> (Inl e, s')
     | (Inr kvs, s') \<Rightarrow> (Inr (decodeHash UnmarshalReconcile kvs), s'))"

definition ClearReconcile :: "'s RedisServer \<Rightarrow> string \<Rightarrow> 's \<Rightarrow> string option \<times> 's" where
  "ClearReconcile rd instrumentID s = redis_do rd (rs_hdel rd reconcileKey instrumentID) s"

text \<open>Trading progress is written at most once a second; \<open>lastProgress\<close> is the store's field. The
  instant is stored as its text, here the leaf of a document.\<close>

definition ReportTradingProgress :: "'s RedisServer option \<Rightarrow> time \<Rightarrow> time \<Rightarrow> 's \<Rightarrow> string option \<times> time \<times> 's" where
  "ReportTradingProgress rdo now lastProgress s =
    (case rdo of
       None \<Rightarrow> (None, lastProgress, s)
     | Some rd \<Rightarrow>
         if \<not> IsZeroTime lastProgress \<and> time_sub now lastProgress < second then (None, lastProgress, s)
         else (case redis_do rd (rs_set rd tradingProgressKey (Doc (JTime now)) 0) s of (e, s') \<Rightarrow> (e, now, s')))"

definition TradingProgress :: "'s RedisServer option \<Rightarrow> 's \<Rightarrow> time \<times> 's" where
  "TradingProgress rdo s =
    (case rdo of
       None \<Rightarrow> (zero_time, s)
     | Some rd \<Rightarrow>
         (case redis_call rd (\<lambda>s. (rs_get rd tradingProgressKey s, s)) s of
            (Inr (Some (Doc (JTime t))), s') \<Rightarrow> (t, s')
          | (_, s') \<Rightarrow> (zero_time, s')))"

definition SetAppliedVersion :: "'s RedisServer option \<Rightarrow> int \<Rightarrow> 's \<Rightarrow> string option \<times> 's" where
  "SetAppliedVersion rdo version s =
    (case rdo of
       None \<Rightarrow> (None, s)
     | Some rd \<Rightarrow> if version \<le> 0 then (None, s) else redis_do rd (rs_set rd appliedVersionKey (Doc (JInt version)) 0) s)"

definition AppliedVersion :: "'s RedisServer option \<Rightarrow> 's \<Rightarrow> int \<times> 's" where
  "AppliedVersion rdo s =
    (case rdo of
       None \<Rightarrow> (0, s)
     | Some rd \<Rightarrow>
         (case redis_call rd (\<lambda>s. (rs_get rd appliedVersionKey s, s)) s of
            (Inr (Some (Doc (JInt v))), s') \<Rightarrow> (v, s')
          | (_, s') \<Rightarrow> (0, s')))"

record WatchdogStatus =
  wd_Healthy :: bool
  wd_LastCheckAt :: time
  wd_LastTriggeredAt :: time
  wd_Reason :: string
  wd_CancelError :: string

definition MarshalWatchdog :: "WatchdogStatus \<Rightarrow> Payload option" where
  "MarshalWatchdog x =
    (if json_time_ok (wd_LastCheckAt x) \<and> json_time_ok (wd_LastTriggeredAt x)
     then Some (Doc (JObj ([(''healthy'', JBool (wd_Healthy x)), (''last_check_at'', JTime (wd_LastCheckAt x)),
       (''last_triggered_at'', JTime (wd_LastTriggeredAt x))] @ omit_str ''reason'' (wd_Reason x) @
       omit_str ''cancel_error'' (wd_CancelError x))))
     else None)"

definition UnmarshalWatchdog :: "Payload \<Rightarrow> WatchdogStatus option" where
  "UnmarshalWatchdog p =
    Option.bind (json_fields p) (\<lambda>fs.
    Option.bind (field fs ''healthy'' as_bool False) (\<lambda>h.
    Option.bind (field fs ''last_check_at'' as_time zero_time) (\<lambda>c.
    Option.bind (field fs ''last_triggered_at'' as_time zero_time) (\<lambda>t.
    Option.bind (field fs ''reason'' as_str []) (\<lambda>r.
    Option.bind (field fs ''cancel_error'' as_str []) (\<lambda>e.
      Some \<lparr>wd_Healthy = h, wd_LastCheckAt = c, wd_LastTriggeredAt = t, wd_Reason = r, wd_CancelError = e\<rparr>))))))"

definition ReadWatchdog :: "'s RedisServer option \<Rightarrow> 's \<Rightarrow> WatchdogStatus option \<times> 's" where
  "ReadWatchdog rdo s =
    (case rdo of
       None \<Rightarrow> (None, s)
     | Some rd \<Rightarrow>
         (case redis_call rd (\<lambda>s. (rs_get rd watchdogKey s, s)) s of
            (Inr (Some p), s') \<Rightarrow> (UnmarshalWatchdog p, s')
          | (_, s') \<Rightarrow> (None, s')))"

definition nextWatchdog :: "WatchdogStatus option \<Rightarrow> bool \<Rightarrow> bool \<Rightarrow> string \<Rightarrow> string \<Rightarrow> time \<Rightarrow> WatchdogStatus" where
  "nextWatchdog previous healthy actionTriggered reason cancelError now =
    (let base = (case previous of
                   Some p \<Rightarrow> \<lparr>wd_Healthy = healthy, wd_LastCheckAt = now, wd_LastTriggeredAt = wd_LastTriggeredAt p,
                     wd_Reason = wd_Reason p, wd_CancelError = wd_CancelError p\<rparr>
                 | None \<Rightarrow> \<lparr>wd_Healthy = healthy, wd_LastCheckAt = now, wd_LastTriggeredAt = zero_time,
                     wd_Reason = [], wd_CancelError = []\<rparr>);
         s1 = (if \<not> healthy then base\<lparr>wd_Reason := reason, wd_CancelError := cancelError\<rparr> else base)
     in if actionTriggered then s1\<lparr>wd_LastTriggeredAt := wd_LastCheckAt s1\<rparr> else s1)"

definition ReportWatchdog :: "'s RedisServer option \<Rightarrow> bool \<Rightarrow> bool \<Rightarrow> string \<Rightarrow> string \<Rightarrow> time \<Rightarrow> 's \<Rightarrow> string option \<times> 's" where
  "ReportWatchdog rdo healthy actionTriggered reason cancelError now s =
    (case rdo of
       None \<Rightarrow> (None, s)
     | Some rd \<Rightarrow>
         (case ReadWatchdog rdo s of
            (previous, s1) \<Rightarrow>
              (case MarshalWatchdog (nextWatchdog previous healthy actionTriggered reason cancelError now) of
                 None \<Rightarrow> (Some ''json'', s1)
               | Some p \<Rightarrow> redis_do rd (rs_set rd watchdogKey p (5 * 60 * second)) s1)))"


section \<open>The laws of the server\<close>

text \<open>The documented behaviour of the commands. \<open>count\<close> is the number a counter key holds.\<close>

locale redis_server =
  fixes rd :: "'s RedisServer" and count :: "'s \<Rightarrow> string \<Rightarrow> int"
  assumes get_set: "rs_get rd k (rs_set rd k' p ttl s) = (if k = k' then Some p else rs_get rd k s)"
    and get_del: "rs_get rd k (rs_del rd k' s) = (if k = k' then None else rs_get rd k s)"
    and get_pexpire: "0 < ttl \<Longrightarrow> rs_get rd k (rs_pexpire rd k' ttl s) = rs_get rd k s"
    and get_incr: "k \<noteq> k' \<Longrightarrow> rs_get rd k (snd (rs_incr rd k' s)) = rs_get rd k s"
    and incr: "fst (rs_incr rd k s) = count s k + 1" "count (snd (rs_incr rd k s)) k = count s k + 1"
    and count_set: "k \<noteq> k' \<Longrightarrow> count (rs_set rd k' p ttl s) k = count s k"
    and count_del: "k \<noteq> k' \<Longrightarrow> count (rs_del rd k' s) k = count s k"
    and count_pexpire: "count (rs_pexpire rd k' ttl s) k = count s k"
    and hset: "map_of (rs_hgetall rd k (rs_hset rd k f p s)) = (map_of (rs_hgetall rd k s))(f \<mapsto> p)"
    and hdel: "map_of (rs_hgetall rd k (rs_hdel rd k f s)) = (map_of (rs_hgetall rd k s))(f := None)"
    and hash_distinct: "distinct (map fst (rs_hgetall rd k s))"
begin

lemma loadPayload_Inr:
  "loadPayload rd key s = (Inr q, s') \<Longrightarrow> s' = s \<and> q = (case rs_get rd key s of None \<Rightarrow> NoBytes | Some p \<Rightarrow> p)"
  by (auto simp: loadPayload_def redis_call_def split: option.splits)

lemma redis_do_None: "redis_do rd f s = (None, s') \<Longrightarrow> s' = f s"
  by (auto simp: redis_do_def redis_call_def split: option.splits)

end

text \<open>A server that keeps these laws gives both components the store they rely on.\<close>

sublocale redis_server \<subseteq> fault_store: state_store "FaultStore (Some rd)"
  by unfold_locales
    (auto simp: FaultStore_def SaveFaultState_def LoadFaultState_def DeleteFaultState_def get_set get_del
      dest!: redis_do_None loadPayload_Inr)

sublocale redis_server \<subseteq> oms_store: state_store "OMSStore (Some rd)"
  by unfold_locales
    (auto simp: OMSStore_def SaveOMSState_def LoadOMSState_def DeleteOMSState_def get_set get_del
      dest!: redis_do_None loadPayload_Inr)

context redis_server
begin

lemma fault_store_ok: "state_store (FaultStore (Some rd))"
  by (rule fault_store.state_store_axioms)

lemma oms_store_ok: "state_store (OMSStore (Some rd))"
  by (rule oms_store.state_store_axioms)

lemma hgetall_do:
  "redis_do rd (rs_hset rd k f p) s = (None, s') \<Longrightarrow> map_of (rs_hgetall rd k s') = (map_of (rs_hgetall rd k s))(f \<mapsto> p)"
  "redis_do rd (rs_hdel rd k f) s = (None, s') \<Longrightarrow> map_of (rs_hgetall rd k s') = (map_of (rs_hgetall rd k s))(f := None)"
  by (auto simp: hset hdel dest!: redis_do_None)

end

text \<open>The laws hold of a server whose state is a table of values, a table of counters and a table of
  hashes.\<close>

record TableState =
  ts_values :: "string \<Rightarrow> Payload option"
  ts_counts :: "string \<Rightarrow> int"
  ts_hashes :: "string \<Rightarrow> (string \<times> Payload) list"

definition empty_table :: TableState where
  "empty_table = \<lparr>ts_values = (\<lambda>_. None), ts_counts = (\<lambda>_. 0), ts_hashes = (\<lambda>_. [])\<rparr>"

definition table_server :: "TableState RedisServer" where
  "table_server = \<lparr>rs_link = (\<lambda>_. None), rs_get = (\<lambda>k s. ts_values s k),
     rs_set = (\<lambda>k p _ s. s\<lparr>ts_values := (ts_values s)(k \<mapsto> p)\<rparr>),
     rs_del = (\<lambda>k s. s\<lparr>ts_values := (ts_values s)(k := None)\<rparr>),
     rs_incr = (\<lambda>k s. (ts_counts s k + 1, s\<lparr>ts_counts := (ts_counts s)(k := ts_counts s k + 1)\<rparr>)),
     rs_pexpire = (\<lambda>_ _ s. s),
     rs_hset = (\<lambda>k f p s. s\<lparr>ts_hashes := (ts_hashes s)(k := AList.update f p (ts_hashes s k))\<rparr>),
     rs_hdel = (\<lambda>k f s. s\<lparr>ts_hashes := (ts_hashes s)(k := AList.delete f (ts_hashes s k))\<rparr>),
     rs_hgetall = (\<lambda>k s. AList.clearjunk (ts_hashes s k))\<rparr>"

interpretation table: redis_server table_server ts_counts
  by unfold_locales (auto simp: table_server_def map_of_clearjunk update_conv' delete_conv' distinct_clearjunk)


section \<open>Leases\<close>

lemma is_digit_digit: "d < 10 \<Longrightarrow> is_digit (digit d) \<and> of_char (digit d) = 48 + d"
  by (simp add: is_digit_def digit_def)

lemma utoa_digits: "list_all is_digit (utoa n) \<and> utoa n \<noteq> [] \<and> digits_value (utoa n) = n"
proof (induction n rule: utoa.induct)
  case (1 n)
  show ?case
  proof (cases "n < 10")
    case True
    then show ?thesis by (subst utoa.simps, subst utoa.simps, subst utoa.simps)
        (simp add: is_digit_digit digits_value_def)
  next
    case False
    have d: "n mod 10 < 10" by simp
    have u: "utoa n = utoa (n div 10) @ [digit (n mod 10)]" using False by (subst utoa.simps) simp
    from 1 False d show ?thesis unfolding u
      by (simp add: is_digit_digit [OF d] digits_value_def)
  qed
qed

lemma lease_match_text: "lease_match (lease_text owner g) = Some (owner, g)"
proof -
  have "list_all is_digit (rev (utoa g))" using utoa_digits [of g] by (simp add: list_all_iff)
  then have t: "takeWhile is_digit (rev (utoa g) @ CHR '':'' # rev owner) = rev (utoa g)"
    "dropWhile is_digit (rev (utoa g) @ CHR '':'' # rev owner) = CHR '':'' # rev owner"
    by (auto simp: list_all_iff takeWhile_append dropWhile_append is_digit_def)
  then show ?thesis using utoa_digits [of g] by (simp add: lease_match_def lease_text_def Let_def)
qed

lemma lease_text_inj: "lease_text o1 g1 = lease_text o2 g2 \<longleftrightarrow> o1 = o2 \<and> g1 = g2"
  using lease_match_text by (metis option.inject prod.inject)

lemma lease_keys_differ [simp]: "marketLeasePrefix @ k \<noteq> marketFencePrefix @ k'" "marketFencePrefix @ k \<noteq> marketLeasePrefix @ k'"
  "marketLeasePrefix \<noteq> marketFencePrefix" "marketFencePrefix \<noteq> marketLeasePrefix"
  by (simp_all add: marketLeasePrefix_def marketFencePrefix_def)

text \<open>The grants of one market's lease, the latest first, and the server's state. A lease may be
  granted or renewed, released by its holder, and may disappear at any time.\<close>

inductive lease_run :: "'s RedisServer \<Rightarrow> ('s \<Rightarrow> string \<Rightarrow> int) \<Rightarrow> string \<Rightarrow> (string \<times> nat) list \<Rightarrow> 's \<Rightarrow> bool"
  for rd count key where
  lease_start: "rs_get rd (marketLeasePrefix @ key) s = None \<Longrightarrow> 0 \<le> count s (marketFencePrefix @ key) \<Longrightarrow>
    lease_run rd count key [] s"
| lease_grant: "lease_run rd count key h s \<Longrightarrow> 0 < ttl \<Longrightarrow>
    acquireScript rd (marketLeasePrefix @ key) (marketFencePrefix @ key) owner ttl s = (g, s') \<Longrightarrow> 0 < g \<Longrightarrow>
    lease_run rd count key ((owner, nat g) # h) s'"
| lease_release: "lease_run rd count key h s \<Longrightarrow> holdsLease rd key owner g s \<Longrightarrow>
    lease_run rd count key h (rs_del rd (marketLeasePrefix @ key) s)"
| lease_other: "lease_run rd count key h s \<Longrightarrow>
    rs_get rd (marketLeasePrefix @ key) s' = rs_get rd (marketLeasePrefix @ key) s \<or> rs_get rd (marketLeasePrefix @ key) s' = None \<Longrightarrow>
    count s' (marketFencePrefix @ key) = count s (marketFencePrefix @ key) \<Longrightarrow> lease_run rd count key h s'"

definition lease_inv :: "'s RedisServer \<Rightarrow> ('s \<Rightarrow> string \<Rightarrow> int) \<Rightarrow> string \<Rightarrow> (string \<times> nat) list \<Rightarrow> 's \<Rightarrow> bool" where
  "lease_inv rd count key h s \<longleftrightarrow>
     0 \<le> count s (marketFencePrefix @ key) \<and>
     (\<forall>(ow, g) \<in> set h. int g \<le> count s (marketFencePrefix @ key)) \<and>
     sorted_wrt (\<lambda>(o2, g2) (o1, g1). g1 < g2 \<or> g1 = g2 \<and> o1 = o2) h \<and>
     (case rs_get rd (marketLeasePrefix @ key) s of
        None \<Rightarrow> True
      | Some v \<Rightarrow> \<exists>ow g. h \<noteq> [] \<and> hd h = (ow, g) \<and> v = Raw (lease_text ow g))"

context redis_server
begin

lemma grant_cases:
  assumes "lease_inv rd count key h s" "0 < ttl" "0 < g"
    and "acquireScript rd (marketLeasePrefix @ key) (marketFencePrefix @ key) owner ttl s = (g, s')"
  shows "(h \<noteq> [] \<and> hd h = (owner, nat g) \<or> int (nat g) = count s (marketFencePrefix @ key) + 1) \<and>
    rs_get rd (marketLeasePrefix @ key) s' = Some (Raw (lease_text owner (nat g))) \<and>
    count s' (marketFencePrefix @ key) = max (count s (marketFencePrefix @ key)) g"
proof (cases "rs_get rd (marketLeasePrefix @ key) s")
  case None
  with assms show ?thesis
    by (auto simp: acquireScript_def case_prod_unfold get_set get_incr incr count_set lease_inv_def)
next
  case (Some v)
  with assms(1) obtain ow n where h: "h \<noteq> []" "hd h = (ow, n)" "v = Raw (lease_text ow n)"
    and n: "int n \<le> count s (marketFencePrefix @ key)" by (cases h) (auto simp: lease_inv_def)
  with assms(2-4) Some show ?thesis
    by (auto simp: acquireScript_def lease_match_text get_pexpire count_pexpire split: if_splits)
qed

lemma lease_inv_holds: "lease_run rd count key h s \<Longrightarrow> lease_inv rd count key h s"
proof (induction rule: lease_run.induct)
  case (lease_grant h s ttl owner g s')
  note c = grant_cases [OF lease_grant.IH lease_grant.hyps(2,4,3)]
  from lease_grant.IH have srt: "sorted_wrt (\<lambda>(o2, g2) (o1, g1). g1 < g2 \<or> g1 = g2 \<and> o1 = o2) h"
    and bnd: "\<forall>(ow, n) \<in> set h. int n \<le> count s (marketFencePrefix @ key)" by (auto simp: lease_inv_def)
  have head: "\<forall>(o1, g1) \<in> set h. g1 < nat g \<or> g1 = nat g \<and> o1 = owner"
  proof (cases "h \<noteq> [] \<and> hd h = (owner, nat g)")
    case True
    then obtain t where "h = (owner, nat g) # t" by (cases h) auto
    with srt show ?thesis by auto
  next
    case False
    with c have n: "int (nat g) = count s (marketFencePrefix @ key) + 1" by blast
    show ?thesis
    proof clarify
      fix o1 g1 assume "(o1, g1) \<in> set h" "\<not> (g1 = nat g \<and> o1 = owner)"
      with bnd have "int g1 \<le> count s (marketFencePrefix @ key)" by auto
      with n show "g1 < nat g" by linarith
    qed
  qed
  with c srt bnd lease_grant.hyps(4) lease_grant.IH show ?case by (fastforce simp: lease_inv_def max_def)
next
  case (lease_release h s owner g)
  then show ?case by (auto simp: lease_inv_def get_del count_del)
next
  case (lease_other h s s')
  then show ?case by (auto simp: lease_inv_def split: option.splits)
qed (simp add: lease_inv_def)

end



section \<open>Properties\<close>

text \<open>C7: fencing tokens. At any moment at most one grant of a market's lease is valid: a lease that
  validates was granted, its generation is the highest ever granted, and every other grant with that
  generation went to the same owner, so that a holder that lost its lease is rejected for ever after
  another owner got it.\<close>

theorem lease_fencing:
  assumes "redis_server rd count" "lease_run rd count key h s" "holdsLease rd key owner w s" "(ow, g) \<in> set h"
  shows "g \<le> unat w \<and> (g = unat w \<longrightarrow> ow = owner) \<and> hd h = (owner, unat w)"
proof -
  from redis_server.lease_inv_holds [OF assms(1,2)] assms(3)
  have h: "h \<noteq> []" "hd h = (owner, unat w)" and srt: "sorted_wrt (\<lambda>(o2, g2) (o1, g1). g1 < g2 \<or> g1 = g2 \<and> o1 = o2) h"
    by (auto simp: lease_inv_def holdsLease_def lease_text_inj)
  then obtain t where "h = (owner, unat w) # t" by (cases h) auto
  with srt assms(4) show ?thesis by auto
qed

theorem lease_fencing_witness:
  "\<exists>s. lease_run table_server ts_counts ''m'' [(''b'', 2), (''a'', 1)] s \<and> holdsLease table_server ''m'' ''b'' 2 s \<and>
     (1 :: nat) \<le> unat (2 :: 64 word)"
proof -
  let ?lk = "marketLeasePrefix @ ''m''" and ?fk = "marketFencePrefix @ ''m''"
  let ?s1 = "empty_table\<lparr>ts_values := (\<lambda>_. None)(?lk \<mapsto> Raw (lease_text ''a'' 1)), ts_counts := (\<lambda>_. 0)(?fk := 1)\<rparr>"
  let ?s2 = "empty_table\<lparr>ts_counts := (\<lambda>_. 0)(?fk := 1)\<rparr>"
  let ?s3 = "empty_table\<lparr>ts_values := (\<lambda>_. None)(?lk \<mapsto> Raw (lease_text ''b'' 2)), ts_counts := (\<lambda>_. 0)(?fk := 2)\<rparr>"
  have "lease_run table_server ts_counts ''m'' [] empty_table" by (rule lease_start) (simp_all add: table_server_def empty_table_def)
  then have "lease_run table_server ts_counts ''m'' [(''a'', nat 1)] ?s1"
    by (rule lease_grant [of _ _ _ _ _ 1]) (simp_all add: acquireScript_def table_server_def empty_table_def)
  then have "lease_run table_server ts_counts ''m'' [(''a'', nat 1)] ?s2"
    by (rule lease_other) (simp_all add: table_server_def empty_table_def)
  then have "lease_run table_server ts_counts ''m'' [(''b'', nat 2), (''a'', nat 1)] ?s3"
    by (rule lease_grant [of _ _ _ _ _ 1]) (simp_all add: acquireScript_def table_server_def empty_table_def)
  then have r: "lease_run table_server ts_counts ''m'' [(''b'', 2), (''a'', 1)] ?s3" by simp
  have h: "holdsLease table_server ''m'' ''b'' 2 ?s3" by (simp add: holdsLease_def table_server_def)
  from lease_fencing [OF table.redis_server_axioms r h, of "''a''" 1] r h show ?thesis by auto
qed

text \<open>C19: a fault survives a restart. When a failure was recorded without an error, a replacement
  manager that loads the market's state continues from exactly that snapshot.\<close>

theorem fault_state_survives_restart:
  assumes "redis_server rd count" "store = Some (FaultStore (Some rd))"
    and "FailureWithContext store key stage cause force now m w = ((d, None), m', w')"
    and "\<not> fm_loaded fresh key" "ensureLoaded store key fresh w' = (None, m2, w2)"
  shows "faultStateOf m2 key t = d_State d \<and> (d_State d = d_State (failureDecision (fm_failureThreshold m)
      (faultStateOf (fst (snd (ensureLoaded store key m w))) key now) stage cause force now))"
proof -
  obtain e m1 w1 where l: "ensureLoaded store key m w = (e, m1, w1)" by (metis prod.collapse)
  from assms(3) l have e: "e = None" by (cases e) (auto simp: FailureWithContext_def)
  define dd where "dd = failureDecision (fm_failureThreshold m1) (faultStateOf m1 key now) stage cause force now"
  have a: "applyDecision (Some (FaultStore (Some rd))) key dd m1 w1 = ((d, None), m', w')"
    using assms(2,3) l e by (simp add: FailureWithContext_def dd_def)
  then have d: "d = dd" by (auto simp: applyDecision_def split: prod.splits)
  have st: "sn_Status (d_State dd) \<notin> range OtherStatus" "sn_Status (d_State dd) \<noteq> Normal"
    by (auto simp: dd_def failureDecision_state)
  from state_store.inherits(1) [OF redis_server.fault_store_ok [OF assms(1)] a st assms(4)] assms(2,5) have "fm_states m2 key = Some (d_State dd)" by simp
  moreover have "fm_failureThreshold m1 = fm_failureThreshold m" using ensureLoaded_keeps [OF l] by simp
  ultimately show ?thesis using d l by (simp add: faultStateOf_def dd_def)
qed


theorem fault_state_survives_restart_witness:
  "\<exists>m2 :: FaultManager. sn_Status (faultStateOf m2 ''k'' 0) = Canceling"
proof -
  let ?store = "Some (FaultStore (Some table_server))" and ?m = "NewWithStateStore 3 3"
  obtain d e m' w' where f: "FailureWithContext ?store ''k'' ''book'' None True 0 ?m empty_table = ((d, e), m', w')"
    by (metis prod.collapse)
  obtain e2 m2 w2 where l: "ensureLoaded ?store ''k'' ?m w' = (e2, m2, w2)" by (metis prod.collapse)
  have c: "snd (fst (FailureWithContext ?store ''k'' ''book'' None True 0 ?m empty_table)) = None"
    "sn_Status (d_State (fst (fst (FailureWithContext ?store ''k'' ''book'' None True 0 ?m empty_table)))) = Canceling"
    "fst (ensureLoaded ?store ''k'' ?m (snd (snd (FailureWithContext ?store ''k'' ''book'' None True 0 ?m empty_table)))) = None"
    by code_simp+
  have "e = None" "e2 = None" "sn_Status (d_State d) = Canceling" using c f l by auto
  with fault_state_survives_restart [OF table.redis_server_axioms refl, of "''k''" "''book''" None True 0 ?m empty_table d m' w' ?m m2 w2 0] f l
  have "sn_Status (faultStateOf m2 ''k'' 0) = Canceling" by (simp add: NewWithStateStore_def)
  then show ?thesis ..
qed

text \<open>C18: the order manager's uncertainty survives a restart. What was persisted without an error is
  what a replacement reconciler loads: the block, the unconfirmed cancellations, and every creation not
  yet confirmed, each with its decimals rounded to 18 digits after the point (so within half a unit of
  the last one) and otherwise unchanged; creations whose decimals have at most 18 digits come back
  exactly. A block has a text, as every block the manager sets; the store's expiry has not struck.\<close>

theorem oms_state_survives_restart:
  assumes "redis_server rd count" "store = Some (OMSStore (Some rd))"
    and "persistState store key r W = (None, W')" "rc_blocked r key \<noteq> Some []"
    and "ensureLoadedOMS store key NewReconciler W' = (None, r2, W2)"
  shows "rc_blocked r2 key = rc_blocked r key \<and>
    list_all2 (\<lambda>(i, c) (i', c'). i' = i \<and> same_create c c') (rc_pendingCreates r key) (rc_pendingCreates r2 key) \<and>
    (list_all (\<lambda>(_, c). exact_quote (pc_Quote c)) (rc_pendingCreates r key) \<longrightarrow> rc_pendingCreates r2 key = rc_pendingCreates r key) \<and>
    rc_pendingCancels r2 key = (case rc_pendingCancels r key of Some b \<Rightarrow> if pb_OrderIDs b \<noteq> [] then Some b else None | None \<Rightarrow> None)"
proof -
  note inh = state_store.oms_inherits [OF redis_server.oms_store_ok [OF assms(1)], of key r W W' NewReconciler r2 W2]
  have c: "rc_pendingCreates r2 key = map (\<lambda>(k, c). (k, stored_create c)) (rc_pendingCreates r key)"
    using inh(2) assms(2-5) by (simp add: NewReconciler_def)
  have "list_all2 (\<lambda>(i, c) (i', c'). i' = i \<and> same_create c c') xs (map (\<lambda>(k, c). (k, stored_create c)) xs)" for xs
    by (auto simp: list_all2_map2 same_create_stored intro!: list.rel_refl)
  moreover have "list_all (\<lambda>(_, c). exact_quote (pc_Quote c)) xs \<longrightarrow> map (\<lambda>(k, c). (k, stored_create c)) xs = xs" for xs :: "(string \<times> PendingCreate) list"
    by (auto simp: list_all_iff stored_exact intro!: map_idI)
  ultimately show ?thesis unfolding c using inh(1,3) assms(2-5) by (simp add: NewReconciler_def)
qed

definition table_world :: "TableState World" where
  "table_world = \<lparr>w_ext = empty_table, w_log = [], w_now = sample_now, w_guardErr = None, w_asked = [], w_steps = []\<rparr>"

definition sample_pending :: Reconciler where
  "sample_pending = addPendingCreate ''k'' \<lparr>pc_OrderID = ''1'', pc_Quote = sample_quote Buy 0 2 6, pc_SubmittedAt = 0, pc_LastChecked = 0\<rparr>
     (NewReconciler\<lparr>rc_blocked := [''k'' \<mapsto> ''timeout'']\<rparr>)"

theorem oms_state_survives_restart_witness:
  "\<exists>r2 :: Reconciler. rc_blocked r2 ''k'' = Some ''timeout'' \<and> length (rc_pendingCreates r2 ''k'') = 1"
proof -
  let ?store = "Some (OMSStore (Some table_server))"
  obtain e W' where p: "persistState ?store ''k'' sample_pending table_world = (e, W')" by fastforce
  obtain e2 r2 W2 where l: "ensureLoadedOMS ?store ''k'' NewReconciler W' = (e2, r2, W2)" by (metis prod.collapse)
  have c: "fst (persistState ?store ''k'' sample_pending table_world) = None"
    "fst (ensureLoadedOMS ?store ''k'' NewReconciler (snd (persistState ?store ''k'' sample_pending table_world))) = None"
    by code_simp+
  have q: "rc_blocked sample_pending ''k'' = Some ''timeout''" "length (rc_pendingCreates sample_pending ''k'') = 1" by code_simp+
  have "e = None" "e2 = None" using c p l by auto
  with oms_state_survives_restart [OF table.redis_server_axioms refl, of "''k''" sample_pending table_world W' r2 W2] p l q
  have "rc_blocked r2 ''k'' = Some ''timeout'' \<and> length (rc_pendingCreates r2 ''k'') = 1" by (auto dest: list_all2_lengthD)
  then show ?thesis by (rule exI [of _ r2])
qed

lemma map_of_decodeHash:
  "distinct (map fst kvs) \<Longrightarrow> map_of (decodeHash dec kvs) k = Option.bind (map_of kvs k) dec"
proof (induction kvs)
  case (Cons kv kvs)
  have none: "k \<notin> fst ` set kvs \<Longrightarrow> map_of (decodeHash dec kvs) k = None"
    using Cons by (simp add: map_of_eq_None_iff [symmetric])
  obtain a p where kv: "kv = (a, p)" by fastforce
  show ?case
  proof (cases "dec p")
    case None
    with Cons kv none show ?thesis by (cases "k = a") (simp_all add: decodeHash_def List.map_filter_simps)
  next
    case (Some x)
    with Cons kv show ?thesis by (simp add: decodeHash_def List.map_filter_simps)
  qed
qed (simp add: decodeHash_def List.map_filter_simps)

lemma UnmarshalPause_Marshal: "json_time_ok (pa_RequestedAt p) \<Longrightarrow> UnmarshalPause (MarshalPause p) = Some p"
  by (simp add: MarshalPause_def UnmarshalPause_def json_fields_def field_def)

text \<open>C38: the pause control. An acknowledged pause is what the engine reads for the instrument, with
  its reason, until an acknowledged resume removes it; neither affects another instrument.\<close>

theorem pause_controls:
  assumes "redis_server rd count" "json_time_ok now"
    and "SetPaused rd i reason user now s = (Inr p, s1)" "PausedControls (Some rd) s1 = (Inr m1, s2)"
    and "PausedControls (Some rd) s = (Inr m0, s0)" "Resume rd i s1 = (None, s3)" "PausedControls (Some rd) s3 = (Inr m3, s4)"
  shows "map_of m1 = (map_of m0)(i \<mapsto> p) \<and> pa_Reason p = reason \<and> pa_Paused p \<and> map_of m3 = (map_of m0)(i := None)"
proof -
  note dis = redis_server.hash_distinct [OF assms(1)]
  have read: "map_of m k = Option.bind (map_of (rs_hgetall rd pausedKey t) k) UnmarshalPause"
    if "PausedControls (Some rd) t = (Inr m, t')" for m t t' k
    using that dis by (auto simp: PausedControls_def redis_call_def map_of_decodeHash split: option.splits)
  define st where "st = \<lparr>pa_InstrumentID = i, pa_Paused = True, pa_Reason = reason, pa_RequestedBy = user, pa_RequestedAt = now\<rparr>"
  from assms(3) have p: "p = st" and d: "redis_do rd (rs_hset rd pausedKey i (MarshalPause st)) s = (None, s1)"
    by (auto simp: SetPaused_def st_def Let_def split: if_splits option.splits prod.splits)
  have h1: "map_of (rs_hgetall rd pausedKey s1) = (map_of (rs_hgetall rd pausedKey s))(i \<mapsto> MarshalPause st)"
    by (rule redis_server.hgetall_do(1) [OF assms(1) d])
  have h3: "map_of (rs_hgetall rd pausedKey s3) = (map_of (rs_hgetall rd pausedKey s1))(i := None)"
    using redis_server.hgetall_do(2) [OF assms(1)] assms(6) by (simp add: Resume_def)
  have u: "UnmarshalPause (MarshalPause st) = Some st" by (rule UnmarshalPause_Marshal) (simp add: st_def assms(2))
  show ?thesis
    using p u by (auto simp: st_def fun_eq_iff read [OF assms(4)] read [OF assms(5)] read [OF assms(7)] h1 h3)
qed

theorem pause_controls_witness:
  "\<exists>m1 (p :: PauseState). map_of m1 = [''i'' \<mapsto> p] \<and> pa_Reason p = ReasonManualPause"
proof -
  obtain r s1 where sp: "SetPaused table_server ''i'' ReasonManualPause 7 0 empty_table = (r, s1)" by fastforce
  then obtain p where r: "r = Inr p" by (auto simp: SetPaused_def redis_do_def redis_call_def table_server_def Let_def)
  have rd: "\<exists>m. PausedControls (Some table_server) t = (Inr m, t)" for t
    by (simp add: PausedControls_def redis_call_def table_server_def)
  obtain m1 where m1: "PausedControls (Some table_server) s1 = (Inr m1, s1)" using rd by blast
  obtain s3 where s3: "Resume table_server ''i'' s1 = (None, s3)"
    by (auto simp: Resume_def redis_do_def redis_call_def table_server_def)
  obtain m3 where m3: "PausedControls (Some table_server) s3 = (Inr m3, s3)" using rd by blast
  have m0: "PausedControls (Some table_server) empty_table = (Inr [], empty_table)"
    by (simp add: PausedControls_def redis_call_def table_server_def empty_table_def decodeHash_def List.map_filter_simps)
  have "json_time_ok 0" by code_simp
  from pause_controls [OF table.redis_server_axioms this sp [unfolded r] m1 m0 s3 m3] show ?thesis by auto
qed

end
