(* ===== verification/TradeSim.thy ===== *)
theory TradeSim
  imports Samples
begin

text \<open>
  \<^verbatim>\<open>internal/tradesim/generator.go\<close>: synthetic fills for display. The generator keeps one state per
  instrument; it sees a public book only. The secure random source is a parameter: a function from
  the state \<open>'w\<close> of the world and a bound to a number or an error (\<^verbatim>\<open>rand.Int\<close> panics on a bound
  that is not positive). The mutex is not modelled.
\<close>

section \<open>Definitions\<close>

record SimSnapshot =
  ts_Enabled :: bool
  ts_SourceVenue :: string
  ts_Status :: string
  ts_LastGeneratedAt :: time
  ts_NextAt :: time
  ts_Fills :: "Fill list"
  ts_Error :: string

record SimState =
  ss_nextAt :: time
  ss_lastGeneratedAt :: time
  ss_fills :: "Fill list"
  ss_sequence :: "64 word"

type_synonym SimGenerator = "string \<Rightarrow> SimState option"

definition NewGenerator :: SimGenerator where "NewGenerator = (\<lambda>_. None)"

definition zero_sim :: SimState where
  "zero_sim = \<lparr>ss_nextAt = zero_time, ss_lastGeneratedAt = zero_time, ss_fills = [], ss_sequence = 0\<rparr>"

type_synonym 'w Rng = "'w \<Rightarrow> int \<Rightarrow> (string + int) \<times> 'w"

definition randomBelow :: "'w Rng \<Rightarrow> int \<Rightarrow> 'w \<Rightarrow> int \<times> 'w" where
  "randomBelow rng maximum w =
    (if maximum \<le> 1 then (0, w)
     else case rng w maximum of (Inl e, w') \<Rightarrow> (0, w') | (Inr v, w') \<Rightarrow> (v, w'))"

definition randomDuration :: "'w Rng \<Rightarrow> int \<Rightarrow> int \<Rightarrow> 'w \<Rightarrow> duration \<times> 'w" where
  "randomDuration rng minMS maxMS w =
    (if maxMS \<le> minMS then (int64 (minMS * millisecond), w)
     else case randomBelow rng (int64 (maxMS - minMS + 1)) w of
       (v, w') \<Rightarrow> (int64 (int64 (minMS + v) * millisecond), w'))"

definition randomStep :: "'w Rng \<Rightarrow> Decimal \<Rightarrow> Decimal \<Rightarrow> Decimal \<Rightarrow> 'w \<Rightarrow> (string, Decimal) result \<times> 'w" where
  "randomStep rng minimum maximum step w =
    (let delta = maximum - minimum in
     if Sign delta < 0 then (Inl (Fail ''invalid random range''), w)
     else if step = 0 then (Inl Panic, w)
     else let (a, b) = quotient_of (delta / step); steps = go_quo a b + 1 in
       if steps \<le> 0 then (Inl Panic, w)
       else case rng w steps of
         (Inl e, w') \<Rightarrow> (Inl (Fail (''secure random: '' @ e)), w')
       | (Inr choice, w') \<Rightarrow> (Inr (minimum + step * of_int choice), w'))"

definition priceRange :: "VenueMarketConfig \<Rightarrow> Book \<Rightarrow> (string, Decimal \<times> Decimal) result" where
  "priceRange market book =
    bindR (must (QuantizeDown (b_BidPrice book) (m_PriceTick market))) (\<lambda>down.
    bindR (must (QuantizeUp (b_AskPrice book) (m_PriceTick market))) (\<lambda>up.
      let firstPrice = down + m_PriceTick market; lastPrice = up - m_PriceTick market in
      if Cmp firstPrice (b_BidPrice book) \<le> 0 \<or> Cmp lastPrice (b_AskPrice book) \<ge> 0 \<or> Cmp firstPrice lastPrice > 0
      then Inl (Fail ''no price tick exists strictly inside bid/ask'')
      else Inr (firstPrice, lastPrice)))"

definition raiseTo :: "bool \<Rightarrow> Decimal option \<Rightarrow> Decimal \<Rightarrow> (string, Decimal) result" where
  "raiseTo active bound q = (if active then bindR (must bound) (\<lambda>b. Inr (DecMax q b)) else Inr q)"

definition lowerTo :: "bool \<Rightarrow> Decimal option \<Rightarrow> Decimal \<Rightarrow> (string, Decimal) result" where
  "lowerTo active bound q = (if active then bindR (must bound) (\<lambda>b. Inr (DecMin q b)) else Inr q)"

definition quantityRange :: "TradeSimulationConfig \<Rightarrow> VenueMarketConfig \<Rightarrow> Decimal \<Rightarrow> (string, Decimal \<times> Decimal) result" where
  "quantityRange cfg market price =
    (let step = m_QuantityStep market in
     bindR (must (QuantizeUp (sim_MinQuantity cfg) step)) (\<lambda>q0.
     bindR (raiseTo (IsPositive (m_MinQuantity market)) (QuantizeUp (m_MinQuantity market) step) q0) (\<lambda>q1.
     bindR (raiseTo (IsPositive (m_MinNotional market))
              (case Div (m_MinNotional market) price of None \<Rightarrow> None | Some d \<Rightarrow> QuantizeUp d step) q1) (\<lambda>minQuantity.
     bindR (must (QuantizeDown (sim_MaxQuantity cfg) step)) (\<lambda>p0.
     bindR (lowerTo (IsPositive (m_MaxQuantity market)) (QuantizeDown (m_MaxQuantity market) step) p0) (\<lambda>maxQuantity.
       if Cmp minQuantity maxQuantity > 0
       then Inl (Fail ''configured quantity range cannot satisfy exchange minimums'')
       else Inr (minQuantity, maxQuantity)))))))"

definition generateFill :: "'w Rng \<Rightarrow> InstrumentConfig \<Rightarrow> string \<Rightarrow> VenueMarketConfig \<Rightarrow> Book \<Rightarrow> time \<Rightarrow> 64 word \<Rightarrow> 'w
    \<Rightarrow> (string, Fill) result \<times> 'w" where
  "generateFill rng ins venueName market book now sequence w =
    (let cfg = in_TradeSimulation ins in
     case priceRange market book of
       Inl f \<Rightarrow> (Inl f, w)
     | Inr (firstPrice, lastPrice) \<Rightarrow>
     (case randomStep rng firstPrice lastPrice (m_PriceTick market) w of
       (Inl f, w1) \<Rightarrow> (Inl f, w1)
     | (Inr price, w1) \<Rightarrow>
     (case quantityRange cfg market price of
       Inl f \<Rightarrow> (Inl f, w1)
     | Inr (minQuantity, maxQuantity) \<Rightarrow>
     (case randomStep rng minQuantity maxQuantity (m_QuantityStep market) w1 of
       (Inl f, w2) \<Rightarrow> (Inl f, w2)
     | (Inr quantity, w2) \<Rightarrow>
     (case randomBelow rng 10000 w2 of
       (v, w3) \<Rightarrow>
         (Inr \<lparr>fl_Venue = venueName,
            fl_TradeID = ''SIM-'' @ in_ID ins @ ''-'' @ itoa (unix_milli now) @ ''-'' @ utoa (unat sequence),
            fl_OrderID = [], fl_Symbol = m_Symbol market,
            fl_Side = (if v < sim_BuyProbabilityBPS cfg then Buy else Sell), fl_Price = price, fl_Quantity = quantity,
            fl_QuoteQuantity = price * quantity, fl_Fee = 0, fl_FeeAsset = [], fl_Maker = False, fl_Aggregate = False,
            fl_Simulated = True, fl_Timestamp = now\<rparr>, w3))))))"

definition snapshotOf :: "TradeSimulationConfig \<Rightarrow> string \<Rightarrow> string \<Rightarrow> SimState \<Rightarrow> SimSnapshot" where
  "snapshotOf cfg status err st =
    \<lparr>ts_Enabled = sim_Enabled cfg, ts_SourceVenue = sim_SourceVenue cfg, ts_Status = status,
     ts_LastGeneratedAt = ss_lastGeneratedAt st, ts_NextAt = ss_nextAt st, ts_Fills = ss_fills st, ts_Error = err\<rparr>"

text \<open>The state a first observation of an instrument starts from, with its first instant drawn.\<close>

definition scheduled :: "'w Rng \<Rightarrow> TradeSimulationConfig \<Rightarrow> SimState option \<Rightarrow> time \<Rightarrow> 'w \<Rightarrow> SimState \<times> 'w" where
  "scheduled rng cfg current now w =
    (let st = (case current of None \<Rightarrow> zero_sim | Some st \<Rightarrow> st) in
     if IsZeroTime (ss_nextAt st)
     then (case randomDuration rng (sim_MinIntervalMS cfg) (sim_MaxIntervalMS cfg) w of
             (d, w') \<Rightarrow> (st\<lparr>ss_nextAt := now + d\<rparr>, w'))
     else (st, w))"

definition Observe :: "'w Rng \<Rightarrow> InstrumentConfig \<Rightarrow> string \<Rightarrow> VenueMarketConfig \<Rightarrow> Book \<Rightarrow> time \<Rightarrow> SimGenerator \<Rightarrow> 'w
    \<Rightarrow> (string, SimSnapshot \<times> Fill option) result \<times> SimGenerator \<times> 'w" where
  "Observe rng ins venueName market book now g w =
    (let cfg = in_TradeSimulation ins in
     if \<not> sim_Enabled cfg \<or> venueName \<noteq> sim_SourceVenue cfg
     then (Inr (snapshotOf cfg ''disabled'' [] zero_sim, None), g, w)
     else case scheduled rng cfg (g (in_ID ins)) now w of
       (st, w1) \<Rightarrow>
         if now < ss_nextAt st then (Inr (snapshotOf cfg ''waiting'' [] st, None), g(in_ID ins \<mapsto> st), w1)
         else case generateFill rng ins venueName market book now (ss_sequence st + 1) w1 of
           (Inl Panic, w2) \<Rightarrow> (Inl Panic, g(in_ID ins \<mapsto> st), w2)
         | (filled, w2) \<Rightarrow>
             (case randomDuration rng (sim_MinIntervalMS cfg) (sim_MaxIntervalMS cfg) w2 of
                (d, w3) \<Rightarrow>
                  let st1 = st\<lparr>ss_nextAt := now + d\<rparr> in
                  (case filled of
                     Inl Panic \<Rightarrow> (Inl Panic, g(in_ID ins \<mapsto> st1), w3)
                   | Inl (Fail e) \<Rightarrow> (Inr (snapshotOf cfg ''skipped'' e st1, None), g(in_ID ins \<mapsto> st1), w3)
                   | Inr fill \<Rightarrow>
                       let fills = fill # ss_fills st1;
                           st2 = st1\<lparr>ss_sequence := ss_sequence st + 1, ss_lastGeneratedAt := now, ss_fills := fills\<rparr>
                       in if int (length fills) > sim_RecentLimit cfg
                          then if sim_RecentLimit cfg < 0 then (Inl Panic, g(in_ID ins \<mapsto> st2), w3)
                               else let st3 = st2\<lparr>ss_fills := take (nat (sim_RecentLimit cfg)) fills\<rparr>
                                    in (Inr (snapshotOf cfg ''running'' [] st3, Some fill), g(in_ID ins \<mapsto> st3), w3)
                          else (Inr (snapshotOf cfg ''running'' [] st2, Some fill), g(in_ID ins \<mapsto> st2), w3))))"

section \<open>Random steps stay in their range\<close>

text \<open>What \<^verbatim>\<open>crypto/rand.Int\<close> documents: a number below the bound, or an error.\<close>

definition rng_uniform :: "'w Rng \<Rightarrow> bool" where
  "rng_uniform rng \<longleftrightarrow> (\<forall>w m v w'. 0 < m \<longrightarrow> rng w m = (Inr v, w') \<longrightarrow> 0 \<le> v \<and> v < m)"

lemma rng_uniformD: "rng_uniform rng \<Longrightarrow> 0 < m \<Longrightarrow> rng w m = (Inr v, w') \<Longrightarrow> 0 \<le> v \<and> v < m"
  unfolding rng_uniform_def by blast

lemma randomBelow_range:
  assumes "rng_uniform rng" "0 < m" "randomBelow rng m w = (v, w')"
  shows "0 \<le> v \<and> v < m"
  using assms rng_uniformD [OF assms(1,2)] by (auto simp: randomBelow_def split: if_splits prod.splits sum.splits)

lemma randomStep_range:
  assumes rng: "rng_uniform rng" and step: "0 < step" and r: "randomStep rng lo hi step w = (Inr x, w')"
  shows "lo \<le> x" "x \<le> hi" "\<exists>k. x = lo + of_int k * step"
proof -
  have le: "lo \<le> hi" using r by (auto simp: randomStep_def Let_def split: if_splits)
  obtain a b where q: "quotient_of ((hi - lo) / step) = (a, b)" by fastforce
  have nn: "0 \<le> (hi - lo) / step" using le step by simp
  note n = quotient_of_nonneg [OF q nn]
  have steps: "go_quo a b = \<lfloor>(hi - lo) / step\<rfloor>" using n by (simp add: go_quo_nonneg)
  obtain c where c: "rng w (\<lfloor>(hi - lo) / step\<rfloor> + 1) = (Inr c, w')" "x = lo + step * of_int c"
    using r le step q steps by (auto simp: randomStep_def Let_def split: if_splits prod.splits sum.splits)
  have pos: "0 < \<lfloor>(hi - lo) / step\<rfloor> + 1" using nn by simp
  from rng_uniformD [OF rng pos c(1)] have b: "0 \<le> c" "c \<le> \<lfloor>(hi - lo) / step\<rfloor>" by linarith+
  then have "of_int c \<le> (hi - lo) / step" by linarith
  then have "step * of_int c \<le> hi - lo" using step by (simp add: pos_le_divide_eq mult.commute)
  with c(2) b(1) step show "lo \<le> x" "x \<le> hi" by simp_all
  show "\<exists>k. x = lo + of_int k * step" using c(2) by (auto simp: mult.commute)
qed

lemma randomStep_no_panic: "0 < step \<Longrightarrow> randomStep rng lo hi step w \<noteq> (Inl Panic, w')"
proof
  assume step: "0 < step" and r: "randomStep rng lo hi step w = (Inl Panic, w')"
  then have le: "lo \<le> hi" by (auto simp: randomStep_def Let_def split: if_splits)
  obtain a b where q: "quotient_of ((hi - lo) / step) = (a, b)" by fastforce
  have nn: "0 \<le> (hi - lo) / step" using le step by simp
  note n = quotient_of_nonneg [OF q nn]
  have "0 < go_quo a b + 1" using n nn by (simp add: go_quo_nonneg)
  with r le step q show False by (auto simp: randomStep_def Let_def split: prod.splits sum.splits)
qed


section \<open>Prices and quantities of a synthetic fill\<close>

lemma priceRange_ok:
  assumes "priceRange market book = Inr (lo, hi)"
  shows "0 < m_PriceTick market" "0 \<le> b_BidPrice book" "b_BidPrice book < lo" "lo \<le> hi" "hi < b_AskPrice book" "on_grid (m_PriceTick market) lo"
proof -
  from assms obtain d u where d: "QuantizeDown (b_BidPrice book) (m_PriceTick market) = Some d"
    and u: "QuantizeUp (b_AskPrice book) (m_PriceTick market) = Some u"
    and lo: "lo = d + m_PriceTick market" and c: "b_BidPrice book < lo" "lo \<le> hi" "hi < b_AskPrice book"
    by (auto simp: priceRange_def result_simps Let_def split: if_splits)
  show tick: "0 < m_PriceTick market" and "0 \<le> b_BidPrice book" using down.domain [OF d] by auto
  show "b_BidPrice book < lo" "lo \<le> hi" "hi < b_AskPrice book" by fact+
  show "on_grid (m_PriceTick market) lo" using on_grid_add_step [OF tick down.grid [OF d], of 1] lo by simp
qed

lemma priceRange_no_panic:
  "0 < m_PriceTick market \<Longrightarrow> 0 \<le> b_BidPrice book \<Longrightarrow> 0 \<le> b_AskPrice book \<Longrightarrow> priceRange market book \<noteq> Inl Panic"
  by (auto simp: priceRange_def result_simps QuantizeDown_None_iff QuantizeUp_None_iff Let_def split: if_splits)





lemma generateFill_cases:
  assumes "generateFill rng ins v market book now n w = (Inr fill, w')"
  obtains lo hi price w1 ql qh quantity w2 where
    "priceRange market book = Inr (lo, hi)" "randomStep rng lo hi (m_PriceTick market) w = (Inr price, w1)"
    "quantityRange (in_TradeSimulation ins) market price = Inr (ql, qh)"
    "randomStep rng ql qh (m_QuantityStep market) w1 = (Inr quantity, w2)"
    "fl_Price fill = price" "fl_Quantity fill = quantity" "fl_Simulated fill" "fl_QuoteQuantity fill = price * quantity"
    "fl_Side fill \<in> {Buy, Sell}" "fl_Venue fill = v" "fl_Symbol fill = m_Symbol market" "fl_Timestamp fill = now"
proof -
  obtain lo hi where p: "priceRange market book = Inr (lo, hi)"
    using assms by (auto simp: generateFill_def Let_def split: sum.splits)
  obtain pr w1 where r: "randomStep rng lo hi (m_PriceTick market) w = (pr, w1)" by fastforce
  then obtain price where price: "pr = Inr price" using assms p by (cases pr) (auto simp: generateFill_def Let_def)
  obtain ql qh where q: "quantityRange (in_TradeSimulation ins) market price = Inr (ql, qh)"
    using assms p r price by (auto simp: generateFill_def Let_def split: sum.splits)
  obtain qr w2 where s: "randomStep rng ql qh (m_QuantityStep market) w1 = (qr, w2)" by fastforce
  then obtain quantity where quantity: "qr = Inr quantity"
    using assms p r price q by (cases qr) (auto simp: generateFill_def Let_def)
  obtain c w3 where "randomBelow rng 10000 w2 = (c, w3)" by fastforce
  with assms p r price q s quantity that show thesis by (auto simp: generateFill_def Let_def)
qed

text \<open>The exchange's largest notional and its price limits play no part in a synthetic fill.\<close>

lemma generateFill_other_limits:
  "generateFill rng ins v (market\<lparr>m_MaxNotional := a, m_MinPrice := b, m_MaxPrice := c\<rparr>) book now n w =
   generateFill rng ins v market book now n w"
proof -
  let ?m = "market\<lparr>m_MaxNotional := a, m_MinPrice := b, m_MaxPrice := c\<rparr>"
  have p: "priceRange ?m book = priceRange market book" by (simp add: priceRange_def)
  have q: "quantityRange cfg ?m price = quantityRange cfg market price" for cfg price by (simp add: quantityRange_def)
  have m: "m_PriceTick ?m = m_PriceTick market" "m_QuantityStep ?m = m_QuantityStep market" "m_Symbol ?m = m_Symbol market" by simp_all
  show ?thesis unfolding generateFill_def p q m ..
qed



section \<open>The schedule\<close>

text \<open>The inputs on which the generator's arithmetic is defined: what the validation of the configuration
  asks of a simulation, a market with positive steps, a book without negative prices, and intervals
  below \<open>2 ^ 43\<close> milliseconds, so that nanoseconds fit in 64 bits; the last one is not validated.\<close>

definition sim_domain :: "InstrumentConfig \<Rightarrow> VenueMarketConfig \<Rightarrow> Book \<Rightarrow> bool" where
  "sim_domain ins market book \<longleftrightarrow>
     (let cfg = in_TradeSimulation ins in
      0 < m_PriceTick market \<and> 0 < m_QuantityStep market \<and> 0 \<le> b_BidPrice book \<and> 0 \<le> b_AskPrice book \<and>
      0 < sim_MinQuantity cfg \<and> sim_MinQuantity cfg \<le> sim_MaxQuantity cfg \<and>
      100 \<le> sim_MinIntervalMS cfg \<and> sim_MinIntervalMS cfg \<le> sim_MaxIntervalMS cfg \<and> sim_MaxIntervalMS cfg < 2 ^ 43 \<and>
      1 \<le> sim_RecentLimit cfg)"

lemma quantityRange_no_panic:
  assumes "0 < m_QuantityStep market" "0 \<le> sim_MinQuantity cfg" "0 \<le> sim_MaxQuantity cfg" "0 < price"
  shows "quantityRange cfg market price \<noteq> Inl Panic"
  using assms
  by (auto simp: quantityRange_def raiseTo_def lowerTo_def Div_def result_simps QuantizeDown_None_iff QuantizeUp_None_iff
      divide_less_0_iff Let_def split: if_splits)

lemma generateFill_no_panic:
  assumes "sim_domain ins market book" and "rng_uniform rng"
  shows "generateFill rng ins v market book now n w \<noteq> (Inl Panic, w')"
proof
  assume g: "generateFill rng ins v market book now n w = (Inl Panic, w')"
  let ?cfg = "in_TradeSimulation ins"
  have d: "0 < m_PriceTick market" "0 < m_QuantityStep market" "0 \<le> b_BidPrice book" "0 \<le> b_AskPrice book"
    "0 \<le> sim_MinQuantity ?cfg" "0 \<le> sim_MaxQuantity ?cfg"
    using assms(1) by (auto simp: sim_domain_def Let_def)
  obtain lo hi where p: "priceRange market book = Inr (lo, hi)"
    using g priceRange_no_panic [OF d(1,3,4)] by (cases "priceRange market book") (auto simp: generateFill_def Let_def)
  obtain pr w1 where r: "randomStep rng lo hi (m_PriceTick market) w = (pr, w1)" by fastforce
  obtain price where price: "pr = Inr price"
    using g p r randomStep_no_panic [OF d(1), of rng lo hi w w1] by (cases pr) (auto simp: generateFill_def Let_def)
  have pos: "0 < price" using randomStep_range(1) [OF assms(2) d(1) r [unfolded price]] priceRange_ok(2,3) [OF p] by linarith
  obtain ql qh where q: "quantityRange ?cfg market price = Inr (ql, qh)"
    using g p r price quantityRange_no_panic [OF d(2,5,6) pos]
    by (cases "quantityRange ?cfg market price") (auto simp: generateFill_def Let_def)
  obtain qr w2 where s: "randomStep rng ql qh (m_QuantityStep market) w1 = (qr, w2)" by fastforce
  with g p r price q randomStep_no_panic [OF d(2), of rng ql qh w1 w2] show False
    by (cases qr) (auto simp: generateFill_def Let_def split: prod.splits)
qed

lemma int64_millis: "0 \<le> n \<Longrightarrow> n < 2 ^ 43 \<Longrightarrow> int64 (n * millisecond) = n * millisecond"
  by (rule int64_id) (auto simp: millisecond_def)

lemma randomDuration_range:
  assumes "rng_uniform rng" "0 \<le> lo" "lo \<le> hi" "hi < 2 ^ 43" "randomDuration rng lo hi w = (d, w')"
  shows "lo * millisecond \<le> d \<and> d \<le> hi * millisecond"
proof (cases "hi \<le> lo")
  case True
  with assms show ?thesis by (simp add: randomDuration_def int64_millis)
next
  case False
  have m: "int64 (hi - lo + 1) = hi - lo + 1" using assms(2-4) False by (intro int64_id) auto
  obtain v where v: "randomBelow rng (hi - lo + 1) w = (v, w')" "d = int64 (int64 (lo + v) * millisecond)"
    using assms(5) False m by (auto simp: randomDuration_def split: prod.splits)
  from randomBelow_range [OF assms(1) _ v(1)] False have b: "0 \<le> v" "lo + v \<le> hi" by auto
  have "int64 (lo + v) = lo + v" using b assms(2,4) by (intro int64_id) auto
  with v(2) b assms(2,4) have "d = (lo + v) * millisecond" by (simp add: int64_millis)
  then show ?thesis using b by (simp add: millisecond_def)
qed

text \<open>The invariant of the generator's memory.\<close>

definition sim_state_ok :: "InstrumentConfig \<Rightarrow> SimState \<Rightarrow> bool" where
  "sim_state_ok ins st \<longleftrightarrow> int (length (ss_fills st)) \<le> sim_RecentLimit (in_TradeSimulation ins) \<and> list_all fl_Simulated (ss_fills st)"

lemma scheduled_ok:
  assumes "scheduled rng (in_TradeSimulation ins) cur now w = (st, w')"
    and "\<And>s. cur = Some s \<Longrightarrow> sim_state_ok ins s" and "0 \<le> sim_RecentLimit (in_TradeSimulation ins)"
  shows "sim_state_ok ins st"
proof -
  have z: "sim_state_ok ins zero_sim" using assms(3) by (simp add: sim_state_ok_def zero_sim_def)
  have u: "sim_state_ok ins (s\<lparr>ss_nextAt := t\<rparr>) = sim_state_ok ins s" for s t by (simp add: sim_state_ok_def)
  show ?thesis using assms(1,2) z u
    by (cases cur) (auto simp: scheduled_def Let_def split: if_splits prod.splits)
qed

text \<open>C36: the schedule of synthetic fills, for a simulation within the validated ranges whose largest
  interval is below \<open>2 ^ 43\<close> milliseconds (which the validation does not check), positive steps and no
  negative book price. An observation of the source venue never panics. The first one only
  schedules: a fill is emitted only for an instrument that already had its instant, and when that
  instant has come. While it has not come it stays; otherwise the next instant is between the
  configured minimal and maximal interval away, in the future. At most the configured number of
  recent fills is kept, all marked as simulated, and no other instrument is touched.\<close>

theorem Observe_schedule:
  assumes obs: "Observe rng ins v market book now g w = (r, g', w')"
    and dom: "sim_domain ins market book" and rng: "rng_uniform rng"
    and on: "sim_Enabled (in_TradeSimulation ins)" "v = sim_SourceVenue (in_TradeSimulation ins)"
    and inv: "\<And>st. g (in_ID ins) = Some st \<Longrightarrow> sim_state_ok ins st"
  shows "\<exists>snap fill st'. r = Inr (snap, fill) \<and> g' = g(in_ID ins \<mapsto> st') \<and> sim_state_ok ins st' \<and> now < ss_nextAt st' \<and>
    ts_Fills snap = ss_fills st' \<and>
    (fill \<noteq> None \<longrightarrow> (\<exists>st. g (in_ID ins) = Some st \<and> \<not> IsZeroTime (ss_nextAt st) \<and> ss_nextAt st \<le> now)) \<and>
    (if \<exists>st. g (in_ID ins) = Some st \<and> \<not> IsZeroTime (ss_nextAt st) \<and> now < ss_nextAt st
     then g (in_ID ins) = Some st'
     else now + sim_MinIntervalMS (in_TradeSimulation ins) * millisecond \<le> ss_nextAt st' \<and>
       ss_nextAt st' \<le> now + sim_MaxIntervalMS (in_TradeSimulation ins) * millisecond)"
proof -
  let ?cfg = "in_TradeSimulation ins"
  have d: "100 \<le> sim_MinIntervalMS ?cfg" "sim_MinIntervalMS ?cfg \<le> sim_MaxIntervalMS ?cfg" "sim_MaxIntervalMS ?cfg < 2 ^ 43"
    "1 \<le> sim_RecentLimit ?cfg" using dom by (auto simp: sim_domain_def Let_def)
  obtain st w1 where st: "scheduled rng ?cfg (g (in_ID ins)) now w = (st, w1)" by fastforce
  have ok: "sim_state_ok ins st" using scheduled_ok [OF st inv] d(4) by simp
  have drawn: "st = the (g (in_ID ins)) \<and> g (in_ID ins) \<noteq> None \<and> \<not> IsZeroTime (ss_nextAt st) \<or>
      now < ss_nextAt st \<and> now + sim_MinIntervalMS ?cfg * millisecond \<le> ss_nextAt st \<and>
        ss_nextAt st \<le> now + sim_MaxIntervalMS ?cfg * millisecond \<and>
        (\<forall>s. g (in_ID ins) = Some s \<longrightarrow> IsZeroTime (ss_nextAt s))"
  proof (cases "\<exists>s. g (in_ID ins) = Some s \<and> \<not> IsZeroTime (ss_nextAt s)")
    case True
    with st show ?thesis by (auto simp: scheduled_def Let_def)
  next
    case False
    define s0 where "s0 = (case g (in_ID ins) of None \<Rightarrow> zero_sim | Some s \<Rightarrow> s)"
    have z: "IsZeroTime (ss_nextAt s0)" using False by (auto simp: s0_def zero_sim_def IsZeroTime_def split: option.split)
    obtain d0 w0 where d0: "randomDuration rng (sim_MinIntervalMS ?cfg) (sim_MaxIntervalMS ?cfg) w = (d0, w0)" by fastforce
    have "st = s0\<lparr>ss_nextAt := now + d0\<rparr>" using st z d0 by (simp add: scheduled_def Let_def s0_def [symmetric])
    moreover have "sim_MinIntervalMS ?cfg * millisecond \<le> d0" "d0 \<le> sim_MaxIntervalMS ?cfg * millisecond"
      using randomDuration_range [OF rng _ d(2,3) d0] d(1) by auto
    moreover from this have "0 < d0" using d(1) by (simp add: millisecond_def)
    ultimately show ?thesis using False by auto
  qed
  show ?thesis
  proof (cases "now < ss_nextAt st")
    case True
    have "r = Inr (snapshotOf ?cfg ''waiting'' [] st, None)" "g' = g(in_ID ins \<mapsto> st)"
      using obs on st True by (simp_all add: Observe_def Let_def)
    moreover have "if \<exists>s. g (in_ID ins) = Some s \<and> \<not> IsZeroTime (ss_nextAt s) \<and> now < ss_nextAt s
     then g (in_ID ins) = Some st
     else now + sim_MinIntervalMS ?cfg * millisecond \<le> ss_nextAt st \<and> ss_nextAt st \<le> now + sim_MaxIntervalMS ?cfg * millisecond"
      using drawn True by (auto split: if_splits)
    ultimately show ?thesis using ok True by (intro exI conjI) (assumption | simp add: snapshotOf_def)+
  next
    case False
    obtain f w2 where f: "generateFill rng ins v market book now (ss_sequence st + 1) w1 = (f, w2)" by fastforce
    obtain dd w3 where dd: "randomDuration rng (sim_MinIntervalMS ?cfg) (sim_MaxIntervalMS ?cfg) w2 = (dd, w3)" by fastforce
    have r: "sim_MinIntervalMS ?cfg * millisecond \<le> dd" "dd \<le> sim_MaxIntervalMS ?cfg * millisecond"
      using randomDuration_range [OF rng _ d(2,3) dd] d(1) by auto
    then have pos: "0 < dd" using d(1) by (simp add: millisecond_def)
    from drawn False obtain s where s: "g (in_ID ins) = Some s" "st = s" "\<not> IsZeroTime (ss_nextAt s)" by auto
    then have due: "\<not> (\<exists>s. g (in_ID ins) = Some s \<and> \<not> IsZeroTime (ss_nextAt s) \<and> now < ss_nextAt s)" using False by simp
    show ?thesis
    proof (cases f)
      case (Inl e)
      then obtain t where "e = Fail t" using generateFill_no_panic [OF dom rng] f by (cases e) auto
      then have "r = Inr (snapshotOf ?cfg ''skipped'' t (st\<lparr>ss_nextAt := now + dd\<rparr>), None)"
        "g' = g(in_ID ins \<mapsto> st\<lparr>ss_nextAt := now + dd\<rparr>)"
        using obs on st False f dd Inl by (simp_all add: Observe_def Let_def)
      moreover have "sim_state_ok ins (st\<lparr>ss_nextAt := now + dd\<rparr>)" using ok by (simp add: sim_state_ok_def)
      ultimately show ?thesis unfolding if_not_P [OF due] using pos r by (auto simp: snapshotOf_def)
    next
      case (Inr fill)
      let ?fills = "take (nat (sim_RecentLimit ?cfg)) (fill # ss_fills st)"
      let ?st = "st\<lparr>ss_nextAt := now + dd, ss_sequence := ss_sequence st + 1, ss_lastGeneratedAt := now, ss_fills := ?fills\<rparr>"
      have full: "\<not> sim_RecentLimit ?cfg < int (length (fill # ss_fills st)) \<Longrightarrow> ?fills = fill # ss_fills st" by simp
      have g': "r = Inr (snapshotOf ?cfg ''running'' [] ?st, Some fill)" "g' = g(in_ID ins \<mapsto> ?st)"
        using obs on st False f dd Inr d(4) full
        by (cases "sim_RecentLimit ?cfg < int (length (fill # ss_fills st))"; simp add: Observe_def Let_def)+
      have sim: "fl_Simulated fill" using f Inr generateFill_cases by metis
      have "sim_state_ok ins ?st" using ok sim d(4) by (auto simp: sim_state_ok_def list_all_iff dest!: in_set_takeD)
      then show ?thesis unfolding if_not_P [OF due] using g' r pos s False by (auto simp: snapshotOf_def)
    qed
  qed
qed


section \<open>Witnesses\<close>

definition sample_simulation :: InstrumentConfig where
  "sample_simulation = sample_instrument\<lparr>in_TradeSimulation := \<lparr>sim_Enabled = True, sim_SourceVenue = ''v'', sim_MinQuantity = 4,
     sim_MaxQuantity = 8, sim_MinIntervalMS = 100, sim_MaxIntervalMS = 200, sim_BuyProbabilityBPS = 5000, sim_RecentLimit = 3\<rparr>\<rparr>"

definition sample_rng :: "nat Rng" where "sample_rng w m = (Inr 0, w)"

definition sample_generator :: SimGenerator where
  "sample_generator = [''i'' \<mapsto> zero_sim\<lparr>ss_nextAt := sample_now\<rparr>]"

lemma sample_rng_uniform: "rng_uniform sample_rng"
  by (simp add: rng_uniform_def sample_rng_def)

lemma quotient_of_eq: "0 < b \<Longrightarrow> coprime a b \<Longrightarrow> x = of_int a / of_int b \<Longrightarrow> quotient_of x = (a, b)"
  by (simp add: Fract_of_int_quotient [symmetric] quotient_of_Fract normalize_def)

lemma sample_fill:
  "\<exists>fill. generateFill sample_rng sample_simulation ''v'' sample_market sample_book sample_now 1 (0 :: nat) = (Inr fill, 0) \<and>
     fl_Price fill = 1991 / 1000 \<and> fl_Quantity fill = 4"
proof -
  have p: "priceRange sample_market sample_book = Inr (1991 / 1000, 2009 / 1000)"
    by (simp add: priceRange_def QuantizeDown_eq QuantizeUp_eq sample_defs)
  have q: "quantityRange (in_TradeSimulation sample_simulation) sample_market (1991 / 1000) = Inr (4, 8)"
    by (simp add: quantityRange_def raiseTo_def lowerTo_def Div_def QuantizeDown_eq QuantizeUp_eq sample_defs sample_simulation_def)
  have s1: "randomStep sample_rng (1991 / 1000) (2009 / 1000) (m_PriceTick sample_market) (0 :: nat) = (Inr (1991 / 1000), 0)"
    by (simp add: randomStep_def sample_rng_def sample_defs go_quo_def Let_def split: prod.split)
  have s2: "randomStep sample_rng 4 8 (m_QuantityStep sample_market) (0 :: nat) = (Inr 4, 0)"
    by (simp add: randomStep_def sample_rng_def sample_defs go_quo_def Let_def split: prod.split)
  show ?thesis unfolding generateFill_def Let_def p q sum.case prod.case s1 s2
    by (simp add: randomBelow_def sample_rng_def)
qed


theorem Observe_schedule_witness:
  "\<exists>snap fill g' w'. Observe sample_rng sample_simulation ''v'' sample_market sample_book sample_now sample_generator (0 :: nat) =
      (Inr (snap, Some fill), g', w') \<and> (\<exists>st'. g' ''i'' = Some st' \<and> sample_now + 100 * millisecond \<le> ss_nextAt st')"
proof -
  obtain fill where f: "generateFill sample_rng sample_simulation ''v'' sample_market sample_book sample_now 1 (0 :: nat) = (Inr fill, 0)"
    using sample_fill by blast
  obtain r g' w' where o: "Observe sample_rng sample_simulation ''v'' sample_market sample_book sample_now sample_generator (0 :: nat) = (r, g', w')"
    by (metis prod_cases3)
  have id: "in_ID sample_simulation = ''i''" by (simp add: sample_simulation_def sample_defs)
  have sch: "scheduled sample_rng (in_TradeSimulation sample_simulation) (sample_generator ''i'') sample_now 0 = (zero_sim\<lparr>ss_nextAt := sample_now\<rparr>, 0)"
    by (simp add: scheduled_def sample_generator_def IsZeroTime_def zero_time_def sample_now_def second_def)
  have c: "sim_Enabled (in_TradeSimulation sample_simulation)" "sim_SourceVenue (in_TradeSimulation sample_simulation) = ''v''"
    "sim_RecentLimit (in_TradeSimulation sample_simulation) = 3" "sim_MinIntervalMS (in_TradeSimulation sample_simulation) = 100" by (simp_all add: sample_simulation_def)
  obtain d w3 where "randomDuration sample_rng (sim_MinIntervalMS (in_TradeSimulation sample_simulation))
      (sim_MaxIntervalMS (in_TradeSimulation sample_simulation)) 0 = (d, w3)" by fastforce
  then have e: "\<exists>snap. r = Inr (snap, Some fill)"
    using o f by (auto simp: Observe_def Let_def id sch c zero_sim_def)
  have dom: "sim_domain sample_simulation sample_market sample_book"
    by (simp add: sim_domain_def sample_defs sample_simulation_def)
  have inv: "sim_state_ok sample_simulation st" if "sample_generator (in_ID sample_simulation) = Some st" for st
    using that by (auto simp: sample_generator_def sim_state_ok_def zero_sim_def c split: if_splits)
  have due: "\<not> (\<exists>st. sample_generator (in_ID sample_simulation) = Some st \<and> \<not> IsZeroTime (ss_nextAt st) \<and> sample_now < ss_nextAt st)"
    by (simp add: id sample_generator_def)
  from Observe_schedule [OF o dom sample_rng_uniform c(1) c(2) [symmetric] inv, unfolded if_not_P [OF due]]
  have "\<exists>st'. g' = sample_generator(in_ID sample_simulation \<mapsto> st') \<and>
      sample_now + sim_MinIntervalMS (in_TradeSimulation sample_simulation) * millisecond \<le> ss_nextAt st'" by blast
  with e o show ?thesis by (auto simp: id c)
qed

end
