(* ===== verification/Risk.thy ===== *)
theory Risk
  imports Samples
begin

text \<open>
  \<^verbatim>\<open>internal/risk\<close>: the checks between the strategy and the order manager. \<^verbatim>\<open>market.go\<close> compares
  the venue's book with the reference price, \<^verbatim>\<open>risk.go\<close> rejects or drops quotes, \<^verbatim>\<open>budget.go\<close> keeps
  the quotes the balances and the exchange's order limit allow. Every reading of the clock within
  one call is the parameter \<open>now\<close>.
\<close>

section \<open>Definitions\<close>

datatype RiskError =
    BookStale | ReferenceExpired | BuyTakesLiquidity | SellTakesLiquidity | BelowMinNotional
  | BelowMinQuantity | AboveMaxQuantity | AboveMaxNotional | BelowMinPrice | AboveMaxPrice
  | TargetSelfCross | AllBlockedByInventory
  | InvalidReference | CrossedBook | VenueDeviation Decimal int | VenueSpread Decimal int

text \<open>The rejections of one quote, in the order of the loop body.\<close>

definition checkQuote :: "VenueMarketConfig \<Rightarrow> Book \<Rightarrow> time \<Rightarrow> Quote \<Rightarrow> RiskError option" where
  "checkQuote market book now q =
    (if now > q_ValidUntil q then Some ReferenceExpired
     else if HasAsk book \<and> q_Side q = Buy \<and> Cmp (q_Price q) (b_AskPrice book) \<ge> 0 then Some BuyTakesLiquidity
     else if HasBid book \<and> q_Side q = Sell \<and> Cmp (q_Price q) (b_BidPrice book) \<le> 0 then Some SellTakesLiquidity
     else if Cmp (q_Price q * q_Quantity q) (m_MinNotional market) < 0 then Some BelowMinNotional
     else if IsPositive (m_MinQuantity market) \<and> Cmp (q_Quantity q) (m_MinQuantity market) < 0
       then Some BelowMinQuantity
     else if IsPositive (m_MaxQuantity market) \<and> Cmp (q_Quantity q) (m_MaxQuantity market) > 0
       then Some AboveMaxQuantity
     else if IsPositive (m_MaxNotional market) \<and> Cmp (q_Price q * q_Quantity q) (m_MaxNotional market) > 0
       then Some AboveMaxNotional
     else if IsPositive (m_MinPrice market) \<and> Cmp (q_Price q) (m_MinPrice market) < 0 then Some BelowMinPrice
     else if IsPositive (m_MaxPrice market) \<and> Cmp (q_Price q) (m_MaxPrice market) > 0 then Some AboveMaxPrice
     else None)"

text \<open>The inventory gate: whether the loop skips the quote.\<close>

definition inventoryBlocks :: "StrategyConfig \<Rightarrow> Decimal \<Rightarrow> Quote \<Rightarrow> bool" where
  "inventoryBlocks st deviation q \<longleftrightarrow>
     IsPositive (st_MaxBaseDeviation st) \<and>
     (Cmp deviation (st_MaxBaseDeviation st) \<ge> 0 \<and> q_Side q = Buy \<or>
      Cmp deviation (- st_MaxBaseDeviation st) \<le> 0 \<and> q_Side q = Sell)"

fun filterLoop :: "StrategyConfig \<Rightarrow> VenueMarketConfig \<Rightarrow> Book \<Rightarrow> time \<Rightarrow> Decimal \<Rightarrow> Quote list
    \<Rightarrow> RiskError + Quote list" where
  "filterLoop st market book now deviation [] = Inr []"
| "filterLoop st market book now deviation (q # qs) =
     (case checkQuote market book now q of
        Some e \<Rightarrow> Inl e
      | None \<Rightarrow>
          (case filterLoop st market book now deviation qs of
             Inl e \<Rightarrow> Inl e
           | Inr rest \<Rightarrow> Inr (if inventoryBlocks st deviation q then rest else q # rest)))"

definition selfCross :: "Quote list \<Rightarrow> bool" where
  "selfCross qs \<longleftrightarrow>
     list_ex (\<lambda>a. list_ex (\<lambda>b. q_Side a = Buy \<and> q_Side b = Sell \<and> Cmp (q_Price a) (q_Price b) \<ge> 0) qs) qs"

definition FilterQuotes :: "InstrumentConfig \<Rightarrow> VenueMarketConfig \<Rightarrow> Book \<Rightarrow> Decimal \<Rightarrow> Quote list
    \<Rightarrow> time \<Rightarrow> RiskError + Quote list" where
  "FilterQuotes ins market book inventory quotes now =
    (if HasPrices book \<and> (IsZeroTime (b_Timestamp book) \<or> time_sub now (b_Timestamp book) > 30 * second)
     then Inl BookStale
     else
       let deviation = inventory - st_TargetBase (in_Strategy ins)
       in case filterLoop (in_Strategy ins) market book now deviation quotes of
            Inl e \<Rightarrow> Inl e
          | Inr result \<Rightarrow>
              if selfCross result then Inl TargetSelfCross
              else if result = [] then Inl AllBlockedByInventory
              else Inr result)"

definition deviationGuard :: "StrategyConfig \<Rightarrow> Decimal \<Rightarrow> Decimal \<Rightarrow> RiskError failure option" where
  "deviationGuard st mid price =
    (if st_MaxVenueReferenceDeviationBPS st > 0
     then (case Div \<bar>mid - price\<bar> price of
             None \<Rightarrow> Some Panic
           | Some relative \<Rightarrow>
               let deviation = relative * TenThousand
               in if Cmp deviation (FromInt64 (st_MaxVenueReferenceDeviationBPS st)) > 0
                  then Some (Fail (VenueDeviation deviation (st_MaxVenueReferenceDeviationBPS st)))
                  else None)
     else None)"

definition spreadGuard :: "StrategyConfig \<Rightarrow> Decimal \<Rightarrow> Book \<Rightarrow> RiskError failure option" where
  "spreadGuard st mid book =
    (if st_MaxVenueSpreadBPS st > 0
     then (case Div (b_AskPrice book - b_BidPrice book) mid of
             None \<Rightarrow> Some Panic
           | Some width \<Rightarrow>
               let spread = width * TenThousand
               in if Cmp spread (FromInt64 (st_MaxVenueSpreadBPS st)) > 0
                  then Some (Fail (VenueSpread spread (st_MaxVenueSpreadBPS st)))
                  else None)
     else None)"

definition ValidateMarketReference :: "ReferencePrice \<Rightarrow> Book \<Rightarrow> StrategyConfig \<Rightarrow> RiskError failure option" where
  "ValidateMarketReference ref book st =
    (if \<not> IsPositive (rp_Price ref) then Some (Fail InvalidReference)
     else if \<not> TwoSided book then None
     else if Cmp (b_BidPrice book) (b_AskPrice book) \<ge> 0 then Some (Fail CrossedBook)
     else case Div (b_BidPrice book + b_AskPrice book) (FromInt64 2) of
        None \<Rightarrow> Some Panic
      | Some mid \<Rightarrow>
          (case deviationGuard st mid (rp_Price ref) of
             Some e \<Rightarrow> Some e
           | None \<Rightarrow> spreadGuard st mid book))"

text \<open>\<^verbatim>\<open>ApplyBalanceBudget\<close>: funds already committed by managed orders, the budget, what the whole
  target would need, and the selection loop.\<close>

fun committed :: "Order list \<Rightarrow> Decimal \<times> Decimal \<Rightarrow> Decimal \<times> Decimal" where
  "committed [] acc = acc"
| "committed (ord # ords) (base, quote) =
     (let remaining = o_Quantity ord - o_ExecutedQty ord in
      if Sign remaining \<le> 0 then committed ords (base, quote)
      else if o_Side ord = Sell then committed ords (base + remaining, quote)
      else if o_Side ord = Buy then committed ords (base, quote + o_Price ord * remaining)
      else committed ords (base, quote))"

fun required :: "Quote list \<Rightarrow> Decimal \<times> Decimal \<Rightarrow> Decimal \<times> Decimal" where
  "required [] acc = acc"
| "required (q # qs) (base, quote) =
     (if q_Side q = Sell then required qs (base + q_Quantity q, quote)
      else if q_Side q = Buy then required qs (base, quote + q_Price q * q_Quantity q)
      else required qs (base, quote))"

record Selection =
  sel_usedBase :: Decimal
  sel_usedQuote :: Decimal
  sel_baseLimited :: bool
  sel_quoteLimited :: bool

fun selectQuotes :: "Decimal \<Rightarrow> Decimal \<Rightarrow> Quote list \<Rightarrow> Selection \<Rightarrow> Quote list \<times> Selection" where
  "selectQuotes baseBudget quoteBudget [] s = ([], s)"
| "selectQuotes baseBudget quoteBudget (q # qs) s =
     (case q_Side q of
        Sell \<Rightarrow>
          let nxt = sel_usedBase s + q_Quantity q in
          if Cmp nxt baseBudget > 0
          then selectQuotes baseBudget quoteBudget qs (s\<lparr>sel_baseLimited := True\<rparr>)
          else let (rest, s') = selectQuotes baseBudget quoteBudget qs (s\<lparr>sel_usedBase := nxt\<rparr>)
               in (q # rest, s')
      | Buy \<Rightarrow>
          let nxt = sel_usedQuote s + q_Price q * q_Quantity q in
          if Cmp nxt quoteBudget > 0
          then selectQuotes baseBudget quoteBudget qs (s\<lparr>sel_quoteLimited := True\<rparr>)
          else let (rest, s') = selectQuotes baseBudget quoteBudget qs (s\<lparr>sel_usedQuote := nxt\<rparr>)
               in (q # rest, s')
      | OtherSide _ \<Rightarrow> selectQuotes baseBudget quoteBudget qs s)"

definition clampReserve :: "int \<Rightarrow> int" where
  "clampReserve r = (let r1 = (if r < 0 then 0 else r) in if r1 > 10000 then 10000 else r1)"

definition budgetOf :: "Decimal \<Rightarrow> Decimal \<Rightarrow> int \<Rightarrow> Decimal \<Rightarrow> Decimal" where
  "budgetOf free commit reserve cap =
     (let free1 = (if Sign free < 0 then FromInt64 0 else free);
          factor = FromInt64 (10000 - reserve) / TenThousand;
          budget = (free1 + commit) * factor
      in if IsPositive cap then DecMin budget cap else budget)"

definition ApplyBalanceBudget :: "Quote list \<Rightarrow> Order list \<Rightarrow> Decimal \<Rightarrow> Decimal \<Rightarrow> int \<Rightarrow> Decimal \<Rightarrow> Decimal
    \<Rightarrow> Quote list \<times> QuoteBudget" where
  "ApplyBalanceBudget quotes managed baseFree quoteFree reserveBPS maxBase maxQuote =
    (let reserve = clampReserve reserveBPS;
         (baseCommitted, quoteCommitted) = committed managed (FromInt64 0, FromInt64 0);
         baseBudget = budgetOf baseFree baseCommitted reserve maxBase;
         quoteBudget = budgetOf quoteFree quoteCommitted reserve maxQuote;
         (baseRequired, quoteRequired) = required quotes (0, 0);
         (eligible, s) = selectQuotes baseBudget quoteBudget quotes
            \<lparr>sel_usedBase = FromInt64 0, sel_usedQuote = FromInt64 0,
             sel_baseLimited = False, sel_quoteLimited = False\<rparr>
     in (eligible,
         \<lparr>qb_ReserveBPS = reserve, qb_TargetOrders = length quotes, qb_EligibleOrders = length eligible,
          qb_BaseBudget = baseBudget, qb_BaseRequired = baseRequired,
          qb_QuoteBudget = quoteBudget, qb_QuoteRequired = quoteRequired,
          qb_BaseLimited = sel_baseLimited s, qb_QuoteLimited = sel_quoteLimited s\<rparr>))"

definition ApplyOrderLimit :: "Quote list \<Rightarrow> int \<Rightarrow> int \<Rightarrow> int \<Rightarrow> Quote list" where
  "ApplyOrderLimit quotes currentOrders managedOrders maxOpenOrders =
    (if maxOpenOrders \<le> 0 then quotes
     else
       let unmanaged = max 0 (currentOrders - managedOrders);
           available = max 0 (maxOpenOrders - unmanaged)
       in if available \<ge> int (length quotes) then quotes
          else let even_available = (if go_rem available 2 \<noteq> 0 then available - 1 else available)
               in take (nat even_available) quotes)"


section \<open>The quote filter\<close>

lemma filterLoop_Inr:
  "filterLoop st market book now dev qs = Inr r \<longleftrightarrow>
     list_all (\<lambda>q. checkQuote market book now q = None) qs \<and> r = filter (\<lambda>q. \<not> inventoryBlocks st dev q) qs"
proof (induction qs arbitrary: r)
  case (Cons q qs)
  show ?case
  proof (cases "filterLoop st market book now dev qs")
    case (Inl e)
    with Cons.IH [of "filter (\<lambda>q. \<not> inventoryBlocks st dev q) qs"]
    have "\<not> list_all (\<lambda>q. checkQuote market book now q = None) qs" by simp
    with Inl show ?thesis by (simp split: option.split)
  next
    case (Inr x)
    with Cons.IH [of x] show ?thesis by (auto split: option.split)
  qed
qed auto

lemma filterLoop_Inl:
  "filterLoop st market book now dev qs = Inl e \<Longrightarrow> \<exists>q \<in> set qs. checkQuote market book now q = Some e"
  by (induction qs) (auto split: option.splits sum.splits if_splits)

lemma selfCross_iff: "selfCross qs \<longleftrightarrow> \<not> no_self_cross qs"
  by (auto simp: selfCross_def no_self_cross_def list_all_iff list_ex_iff not_less)

text \<open>What a quote that passes the checks satisfies.\<close>

definition quote_ok :: "VenueMarketConfig \<Rightarrow> Book \<Rightarrow> time \<Rightarrow> Quote \<Rightarrow> bool" where
  "quote_ok market book now q \<longleftrightarrow>
     now \<le> q_ValidUntil q \<and> post_only book q \<and> m_MinNotional market \<le> notional q \<and>
     (0 < m_MinQuantity market \<longrightarrow> m_MinQuantity market \<le> q_Quantity q) \<and>
     (0 < m_MaxQuantity market \<longrightarrow> q_Quantity q \<le> m_MaxQuantity market) \<and>
     (0 < m_MaxNotional market \<longrightarrow> notional q \<le> m_MaxNotional market) \<and>
     (0 < m_MinPrice market \<longrightarrow> m_MinPrice market \<le> q_Price q) \<and>
     (0 < m_MaxPrice market \<longrightarrow> q_Price q \<le> m_MaxPrice market)"

lemma checkQuote_None: "checkQuote market book now q = None \<longleftrightarrow> quote_ok market book now q"
  unfolding checkQuote_def quote_ok_def post_only_def notional_def
  by (simp add: not_less not_le)

lemma inventoryBlocks_iff:
  "inventoryBlocks st d q \<longleftrightarrow> 0 < st_MaxBaseDeviation st \<and>
     (st_MaxBaseDeviation st \<le> d \<and> q_Side q = Buy \<or> d \<le> - st_MaxBaseDeviation st \<and> q_Side q = Sell)"
  by (auto simp: inventoryBlocks_def)

definition book_fresh :: "Book \<Rightarrow> time \<Rightarrow> bool" where
  "book_fresh book now \<longleftrightarrow>
     (HasPrices book \<longrightarrow> \<not> IsZeroTime (b_Timestamp book) \<and> time_sub now (b_Timestamp book) \<le> 30 * second)"

lemma FilterQuotes_Inr:
  "FilterQuotes ins market book inventory quotes now = Inr r \<longleftrightarrow>
     book_fresh book now \<and> list_all (quote_ok market book now) quotes \<and>
     r = filter (\<lambda>q. \<not> inventoryBlocks (in_Strategy ins) (inventory - st_TargetBase (in_Strategy ins)) q) quotes \<and>
     no_self_cross r \<and> r \<noteq> []"
proof (cases "filterLoop (in_Strategy ins) market book now (inventory - st_TargetBase (in_Strategy ins)) quotes")
  case (Inl e)
  from filterLoop_Inl [OF Inl] have "\<not> list_all (quote_ok market book now) quotes"
    by (auto simp: list_all_iff checkQuote_None [symmetric])
  with Inl show ?thesis by (auto simp: FilterQuotes_def)
next
  case (Inr x)
  then have x: "list_all (quote_ok market book now) quotes"
    "x = filter (\<lambda>q. \<not> inventoryBlocks (in_Strategy ins) (inventory - st_TargetBase (in_Strategy ins)) q) quotes"
    by (auto simp: filterLoop_Inr checkQuote_None)
  show ?thesis unfolding FilterQuotes_def Let_def Inr
    using x by (auto simp: book_fresh_def selfCross_iff not_less)
qed

definition filtered :: "InstrumentConfig \<Rightarrow> VenueMarketConfig \<Rightarrow> Book \<Rightarrow> Decimal \<Rightarrow> time \<Rightarrow> Quote list \<Rightarrow> Quote list" where
  "filtered ins market book inventory now qs =
     (case FilterQuotes ins market book inventory qs now of Inl _ \<Rightarrow> [] | Inr r \<Rightarrow> r)"

interpretation risk_filter: quote_stage "filtered ins market book inventory now"
  for ins market book inventory now
  by unfold_locales (auto simp: filtered_def FilterQuotes_Inr subseq_filter_left split: sum.splits)


section \<open>The balance budget\<close>

lemma quote_sums_simps [simp]:
  "sells_total [] = 0" "buys_total [] = 0"
  "sells_total (q # qs) = (if q_Side q = Sell then q_Quantity q + sells_total qs else sells_total qs)"
  "buys_total (q # qs) = (if q_Side q = Buy then notional q + buys_total qs else buys_total qs)"
  by (simp_all add: sells_total_def buys_total_def)

lemma required_eq: "required qs (b, c) = (b + sells_total qs, c + buys_total qs)"
  by (induction qs arbitrary: b c) (auto simp: notional_def)

lemma selectQuotes_subseq: "subseq (fst (selectQuotes B Q qs s)) qs"
  by (induction B Q qs s rule: selectQuotes.induct)
    (auto simp: Let_def split: Side.splits prod.splits if_splits)

lemma selectQuotes_used:
  "sel_usedBase (snd (selectQuotes B Q qs s)) = sel_usedBase s + sells_total (fst (selectQuotes B Q qs s))"
  "sel_usedQuote (snd (selectQuotes B Q qs s)) = sel_usedQuote s + buys_total (fst (selectQuotes B Q qs s))"
  by (induction qs arbitrary: s)
    (simp_all add: Let_def case_prod_unfold notional_def split: Side.split)

lemma selectQuotes_within:
  "sel_usedBase s \<le> B \<Longrightarrow> sel_usedBase (snd (selectQuotes B Q qs s)) \<le> B"
  "sel_usedQuote s \<le> Q \<Longrightarrow> sel_usedQuote (snd (selectQuotes B Q qs s)) \<le> Q"
  by (induction qs arbitrary: s)
    (simp_all add: Let_def case_prod_unfold not_less split: Side.split)

lemma selectQuotes_length:
  "length (filter P (fst (selectQuotes B Q qs s))) \<le> length (filter P qs)"
  by (rule list_emb_length [OF subseq_filter [OF selectQuotes_subseq]])

lemma selectQuotes_baseLimited:
  "sel_baseLimited (snd (selectQuotes B Q qs s)) \<longleftrightarrow> sel_baseLimited s \<or>
     length (filter (\<lambda>q. q_Side q = Sell) (fst (selectQuotes B Q qs s))) < length (filter (\<lambda>q. q_Side q = Sell) qs)"
proof (induction qs arbitrary: s)
  case (Cons q qs)
  note len = selectQuotes_length [of "\<lambda>q. q_Side q = Sell" B Q qs]
  show ?case
  proof (cases "q_Side q")
    case Sell
    show ?thesis
    proof (cases "sel_usedBase s + q_Quantity q > B")
      case True
      with Sell Cons.IH [of "s\<lparr>sel_baseLimited := True\<rparr>"] len [of "s\<lparr>sel_baseLimited := True\<rparr>"]
      show ?thesis by (simp add: Let_def le_imp_less_Suc)
    next
      case False
      with Sell Cons.IH [of "s\<lparr>sel_usedBase := sel_usedBase s + q_Quantity q\<rparr>"] show ?thesis
        by (simp add: Let_def case_prod_unfold)
    qed
  next
    case Buy
    with Cons.IH show ?thesis by (simp add: Let_def case_prod_unfold)
  next
    case (OtherSide x)
    with Cons.IH show ?thesis by simp
  qed
qed simp

lemma selectQuotes_quoteLimited:
  "sel_quoteLimited (snd (selectQuotes B Q qs s)) \<longleftrightarrow> sel_quoteLimited s \<or>
     length (filter (\<lambda>q. q_Side q = Buy) (fst (selectQuotes B Q qs s))) < length (filter (\<lambda>q. q_Side q = Buy) qs)"
proof (induction qs arbitrary: s)
  case (Cons q qs)
  note len = selectQuotes_length [of "\<lambda>q. q_Side q = Buy" B Q qs]
  show ?case
  proof (cases "q_Side q")
    case Buy
    show ?thesis
    proof (cases "sel_usedQuote s + q_Price q * q_Quantity q > Q")
      case True
      with Buy Cons.IH [of "s\<lparr>sel_quoteLimited := True\<rparr>"] len [of "s\<lparr>sel_quoteLimited := True\<rparr>"]
      show ?thesis by (simp add: Let_def le_imp_less_Suc)
    next
      case False
      with Buy Cons.IH [of "s\<lparr>sel_usedQuote := sel_usedQuote s + q_Price q * q_Quantity q\<rparr>"] show ?thesis
        by (simp add: Let_def case_prod_unfold)
    qed
  next
    case Sell
    with Cons.IH show ?thesis by (simp add: Let_def case_prod_unfold)
  next
    case (OtherSide x)
    with Cons.IH show ?thesis by simp
  qed
qed simp

lemma selectQuotes_all:
  assumes "list_all (\<lambda>q. 0 \<le> q_Quantity q \<and> 0 \<le> notional q) qs"
    and "sel_usedBase s + sells_total qs \<le> B" "sel_usedQuote s + buys_total qs \<le> Q"
  shows "fst (selectQuotes B Q qs s) = filter (\<lambda>q. q_Side q = Buy \<or> q_Side q = Sell) qs"
  using assms
proof (induction qs arbitrary: s)
  case (Cons q qs)
  have nn: "0 \<le> sells_total qs" "0 \<le> buys_total qs"
    using Cons.prems(1) by (auto simp: sells_total_def buys_total_def list_all_iff intro!: sum_list_nonneg)
  show ?case
  proof (cases "q_Side q")
    case Buy
    with Cons.prems nn have "sel_usedQuote s + q_Price q * q_Quantity q \<le> Q" by (simp add: notional_def)
    moreover have "fst (selectQuotes B Q qs (s\<lparr>sel_usedQuote := sel_usedQuote s + q_Price q * q_Quantity q\<rparr>))
        = filter (\<lambda>q. q_Side q = Buy \<or> q_Side q = Sell) qs"
      using Cons.prems Buy by (intro Cons.IH) (auto simp: notional_def)
    ultimately show ?thesis using Buy by (auto simp: Let_def split: prod.splits)
  next
    case Sell
    with Cons.prems nn have "sel_usedBase s + q_Quantity q \<le> B" by simp
    moreover have "fst (selectQuotes B Q qs (s\<lparr>sel_usedBase := sel_usedBase s + q_Quantity q\<rparr>))
        = filter (\<lambda>q. q_Side q = Buy \<or> q_Side q = Sell) qs"
      using Cons.prems Sell by (intro Cons.IH) auto
    ultimately show ?thesis using Sell by (auto simp: Let_def split: prod.splits)
  next
    case (OtherSide x)
    with Cons show ?thesis by simp
  qed
qed simp

text \<open>The funds in plain arithmetic: what an order still holds, the share the reserve leaves, the cap.\<close>

definition open_quantity :: "Order \<Rightarrow> Decimal" where
  "open_quantity ord = max 0 (o_Quantity ord - o_ExecutedQty ord)"

definition reserved_share :: "int \<Rightarrow> Decimal" where
  "reserved_share r = 1 - of_int (min 10000 (max 0 r)) / 10000"

definition capped :: "Decimal \<Rightarrow> Decimal \<Rightarrow> Decimal" where
  "capped cap x = (if 0 < cap then min x cap else x)"

lemma committed_eq:
  "committed ords (b, c) = (b + (\<Sum>x\<leftarrow>ords. if o_Side x = Sell then open_quantity x else 0),
     c + (\<Sum>x\<leftarrow>ords. if o_Side x = Buy then o_Price x * open_quantity x else 0))"
  by (induction ords arbitrary: b c) (auto simp: Let_def open_quantity_def max_def)

lemma budgetOf_eq: "budgetOf free commit (clampReserve r) cap = capped cap ((max 0 free + commit) * reserved_share r)"
proof -
  have "clampReserve r = min 10000 (max 0 r)" by (auto simp: clampReserve_def Let_def)
  then have "FromInt64 (10000 - clampReserve r) / TenThousand = reserved_share r"
    by (simp add: reserved_share_def diff_divide_distrib)
  moreover have "(if Sign free < 0 then FromInt64 0 else free) = max 0 free" by auto
  ultimately show ?thesis unfolding budgetOf_def Let_def capped_def by simp
qed

lemma committed_nonneg:
  assumes "list_all (\<lambda>x. 0 \<le> o_Price x) ords" "0 \<le> b" "0 \<le> c"
  shows "0 \<le> fst (committed ords (b, c)) \<and> 0 \<le> snd (committed ords (b, c))"
  using assms by (induction ords arbitrary: b c) (auto simp: Let_def not_le)

lemma clampReserve_range: "0 \<le> clampReserve r" "clampReserve r \<le> 10000"
  by (auto simp: clampReserve_def Let_def)

lemma budgetOf_bounds:
  assumes "0 \<le> commit"
  shows "0 \<le> budgetOf free commit (clampReserve r) cap"
    and "budgetOf free commit (clampReserve r) cap \<le> max 0 free + commit"
    and "0 < cap \<Longrightarrow> budgetOf free commit (clampReserve r) cap \<le> cap"
proof -
  let ?f = "of_int (10000 - clampReserve r) / 10000 :: rat"
  have f: "0 \<le> ?f" "?f \<le> 1" using clampReserve_range [of r] by (auto simp: divide_le_eq_1)
  let ?x = "(if free < 0 then 0 else free) + commit"
  have x: "0 \<le> ?x" "?x = max 0 free + commit" using assms by auto
  have xf: "0 \<le> ?x * ?f" "?x * ?f \<le> ?x"
    by (rule mult_nonneg_nonneg [OF x(1) f(1)], rule mult_left_le [OF f(2) x(1)])
  have b: "budgetOf free commit (clampReserve r) cap = (if 0 < cap then min (?x * ?f) cap else ?x * ?f)"
    by (auto simp: budgetOf_def Let_def)
  show "0 \<le> budgetOf free commit (clampReserve r) cap" unfolding b using xf by auto
  show "budgetOf free commit (clampReserve r) cap \<le> max 0 free + commit" unfolding b using xf x(2) by auto
  show "0 < cap \<Longrightarrow> budgetOf free commit (clampReserve r) cap \<le> cap" unfolding b by auto
qed

text \<open>The budgets and the selection, named.\<close>

lemma ApplyBalanceBudget_unfold:
  fixes managed bf qf r mb mq qs
  defines "bc \<equiv> fst (committed managed (0, 0))" and "qc \<equiv> snd (committed managed (0, 0))"
  defines "B \<equiv> budgetOf bf bc (clampReserve r) mb" and "Q \<equiv> budgetOf qf qc (clampReserve r) mq"
  defines "s0 \<equiv> \<lparr>sel_usedBase = 0, sel_usedQuote = 0, sel_baseLimited = False, sel_quoteLimited = False\<rparr>"
  shows "fst (ApplyBalanceBudget qs managed bf qf r mb mq) = fst (selectQuotes B Q qs s0)"
    and "qb_BaseBudget (snd (ApplyBalanceBudget qs managed bf qf r mb mq)) = B"
    and "qb_QuoteBudget (snd (ApplyBalanceBudget qs managed bf qf r mb mq)) = Q"
    and "qb_EligibleOrders (snd (ApplyBalanceBudget qs managed bf qf r mb mq)) = length (fst (selectQuotes B Q qs s0))"
    and "qb_BaseRequired (snd (ApplyBalanceBudget qs managed bf qf r mb mq)) = sells_total qs"
    and "qb_QuoteRequired (snd (ApplyBalanceBudget qs managed bf qf r mb mq)) = buys_total qs"
    and "qb_BaseLimited (snd (ApplyBalanceBudget qs managed bf qf r mb mq)) = sel_baseLimited (snd (selectQuotes B Q qs s0))"
    and "qb_QuoteLimited (snd (ApplyBalanceBudget qs managed bf qf r mb mq)) = sel_quoteLimited (snd (selectQuotes B Q qs s0))"
  unfolding ApplyBalanceBudget_def assms
  by (simp_all add: Let_def case_prod_unfold required_eq)

interpretation budget_stage: quote_stage "\<lambda>qs. fst (ApplyBalanceBudget qs managed bf qf r mb mq)"
  for managed bf qf r mb mq
  by unfold_locales (simp add: ApplyBalanceBudget_unfold(1) selectQuotes_subseq)


section \<open>The order limit\<close>

lemma ApplyOrderLimit_prefix: "prefix (ApplyOrderLimit qs cur man mx) qs"
  by (simp add: ApplyOrderLimit_def Let_def take_is_prefix)

interpretation limit_stage: quote_stage "\<lambda>qs. ApplyOrderLimit qs cur man mx" for cur man mx
  using ApplyOrderLimit_prefix by unfold_locales (rule prefix_imp_subseq)

text \<open>The strategy's lists alternate a buy and a sell of the same level.\<close>

fun paired :: "Quote list \<Rightarrow> bool" where
  "paired [] = True"
| "paired [q] = False"
| "paired (b # a # qs) = (q_Side b = Buy \<and> q_Side a = Sell \<and> paired qs)"

lemma paired_take_even: "paired qs \<Longrightarrow> even n \<Longrightarrow> n \<le> length qs \<Longrightarrow> paired (take n qs)"
proof (induction qs arbitrary: n rule: paired.induct)
  case (3 b a qs)
  show ?case
  proof (cases "n = 0")
    case False
    with 3(3) obtain k where n: "n = Suc (Suc k)" by (metis One_nat_def Suc_pred even_Suc neq0_conv odd_pos)
    with 3 show ?thesis by simp
  qed simp
qed auto

lemma even_cut:
  fixes av :: int
  assumes "0 \<le> av"
  shows "0 \<le> (if av mod 2 \<noteq> 0 then av - 1 else av)" "(if av mod 2 \<noteq> 0 then av - 1 else av) \<le> av"
    "even (if av mod 2 \<noteq> 0 then av - 1 else av)"
proof -
  have "av mod 2 \<noteq> 0 \<Longrightarrow> 1 \<le> av" using assms by (cases "av = 0") auto
  then show "0 \<le> (if av mod 2 \<noteq> 0 then av - 1 else av)" using assms by auto
qed (auto simp: even_iff_mod_2_eq_zero [symmetric])

lemma paired_balanced:
  "paired qs \<Longrightarrow> length (filter (\<lambda>q. q_Side q = Buy) qs) = length (filter (\<lambda>q. q_Side q = Sell) qs)"
  by (induction qs rule: paired.induct) auto



section \<open>Properties\<close>

text \<open>C16: the quote filter. It accepts exactly when the book is fresh, every quote is unexpired, on its
  own side of the book and within the exchange's limits, and what the inventory leaves is a non-empty
  list that does not cross itself; it then returns that list, in order. With a positive limit on the
  deviation, the inventory takes out the buys when the deviation from the target is at or above the
  limit, and the sells when it is at or below the negated limit.\<close>

theorem FilterQuotes_exact:
  "FilterQuotes ins market book inventory quotes now = Inr r \<longleftrightarrow>
     book_fresh book now \<and> list_all (quote_ok market book now) quotes \<and>
     r = filter (\<lambda>q. \<not> (0 < st_MaxBaseDeviation (in_Strategy ins) \<and>
           (st_MaxBaseDeviation (in_Strategy ins) \<le> inventory - st_TargetBase (in_Strategy ins) \<and> q_Side q = Buy \<or>
            inventory - st_TargetBase (in_Strategy ins) \<le> - st_MaxBaseDeviation (in_Strategy ins) \<and> q_Side q = Sell))) quotes \<and>
     no_self_cross r \<and> r \<noteq> []"
  by (simp add: FilterQuotes_Inr inventoryBlocks_iff)

theorem FilterQuotes_exact_witness:
  "FilterQuotes sample_instrument sample_market sample_book 100 sample_quotes sample_now
     = Inr [sample_quote Sell 0 (1003 / 500) 6, sample_quote Sell 1 (251 / 125) 6]"
proof -
  let ?r = "[sample_quote Sell 0 (1003 / 500) 6, sample_quote Sell 1 (251 / 125) 6]"
  have a: "book_fresh sample_book sample_now" by code_simp
  have b: "list_all (quote_ok sample_market sample_book sample_now) sample_quotes" by code_simp
  have c: "?r = filter (\<lambda>q. \<not> (0 < st_MaxBaseDeviation (in_Strategy sample_instrument) \<and>
       (st_MaxBaseDeviation (in_Strategy sample_instrument) \<le> 100 - st_TargetBase (in_Strategy sample_instrument) \<and> q_Side q = Buy \<or>
        100 - st_TargetBase (in_Strategy sample_instrument) \<le> - st_MaxBaseDeviation (in_Strategy sample_instrument) \<and> q_Side q = Sell)))
      sample_quotes" by code_simp
  have d: "no_self_cross ?r" by code_simp
  show ?thesis by (rule FilterQuotes_exact [THEN iffD2], intro conjI a b c d) simp
qed

text \<open>Beyond its inventory limit the filter never increases the exposure: at or above the
  allowed deviation no buy passes, at or below it no sell passes, and within it no quote is dropped.\<close>

theorem FilterQuotes_inventory:
  assumes "FilterQuotes ins market book inventory quotes now = Inr r" and "0 < st_MaxBaseDeviation (in_Strategy ins)"
  shows "(st_MaxBaseDeviation (in_Strategy ins) \<le> inventory - st_TargetBase (in_Strategy ins) \<longrightarrow>
      list_all (\<lambda>q. q_Side q \<noteq> Buy) r) \<and>
    (inventory - st_TargetBase (in_Strategy ins) \<le> - st_MaxBaseDeviation (in_Strategy ins) \<longrightarrow>
      list_all (\<lambda>q. q_Side q \<noteq> Sell) r) \<and>
    (\<bar>inventory - st_TargetBase (in_Strategy ins)\<bar> < st_MaxBaseDeviation (in_Strategy ins) \<longrightarrow> r = quotes)"
  using assms
  by (auto simp: FilterQuotes_Inr list_all_iff inventoryBlocks_def filter_id_conv)

lemma sample_filtered:
  "FilterQuotes sample_instrument sample_market sample_book 100 sample_quotes sample_now
     = Inr [sample_quote Sell 0 (1003 / 500) 6, sample_quote Sell 1 (251 / 125) 6]"
  by code_simp

theorem FilterQuotes_inventory_witness:
  "list_all (\<lambda>q. q_Side q \<noteq> Buy) [sample_quote Sell 0 (1003 / 500) 6, sample_quote Sell 1 (251 / 125) 6]"
  using FilterQuotes_inventory [OF sample_filtered] by (simp add: sample_defs)

text \<open>C17: the balance budget. The budget of the base asset is what is free of it, and at least zero, plus
  what the managed sells still hold of it, less the reserve in basis points (between 0 and 10000) and
  at most a positive configured commitment; the quote asset's is the same with what the managed buys
  hold. For orders without negative prices, the selected sells need at most the base budget and the
  selected buys at most the quote budget; the selection keeps the order of the target, and a side is
  reported limited exactly when one of its quotes was left out.\<close>

theorem ApplyBalanceBudget_within:
  assumes "list_all (\<lambda>x. 0 \<le> o_Price x) managed"
    and "ApplyBalanceBudget quotes managed baseFree quoteFree reserve maxBase maxQuote = (sel, b)"
  shows "sells_total sel \<le> qb_BaseBudget b \<and> buys_total sel \<le> qb_QuoteBudget b \<and>
    qb_BaseBudget b = capped maxBase ((max 0 baseFree + (\<Sum>x\<leftarrow>managed. if o_Side x = Sell then open_quantity x else 0)) *
      reserved_share reserve) \<and>
    qb_QuoteBudget b = capped maxQuote ((max 0 quoteFree + (\<Sum>x\<leftarrow>managed. if o_Side x = Buy then o_Price x * open_quantity x else 0)) *
      reserved_share reserve) \<and>
    subseq sel quotes \<and> qb_EligibleOrders b = length sel \<and>
    (qb_BaseLimited b \<longleftrightarrow> length (filter (\<lambda>q. q_Side q = Sell) sel) < length (filter (\<lambda>q. q_Side q = Sell) quotes)) \<and>
    (qb_QuoteLimited b \<longleftrightarrow> length (filter (\<lambda>q. q_Side q = Buy) sel) < length (filter (\<lambda>q. q_Side q = Buy) quotes))"
proof -
  define B where "B = budgetOf baseFree (fst (committed managed (0, 0))) (clampReserve reserve) maxBase"
  define Q where "Q = budgetOf quoteFree (snd (committed managed (0, 0))) (clampReserve reserve) maxQuote"
  define s0 where "s0 = \<lparr>sel_usedBase = 0, sel_usedQuote = 0 :: Decimal, sel_baseLimited = False, sel_quoteLimited = False\<rparr>"
  note u = ApplyBalanceBudget_unfold [where qs = quotes and managed = managed and bf = baseFree and qf = quoteFree
      and r = reserve and mb = maxBase and mq = maxQuote,
      folded B_def Q_def s0_def, unfolded assms(2) fst_conv snd_conv]
  have c: "0 \<le> fst (committed managed (0, 0))" "0 \<le> snd (committed managed (0, 0))"
    using committed_nonneg [OF assms(1), of 0 0] by auto
  note b = budgetOf_bounds [OF c(1), where free = baseFree and r = reserve and cap = maxBase, folded B_def]
    and q = budgetOf_bounds [OF c(2), where free = quoteFree and r = reserve and cap = maxQuote, folded Q_def]
  have w: "sells_total sel \<le> B" "buys_total sel \<le> Q"
    using selectQuotes_within [where s = s0 and B = B and Q = Q and qs = quotes] selectQuotes_used [of B Q quotes s0] b(1) q(1)
    by (simp_all add: u(1) s0_def)
  have eqs: "B = capped maxBase ((max 0 baseFree + (\<Sum>x\<leftarrow>managed. if o_Side x = Sell then open_quantity x else 0)) * reserved_share reserve)"
    "Q = capped maxQuote ((max 0 quoteFree + (\<Sum>x\<leftarrow>managed. if o_Side x = Buy then o_Price x * open_quantity x else 0)) *
      reserved_share reserve)"
    unfolding B_def Q_def budgetOf_eq committed_eq by simp_all
  show ?thesis
    unfolding u(2-8) eqs [symmetric] using w selectQuotes_subseq [of B Q quotes s0]
      selectQuotes_baseLimited [of B Q quotes s0] selectQuotes_quoteLimited [of B Q quotes s0]
    by (auto simp: u(1) s0_def)
qed

theorem ApplyBalanceBudget_within_witness:
  "\<exists>sel b. ApplyBalanceBudget sample_quotes [] 8 100 500 0 0 = (sel, b) \<and> length sel = 3 \<and>
     sells_total sel \<le> qb_BaseBudget b \<and> qb_BaseLimited b"
proof -
  obtain sel b where e: "ApplyBalanceBudget sample_quotes [] 8 100 500 0 0 = (sel, b)" by fastforce
  have l: "length (fst (ApplyBalanceBudget sample_quotes [] 8 100 500 0 0)) = 3 \<and>
     qb_BaseLimited (snd (ApplyBalanceBudget sample_quotes [] 8 100 500 0 0))" by code_simp
  from ApplyBalanceBudget_within [OF _ e] e l show ?thesis by auto
qed

text \<open>Nothing that fits is dropped: when the whole target fits both budgets, the selection is
  the target and no side is reported limited.\<close>

theorem ApplyBalanceBudget_complete:
  assumes "ApplyBalanceBudget quotes managed baseFree quoteFree reserve maxBase maxQuote = (sel, b)"
    and "list_all (\<lambda>q. 0 \<le> q_Quantity q \<and> 0 \<le> notional q \<and> (q_Side q = Buy \<or> q_Side q = Sell)) quotes"
    and "qb_BaseRequired b \<le> qb_BaseBudget b" "qb_QuoteRequired b \<le> qb_QuoteBudget b"
  shows "sel = quotes \<and> \<not> qb_BaseLimited b \<and> \<not> qb_QuoteLimited b"
proof -
  note u = ApplyBalanceBudget_unfold [where qs = quotes and managed = managed and bf = baseFree and qf = quoteFree
      and r = reserve and mb = maxBase and mq = maxQuote,
      unfolded assms(1) fst_conv snd_conv]
  have f: "filter (\<lambda>q. q_Side q = Buy \<or> q_Side q = Sell) quotes = quotes"
    using assms(2) by (simp add: filter_id_conv list_all_iff)
  have sel: "sel = quotes" unfolding u(1)
    by (subst selectQuotes_all) (use assms(2-4) u(2,3,5,6) f in \<open>auto simp: list_all_iff\<close>)
  with u(1,7,8) show ?thesis by (simp add: selectQuotes_baseLimited selectQuotes_quoteLimited)
qed

theorem ApplyBalanceBudget_complete_witness:
  "fst (ApplyBalanceBudget sample_quotes [] 100 100 500 0 0) = sample_quotes"
proof -
  obtain sel b where e: "ApplyBalanceBudget sample_quotes [] 100 100 500 0 0 = (sel, b)" by fastforce
  have "let b = snd (ApplyBalanceBudget sample_quotes [] 100 100 500 0 0)
        in qb_BaseRequired b \<le> qb_BaseBudget b \<and> qb_QuoteRequired b \<le> qb_QuoteBudget b" by code_simp
  moreover have "list_all (\<lambda>q. 0 \<le> q_Quantity q \<and> 0 \<le> notional q \<and> (q_Side q = Buy \<or> q_Side q = Sell)) sample_quotes"
    by code_simp
  ultimately show ?thesis using ApplyBalanceBudget_complete [OF e] by (simp add: e)
qed

text \<open>The order limit keeps a prefix of the target, so that the orders on the book never exceed
  the exchange's maximum, and cuts a ladder between levels: both sides keep the same number.\<close>

theorem ApplyOrderLimit_bound:
  assumes "0 < maxOpen" and "paired quotes"
  shows "prefix (ApplyOrderLimit quotes current managed maxOpen) quotes \<and>
    int (length (ApplyOrderLimit quotes current managed maxOpen)) \<le> max 0 (maxOpen - max 0 (current - managed)) \<and>
    paired (ApplyOrderLimit quotes current managed maxOpen) \<and>
    (int (length quotes) \<le> maxOpen - max 0 (current - managed) \<longrightarrow>
       ApplyOrderLimit quotes current managed maxOpen = quotes)"
proof -
  let ?av = "max 0 (maxOpen - max 0 (current - managed))"
  show ?thesis
  proof (cases "int (length quotes) \<le> ?av")
    case True
    with assms show ?thesis by (simp add: ApplyOrderLimit_def)
  next
    case False
    define av where "av = ?av"
    define e where "e = (if av mod 2 \<noteq> 0 then av - 1 else av)"
    have av: "0 \<le> av" "av < int (length quotes)" using False by (auto simp: av_def)
    have cut: "ApplyOrderLimit quotes current managed maxOpen = take (nat e) quotes"
      using False assms(1) go_rem_nonneg [OF av(1), of 2] unfolding ApplyOrderLimit_def Let_def e_def
      by (simp add: av_def [symmetric] not_le)
    note b = even_cut [OF av(1), folded e_def]
    have n: "nat e \<le> length quotes" "even (nat e)" "int (nat e) \<le> ?av"
      using av b by (auto simp: even_nat_iff av_def [symmetric])
    have "length (take (nat e) quotes) = nat e" using n(1) by simp
    moreover have "\<not> int (length quotes) \<le> maxOpen - max 0 (current - managed)" using False by auto
    ultimately show ?thesis using paired_take_even [OF assms(2) n(2,1)] n(3)
      unfolding cut by (simp only: take_is_prefix) simp
  qed
qed

theorem ApplyOrderLimit_bound_witness:
  "paired (ApplyOrderLimit sample_quotes 10 4 9) \<and> length (ApplyOrderLimit sample_quotes 10 4 9) = 2"
proof -
  have p: "paired sample_quotes" and l: "length (ApplyOrderLimit sample_quotes 10 4 9) = 2" by code_simp+
  from ApplyOrderLimit_bound [OF _ p, of 9 10 4] l show ?thesis by simp
qed

text \<open>C34: the market guard accepts exactly a positive reference with a book that is one-sided, or
  that is uncrossed with its mid within the allowed deviation of the reference and its width within
  the allowed spread; otherwise it returns an error and never panics.\<close>

theorem ValidateMarketReference_exact:
  "ValidateMarketReference ref book st \<noteq> Some Panic \<and>
   (ValidateMarketReference ref book st = None \<longleftrightarrow>
      0 < rp_Price ref \<and>
      (TwoSided book \<longrightarrow> b_BidPrice book < b_AskPrice book \<and>
        (0 < st_MaxVenueReferenceDeviationBPS st \<longrightarrow>
           \<bar>(b_BidPrice book + b_AskPrice book) / 2 - rp_Price ref\<bar> * 10000
             \<le> of_int (st_MaxVenueReferenceDeviationBPS st) * rp_Price ref) \<and>
        (0 < st_MaxVenueSpreadBPS st \<longrightarrow>
           (b_AskPrice book - b_BidPrice book) * 10000
             \<le> of_int (st_MaxVenueSpreadBPS st) * ((b_BidPrice book + b_AskPrice book) / 2))))"
proof (cases "0 < rp_Price ref \<and> TwoSided book")
  case True
  let ?mid = "(b_BidPrice book + b_AskPrice book) / 2"
  from True have p: "0 < rp_Price ref" "0 < ?mid" by (auto simp: book_simps)
  have dev: "deviationGuard st ?mid (rp_Price ref) \<noteq> Some Panic \<and>
    (deviationGuard st ?mid (rp_Price ref) = None \<longleftrightarrow> (0 < st_MaxVenueReferenceDeviationBPS st \<longrightarrow>
      \<bar>?mid - rp_Price ref\<bar> * 10000 \<le> of_int (st_MaxVenueReferenceDeviationBPS st) * rp_Price ref))"
    using p(1) by (simp add: deviationGuard_def Div_def Let_def pos_le_divide_eq pos_less_divide_eq not_less pos_divide_le_eq)
  have spr: "spreadGuard st ?mid book \<noteq> Some Panic \<and>
    (spreadGuard st ?mid book = None \<longleftrightarrow> (0 < st_MaxVenueSpreadBPS st \<longrightarrow>
      (b_AskPrice book - b_BidPrice book) * 10000 \<le> of_int (st_MaxVenueSpreadBPS st) * ?mid))"
    using p(2) by (simp add: spreadGuard_def Div_def Let_def pos_le_divide_eq pos_less_divide_eq not_less pos_divide_le_eq)
  have two: "Div (b_BidPrice book + b_AskPrice book) (FromInt64 2) = Some ?mid" by (simp add: Div_def)
  show ?thesis unfolding ValidateMarketReference_def two
    using True dev spr by (cases "deviationGuard st ?mid (rp_Price ref)") (auto simp: not_le)
next
  case False
  then show ?thesis by (auto simp: ValidateMarketReference_def)
qed

theorem ValidateMarketReference_exact_witness:
  "ValidateMarketReference sample_reference sample_book sample_strategy = None \<and>
   ValidateMarketReference (sample_reference\<lparr>rp_Price := 3\<rparr>) sample_book sample_strategy \<noteq> None"
  using ValidateMarketReference_exact [of sample_reference sample_book sample_strategy]
    ValidateMarketReference_exact [of "sample_reference\<lparr>rp_Price := 3\<rparr>" sample_book sample_strategy]
  by (simp add: sample_defs book_simps)

end
