(* ===== verification/Strategy.thy ===== *)
theory Strategy
  imports Risk Samples
begin

text \<open>
  \<^verbatim>\<open>internal/strategy/quote.go\<close>: the ladder of post-only quotes around the reference price. The
  definitions follow the source function by function; a panic of a decimal operation is the
  failure \<open>Panic\<close>. \<^verbatim>\<open>GenerateAt\<close> reads the clock once more for the validity of a reference
  without an expiry; that reading is the parameter \<open>clock\<close>.
\<close>

section \<open>Definitions\<close>

datatype StrategyError =
    ReferenceNotPositive | BookCrossed | QuoteRoundedToZero | QuotesCross
  | LegacySizeZero | RangeIncompatible Decimal Decimal Decimal Decimal | RangeUnsatisfiable Decimal Decimal Decimal Decimal
  | QuantityZero | NotionalOutsideRange Decimal Decimal Decimal
  | AtLevel Side int StrategyError

definition fnv_offset :: "64 word" where "fnv_offset = 14695981039346656037"
definition fnv_prime :: "64 word" where "fnv_prime = 1099511628211"

text \<open>\<^verbatim>\<open>fnv.New64a\<close> over the bytes written to it.\<close>

definition fnv64a :: "string \<Rightarrow> 64 word" where
  "fnv64a s = foldl (\<lambda>h c. (h XOR of_nat (of_char c)) * fnv_prime) fnv_offset s"

definition refreshGeneration :: "StrategyConfig \<Rightarrow> Side \<Rightarrow> int \<Rightarrow> time \<Rightarrow> int" where
  "refreshGeneration st side level now =
    (if st_QuoteRefreshSeconds st \<le> 0 \<or> IsZeroTime now then 0
     else let bestLevels = EffectiveBestLevels st in
       if level < bestLevels then go_quo (unix now) (EffectiveBestLevelRefreshSeconds st)
       else let deepLevels = st_Levels st - bestLevels in
         if deepLevels \<le> 0 then go_quo (unix now) (EffectiveBestLevelRefreshSeconds st)
         else
           let count = go_quo (int64 (deepLevels * EffectiveQuoteRefreshRatioBPS st + 9999)) 10000;
               refreshCount = (if count < 1 then 1 else count);
               groups = go_quo (deepLevels + refreshCount - 1) refreshCount;
               index0 = level - bestLevels;
               deepIndex = (if side = Sell \<and> deepLevels > 1
                            then go_rem (index0 + go_quo deepLevels 2) deepLevels else index0);
               phase = go_quo deepIndex refreshCount;
               window = go_quo (unix now) (EffectiveQuoteRefreshSeconds st)
           in if window < phase then 0 else go_quo (window - phase) groups + 1)"

definition jitterSeed :: "string \<Rightarrow> string \<Rightarrow> string \<Rightarrow> Side \<Rightarrow> int \<Rightarrow> int \<Rightarrow> string" where
  "jitterSeed instrumentID venueName symbol side level generation =
     instrumentID @ ''|'' @ venueName @ ''|'' @ symbol @ ''|'' @ side_text side @ ''|'' @
     itoa level @ ''|'' @ itoa generation @ ''|jitter''"

definition stableJitterTicks :: "string \<Rightarrow> string \<Rightarrow> string \<Rightarrow> Side \<Rightarrow> int \<Rightarrow> int \<Rightarrow> int \<Rightarrow> int" where
  "stableJitterTicks instrumentID venueName symbol side level generation maxTicks =
    (if generation = 0 \<or> maxTicks \<le> 0 then 0
     else let width = word_of_int (maxTicks * 2 + 1) :: 64 word;
              h = fnv64a (jitterSeed instrumentID venueName symbol side level generation)
          in uint (h mod width) - maxTicks)"

definition applyPriceJitter :: "Decimal \<Rightarrow> Decimal \<Rightarrow> int \<Rightarrow> Decimal" where
  "applyPriceJitter price tick ticks = (if ticks = 0 then price else price + tick * FromInt64 ticks)"

function jitterLoop :: "Decimal \<Rightarrow> Decimal \<Rightarrow> Decimal \<Rightarrow> int \<Rightarrow> int" where
  "jitterLoop price tick maximumMove n =
    (if n > 0
     then (let move = tick * FromInt64 n
           in if Cmp move maximumMove \<le> 0 \<and> Cmp move price < 0 then n
              else jitterLoop price tick maximumMove (n - 1))
     else n)"
  by pat_completeness auto
termination
  by (relation "measure (\<lambda>(_, _, _, n). nat n)") auto

declare jitterLoop.simps [simp del]

definition boundedJitterTicks :: "Decimal \<Rightarrow> Decimal \<Rightarrow> int \<Rightarrow> int \<Rightarrow> int" where
  "boundedJitterTicks price tick configuredTicks repriceThresholdBPS =
    (if configuredTicks \<le> 0 \<or> repriceThresholdBPS \<le> 0 \<or> \<not> IsPositive price \<or> \<not> IsPositive tick then 0
     else let maximumMove = price * FromInt64 repriceThresholdBPS / TenThousand
          in jitterLoop price tick maximumMove configuredTicks)"

definition stablePriceAnchor :: "Decimal \<Rightarrow> Decimal \<Rightarrow> int \<Rightarrow> Decimal option" where
  "stablePriceAnchor price tick repriceThresholdBPS =
    (if repriceThresholdBPS \<le> 0 then Some price
     else Option.bind (QuantizeUp (price * FromInt64 repriceThresholdBPS / TenThousand) tick) (\<lambda>w.
          let width = (if \<not> IsPositive w then tick else w)
          in Option.bind (QuantizeDown price width) (\<lambda>anchor.
             Some (if \<not> IsPositive anchor then price else anchor))))"

definition applyInventorySkew :: "Decimal \<Rightarrow> StrategyConfig \<Rightarrow> Decimal \<Rightarrow> Decimal option" where
  "applyInventorySkew fair cfg inventory =
    (if Sign (st_MaxBaseDeviation cfg) \<le> 0 \<or> st_InventorySkewBPS cfg \<le> 0 then Some fair
     else Option.bind (Div (inventory - st_TargetBase cfg) (st_MaxBaseDeviation cfg)) (\<lambda>raw.
          let capped = (if Cmp raw One > 0 then One else raw);
              deviation = (if Cmp capped (FromInt64 (-1)) < 0 then FromInt64 (-1) else capped);
              shift = deviation * FromInt64 (st_InventorySkewBPS cfg) / TenThousand
          in Some (fair * (One - shift))))"

definition notionalSeed :: "string \<Rightarrow> string \<Rightarrow> string \<Rightarrow> Side \<Rightarrow> int \<Rightarrow> Decimal \<Rightarrow> Decimal \<Rightarrow> int \<Rightarrow> string" where
  "notionalSeed instrumentID venueName symbol side level minimum maximum generation =
     instrumentID @ ''|'' @ venueName @ ''|'' @ symbol @ ''|'' @ side_text side @ ''|'' @ itoa level @
     ''|'' @ DecString minimum @ ''|'' @ DecString maximum @ ''|'' @ itoa generation"

definition stableOrderNotional :: "string \<Rightarrow> string \<Rightarrow> string \<Rightarrow> Side \<Rightarrow> int \<Rightarrow> Decimal \<Rightarrow> Decimal \<Rightarrow> int \<Rightarrow> Decimal" where
  "stableOrderNotional instrumentID venueName symbol side level minimum maximum generation =
    (if Cmp minimum maximum = 0 then minimum
     else let buckets = 1000000 :: int;
              h = fnv64a (notionalSeed instrumentID venueName symbol side level minimum maximum generation);
              fraction = FromInt64 (uint (h mod word_of_int (buckets - 1)) + 1) / FromInt64 buckets
          in minimum + (maximum - minimum) * fraction)"

text \<open>\<^verbatim>\<open>quoteQuantity\<close>: the effective notional range, the quantity range it allows at this price, and
  the quantity.\<close>

definition effectiveMinimum :: "StrategyConfig \<Rightarrow> VenueMarketConfig \<Rightarrow> Decimal" where
  "effectiveMinimum st market = DecMax (st_MinOrderNotional st) (m_MinNotional market)"

definition effectiveMaximum :: "StrategyConfig \<Rightarrow> VenueMarketConfig \<Rightarrow> Decimal" where
  "effectiveMaximum st market =
    (if IsPositive (m_MaxNotional market) then DecMin (st_MaxOrderNotional st) (m_MaxNotional market)
     else st_MaxOrderNotional st)"

definition minimumQuantity :: "VenueMarketConfig \<Rightarrow> Decimal \<Rightarrow> Decimal \<Rightarrow> Decimal option" where
  "minimumQuantity market minimum price =
    Option.bind (Div minimum price) (\<lambda>d. Option.bind (QuantizeUp d (m_QuantityStep market)) (\<lambda>q.
      if IsPositive (m_MinQuantity market)
      then Option.bind (QuantizeUp (m_MinQuantity market) (m_QuantityStep market)) (\<lambda>mq. Some (DecMax q mq))
      else Some q))"

definition maximumQuantity :: "VenueMarketConfig \<Rightarrow> Decimal \<Rightarrow> Decimal \<Rightarrow> Decimal option" where
  "maximumQuantity market maximum price =
    Option.bind (Div maximum price) (\<lambda>d. Option.bind (QuantizeDown d (m_QuantityStep market)) (\<lambda>q.
      if IsPositive (m_MaxQuantity market)
      then Option.bind (QuantizeDown (m_MaxQuantity market) (m_QuantityStep market)) (\<lambda>mq. Some (DecMin q mq))
      else Some q))"

definition quoteQuantity :: "InstrumentConfig \<Rightarrow> string \<Rightarrow> VenueMarketConfig \<Rightarrow> Side \<Rightarrow> int \<Rightarrow> Decimal \<Rightarrow> int
    \<Rightarrow> (StrategyError, Decimal) result" where
  "quoteQuantity ins venueName market side level price generation =
    (let st = in_Strategy ins; step = m_QuantityStep market in
     if \<not> UsesOrderNotionalRange st
     then bindR (must (QuantizeDown (st_OrderSize st) step)) (\<lambda>qty.
            if \<not> IsPositive qty then Inl (Fail LegacySizeZero) else Inr qty)
     else
       let minimum = effectiveMinimum st market; maximum = effectiveMaximum st market in
       if Cmp maximum minimum < 0 then Inl (Fail (RangeIncompatible (st_MinOrderNotional st) (st_MaxOrderNotional st) (m_MinNotional market) (m_MaxNotional market)))
       else bindR (must (minimumQuantity market minimum price)) (\<lambda>minimumQty.
            bindR (must (maximumQuantity market maximum price)) (\<lambda>maximumQty.
            if \<not> IsPositive maximumQty \<or> Cmp minimumQty maximumQty > 0 then Inl (Fail (RangeUnsatisfiable minimum maximum step price))
            else
              let target = stableOrderNotional (in_ID ins) venueName (m_Symbol market) side level
                             minimum maximum generation
              in bindR (must (stablePriceAnchor price (m_PriceTick market) (st_RepriceThresholdBPS st))) (\<lambda>anchor.
                 bindR (must (Div target anchor)) (\<lambda>d.
                 bindR (must (QuantizeDown d step)) (\<lambda>quantity0.
                 let quantity1 = (if Cmp quantity0 minimumQty < 0 then minimumQty else quantity0);
                     quantity = (if Cmp quantity1 maximumQty > 0 then maximumQty else quantity1);
                     actual = price * quantity
                 in if \<not> IsPositive quantity then Inl (Fail QuantityZero)
                    else if Cmp actual minimum < 0 \<or> Cmp actual maximum > 0
                    then Inl (Fail (NotionalOutsideRange actual minimum maximum))
                    else Inr quantity))))))"

text \<open>The loop body of \<^verbatim>\<open>GenerateAt\<close>: raw prices, jitter, the post-only clamps, the ladder clamps, the
  checks and the two quotes.\<close>

definition rawPrices :: "StrategyConfig \<Rightarrow> Decimal \<Rightarrow> Decimal \<Rightarrow> int \<Rightarrow> (StrategyError, Decimal \<times> Decimal) result" where
  "rawPrices st tick mid level =
    (let spreadBPS = int64 (st_HalfSpreadBPS st + level * st_LevelSpacingBPS st);
         spread = FromInt64 spreadBPS / TenThousand
     in bindR (must (QuantizeDown (mid * (One - spread)) tick)) (\<lambda>bid.
        bindR (must (QuantizeUp (mid * (One + spread)) tick)) (\<lambda>ask. Inr (bid, ask))))"

definition jittered :: "InstrumentConfig \<Rightarrow> string \<Rightarrow> VenueMarketConfig \<Rightarrow> Side \<Rightarrow> int \<Rightarrow> int \<Rightarrow> Decimal \<Rightarrow> Decimal" where
  "jittered ins venueName market side level generation price =
    (let st = in_Strategy ins; tick = m_PriceTick market;
         limit = boundedJitterTicks price tick (EffectivePriceJitterTicks st) (st_RepriceThresholdBPS st)
     in applyPriceJitter price tick
          (stableJitterTicks (in_ID ins) venueName (m_Symbol market) side level generation limit))"

definition clampBid :: "Decimal \<Rightarrow> Book \<Rightarrow> Decimal \<Rightarrow> (StrategyError, Decimal) result" where
  "clampBid tick book bid =
    (if HasAsk book
     then (let maxBid = b_AskPrice book - tick
           in if Cmp bid maxBid > 0 then must (QuantizeDown maxBid tick) else Inr bid)
     else Inr bid)"

definition clampAsk :: "Decimal \<Rightarrow> Book \<Rightarrow> Decimal \<Rightarrow> (StrategyError, Decimal) result" where
  "clampAsk tick book ask =
    (if HasBid book
     then (let minAsk = b_BidPrice book + tick
           in if Cmp ask minAsk < 0 then must (QuantizeUp minAsk tick) else Inr ask)
     else Inr ask)"

definition ladderBid :: "Decimal \<Rightarrow> int \<Rightarrow> Decimal \<Rightarrow> Decimal \<Rightarrow> (StrategyError, Decimal) result" where
  "ladderBid tick level previousBid bid =
    (if level > 0 \<and> Cmp bid previousBid \<ge> 0 then must (QuantizeDown (previousBid - tick) tick) else Inr bid)"

definition ladderAsk :: "Decimal \<Rightarrow> int \<Rightarrow> Decimal \<Rightarrow> Decimal \<Rightarrow> (StrategyError, Decimal) result" where
  "ladderAsk tick level previousAsk ask =
    (if level > 0 \<and> Cmp ask previousAsk \<le> 0 then must (QuantizeUp (previousAsk + tick) tick) else Inr ask)"

definition levelPrices :: "InstrumentConfig \<Rightarrow> string \<Rightarrow> VenueMarketConfig \<Rightarrow> Book \<Rightarrow> Decimal \<Rightarrow> time \<Rightarrow> int
    \<Rightarrow> Decimal \<times> Decimal \<Rightarrow> (StrategyError, Decimal \<times> Decimal) result" where
  "levelPrices ins venueName market book mid now level previous =
    (let st = in_Strategy ins; tick = m_PriceTick market;
         bidGeneration = refreshGeneration st Buy level now;
         askGeneration = refreshGeneration st Sell level now
     in bindR (rawPrices st tick mid level) (\<lambda>(bid0, ask0).
        bindR (clampBid tick book (jittered ins venueName market Buy level bidGeneration bid0)) (\<lambda>bid1.
        bindR (clampAsk tick book (jittered ins venueName market Sell level askGeneration ask0)) (\<lambda>ask1.
        bindR (ladderBid tick level (fst previous) bid1) (\<lambda>bid.
        bindR (ladderAsk tick level (snd previous) ask1) (\<lambda>ask.
        if \<not> IsPositive bid \<or> \<not> IsPositive ask then Inl (Fail QuoteRoundedToZero)
        else if Cmp bid ask \<ge> 0 then Inl (Fail QuotesCross)
        else Inr (bid, ask)))))))"

definition wrapLevel :: "Side \<Rightarrow> int \<Rightarrow> (StrategyError, 'a) result \<Rightarrow> (StrategyError, 'a) result" where
  "wrapLevel side level r =
    (case r of Inl (Fail e) \<Rightarrow> Inl (Fail (AtLevel side (level + 1) e)) | Inl Panic \<Rightarrow> Inl Panic | Inr x \<Rightarrow> Inr x)"

definition levelQuotes :: "InstrumentConfig \<Rightarrow> string \<Rightarrow> VenueMarketConfig \<Rightarrow> ReferencePrice \<Rightarrow> Book \<Rightarrow> Decimal
    \<Rightarrow> time \<Rightarrow> time \<Rightarrow> int \<Rightarrow> Decimal \<times> Decimal \<Rightarrow> (StrategyError, Quote \<times> Quote) result" where
  "levelQuotes ins venueName market ref book mid now clock level previous =
    (let st = in_Strategy ins in
     bindR (levelPrices ins venueName market book mid now level previous) (\<lambda>(bid, ask).
     bindR (wrapLevel Buy level
              (quoteQuantity ins venueName market Buy level bid (refreshGeneration st Buy level now))) (\<lambda>bidQty.
     bindR (wrapLevel Sell level
              (quoteQuantity ins venueName market Sell level ask (refreshGeneration st Sell level now))) (\<lambda>askQty.
     let validUntil = (if IsZeroTime (rp_ValidUntil ref) then clock + 10 * second else rp_ValidUntil ref);
         quote = (\<lambda>side price qty.
           \<lparr>q_InstrumentID = in_ID ins, q_Venue = venueName, q_Symbol = m_Symbol market, q_Side = side,
            q_Level = level, q_Price = price, q_Quantity = qty, q_Reference = rp_Price ref,
            q_ValidUntil = validUntil\<rparr>)
     in Inr (quote Buy bid bidQty, quote Sell ask askQty)))))"

fun levelLoop :: "InstrumentConfig \<Rightarrow> string \<Rightarrow> VenueMarketConfig \<Rightarrow> ReferencePrice \<Rightarrow> Book \<Rightarrow> Decimal
    \<Rightarrow> time \<Rightarrow> time \<Rightarrow> int list \<Rightarrow> Decimal \<times> Decimal \<Rightarrow> (StrategyError, Quote list) result" where
  "levelLoop ins venueName market ref book mid now clock [] previous = Inr []"
| "levelLoop ins venueName market ref book mid now clock (level # levels) previous =
     bindR (levelQuotes ins venueName market ref book mid now clock level previous) (\<lambda>(b, a).
     bindR (levelLoop ins venueName market ref book mid now clock levels (q_Price b, q_Price a)) (\<lambda>rest.
     Inr (b # a # rest)))"

definition GenerateAt :: "InstrumentConfig \<Rightarrow> string \<Rightarrow> VenueMarketConfig \<Rightarrow> ReferencePrice \<Rightarrow> Book \<Rightarrow> Decimal
    \<Rightarrow> time \<Rightarrow> time \<Rightarrow> (StrategyError, Quote list) result" where
  "GenerateAt ins venueName market ref book inventory now clock =
    (if \<not> IsPositive (rp_Price ref) then Inl (Fail ReferenceNotPositive)
     else if TwoSided book \<and> Cmp (b_BidPrice book) (b_AskPrice book) \<ge> 0 then Inl (Fail BookCrossed)
     else bindR (must (applyInventorySkew (rp_Price ref) (in_Strategy ins) inventory)) (\<lambda>mid.
       if st_Levels (in_Strategy ins) < 0 then Inl Panic
       else levelLoop ins venueName market ref book mid now clock
              (map int [0..<nat (st_Levels (in_Strategy ins))]) (0, 0)))"

definition Generate :: "InstrumentConfig \<Rightarrow> string \<Rightarrow> VenueMarketConfig \<Rightarrow> ReferencePrice \<Rightarrow> Book \<Rightarrow> Decimal
    \<Rightarrow> time \<Rightarrow> (StrategyError, Quote list) result" where
  "Generate ins venueName market ref book inventory now =
     GenerateAt ins venueName market ref book inventory now now"


section \<open>Jitter and the anchor\<close>

lemma jitterLoop_spec:
  assumes "0 \<le> n"
  shows "0 \<le> jitterLoop p t mv n \<and> jitterLoop p t mv n \<le> n \<and>
    (0 < jitterLoop p t mv n \<longrightarrow> t * of_int (jitterLoop p t mv n) \<le> mv \<and> t * of_int (jitterLoop p t mv n) < p) \<and>
    (\<forall>k. jitterLoop p t mv n < k \<and> k \<le> n \<longrightarrow> \<not> (t * of_int k \<le> mv \<and> t * of_int k < p))"
  using assms
proof (induction p t mv n rule: jitterLoop.induct)
  case (1 p t mv n)
  show ?case
  proof (cases "n > 0 \<and> \<not> (t * of_int n \<le> mv \<and> t * of_int n < p)")
    case True
    then have "jitterLoop p t mv n = jitterLoop p t mv (n - 1)"
      by (subst jitterLoop.simps) (auto simp: Let_def)
    moreover have "\<And>k. k \<le> n \<longleftrightarrow> k = n \<or> k \<le> n - 1" by auto
    ultimately show ?thesis using 1(1) True by (auto simp: Let_def)
  next
    case False
    then have "jitterLoop p t mv n = n" by (subst jitterLoop.simps) (auto simp: Let_def)
    with False 1(2) show ?thesis by auto
  qed
qed

lemma jittered_grid:
  assumes "0 < m_PriceTick market" "on_grid (m_PriceTick market) p"
  shows "on_grid (m_PriceTick market) (jittered ins v market side level g p)"
proof -
  have "\<exists>n. jittered ins v market side level g p = p + of_int n * m_PriceTick market"
    unfolding jittered_def applyPriceJitter_def Let_def
    by (metis FromInt64_def add.right_neutral mult.commute mult_zero_left of_int_0)
  with on_grid_add_step [OF assms] show ?thesis by auto
qed

lemma uint_mod_less: "0 < m \<Longrightarrow> m < 2 ^ 64 \<Longrightarrow> uint ((h :: 64 word) mod word_of_int m) < m"
proof -
  assume m: "0 < m" "m < 2 ^ 64"
  then have "uint (word_of_int m :: 64 word) = m" by (simp add: uint_word_of_int)
  with m show ?thesis by (simp add: uint_mod)
qed

lemma stableJitterTicks_bound:
  assumes "0 \<le> n" "n < 2 ^ 62"
  shows "\<bar>stableJitterTicks i v s side level g n\<bar> \<le> n"
proof (cases "g = 0 \<or> n \<le> 0")
  case False
  let ?h = "fnv64a (jitterSeed i v s side level g) mod word_of_int (n * 2 + 1)"
  have "uint ?h < n * 2 + 1" using False assms by (intro uint_mod_less) auto
  moreover have "0 \<le> uint ?h" by simp
  ultimately show ?thesis using False by (simp add: stableJitterTicks_def Let_def abs_le_iff)
qed (use assms in \<open>auto simp: stableJitterTicks_def\<close>)

lemma stableOrderNotional_inside:
  assumes "mn \<le> mx"
  shows "mn \<le> stableOrderNotional i v s side level mn mx g \<and> stableOrderNotional i v s side level mn mx g \<le> mx
    \<and> (mn < mx \<longrightarrow> mn < stableOrderNotional i v s side level mn mx g \<and> stableOrderNotional i v s side level mn mx g < mx)"
proof (cases "mn = mx")
  case False
  define u where "u = uint (fnv64a (notionalSeed i v s side level mn mx g) mod word_of_int (1000000 - 1))"
  have u: "0 \<le> u" "u < 1000000 - 1" unfolding u_def by (simp, rule uint_mod_less) auto
  define f :: rat where "f = of_int (u + 1) / 1000000"
  have f: "0 < f" "f < 1" using u unfolding f_def by (auto simp: divide_less_eq_1)
  have e: "stableOrderNotional i v s side level mn mx g = mn + (mx - mn) * f"
    using False by (simp add: stableOrderNotional_def Let_def f_def u_def)
  have d: "0 < mx - mn" using assms False by auto
  have "0 < (mx - mn) * f" "(mx - mn) * f < mx - mn" using d f by (auto simp: mult_less_cancel_left1)
  then show ?thesis unfolding e by auto
qed (simp add: stableOrderNotional_def)

lemma stablePriceAnchor_pos:
  assumes "0 < p" "0 < t"
  shows "\<exists>a. stablePriceAnchor p t bps = Some a \<and> 0 < a \<and> a \<le> p"
proof (cases "bps \<le> 0")
  case False
  have "0 \<le> p * of_int bps / 10000" using assms False by simp
  then obtain w where w: "QuantizeUp (p * of_int bps / 10000) t = Some w"
    using QuantizeUp_eq [OF assms(2)] by blast
  have "0 < (if \<not> 0 < w then t else w)" using assms by simp
  then obtain a where a: "QuantizeDown p (if \<not> 0 < w then t else w) = Some a"
    using QuantizeDown_eq assms(1) by (meson less_imp_le)
  from QuantizeDown_le [OF a] show ?thesis using assms False
    by (simp add: stablePriceAnchor_def w a Let_def)
qed (use assms in \<open>simp add: stablePriceAnchor_def\<close>)

lemma applyInventorySkew_eq:
  "applyInventorySkew fair cfg inventory =
    Some (if st_MaxBaseDeviation cfg \<le> 0 \<or> st_InventorySkewBPS cfg \<le> 0 then fair
      else fair * (1 - max (-1) (min 1 ((inventory - st_TargetBase cfg) / st_MaxBaseDeviation cfg))
                     * of_int (st_InventorySkewBPS cfg) / 10000))"
  by (auto simp: applyInventorySkew_def Div_def Let_def max_def min_def)


section \<open>The prices of a level\<close>

definition good_prices :: "Decimal \<Rightarrow> Book \<Rightarrow> Decimal \<Rightarrow> Decimal \<Rightarrow> bool" where
  "good_prices tick book bid ask \<longleftrightarrow>
     0 < bid \<and> bid < ask \<and> on_grid tick bid \<and> on_grid tick ask \<and>
     (HasAsk book \<longrightarrow> bid < b_AskPrice book) \<and> (HasBid book \<longrightarrow> b_BidPrice book < ask)"

lemma rawPrices_grid:
  "rawPrices st tick mid level = Inr (bid, ask) \<Longrightarrow> 0 < tick \<and> on_grid tick bid \<and> on_grid tick ask"
  by (auto simp: rawPrices_def Let_def result_simps dest: down.grid up.grid down.domain)

lemma clampBid_ok:
  assumes "clampBid tick book b = Inr b'" "0 < tick" "on_grid tick b"
  shows "on_grid tick b' \<and> b' \<le> b \<and> (HasAsk book \<longrightarrow> b' < b_AskPrice book)"
  using assms
  by (auto simp: clampBid_def Let_def result_simps not_less split: if_splits
      dest: down.grid QuantizeDown_le)

lemma clampAsk_ok:
  assumes "clampAsk tick book a = Inr a'" "0 < tick" "on_grid tick a"
  shows "on_grid tick a' \<and> a \<le> a' \<and> (HasBid book \<longrightarrow> b_BidPrice book < a')"
  using assms
  by (auto simp: clampAsk_def Let_def result_simps not_less split: if_splits
      dest: up.grid QuantizeUp_ge)

lemma ladderBid_ok:
  assumes "ladderBid tick level prev b = Inr b'" "0 < tick" "on_grid tick b"
  shows "on_grid tick b' \<and> b' \<le> b \<and> (0 < level \<longrightarrow> b' < prev)"
  using assms
  by (auto simp: ladderBid_def result_simps not_le split: if_splits dest: down.grid QuantizeDown_le)

lemma ladderAsk_ok:
  assumes "ladderAsk tick level prev a = Inr a'" "0 < tick" "on_grid tick a"
  shows "on_grid tick a' \<and> a \<le> a' \<and> (0 < level \<longrightarrow> prev < a')"
  using assms
  by (auto simp: ladderAsk_def result_simps not_le split: if_splits dest: up.grid QuantizeUp_ge)

lemma levelPrices_ok:
  assumes "levelPrices ins v market book mid now level prev = Inr (bid, ask)"
  shows "0 < m_PriceTick market" and "good_prices (m_PriceTick market) book bid ask"
    and "0 < level \<Longrightarrow> bid < fst prev \<and> snd prev < ask"
proof -
  let ?t = "m_PriceTick market"
  from assms obtain b0 a0 b1 a1 where
    r: "rawPrices (in_Strategy ins) ?t mid level = Inr (b0, a0)"
    and b1: "clampBid ?t book (jittered ins v market Buy level (refreshGeneration (in_Strategy ins) Buy level now) b0) = Inr b1"
    and a1: "clampAsk ?t book (jittered ins v market Sell level (refreshGeneration (in_Strategy ins) Sell level now) a0) = Inr a1"
    and b: "ladderBid ?t level (fst prev) b1 = Inr bid" and a: "ladderAsk ?t level (snd prev) a1 = Inr ask"
    and pos: "0 < bid" "0 < ask" "bid < ask"
    unfolding levelPrices_def Let_def by (auto simp: result_simps not_le split: if_splits)
  from rawPrices_grid [OF r] show t: "0 < ?t" by simp
  from rawPrices_grid [OF r] have g: "on_grid ?t b0" "on_grid ?t a0" by auto
  note B1 = clampBid_ok [OF b1 t jittered_grid [OF t g(1)]] and A1 = clampAsk_ok [OF a1 t jittered_grid [OF t g(2)]]
  have B: "on_grid ?t bid \<and> bid \<le> b1 \<and> (0 < level \<longrightarrow> bid < fst prev)" using ladderBid_ok [OF b t] B1 by blast
  have A: "on_grid ?t ask \<and> a1 \<le> ask \<and> (0 < level \<longrightarrow> snd prev < ask)" using ladderAsk_ok [OF a t] A1 by blast
  show "good_prices ?t book bid ask" using A1 B1 A B pos by (auto simp: good_prices_def)
  show "bid < fst prev \<and> snd prev < ask" if "0 < level" using A B that by auto
qed


section \<open>The quantity of a quote\<close>

definition good_quantity :: "StrategyConfig \<Rightarrow> VenueMarketConfig \<Rightarrow> Decimal \<Rightarrow> Decimal \<Rightarrow> bool" where
  "good_quantity st market price q \<longleftrightarrow>
     0 < q \<and> on_grid (m_QuantityStep market) q \<and>
     (UsesOrderNotionalRange st \<longrightarrow>
        effectiveMinimum st market \<le> price * q \<and> price * q \<le> effectiveMaximum st market \<and>
        (0 < m_MinQuantity market \<longrightarrow> m_MinQuantity market \<le> q) \<and>
        (0 < m_MaxQuantity market \<longrightarrow> q \<le> m_MaxQuantity market))"

lemma bind_Some: "Option.bind m f = Some y \<longleftrightarrow> (\<exists>x. m = Some x \<and> f x = Some y)"
  by (cases m) auto

lemma minimumQuantity_ok:
  assumes "minimumQuantity market mn price = Some q"
  shows "on_grid (m_QuantityStep market) q \<and> (0 < m_MinQuantity market \<longrightarrow> m_MinQuantity market \<le> q)"
  using assms
  by (auto simp: minimumQuantity_def bind_Some max_def split: if_splits dest: up.grid QuantizeUp_ge)

lemma maximumQuantity_ok:
  assumes "maximumQuantity market mx price = Some q"
  shows "on_grid (m_QuantityStep market) q \<and> (0 < m_MaxQuantity market \<longrightarrow> q \<le> m_MaxQuantity market)"
  using assms
  by (auto simp: maximumQuantity_def bind_Some min_def split: if_splits dest: down.grid QuantizeDown_le)

lemma quoteQuantity_ok:
  assumes "quoteQuantity ins v market side level price g = Inr q"
  shows "good_quantity (in_Strategy ins) market price q"
proof (cases "UsesOrderNotionalRange (in_Strategy ins)")
  case False
  with assms show ?thesis
    by (auto simp: quoteQuantity_def good_quantity_def result_simps split: if_splits dest: down.grid)
next
  case True
  let ?mn = "effectiveMinimum (in_Strategy ins) market" and ?mx = "effectiveMaximum (in_Strategy ins) market"
  from assms True obtain lo hi where lo: "minimumQuantity market ?mn price = Some lo"
    and hi: "maximumQuantity market ?mx price = Some hi" and le: "lo \<le> q" "q \<le> hi"
    and q: "q = lo \<or> q = hi \<or> on_grid (m_QuantityStep market) q"
    and rng: "0 < q" "?mn \<le> price * q" "price * q \<le> ?mx"
    unfolding quoteQuantity_def Let_def
    by (auto simp: result_simps not_less split: if_splits dest: down.grid)
  have "on_grid (m_QuantityStep market) q"
    using q minimumQuantity_ok [OF lo] maximumQuantity_ok [OF hi] by auto
  with le rng minimumQuantity_ok [OF lo] maximumQuantity_ok [OF hi] True show ?thesis
    by (auto simp: good_quantity_def)
qed


section \<open>The ladder\<close>

text \<open>Pairs of a buy and a sell that move away from the previous pair of prices.\<close>

fun ladder_from :: "Decimal \<Rightarrow> Decimal \<Rightarrow> Quote list \<Rightarrow> bool" where
  "ladder_from pb pa [] = True"
| "ladder_from pb pa [q] = False"
| "ladder_from pb pa (b # a # qs) =
     (q_Side b = Buy \<and> q_Side a = Sell \<and> q_Price b < pb \<and> pa < q_Price a \<and>
      ladder_from (q_Price b) (q_Price a) qs)"

definition side_prices :: "Side \<Rightarrow> Quote list \<Rightarrow> Decimal list" where
  "side_prices side qs = map q_Price (filter (\<lambda>q. q_Side q = side) qs)"

lemma side_prices_Cons [simp]:
  "side_prices s [] = []"
  "side_prices s (q # qs) = (if q_Side q = s then q_Price q # side_prices s qs else side_prices s qs)"
  by (simp_all add: side_prices_def)

lemma side_prices_set: "q \<in> set qs \<Longrightarrow> q_Price q \<in> set (side_prices (q_Side q) qs)"
  by (auto simp: side_prices_def)

lemma ladder_from_bounds:
  "ladder_from pb pa qs \<Longrightarrow> (\<forall>p \<in> set (side_prices Buy qs). p < pb) \<and> (\<forall>p \<in> set (side_prices Sell qs). pa < p)"
  by (induction pb pa qs rule: ladder_from.induct) fastforce+

lemma ladder_from_sorted:
  "ladder_from pb pa qs \<Longrightarrow> sorted_wrt (>) (side_prices Buy qs) \<and> sorted_wrt (<) (side_prices Sell qs) \<and> paired qs"
  by (induction pb pa qs rule: ladder_from.induct) (auto dest: ladder_from_bounds)

lemma ladder_no_self_cross:
  assumes "ladder_from pb pa qs" "pb \<le> pa"
  shows "no_self_cross qs"
proof -
  have "q_Price x < q_Price y" if "x \<in> set qs" "y \<in> set qs" "q_Side x = Buy" "q_Side y = Sell" for x y
    using ladder_from_bounds [OF assms(1)] side_prices_set [OF that(1)] side_prices_set [OF that(2)] that(3,4) assms(2)
    by fastforce
  then show ?thesis by (auto simp: no_self_cross_def list_all_iff)
qed

lemma ladder_cons_no_self_cross:
  assumes "q_Side b = Buy" "q_Side a = Sell" "q_Price b < q_Price a" "ladder_from (q_Price b) (q_Price a) qs"
  shows "no_self_cross (b # a # qs)"
proof -
  let ?m = "(q_Price b + q_Price a) / 2"
  have "ladder_from ?m ?m (b # a # qs)" using assms by simp
  then show ?thesis by (rule ladder_no_self_cross) simp
qed

text \<open>What every quote of a level satisfies, whatever the level.\<close>

definition good_quote :: "InstrumentConfig \<Rightarrow> string \<Rightarrow> VenueMarketConfig \<Rightarrow> ReferencePrice \<Rightarrow> Book \<Rightarrow> time \<Rightarrow> Quote \<Rightarrow> bool" where
  "good_quote ins v market ref book clock q \<longleftrightarrow>
     0 < q_Price q \<and> on_grid (m_PriceTick market) (q_Price q) \<and> post_only book q \<and>
     good_quantity (in_Strategy ins) market (q_Price q) (q_Quantity q) \<and>
     q_InstrumentID q = in_ID ins \<and> q_Venue q = v \<and> q_Symbol q = m_Symbol market \<and>
     q_Reference q = rp_Price ref \<and>
     q_ValidUntil q = (if IsZeroTime (rp_ValidUntil ref) then clock + 10 * second else rp_ValidUntil ref)"

lemma wrapLevel_Inr [simp]: "wrapLevel side level r = Inr x \<longleftrightarrow> r = Inr x"
  by (auto simp: wrapLevel_def split: sum.split failure.split)

lemma levelQuotes_ok:
  assumes "levelQuotes ins v market ref book mid now clock level prev = Inr (b, a)"
  shows "q_Side b = Buy" "q_Side a = Sell" "q_Level b = level" "q_Level a = level" "q_Price b < q_Price a"
    and "0 < level \<Longrightarrow> q_Price b < fst prev \<and> snd prev < q_Price a"
    and "good_quote ins v market ref book clock b" "good_quote ins v market ref book clock a"
proof -
  from assms obtain bid ask bq aq where
    p: "levelPrices ins v market book mid now level prev = Inr (bid, ask)"
    and bq: "quoteQuantity ins v market Buy level bid (refreshGeneration (in_Strategy ins) Buy level now) = Inr bq"
    and aq: "quoteQuantity ins v market Sell level ask (refreshGeneration (in_Strategy ins) Sell level now) = Inr aq"
    and b: "b = \<lparr>q_InstrumentID = in_ID ins, q_Venue = v, q_Symbol = m_Symbol market, q_Side = Buy,
            q_Level = level, q_Price = bid, q_Quantity = bq, q_Reference = rp_Price ref,
            q_ValidUntil = (if IsZeroTime (rp_ValidUntil ref) then clock + 10 * second else rp_ValidUntil ref)\<rparr>"
    and a: "a = \<lparr>q_InstrumentID = in_ID ins, q_Venue = v, q_Symbol = m_Symbol market, q_Side = Sell,
            q_Level = level, q_Price = ask, q_Quantity = aq, q_Reference = rp_Price ref,
            q_ValidUntil = (if IsZeroTime (rp_ValidUntil ref) then clock + 10 * second else rp_ValidUntil ref)\<rparr>"
    unfolding levelQuotes_def Let_def by (auto simp only: result_simps wrapLevel_Inr split_paired_Ex case_prod_conv sum.inject prod.inject)
  note P = levelPrices_ok [OF p] and Q = quoteQuantity_ok [OF bq] quoteQuantity_ok [OF aq]
  show "q_Side b = Buy" "q_Side a = Sell" "q_Level b = level" "q_Level a = level" by (simp_all add: a b)
  show "q_Price b < q_Price a" using P(2) by (simp add: a b good_prices_def)
  show "0 < level \<Longrightarrow> q_Price b < fst prev \<and> snd prev < q_Price a" using P(3) by (simp add: a b)
  show "good_quote ins v market ref book clock b" "good_quote ins v market ref book clock a"
    using P(2) Q by (auto simp: a b good_quote_def good_prices_def post_only_def)
qed

lemma levelLoop_ok:
  assumes "levelLoop ins v market ref book mid now clock levels prev = Inr qs"
    and "list_all (\<lambda>l. 0 < l) levels"
  shows "ladder_from (fst prev) (snd prev) qs \<and> list_all (good_quote ins v market ref book clock) qs \<and>
    map q_Level qs = concat (map (\<lambda>l. [l, l]) levels)"
  using assms
proof (induction levels arbitrary: prev qs)
  case (Cons l ls)
  from Cons.prems(1) obtain b a rest where
    l: "levelQuotes ins v market ref book mid now clock l prev = Inr (b, a)"
    and r: "levelLoop ins v market ref book mid now clock ls (q_Price b, q_Price a) = Inr rest"
    and qs: "qs = b # a # rest"
    by (auto simp: result_simps)
  from Cons.IH [OF r] Cons.prems(2) levelQuotes_ok [OF l] show ?case by (auto simp: qs)
qed simp

lemma GenerateAt_ok:
  assumes "GenerateAt ins v market ref book inventory now clock = Inr qs"
  shows "list_all (good_quote ins v market ref book clock) qs" and "paired qs" and "no_self_cross qs"
    and "sorted_wrt (>) (side_prices Buy qs)" and "sorted_wrt (<) (side_prices Sell qs)"
    and "map q_Level qs = concat (map (\<lambda>l. [l, l]) (map int [0..<nat (st_Levels (in_Strategy ins))]))"
proof -
  let ?n = "nat (st_Levels (in_Strategy ins))"
  let ?goal = "list_all (good_quote ins v market ref book clock) qs \<and> paired qs \<and> no_self_cross qs \<and>
    sorted_wrt (>) (side_prices Buy qs) \<and> sorted_wrt (<) (side_prices Sell qs) \<and>
    map q_Level qs = concat (map (\<lambda>l. [l, l]) (map int [0..<?n]))"
  from assms obtain mid where
    loop: "levelLoop ins v market ref book mid now clock (map int [0..<?n]) (0, 0) = Inr qs"
    by (auto simp: GenerateAt_def result_simps split: if_splits)
  have ?goal
  proof (cases ?n)
    case 0
    with loop show ?thesis by (simp add: no_self_cross_def)
  next
    case (Suc k)
    then have ls: "map int [0..<?n] = 0 # map int [1..<?n]" by (simp add: upt_conv_Cons)
    from loop obtain b a rest where
      l: "levelQuotes ins v market ref book mid now clock 0 (0, 0) = Inr (b, a)"
      and r: "levelLoop ins v market ref book mid now clock (map int [1..<?n]) (q_Price b, q_Price a) = Inr rest"
      and qs: "qs = b # a # rest"
      unfolding ls by (auto simp: result_simps)
    note L = levelQuotes_ok(1-5,7,8) [OF l]
    have R: "ladder_from (q_Price b) (q_Price a) rest" "list_all (good_quote ins v market ref book clock) rest"
      "map q_Level rest = concat (map (\<lambda>l. [l, l]) (map int [1..<?n]))"
      using levelLoop_ok [OF r] by (auto simp: list_all_iff)
    from L R ladder_from_bounds [OF R(1)] ladder_from_sorted [OF R(1)] ladder_cons_no_self_cross [OF L(1,2,5) R(1)]
    show ?thesis unfolding qs ls by auto
  qed
  then show "list_all (good_quote ins v market ref book clock) qs" "paired qs" "no_self_cross qs"
    "sorted_wrt (>) (side_prices Buy qs)" "sorted_wrt (<) (side_prices Sell qs)"
    "map q_Level qs = concat (map (\<lambda>l. [l, l]) (map int [0..<?n]))" by blast+
qed


section \<open>No panics\<close>

text \<open>Inputs on which no decimal operation of the strategy leaves its domain. \<^verbatim>\<open>config.Validate\<close> and
  the market rules give all of them but two: the inventory skew has no upper bound there, and an
  exchange may report an ask below one tick.\<close>

definition strategy_domain :: "StrategyConfig \<Rightarrow> VenueMarketConfig \<Rightarrow> Book \<Rightarrow> bool" where
  "strategy_domain st market book \<longleftrightarrow>
     0 < m_PriceTick market \<and> 0 < m_QuantityStep market \<and> (\<not> UsesOrderNotionalRange st \<longrightarrow> 0 \<le> st_OrderSize st) \<and>
     0 \<le> effectiveMinimum st market \<and> 0 \<le> st_Levels st \<and> st_InventorySkewBPS st \<le> 10000 \<and>
     0 \<le> st_HalfSpreadBPS st \<and> 0 \<le> st_LevelSpacingBPS st \<and>
     st_HalfSpreadBPS st + (st_Levels st - 1) * st_LevelSpacingBPS st \<le> 10000 \<and>
     (HasAsk book \<longrightarrow> m_PriceTick market \<le> b_AskPrice book)"

lemma must_QuantizeDown_Panic [simp]: "0 < t \<Longrightarrow> must (QuantizeDown d t) = Inl Panic \<longleftrightarrow> d < 0"
  by (auto simp: must_eq_Panic QuantizeDown_None_iff)

lemma must_QuantizeUp_Panic [simp]: "0 < t \<Longrightarrow> must (QuantizeUp d t) = Inl Panic \<longleftrightarrow> d < 0"
  by (auto simp: must_eq_Panic QuantizeUp_None_iff)

lemma quantity_range_defined:
  assumes "0 < price" "0 < m_QuantityStep market" "0 \<le> mn"
  shows "\<exists>q. minimumQuantity market mn price = Some q" "\<exists>q. maximumQuantity market mn price = Some q"
  using assms
  by (auto simp: minimumQuantity_def maximumQuantity_def Div_def QuantizeUp_eq QuantizeDown_eq)

lemma quoteQuantity_no_panic:
  assumes d: "strategy_domain (in_Strategy ins) market book" and p: "0 < price"
  shows "quoteQuantity ins v market side level price g \<noteq> Inl Panic"
proof (cases "UsesOrderNotionalRange (in_Strategy ins) \<and>
    effectiveMinimum (in_Strategy ins) market \<le> effectiveMaximum (in_Strategy ins) market")
  case False
  with d show ?thesis
    by (auto simp: quoteQuantity_def strategy_domain_def Let_def QuantizeDown_eq)
next
  case True
  let ?mn = "effectiveMinimum (in_Strategy ins) market" and ?mx = "effectiveMaximum (in_Strategy ins) market"
  have s: "0 < m_QuantityStep market" "0 < m_PriceTick market" "0 \<le> ?mn" "0 \<le> ?mx" using d True
    by (auto simp: strategy_domain_def)
  obtain lo hi where lh: "minimumQuantity market ?mn price = Some lo" "maximumQuantity market ?mx price = Some hi"
    using quantity_range_defined [OF p s(1,3)] quantity_range_defined [OF p s(1,4)] by auto
  obtain a where a: "stablePriceAnchor price (m_PriceTick market) (st_RepriceThresholdBPS (in_Strategy ins)) = Some a"
    "0 < a" using stablePriceAnchor_pos [OF p s(2)] by blast
  have "0 \<le> stableOrderNotional (in_ID ins) v (m_Symbol market) side level ?mn ?mx g"
    using stableOrderNotional_inside [of ?mn ?mx] True s(3) by (meson order_trans)
  with True lh a s show ?thesis
    by (simp add: quoteQuantity_def Let_def Div_def QuantizeDown_eq)
qed

lemma spread_in_range:
  assumes "strategy_domain st market book" "0 \<le> level" "level < st_Levels st"
  shows "0 \<le> int64 (st_HalfSpreadBPS st + level * st_LevelSpacingBPS st)"
    "int64 (st_HalfSpreadBPS st + level * st_LevelSpacingBPS st) \<le> 10000"
proof -
  let ?x = "st_HalfSpreadBPS st + level * st_LevelSpacingBPS st"
  from assms(1) have n: "0 \<le> st_HalfSpreadBPS st" "0 \<le> st_LevelSpacingBPS st"
    and o: "st_HalfSpreadBPS st + (st_Levels st - 1) * st_LevelSpacingBPS st \<le> 10000"
    by (auto simp: strategy_domain_def)
  have "level * st_LevelSpacingBPS st \<le> (st_Levels st - 1) * st_LevelSpacingBPS st"
    using assms(3) n(2) by (intro mult_right_mono) auto
  with o n assms(2) have "0 \<le> ?x" "?x \<le> 10000" by auto
  then show "0 \<le> int64 ?x" "int64 ?x \<le> 10000" by (simp_all add: int64_id)
qed

lemma rawPrices_no_panic:
  assumes "strategy_domain st market book" "0 \<le> level" "level < st_Levels st" "0 \<le> mid"
  shows "rawPrices st (m_PriceTick market) mid level \<noteq> Inl Panic"
proof -
  let ?s = "of_int (int64 (st_HalfSpreadBPS st + level * st_LevelSpacingBPS st)) / 10000 :: rat"
  have s: "0 \<le> ?s" "?s \<le> 1" using spread_in_range [OF assms(1-3)] by (auto simp: divide_le_eq_1)
  have t: "0 < m_PriceTick market" using assms(1) by (simp add: strategy_domain_def)
  have "0 \<le> mid * (1 - ?s)" "0 \<le> mid * (1 + ?s)"
    by (rule mult_nonneg_nonneg; use s assms(4) in simp)+
  with t show ?thesis by (simp add: rawPrices_def Let_def QuantizeDown_eq QuantizeUp_eq)
qed

lemma levelPrices_no_panic:
  assumes d: "strategy_domain (in_Strategy ins) market book" and l: "0 \<le> level" "level < st_Levels (in_Strategy ins)"
    and m: "0 \<le> mid" and prev: "0 < level \<Longrightarrow> m_PriceTick market \<le> fst prev \<and> 0 \<le> snd prev"
  shows "levelPrices ins v market book mid now level prev \<noteq> Inl Panic"
proof -
  from d have t: "0 < m_PriceTick market" and a: "HasAsk book \<Longrightarrow> m_PriceTick market \<le> b_AskPrice book"
    by (auto simp: strategy_domain_def)
  have c: "clampBid (m_PriceTick market) book x \<noteq> Inl Panic" "clampAsk (m_PriceTick market) book x \<noteq> Inl Panic"
    "ladderBid (m_PriceTick market) level (fst prev) x \<noteq> Inl Panic"
    "ladderAsk (m_PriceTick market) level (snd prev) x \<noteq> Inl Panic" for x
    using t a prev by (auto simp: clampBid_def clampAsk_def ladderBid_def ladderAsk_def Let_def book_simps)
  show ?thesis
    using rawPrices_no_panic [OF d l m] c
    by (auto simp: levelPrices_def Let_def bindR_eq_Panic split: prod.splits if_splits)
qed

lemma wrapLevel_Panic [simp]: "wrapLevel side level r = Inl Panic \<longleftrightarrow> r = Inl Panic"
  by (auto simp: wrapLevel_def split: sum.split failure.split)

lemma levelQuotes_no_panic:
  assumes d: "strategy_domain (in_Strategy ins) market book" and l: "0 \<le> level" "level < st_Levels (in_Strategy ins)"
    and m: "0 \<le> mid" and prev: "0 < level \<Longrightarrow> m_PriceTick market \<le> fst prev \<and> 0 \<le> snd prev"
  shows "levelQuotes ins v market ref book mid now clock level prev \<noteq> Inl Panic"
proof
  assume "levelQuotes ins v market ref book mid now clock level prev = Inl Panic"
  with levelPrices_no_panic [OF assms, of v now] obtain bid ask where
    p: "levelPrices ins v market book mid now level prev = Inr (bid, ask)"
    and q: "quoteQuantity ins v market Buy level bid (refreshGeneration (in_Strategy ins) Buy level now) = Inl Panic \<or>
      quoteQuantity ins v market Sell level ask (refreshGeneration (in_Strategy ins) Sell level now) = Inl Panic"
    by (auto simp: levelQuotes_def Let_def bindR_eq_Panic)
  from levelPrices_ok(2) [OF p] have "0 < bid" "0 < ask" by (auto simp: good_prices_def)
  with q quoteQuantity_no_panic [OF d] show False by blast
qed

lemma levelLoop_no_panic:
  assumes d: "strategy_domain (in_Strategy ins) market book" and m: "0 \<le> mid"
    and "list_all (\<lambda>l. 0 \<le> l \<and> l < st_Levels (in_Strategy ins)) levels"
    and "list_all (\<lambda>l. 0 < l) levels \<Longrightarrow> m_PriceTick market \<le> fst prev \<and> 0 \<le> snd prev"
    and "list_all (\<lambda>l. 0 < l) levels \<or> list_all (\<lambda>l. 0 < l) (tl levels) \<and> hd levels = 0"
  shows "levelLoop ins v market ref book mid now clock levels prev \<noteq> Inl Panic"
  using assms(3-5)
proof (induction levels arbitrary: prev)
  case (Cons l ls)
  have lp: "levelQuotes ins v market ref book mid now clock l prev \<noteq> Inl Panic"
    using Cons.prems by (intro levelQuotes_no_panic [OF d _ _ m]) auto
  have "levelLoop ins v market ref book mid now clock ls (q_Price b, q_Price a) \<noteq> Inl Panic"
    if q: "levelQuotes ins v market ref book mid now clock l prev = Inr (b, a)" for b a
  proof (rule Cons.IH)
    have t: "0 < m_PriceTick market" using d by (simp add: strategy_domain_def)
    from levelQuotes_ok(5,7) [OF q] on_grid_pos [OF t]
    show "m_PriceTick market \<le> fst (q_Price b, q_Price a) \<and> 0 \<le> snd (q_Price b, q_Price a)"
      by (auto simp: good_quote_def)
  qed (use Cons.prems in auto)
  with lp show ?case by (auto simp: bindR_eq_Panic)
qed simp

lemma levels_no_panic:
  assumes "strategy_domain (in_Strategy ins) market book" "0 \<le> mid"
  shows "levelLoop ins v market ref book mid now clock (map int [0..<nat (st_Levels (in_Strategy ins))]) (0, 0) \<noteq> Inl Panic"
proof (cases "nat (st_Levels (in_Strategy ins))")
  case (Suc n)
  then have e: "map int [0..<nat (st_Levels (in_Strategy ins))] = 0 # map int [1..<Suc n]" by (simp add: upt_conv_Cons)
  show ?thesis unfolding e
    by (rule levelLoop_no_panic [OF assms]) (use Suc in \<open>auto simp: list_all_iff\<close>)
qed simp

lemma skewed_mid_nonneg:
  assumes "0 < fair" "st_InventorySkewBPS st \<le> 10000" "applyInventorySkew fair st inventory = Some mid"
  shows "0 \<le> mid"
proof (cases "st_MaxBaseDeviation st \<le> 0 \<or> st_InventorySkewBPS st \<le> 0")
  case False
  define dv where "dv = max (-1) (min 1 ((inventory - st_TargetBase st) / st_MaxBaseDeviation st))"
  define k where "k = (of_int (st_InventorySkewBPS st) :: rat) / 10000"
  have "dv \<le> 1" "-1 \<le> dv" "0 \<le> k" "k \<le> 1" using False assms(2) by (auto simp: dv_def k_def divide_le_eq_1)
  then have "dv * k \<le> 1" by (metis mult.commute mult_left_le order_trans)
  moreover have "mid = fair * (1 - dv * k)" using assms(3) False by (auto simp: applyInventorySkew_eq dv_def k_def)
  ultimately show ?thesis using assms(1) by simp
qed (use assms in \<open>auto simp: applyInventorySkew_eq\<close>)

section \<open>Refresh generations\<close>

lemma div_step_int:
  fixes x g :: int
  assumes "0 < g"
  shows "(x + 1) div g \<noteq> x div g \<longleftrightarrow> (x + 1) mod g = 0"
proof -
  define q r where "q = x div g" and "r = x mod g"
  have x: "x = g * q + r" "0 \<le> r" "r < g" using assms by (auto simp: q_def r_def)
  show ?thesis
  proof (cases "r + 1 < g")
    case True
    have "(x + 1) div g = q" by (rule int_div_pos_eq [where r = "r + 1"]) (use x True in auto)
    moreover have "(x + 1) mod g = r + 1" by (rule int_mod_pos_eq [where q = q]) (use x True in auto)
    ultimately show ?thesis using x(2) by (simp add: q_def)
  next
    case False
    then have "x + 1 = g * (q + 1)" using x by (simp add: algebra_simps)
    then have "(x + 1) div g = q + 1" "(x + 1) mod g = 0" using assms by simp_all
    then show ?thesis by (simp add: q_def)
  qed
qed

lemma generation_step:
  fixes w p g :: int
  assumes "0 \<le> p" "p < g" "0 \<le> w"
  shows "(if w + 1 < p then 0 else (w + 1 - p) div g + 1) \<noteq> (if w < p then 0 else (w - p) div g + 1)
    \<longleftrightarrow> (w + 1) mod g = p"
proof (cases "w < p")
  case True
  then show ?thesis using assms by auto
next
  case False
  have g: "0 < g" using assms by auto
  have "w + 1 - p = (w - p) + 1" by simp
  then have "(w + 1 - p) div g \<noteq> (w - p) div g \<longleftrightarrow> (w + 1 - p) mod g = 0"
    using div_step_int [OF g, of "w - p"] by metis
  also have "\<dots> \<longleftrightarrow> (w + 1) mod g = p" using assms
    by (metis mod_eq_0_iff_dvd mod_eq_dvd_iff mod_pos_pos_trivial)
  finally show ?thesis using False assms by auto
qed

text \<open>The deep levels of one side, the number refreshed per window and the number of windows of a
  full rotation.\<close>

definition deep_levels :: "StrategyConfig \<Rightarrow> int" where
  "deep_levels st = st_Levels st - EffectiveBestLevels st"

definition refresh_count :: "StrategyConfig \<Rightarrow> int" where
  "refresh_count st = RefreshOrdersPerCycle st (deep_levels st)"

definition refresh_groups :: "StrategyConfig \<Rightarrow> int" where
  "refresh_groups st = (deep_levels st + refresh_count st - 1) div refresh_count st"

definition deep_index :: "StrategyConfig \<Rightarrow> Side \<Rightarrow> int \<Rightarrow> int" where
  "deep_index st side level =
     (if side = Sell \<and> deep_levels st > 1
      then (level - EffectiveBestLevels st + deep_levels st div 2) mod deep_levels st
      else level - EffectiveBestLevels st)"

definition refresh_window :: "StrategyConfig \<Rightarrow> time \<Rightarrow> int" where
  "refresh_window st now = unix now div EffectiveQuoteRefreshSeconds st"

definition rotates :: "StrategyConfig \<Rightarrow> bool" where
  "rotates st \<longleftrightarrow> 0 < st_QuoteRefreshSeconds st \<and> 0 < deep_levels st \<and> st_Levels st \<le> MaxStrategyLevels \<and>
     st_QuoteRefreshRatioBPS st \<le> 10000"

lemma unix_nonneg_not_zero: "0 \<le> unix now \<Longrightarrow> \<not> IsZeroTime now"
  by (auto simp: unix_def IsZeroTime_def zero_time_def second_def)

lemma refresh_count_eq:
  assumes "rotates st"
  shows "refresh_count st = (let c = (deep_levels st * EffectiveQuoteRefreshRatioBPS st + 9999) div 10000
                             in if c < 1 then 1 else c)"
    and "0 < deep_levels st * EffectiveQuoteRefreshRatioBPS st + 9999"
    and "deep_levels st * EffectiveQuoteRefreshRatioBPS st + 9999 < 2 ^ 63"
proof -
  let ?r = "EffectiveQuoteRefreshRatioBPS st" and ?d = "deep_levels st"
  have r: "0 < ?r" "?r \<le> 10000" using assms by (auto simp: EffectiveQuoteRefreshRatioBPS_def rotates_def)
  have "0 \<le> EffectiveBestLevels st"
    using assms by (auto simp: rotates_def deep_levels_def EffectiveBestLevels_def Let_def split: if_splits)
  then have d: "0 < ?d" "?d \<le> 100" using assms by (auto simp: rotates_def deep_levels_def)
  have dr: "0 < ?d * ?r" "?d * ?r \<le> ?d * 10000" "?d * 10000 \<le> 1000000" using r d by auto
  have "?d * ?r + 9999 < 9223372036854775808" using dr by linarith
  then show p: "0 < ?d * ?r + 9999" "?d * ?r + 9999 < 2 ^ 63" using dr by simp_all
  have "(?d * ?r + 9999) div 10000 \<le> ?d" using dr by (simp add: zdiv_mono1 div_le_dividend)
  with d p show "refresh_count st = (let c = (?d * ?r + 9999) div 10000 in if c < 1 then 1 else c)"
    by (simp add: refresh_count_def RefreshOrdersPerCycle_def Let_def int64_id go_quo_nonneg)
qed

lemma deep_index_range:
  assumes "rotates st" "EffectiveBestLevels st \<le> level" "level < st_Levels st"
  shows "0 \<le> deep_index st side level \<and> deep_index st side level < deep_levels st"
  using assms by (auto simp: deep_index_def deep_levels_def rotates_def)

lemma deep_index_inj:
  assumes "rotates st"
  shows "inj_on (deep_index st side) {EffectiveBestLevels st..<st_Levels st}"
proof (rule inj_onI)
  fix x y assume x: "x \<in> {EffectiveBestLevels st..<st_Levels st}" and y: "y \<in> {EffectiveBestLevels st..<st_Levels st}"
    and e: "deep_index st side x = deep_index st side y"
  let ?b = "EffectiveBestLevels st"
  show "x = y"
  proof (cases "side = Sell \<and> deep_levels st > 1")
    case True
    with e have "deep_levels st dvd (x - ?b + deep_levels st div 2) - (y - ?b + deep_levels st div 2)"
      by (simp add: deep_index_def mod_eq_dvd_iff)
    then have "deep_levels st dvd x - y" by (simp add: algebra_simps)
    moreover have "\<bar>x - y\<bar> < deep_levels st" using x y by (auto simp: deep_levels_def)
    ultimately show ?thesis by (metis dvd_imp_le_int eq_iff_diff_eq_0 not_le abs_abs dvd_abs_iff abs_of_pos zero_less_abs_iff
          abs_ge_zero dual_order.strict_trans1)
  next
    case False
    with e show ?thesis by (auto simp: deep_index_def)
  qed
qed

lemma refreshGeneration_deep:
  assumes "rotates st" "EffectiveBestLevels st \<le> level" "level < st_Levels st" "0 \<le> unix now"
  shows "refreshGeneration st side level now =
    (let p = deep_index st side level div refresh_count st; w = refresh_window st now
     in if w < p then 0 else (w - p) div refresh_groups st + 1)"
    and "deep_index st side level div refresh_count st < refresh_groups st"
    and "0 \<le> deep_index st side level div refresh_count st"
proof -
  let ?c = "refresh_count st" and ?d = "deep_levels st" and ?i = "deep_index st side level"
  have d: "0 < ?d" using assms(1) by (simp add: rotates_def)
  have c: "0 < ?c" using RefreshOrdersPerCycle_range [OF d, of st] by (simp add: refresh_count_def)
  note i = deep_index_range [OF assms(1-3), of side]
  have g: "refresh_groups st = (?d - 1) div ?c + 1" using c
    by (simp add: refresh_groups_def) (metis add_diff_eq diff_add_eq div_add_self2 less_irrefl add.commute)
  have "?i div ?c \<le> (?d - 1) div ?c" using i c by (intro zdiv_mono1) auto
  then show "?i div ?c < refresh_groups st" using g by simp
  then have gp: "0 < refresh_groups st" using i c by (meson le_less_trans pos_imp_zdiv_nonneg_iff)
  show p0: "0 \<le> ?i div ?c" using i c by (simp add: pos_imp_zdiv_nonneg_iff)
  have E: "0 < EffectiveQuoteRefreshSeconds st" by (auto simp: EffectiveQuoteRefreshSeconds_def)
  have gq: "go_quo (?d + ?c - 1) ?c = refresh_groups st"
    using c d by (simp add: go_quo_nonneg refresh_groups_def)
  have cnt: "(let c = go_quo (int64 (?d * EffectiveQuoteRefreshRatioBPS st + 9999)) 10000 in if c < 1 then 1 else c) = ?c"
    using refresh_count_eq [OF assms(1)] by (simp add: int64_id go_quo_nonneg)
  have idx: "(if side = Sell \<and> ?d > 1 then go_rem (level - EffectiveBestLevels st + go_quo ?d 2) ?d
     else level - EffectiveBestLevels st) = ?i"
    using assms(2) d by (auto simp: deep_index_def go_quo_nonneg go_rem_nonneg)
  have w: "go_quo (unix now) (EffectiveQuoteRefreshSeconds st) = refresh_window st now"
    using E assms(4) by (simp add: go_quo_nonneg refresh_window_def)
  have ph: "go_quo ?i ?c = ?i div ?c" using i c by (simp add: go_quo_nonneg)
  have qq: "refresh_window st now \<ge> ?i div ?c \<Longrightarrow>
      go_quo (refresh_window st now - ?i div ?c) (refresh_groups st) = (refresh_window st now - ?i div ?c) div refresh_groups st"
    using gp by (simp add: go_quo_nonneg)
  have best: "\<not> level < EffectiveBestLevels st" "\<not> ?d \<le> 0" using assms(2) d by auto
  have nz: "\<not> (st_QuoteRefreshSeconds st \<le> 0 \<or> IsZeroTime now)"
    using assms(1) unix_nonneg_not_zero [OF assms(4)] by (auto simp: rotates_def)
  show "refreshGeneration st side level now =
    (let p = ?i div ?c; w = refresh_window st now in if w < p then 0 else (w - p) div refresh_groups st + 1)"
    unfolding refreshGeneration_def deep_levels_def [symmetric] Let_def if_not_P [OF nz] if_not_P [OF best(1)] if_not_P [OF best(2)]
      cnt [unfolded Let_def] idx gq ph w
    using qq by simp
qed

lemma refresh_changes_iff:
  assumes "rotates st" "EffectiveBestLevels st \<le> level" "level < st_Levels st" "0 \<le> unix now" "0 \<le> unix now'"
    and w: "refresh_window st now' = refresh_window st now + 1"
  shows "refreshGeneration st side level now' \<noteq> refreshGeneration st side level now \<longleftrightarrow>
    refresh_window st now' mod refresh_groups st = deep_index st side level div refresh_count st"
proof -
  note a = refreshGeneration_deep [OF assms(1-4), of side] and b = refreshGeneration_deep(1) [OF assms(1-3,5), of side]
  have "0 \<le> refresh_window st now" using assms(4)
    by (simp add: refresh_window_def EffectiveQuoteRefreshSeconds_def pos_imp_zdiv_nonneg_iff)
  from generation_step [OF a(3,2) this] show ?thesis unfolding a(1) b Let_def w .
qed

lemma refresh_changes_card:
  assumes "rotates st" "0 \<le> unix now" "0 \<le> unix now'" "refresh_window st now' = refresh_window st now + 1"
  shows "int (card {level. EffectiveBestLevels st \<le> level \<and> level < st_Levels st \<and>
      refreshGeneration st side level now' \<noteq> refreshGeneration st side level now}) \<le> refresh_count st"
proof -
  let ?S = "{level. EffectiveBestLevels st \<le> level \<and> level < st_Levels st \<and>
      refreshGeneration st side level now' \<noteq> refreshGeneration st side level now}"
  let ?c = "refresh_count st" and ?p = "refresh_window st now' mod refresh_groups st"
  have c: "0 < ?c" using RefreshOrdersPerCycle_range [of "deep_levels st" st] assms(1)
    by (simp add: refresh_count_def rotates_def)
  have "deep_index st side ` ?S \<subseteq> {?p * ?c ..< ?p * ?c + ?c}"
  proof clarify
    fix l assume l: "EffectiveBestLevels st \<le> l" "l < st_Levels st"
      and ne: "refreshGeneration st side l now' \<noteq> refreshGeneration st side l now"
    from ne refresh_changes_iff [OF assms(1) l assms(2-4), of side] have "?p = deep_index st side l div ?c" by simp
    then have "?p * ?c + deep_index st side l mod ?c = deep_index st side l" by simp
    moreover have "0 \<le> deep_index st side l mod ?c" "deep_index st side l mod ?c < ?c" using c by auto
    ultimately show "deep_index st side l \<in> {?p * ?c ..< ?p * ?c + ?c}" by auto
  qed
  then have "card (deep_index st side ` ?S) \<le> card {?p * ?c ..< ?p * ?c + ?c}" by (rule card_mono [rotated]) simp
  moreover have "card (deep_index st side ` ?S) = card ?S"
    by (rule card_image [OF inj_on_subset [OF deep_index_inj [OF assms(1)]]]) auto
  ultimately show ?thesis using c by simp
qed


lemma sample_generated:
  "GenerateAt ladder_instrument ''v'' sample_market sample_reference sample_book 0 sample_now sample_now
     = Inr sample_quotes"
  by code_simp

lemma range_generated:
  "GenerateAt range_instrument ''v'' sample_market sample_reference sample_book 0 sample_now sample_now
     = Inr range_quotes"
  by code_simp


section \<open>Properties\<close>

text \<open>C3: a ladder the strategy returns is a valid set of post-only quotes. There are two quotes per
  level, a buy then a sell with the level's index, every price is positive, on the exchange's
  price grid and strictly on its own side of the venue's book, bids strictly fall and asks
  strictly rise with the level, and no bid reaches an ask of the ladder.\<close>

theorem GenerateAt_ladder:
  assumes "GenerateAt ins v market ref book inventory now clock = Inr qs"
  shows "map q_Level qs = concat (map (\<lambda>l. [l, l]) (map int [0..<nat (st_Levels (in_Strategy ins))])) \<and>
    paired qs \<and> no_self_cross qs \<and>
    sorted_wrt (>) (side_prices Buy qs) \<and> sorted_wrt (<) (side_prices Sell qs) \<and>
    list_all (\<lambda>q. 0 < q_Price q \<and> on_grid (m_PriceTick market) (q_Price q) \<and> post_only book q \<and>
      q_Venue q = v \<and> q_Symbol q = m_Symbol market \<and> q_Reference q = rp_Price ref) qs"
  using GenerateAt_ok [OF assms] by (auto simp: list_all_iff good_quote_def)

theorem GenerateAt_ladder_witness:
  "GenerateAt ladder_instrument ''v'' sample_market sample_reference sample_book 0 sample_now sample_now
     = Inr sample_quotes \<and> length sample_quotes = 4 \<and> paired sample_quotes \<and> no_self_cross sample_quotes"
  using GenerateAt_ladder [OF sample_generated] sample_generated by (simp add: sample_quotes_def)

text \<open>C15: the quantity of every generated quote is positive and on the exchange's quantity grid,
  and with a notional range its value lies within the range the strategy and the exchange both
  allow and its size within the exchange's size limits, in spite of the two roundings.\<close>

theorem GenerateAt_quantities:
  assumes "GenerateAt ins v market ref book inventory now clock = Inr qs" and "q \<in> set qs"
  shows "0 < q_Quantity q \<and> on_grid (m_QuantityStep market) (q_Quantity q) \<and>
    (UsesOrderNotionalRange (in_Strategy ins) \<longrightarrow>
       effectiveMinimum (in_Strategy ins) market \<le> notional q \<and>
       notional q \<le> effectiveMaximum (in_Strategy ins) market \<and>
       (0 < m_MinQuantity market \<longrightarrow> m_MinQuantity market \<le> q_Quantity q) \<and>
       (0 < m_MaxQuantity market \<longrightarrow> q_Quantity q \<le> m_MaxQuantity market))"
  using GenerateAt_ok(1) [OF assms(1)] assms(2)
  by (auto simp: list_all_iff good_quote_def good_quantity_def notional_def)

theorem GenerateAt_quantities_witness:
  "UsesOrderNotionalRange (in_Strategy range_instrument) \<and> sample_quote Buy 0 (997 / 500) (661 / 100) \<in> set range_quotes \<and>
   10 \<le> notional (sample_quote Buy 0 (997 / 500) (661 / 100)) \<and> on_grid (1 / 100) (661 / 100)"
proof -
  have m: "sample_quote Buy 0 (997 / 500) (661 / 100) \<in> set range_quotes" by (simp add: range_quotes_def)
  have u: "UsesOrderNotionalRange (in_Strategy range_instrument)" by (simp add: sample_defs UsesOrderNotionalRange_def)
  from GenerateAt_quantities [OF range_generated m] m u show ?thesis
    by (simp add: sample_defs effectiveMinimum_def)
qed

lemma no_panic_in_domain:
  assumes "strategy_domain (in_Strategy ins) market book"
  shows "GenerateAt ins v market ref book inventory now clock \<noteq> Inl Panic"
proof
  let ?st = "in_Strategy ins"
  assume "GenerateAt ins v market ref book inventory now clock = Inl Panic"
  with assms obtain mid where p: "0 < rp_Price ref" and m: "applyInventorySkew (rp_Price ref) ?st inventory = Some mid"
    and loop: "levelLoop ins v market ref book mid now clock (map int [0..<nat (st_Levels ?st)]) (0, 0) = Inl Panic"
    by (auto simp: GenerateAt_def result_simps strategy_domain_def applyInventorySkew_eq split: if_splits)
  have "0 \<le> mid" using skewed_mid_nonneg [OF p _ m] assms by (simp add: strategy_domain_def)
  from levels_no_panic [OF assms this] loop show False by contradiction
qed

text \<open>C33: the strategy does not panic on inputs within its arithmetic domain: positive grids,
  sizes and notionals that are not negative, an outermost spread and an inventory skew of at most
  100%, and an ask of at least one tick.\<close>

theorem GenerateAt_no_panic:
  assumes "strategy_domain (in_Strategy ins) market book"
  shows "GenerateAt ins v market ref book inventory now clock \<noteq> Inl Panic"
  using assms by (rule no_panic_in_domain)

theorem GenerateAt_no_panic_witness:
  "GenerateAt sample_instrument ''v'' sample_market sample_reference sample_book 50 sample_now sample_now \<noteq> Inl Panic"
  by (rule GenerateAt_no_panic)
    (simp add: sample_defs strategy_domain_def effectiveMinimum_def book_simps)

text \<open>The jitter applied to a price is the largest configured number of ticks whose move stays
  within the reprice threshold and below the price, and 0 when none does or a parameter is off;
  so jitter never triggers a reprice on its own and never makes a price negative.\<close>

theorem boundedJitterTicks_greatest:
  assumes "0 < configured" "0 < bps" "0 < price" "0 < tick"
  shows "boundedJitterTicks price tick configured bps =
    Max (insert 0 {n. 0 < n \<and> n \<le> configured \<and>
           tick * of_int n \<le> price * of_int bps / 10000 \<and> tick * of_int n < price})"
proof -
  let ?j = "boundedJitterTicks price tick configured bps"
  let ?A = "{n. 0 < n \<and> n \<le> configured \<and> tick * of_int n \<le> price * of_int bps / 10000 \<and> tick * of_int n < price}"
  have j: "?j = jitterLoop price tick (price * of_int bps / 10000) configured"
    using assms by (simp add: boundedJitterTicks_def)
  note s = jitterLoop_spec [of configured price tick "price * of_int bps / 10000", folded j]
  have "finite ?A" by (rule finite_subset [of _ "{0..configured}"]) auto
  moreover have "?j \<in> insert 0 ?A" using s assms(1) by auto
  moreover have "\<And>n. n \<in> insert 0 ?A \<Longrightarrow> n \<le> ?j" using s assms(1) by (auto simp: not_le [symmetric])
  ultimately show ?thesis by (intro Max_eqI [symmetric]) auto
qed

theorem boundedJitterTicks_greatest_witness:
  "boundedJitterTicks 2 (1 / 1000) 5 10 =
    Max (insert 0 {n. 0 < n \<and> n \<le> 5 \<and> 1 / 1000 * of_int n \<le> (2 :: rat) * of_int 10 / 10000 \<and> 1 / 1000 * of_int n < (2 :: rat)})"
  by (rule boundedJitterTicks_greatest) simp_all

text \<open>C39: refreshes are staggered. From one refresh window to the next at most the configured
  share of the deep levels of a side changes its generation, and exactly those whose group is due:
  the group of a level is due once in every rotation.\<close>

theorem refreshGeneration_staggered:
  assumes "rotates st" "0 \<le> unix now" "0 \<le> unix now'" "refresh_window st now' = refresh_window st now + 1"
  shows "int (card {level. EffectiveBestLevels st \<le> level \<and> level < st_Levels st \<and>
      refreshGeneration st side level now' \<noteq> refreshGeneration st side level now}) \<le> refresh_count st \<and>
    (\<forall>level. EffectiveBestLevels st \<le> level \<and> level < st_Levels st \<longrightarrow>
      (refreshGeneration st side level now' \<noteq> refreshGeneration st side level now \<longleftrightarrow>
       refresh_window st now' mod refresh_groups st = deep_index st side level div refresh_count st))"
  using refresh_changes_card [OF assms] refresh_changes_iff [OF assms(1) _ _ assms(2-4)] by blast

theorem refreshGeneration_staggered_witness:
  "rotates sample_strategy \<and> refreshGeneration sample_strategy Buy 1 (990 * second) \<noteq>
     refreshGeneration sample_strategy Buy 1 (989 * second)"
proof -
  have r: "rotates sample_strategy" by code_simp
  have w: "refresh_window sample_strategy (990 * second) = refresh_window sample_strategy (989 * second) + 1"
    "0 \<le> unix (989 * second)" "0 \<le> unix (990 * second)" by code_simp+
  have g: "refresh_window sample_strategy (990 * second) mod refresh_groups sample_strategy =
      deep_index sample_strategy Buy 1 div refresh_count sample_strategy"
    "EffectiveBestLevels sample_strategy \<le> 1" "1 < st_Levels sample_strategy" by code_simp+
  from refreshGeneration_staggered [OF r w(2,3,1), of Buy] g r show ?thesis by blast
qed

text \<open>The reference price moves against the inventory: the more base asset is held, the lower
  the mid price, never by more than the configured skew, and not at all on target.\<close>

theorem applyInventorySkew_antitone:
  assumes "0 < fair" "0 < st_MaxBaseDeviation st" "0 < st_InventorySkewBPS st" "i \<le> j"
    and "applyInventorySkew fair st i = Some mi" "applyInventorySkew fair st j = Some mj"
  shows "mj \<le> mi \<and> \<bar>mi - fair\<bar> \<le> fair * of_int (st_InventorySkewBPS st) / 10000 \<and>
    (i = st_TargetBase st \<longrightarrow> mi = fair)"
proof -
  let ?k = "(of_int (st_InventorySkewBPS st) :: rat) / 10000"
  let ?d = "\<lambda>x. max (-1) (min 1 ((x - st_TargetBase st) / st_MaxBaseDeviation st))"
  have k: "0 \<le> ?k" using assms(3) by simp
  have m: "mi = fair * (1 - ?d i * ?k)" "mj = fair * (1 - ?d j * ?k)"
    using assms(2,3,5,6) by (auto simp: applyInventorySkew_eq)
  have "(i - st_TargetBase st) / st_MaxBaseDeviation st \<le> (j - st_TargetBase st) / st_MaxBaseDeviation st"
    using assms(2,4) by (simp add: divide_right_mono)
  then have "?d i \<le> ?d j" by (auto simp: max_def min_def)
  then have "?d i * ?k \<le> ?d j * ?k" using k by (rule mult_right_mono)
  then have "mj \<le> mi" unfolding m using assms(1) by simp
  moreover have "\<bar>mi - fair\<bar> \<le> fair * ?k"
  proof -
    have "mi - fair = - (fair * (?d i * ?k))" unfolding m by (simp add: algebra_simps)
    then have "\<bar>mi - fair\<bar> = fair * (\<bar>?d i\<bar> * ?k)" using assms(1) k by (simp add: abs_mult)
    moreover have "\<bar>?d i\<bar> * ?k \<le> 1 * ?k" by (rule mult_right_mono [OF _ k]) (auto simp: abs_le_iff)
    ultimately show ?thesis using assms(1) by simp
  qed
  moreover have "i = st_TargetBase st \<longrightarrow> mi = fair" unfolding m by simp
  ultimately show ?thesis by simp
qed

theorem applyInventorySkew_antitone_witness:
  "applyInventorySkew 2 sample_strategy 0 = Some 2 \<and> applyInventorySkew 2 sample_strategy 50 = Some (999 / 500)
   \<and> (999 / 500 :: rat) \<le> 2"
proof -
  have a: "applyInventorySkew 2 sample_strategy 0 = Some 2"
    and b: "applyInventorySkew 2 sample_strategy 50 = Some (999 / 500)" by code_simp+
  from applyInventorySkew_antitone [OF _ _ _ _ a b] a b show ?thesis by (simp add: sample_defs)
qed

end
