(* ===== verification/EngineTypes.thy ===== *)
theory EngineTypes
  imports RuntimeStore TradeSim Strategy "HOL-Library.State_Monad"
begin

text \<open>
  \<^verbatim>\<open>internal/engine/engine.go\<close>, the data: the interfaces the engine calls, its mutable state, the
  snapshots it publishes (\<^verbatim>\<open>internal/runtimeops/store.go\<close>), its audit events and its metrics. The
  operations of the engine are programs of the state monad over the pair of the engine's fields and
  the world; an interface is a record of functions over the state \<open>'w\<close> of the world, and a Go
  interface the runtime store may or may not implement is an optional field. The fields that time an
  operation are readings of the clock, which stands still during one operation.
\<close>

section \<open>Snapshots\<close>

record VenueSnapshot =
  vs_Name :: string
  vs_Type :: string
  vs_Symbol :: string
  vs_TradingEnabled :: bool
  vs_MarketConnected :: bool
  vs_AccountConnected :: bool
  vs_Book :: "Book option"
  vs_BaseBalance :: "Balance option"
  vs_QuoteBalance :: "Balance option"
  vs_Budget :: "QuoteBudget option"
  vs_Rules :: "MarketRules option"
  vs_Fault :: "Snapshot option"
  vs_OpenOrders :: "Order list"
  vs_PendingOrders :: nat
  vs_Fills :: "Fill list"
  vs_Error :: string
  vs_UpdatedAt :: time
  vs_BookDurationMS :: int
  vs_OrdersDurationMS :: int
  vs_FillsDurationMS :: int
  vs_OMSDurationMS :: int

definition zero_venue_snapshot :: VenueSnapshot where
  "zero_venue_snapshot = \<lparr>vs_Name = [], vs_Type = [], vs_Symbol = [], vs_TradingEnabled = False,
     vs_MarketConnected = False, vs_AccountConnected = False, vs_Book = None, vs_BaseBalance = None,
     vs_QuoteBalance = None, vs_Budget = None, vs_Rules = None, vs_Fault = None, vs_OpenOrders = [],
     vs_PendingOrders = 0, vs_Fills = [], vs_Error = [], vs_UpdatedAt = zero_time, vs_BookDurationMS = 0,
     vs_OrdersDurationMS = 0, vs_FillsDurationMS = 0, vs_OMSDurationMS = 0\<rparr>"

record InstrumentSnapshot =
  is_InstrumentID :: string
  is_BaseSymbol :: string
  is_QuoteSymbol :: string
  is_Mode :: Mode
  is_Status :: string
  is_Paused :: bool
  is_Pause :: "PauseState option"
  is_Reference :: "ReferencePrice option"
  is_Inventory :: Decimal
  is_InventoryAvailable :: bool
  is_TargetInventory :: Decimal
  is_MaxBaseDeviation :: Decimal
  is_Venues :: "VenueSnapshot list"
  is_TradeSimulation :: "SimSnapshot option"
  is_Error :: string
  is_UpdatedAt :: time
  is_TickDurationMS :: int
  is_ReferenceDurationMS :: int
  is_BalanceDurationMS :: int

record CyclePerformance =
  cp_StartedAt :: time
  cp_DurationMS :: int
  cp_Instruments :: nat
  cp_Succeeded :: nat
  cp_Failed :: nat
  cp_ConcurrentLimit :: int

record engineMetrics =
  mt_startedAt :: time
  mt_cyclesTotal :: "64 word"
  mt_cycleFailuresTotal :: "64 word"
  mt_instrumentRunsTotal :: "64 word"
  mt_instrumentFailuresTotal :: "64 word"
  mt_venueFaultEventsTotal :: "64 word"
  mt_omsPlacedTotal :: "64 word"
  mt_omsCanceledTotal :: "64 word"
  mt_simulatedTradesTotal :: "64 word"
  mt_auditFlushErrorsTotal :: "64 word"
  mt_ruleChangesTotal :: "64 word"
  mt_leaseFenceRejectsTotal :: "64 word"

text \<open>The exported metrics: the counters, the instant of the export and the queued audit events.\<close>

record MetricsSnapshot =
  ms_metrics :: engineMetrics
  ms_UpdatedAt :: time
  ms_AuditPendingEvents :: int

record RuleChange =
  ru_InstrumentID :: string
  ru_Venue :: string
  ru_Symbol :: string
  ru_Previous :: MarketRules
  ru_Current :: MarketRules
  ru_DetectedAt :: time

record quoteSummary =
  qs_Count :: nat
  qs_BuyCount :: nat
  qs_SellCount :: nat
  qs_BestBid :: Decimal
  qs_OuterBid :: Decimal
  qs_BestAsk :: Decimal
  qs_OuterAsk :: Decimal
  qs_TotalQuantity :: Decimal

text \<open>The audit events the engine records, with their data.\<close>

datatype AuditEvent =
    AReferenceRejected string string
  | AReferencePrice ReferencePrice
  | ASimulatedTrade string string Fill
  | AQuotePlan string string Book Decimal "QuoteBudget option" quoteSummary
  | AVenueFault string string string string Snapshot "string option" "string option"
  | AOmsError string string string
  | AOmsCancelError string string string
  | AOmsResult string string Result
  | AInstrumentPaused string PauseState bool
  | AInstrumentReconciled string ReconcileRequest
  | ARulesChanged RuleChange
  | ALeaseFenceRejected string string "64 word" string


section \<open>Interfaces\<close>

record 'w MarketLocker =
  lk_Acquire :: "string \<Rightarrow> string \<Rightarrow> duration \<Rightarrow> 'w \<Rightarrow> (64 word \<times> string option) \<times> 'w"
  lk_Validate :: "string \<Rightarrow> string \<Rightarrow> 64 word \<Rightarrow> 'w \<Rightarrow> (bool \<times> string option) \<times> 'w"
  lk_Release :: "string \<Rightarrow> string \<Rightarrow> 64 word \<Rightarrow> 'w \<Rightarrow> string option \<times> 'w"

record 'w ReconcileController =
  rn_Reconciles :: "'w \<Rightarrow> (string + (string \<times> ReconcileRequest) list) \<times> 'w"
  rn_ClearReconcile :: "string \<Rightarrow> 'w \<Rightarrow> string option \<times> 'w"

record 'w Runtime =
  rt_Publish :: "InstrumentSnapshot \<Rightarrow> 'w \<Rightarrow> string option \<times> 'w"
  rt_Get :: "string \<Rightarrow> 'w \<Rightarrow> InstrumentSnapshot option \<times> 'w"
  rt_Paused :: "'w \<Rightarrow> (string + (string \<times> PauseState) list) \<times> 'w"
  rt_MarketLocker :: "'w MarketLocker option"
  rt_ReconcileController :: "'w ReconcileController option"
  rt_ReportTradingProgress :: "('w \<Rightarrow> string option \<times> 'w) option"
  rt_ReportCyclePerformance :: "(CyclePerformance \<Rightarrow> 'w \<Rightarrow> string option \<times> 'w) option"
  rt_ReportMetrics :: "(MetricsSnapshot \<Rightarrow> 'w \<Rightarrow> string option \<times> 'w) option"
  rt_ReportRuleChange :: "(RuleChange \<Rightarrow> 'w \<Rightarrow> string option \<times> 'w) option"
  rt_AppendSimulatedFill :: "(string \<Rightarrow> Fill \<Rightarrow> 'w \<Rightarrow> string option \<times> 'w) option"
  rt_OMSStore :: "'w StateStore option"
  rt_FaultStore :: "'w StateStore option"

record 'w AuditLog =
  au_Record :: "AuditEvent \<Rightarrow> time \<Rightarrow> 'w \<Rightarrow> string option \<times> 'w"
  au_Flush :: "'w \<Rightarrow> string option \<times> 'w"
  au_PendingCount :: "'w \<Rightarrow> int"

text \<open>What an engine is built from and never changes.\<close>

record 'w Deps =
  dp_oracle :: "InstrumentConfig \<Rightarrow> 'w \<Rightarrow> (string + ReferencePrice) \<times> 'w"
  dp_venues :: "string \<Rightarrow> 'w Client option"
  dp_audit :: "'w AuditLog"
  dp_runtime :: "'w Runtime option"
  dp_rng :: "'w Rng"
  dp_ownerID :: string


section \<open>State\<close>

record fillCacheEntry =
  fc_fills :: "Fill list"
  fc_errorText :: string
  fc_fetchedAt :: time

type_synonym balanceCache = "string \<Rightarrow> (string + Balance list) option"

text \<open>The fields of \<^verbatim>\<open>Engine\<close> that change, and the balance cache of the cycle in progress.\<close>

record EngineState =
  eg_cfg :: Config
  eg_reconciler :: Reconciler
  eg_faults :: FaultManager
  eg_paused :: "string \<Rightarrow> PauseState option"
  eg_pauseApplied :: "string \<Rightarrow> bool"
  eg_fillCache :: "string \<Rightarrow> fillCacheEntry option"
  eg_heldLeases :: "(string \<times> 64 word) list"
  eg_lastReferenceValidUntil :: "string \<Rightarrow> time"
  eg_lastBookAt :: "string \<Rightarrow> time"
  eg_lastInventory :: "string \<Rightarrow> Decimal option"
  eg_startupFailures :: "(string \<times> string) list"
  eg_preflightBlocked :: "(string \<times> string) list"
  eg_tradeSimulator :: SimGenerator
  eg_metrics :: engineMetrics
  eg_lastCycleError :: string
  eg_lastCycleErrorAt :: time
  eg_balances :: balanceCache

definition zero_metrics :: "time \<Rightarrow> engineMetrics" where
  "zero_metrics now = \<lparr>mt_startedAt = now, mt_cyclesTotal = 0, mt_cycleFailuresTotal = 0, mt_instrumentRunsTotal = 0,
     mt_instrumentFailuresTotal = 0, mt_venueFaultEventsTotal = 0, mt_omsPlacedTotal = 0, mt_omsCanceledTotal = 0,
     mt_simulatedTradesTotal = 0, mt_auditFlushErrorsTotal = 0, mt_ruleChangesTotal = 0, mt_leaseFenceRejectsTotal = 0\<rparr>"

definition NewWithOwner :: "Config \<Rightarrow> time \<Rightarrow> EngineState" where
  "NewWithOwner cfg now = \<lparr>eg_cfg = cfg, eg_reconciler = NewReconciler,
     eg_faults = NewWithStateStore (c_MarketFailureThreshold cfg) (c_MarketRecoveryThreshold cfg),
     eg_paused = (\<lambda>_. None), eg_pauseApplied = (\<lambda>_. False), eg_fillCache = (\<lambda>_. None), eg_heldLeases = [],
     eg_lastReferenceValidUntil = (\<lambda>_. zero_time), eg_lastBookAt = (\<lambda>_. zero_time), eg_lastInventory = (\<lambda>_. None),
     eg_startupFailures = [], eg_preflightBlocked = [], eg_tradeSimulator = NewGenerator, eg_metrics = zero_metrics now,
     eg_lastCycleError = [], eg_lastCycleErrorAt = zero_time, eg_balances = (\<lambda>_. None)\<rparr>"

type_synonym ('w, 'a) engine = "(EngineState \<times> 'w World, 'a) state"


section \<open>Steps\<close>

definition gets :: "(EngineState \<Rightarrow> 'a) \<Rightarrow> ('w, 'a) engine" where
  "gets f = State (\<lambda>(E, W). (f E, E, W))"

definition modify :: "(EngineState \<Rightarrow> EngineState) \<Rightarrow> ('w, unit) engine" where
  "modify f = State (\<lambda>(E, W). ((), f E, W))"

definition clock :: "('w, time) engine" where
  "clock = State (\<lambda>(E, W). (w_now W, E, W))"

text \<open>A call into the world, a step of the order manager, of the fault manager, of the simulator.\<close>

definition ext :: "('w \<Rightarrow> 'a \<times> 'w) \<Rightarrow> ('w, 'a) engine" where
  "ext f = State (\<lambda>(E, W). case call_ext f W of (a, W') \<Rightarrow> (a, E, W'))"

definition faultStep :: "(time \<Rightarrow> FaultManager \<Rightarrow> 'w \<Rightarrow> 'a \<times> FaultManager \<times> 'w) \<Rightarrow> ('w, 'a) engine" where
  "faultStep f = State (\<lambda>(E, W). case f (w_now W) (eg_faults E) (w_ext W) of
     (a, m, w) \<Rightarrow> (a, E\<lparr>eg_faults := m\<rparr>, W\<lparr>w_ext := w\<rparr>))"

definition simStep :: "(time \<Rightarrow> SimGenerator \<Rightarrow> 'w \<Rightarrow> 'a \<times> SimGenerator \<times> 'w) \<Rightarrow> ('w, 'a) engine" where
  "simStep f = State (\<lambda>(E, W). case f (w_now W) (eg_tradeSimulator E) (w_ext W) of
     (a, g, w) \<Rightarrow> (a, E\<lparr>eg_tradeSimulator := g\<rparr>, W\<lparr>w_ext := w\<rparr>))"

text \<open>The write guard counts and audits its own rejections. The counter grows by one for each rejected
  check in the log of the step.\<close>

definition fenceRejects :: "'w World \<Rightarrow> 'w World \<Rightarrow> nat" where
  "fenceRejects W W' = length (filter (\<lambda>c. c = CGuard False) (drop (length (w_log W)) (w_log W')))"

definition recordLeaseFenceRejections :: "nat \<Rightarrow> engineMetrics \<Rightarrow> engineMetrics" where
  "recordLeaseFenceRejections n m = m\<lparr>mt_leaseFenceRejectsTotal := mt_leaseFenceRejectsTotal m + of_nat n\<rparr>"

text \<open>A step of the order manager for a client that sent something enters the world's history: its part of the log and
  of the states in which the guard was asked.\<close>

definition stepped :: "'w Client \<Rightarrow> 'w World \<Rightarrow> 'w World \<Rightarrow> 'w World" where
  "stepped client W W' = (if w_log W' = w_log W then W'
     else W'\<lparr>w_steps := w_steps W' @ [(client, drop (length (w_log W)) (w_log W'), drop (length (w_asked W)) (w_asked W'))]\<rparr>)"

lemma stepped_simps [simp]:
  "w_log (stepped client W W') = w_log W'" "w_ext (stepped client W W') = w_ext W'" "w_now (stepped client W W') = w_now W'"
  "w_asked (stepped client W W') = w_asked W'" "w_guardErr (stepped client W W') = w_guardErr W'"
  by (simp_all add: stepped_def)

definition omsStep :: "'w Client \<Rightarrow> (Reconciler \<Rightarrow> 'w World \<Rightarrow> 'a \<times> Reconciler \<times> 'w World) \<Rightarrow> ('w, 'a) engine" where
  "omsStep client f = State (\<lambda>(E, W). case f (eg_reconciler E) W of
     (a, r, W') \<Rightarrow> (a, E\<lparr>eg_reconciler := r,
        eg_metrics := recordLeaseFenceRejections (fenceRejects W W') (eg_metrics E)\<rparr>, stepped client W W'))"

definition audit :: "'w Deps \<Rightarrow> AuditEvent \<Rightarrow> ('w, unit) engine" where
  "audit dp event = do { now \<leftarrow> clock; _ \<leftarrow> ext (au_Record (dp_audit dp) event now); State_Monad.return () }"

text \<open>A call the runtime store may not offer, and whose result is ignored.\<close>

definition optionally :: "('w \<Rightarrow> string option \<times> 'w) option \<Rightarrow> ('w, string option) engine" where
  "optionally f = (case f of None \<Rightarrow> State_Monad.return None | Some g \<Rightarrow> ext g)"

text \<open>A loop over a list that threads an accumulator.\<close>

fun foldE :: "('x \<Rightarrow> 'a \<Rightarrow> ('w, 'a) engine) \<Rightarrow> 'x list \<Rightarrow> 'a \<Rightarrow> ('w, 'a) engine" where
  "foldE f [] a = State_Monad.return a"
| "foldE f (x # xs) a = do { b \<leftarrow> f x a; foldE f xs b }"

end
