(* ===== verification/Engine.thy ===== *)
theory Engine
  imports EngineTypes
begin

text \<open>
  \<^verbatim>\<open>internal/engine/engine.go\<close>, the operations: leases and fenced cancellation, the cycle of one market,
  of one instrument and of all of them, preflight, rule refresh, operator controls, hot parameter
  changes and shutdown. A loop over a Go map runs in the order of the association list; the pieces of
  the long loop body of \<^verbatim>\<open>runInstrument\<close> are separate definitions in the order of the code. Log lines
  are not modelled. A panic is recorded as such, without its text.
\<close>

section \<open>Texts and small helpers\<close>

fun Join :: "string \<Rightarrow> string list \<Rightarrow> string" where
  "Join sep [] = []"
| "Join sep [x] = x"
| "Join sep (x # y # ys) = x @ sep @ Join sep (y # ys)"

abbreviation joined :: "string list \<Rightarrow> string" where "joined \<equiv> Join ''; ''"

definition joinedError :: "string list \<Rightarrow> string option" where
  "joinedError failures = (if failures = [] then None else Some (joined failures))"

definition appendError :: "string \<Rightarrow> string \<Rightarrow> string" where
  "appendError current new = (if current = [] then new else current @ ''; '' @ new)"

definition errorString :: "string option \<Rightarrow> string" where
  "errorString err = (case err of None \<Rightarrow> [] | Some e \<Rightarrow> e)"

text \<open>The messages of the strategy's and the risk checks' errors.\<close>

fun strategyText :: "StrategyError \<Rightarrow> string" where
  "strategyText ReferenceNotPositive = ''reference price is not positive''"
| "strategyText BookCrossed = ''crossed venue book''"
| "strategyText QuoteRoundedToZero = ''quote rounded to zero''"
| "strategyText QuotesCross = ''generated quotes cross''"
| "strategyText LegacySizeZero = ''legacy order size rounded to zero''"
| "strategyText (RangeIncompatible a b c d) = ''configured notional range '' @ DecString a @ ''-'' @ DecString b @
     '' is incompatible with exchange range '' @ DecString c @ ''-'' @ DecString d"
| "strategyText (RangeUnsatisfiable a b c d) = ''notional range '' @ DecString a @ ''-'' @ DecString b @
     '' cannot satisfy quantity step '' @ DecString c @ '' and exchange limits at price '' @ DecString d"
| "strategyText QuantityZero = ''order quantity rounded to zero''"
| "strategyText (NotionalOutsideRange a b c) = ''rounded notional '' @ DecString a @ '' is outside effective range '' @
     DecString b @ ''-'' @ DecString c"
| "strategyText (AtLevel side level e) = (if side = Buy then ''buy'' else ''sell'') @ '' level '' @ itoa level @ '': '' @
     strategyText e"

fun riskText :: "RiskError \<Rightarrow> string" where
  "riskText BookStale = ''venue book is stale''"
| "riskText ReferenceExpired = ''quote reference expired''"
| "riskText BuyTakesLiquidity = ''buy quote would take liquidity''"
| "riskText SellTakesLiquidity = ''sell quote would take liquidity''"
| "riskText BelowMinNotional = ''quote below minimum notional''"
| "riskText BelowMinQuantity = ''quote below exchange minimum quantity''"
| "riskText AboveMaxQuantity = ''quote above exchange maximum quantity''"
| "riskText AboveMaxNotional = ''quote above exchange maximum notional''"
| "riskText BelowMinPrice = ''quote below exchange minimum price''"
| "riskText AboveMaxPrice = ''quote above exchange maximum price''"
| "riskText TargetSelfCross = ''target quotes self-cross''"
| "riskText AllBlockedByInventory = ''all quote sides blocked by inventory limits''"
| "riskText InvalidReference = ''invalid reference price''"
| "riskText CrossedBook = ''crossed venue book''"
| "riskText (VenueDeviation d n) = ''venue/reference deviation '' @ DecString d @ '' bps exceeds '' @ itoa n"
| "riskText (VenueSpread d n) = ''venue spread '' @ DecString d @ '' bps exceeds '' @ itoa n"

text \<open>The note on a missing book, in UTF-8.\<close>

definition bookUnavailable :: string where
  "bookUnavailable = map char_of [231, 155, 152, 229, 143, 163, 228, 184, 141, 229, 143, 175, 231, 148, 168, 239, 188, 140,
     230, 140, 137, 230, 140, 135, 230, 149, 176, 228, 187, 183, 233, 147, 186, 229, 141, 149, 58, 32 :: nat]"

definition accountCacheKey :: "string \<Rightarrow> int \<Rightarrow> string" where
  "accountCacheKey venueType credentialID = ToLower venueType @ ''/'' @ itoa credentialID"

definition marketFaultKey :: "string \<Rightarrow> string \<Rightarrow> VenueMarketConfig \<Rightarrow> string" where
  "marketFaultKey venueName instrumentID market =
     ToLower (TrimSpace venueName @ ''/'' @ itoa (m_CredentialID market) @ ''/'' @ TrimSpace instrumentID @ ''/'' @
       TrimSpace (m_Symbol market))"

definition marketLeaseKey :: "string \<Rightarrow> string \<Rightarrow> VenueMarketConfig \<Rightarrow> string" where
  "marketLeaseKey venueName instrumentID market =
     ToLower (venueName @ ''/'' @ itoa (m_CredentialID market) @ ''/'' @ instrumentID @ ''/'' @ m_Symbol market)"

definition findBalance :: "Balance list \<Rightarrow> string \<Rightarrow> Balance option" where
  "findBalance balances asset = find (\<lambda>b. EqualFold (bal_Asset b) asset) balances"

definition marketRulesFromConfig :: "VenueMarketConfig \<Rightarrow> MarketRules" where
  "marketRulesFromConfig m = \<lparr>mr_Symbol = m_Symbol m, mr_BaseAsset = m_BaseAsset m, mr_QuoteAsset = m_QuoteAsset m,
     mr_PriceTick = m_PriceTick m, mr_QuantityStep = m_QuantityStep m, mr_MinQuantity = m_MinQuantity m,
     mr_MaxQuantity = m_MaxQuantity m, mr_MinNotional = m_MinNotional m, mr_MaxNotional = m_MaxNotional m,
     mr_MinPrice = m_MinPrice m, mr_MaxPrice = m_MaxPrice m, mr_MaxOpenOrders = m_MaxOpenOrders m\<rparr>"

definition applyMarketRules :: "VenueMarketConfig \<Rightarrow> MarketRules \<Rightarrow> VenueMarketConfig" where
  "applyMarketRules market rules = market\<lparr>
     m_PriceTick := mr_PriceTick rules, m_QuantityStep := mr_QuantityStep rules,
     m_MinNotional := (if IsPositive (mr_MinNotional rules) then mr_MinNotional rules else m_MinNotional market),
     m_MinQuantity := mr_MinQuantity rules, m_MaxQuantity := mr_MaxQuantity rules, m_MaxNotional := mr_MaxNotional rules,
     m_MinPrice := mr_MinPrice rules, m_MaxPrice := mr_MaxPrice rules, m_MaxOpenOrders := mr_MaxOpenOrders rules\<rparr>"

definition equalMarketRules :: "MarketRules \<Rightarrow> MarketRules \<Rightarrow> bool" where
  "equalMarketRules a b \<longleftrightarrow> EqualFold (mr_Symbol a) (mr_Symbol b) \<and> EqualFold (mr_BaseAsset a) (mr_BaseAsset b) \<and>
     EqualFold (mr_QuoteAsset a) (mr_QuoteAsset b) \<and> Cmp (mr_PriceTick a) (mr_PriceTick b) = 0 \<and>
     Cmp (mr_QuantityStep a) (mr_QuantityStep b) = 0 \<and> Cmp (mr_MinQuantity a) (mr_MinQuantity b) = 0 \<and>
     Cmp (mr_MaxQuantity a) (mr_MaxQuantity b) = 0 \<and> Cmp (mr_MinNotional a) (mr_MinNotional b) = 0 \<and>
     Cmp (mr_MaxNotional a) (mr_MaxNotional b) = 0 \<and> Cmp (mr_MinPrice a) (mr_MinPrice b) = 0 \<and>
     Cmp (mr_MaxPrice a) (mr_MaxPrice b) = 0 \<and> mr_MaxOpenOrders a = mr_MaxOpenOrders b"

definition summarizeStep :: "Quote \<Rightarrow> quoteSummary \<Rightarrow> quoteSummary" where
  "summarizeStep q s =
    (let s1 = s\<lparr>qs_TotalQuantity := qs_TotalQuantity s + q_Quantity q\<rparr> in
     if q_Side q = Buy
     then let n = qs_BuyCount s1 + 1 in
       s1\<lparr>qs_BuyCount := n,
          qs_BestBid := (if n = 1 \<or> Cmp (q_Price q) (qs_BestBid s1) > 0 then q_Price q else qs_BestBid s1),
          qs_OuterBid := (if n = 1 \<or> Cmp (q_Price q) (qs_OuterBid s1) < 0 then q_Price q else qs_OuterBid s1)\<rparr>
     else let n = qs_SellCount s1 + 1 in
       s1\<lparr>qs_SellCount := n,
          qs_BestAsk := (if n = 1 \<or> Cmp (q_Price q) (qs_BestAsk s1) < 0 then q_Price q else qs_BestAsk s1),
          qs_OuterAsk := (if n = 1 \<or> Cmp (q_Price q) (qs_OuterAsk s1) > 0 then q_Price q else qs_OuterAsk s1)\<rparr>)"

definition summarizeQuotes :: "Quote list \<Rightarrow> quoteSummary" where
  "summarizeQuotes quotes = fold summarizeStep quotes
     \<lparr>qs_Count = length quotes, qs_BuyCount = 0, qs_SellCount = 0, qs_BestBid = 0, qs_OuterBid = 0, qs_BestAsk = 0,
      qs_OuterAsk = 0, qs_TotalQuantity = 0\<rparr>"

text \<open>Metrics.\<close>

definition recordVenueFault :: "engineMetrics \<Rightarrow> engineMetrics" where
  "recordVenueFault m = m\<lparr>mt_venueFaultEventsTotal := mt_venueFaultEventsTotal m + 1\<rparr>"

definition recordOMS :: "nat \<Rightarrow> nat \<Rightarrow> engineMetrics \<Rightarrow> engineMetrics" where
  "recordOMS placed canceled m = m\<lparr>mt_omsPlacedTotal := mt_omsPlacedTotal m + of_nat placed,
     mt_omsCanceledTotal := mt_omsCanceledTotal m + of_nat canceled\<rparr>"

definition recordCycle :: "nat \<Rightarrow> nat \<Rightarrow> engineMetrics \<Rightarrow> engineMetrics" where
  "recordCycle instruments failures m = m\<lparr>mt_cyclesTotal := mt_cyclesTotal m + 1,
     mt_cycleFailuresTotal := (if failures > 0 then mt_cycleFailuresTotal m + 1 else mt_cycleFailuresTotal m),
     mt_instrumentRunsTotal := mt_instrumentRunsTotal m + of_nat instruments,
     mt_instrumentFailuresTotal := mt_instrumentFailuresTotal m + of_nat failures\<rparr>"

definition recordSimulatedTrade :: "engineMetrics \<Rightarrow> engineMetrics" where
  "recordSimulatedTrade m = m\<lparr>mt_simulatedTradesTotal := mt_simulatedTradesTotal m + 1\<rparr>"

definition recordAuditFlushError :: "engineMetrics \<Rightarrow> engineMetrics" where
  "recordAuditFlushError m = m\<lparr>mt_auditFlushErrorsTotal := mt_auditFlushErrorsTotal m + 1\<rparr>"

definition recordRuleChange :: "engineMetrics \<Rightarrow> engineMetrics" where
  "recordRuleChange m = m\<lparr>mt_ruleChangesTotal := mt_ruleChangesTotal m + 1\<rparr>"

definition count_metric :: "(engineMetrics \<Rightarrow> engineMetrics) \<Rightarrow> ('w, unit) engine" where
  "count_metric f = modify (\<lambda>E. E\<lparr>eg_metrics := f (eg_metrics E)\<rparr>)"


section \<open>Leases and fenced cancellation\<close>

definition marketLocker :: "'w Deps \<Rightarrow> 'w MarketLocker option" where
  "marketLocker dp = Option.bind (dp_runtime dp) rt_MarketLocker"

definition omsStore :: "'w Deps \<Rightarrow> 'w StateStore option" where
  "omsStore dp = Option.bind (dp_runtime dp) rt_OMSStore"

definition faultStore :: "'w Deps \<Rightarrow> 'w StateStore option" where
  "faultStore dp = Option.bind (dp_runtime dp) rt_FaultStore"

definition marketLeaseTTL :: "Config \<Rightarrow> duration" where
  "marketLeaseTTL cfg =
    (let configured = int64 (int64 (c_WatchdogTimeoutSeconds cfg * second) * 2)
     in if configured > 30 * second then configured else 30 * second)"

definition acquireMarketLease :: "'w Deps \<Rightarrow> Config \<Rightarrow> string \<Rightarrow> ('w, 64 word \<times> string option) engine" where
  "acquireMarketLease dp cfg key =
    (case marketLocker dp of
       None \<Rightarrow> State_Monad.return (1, None)
     | Some locker \<Rightarrow> do {
         (generation, err) \<leftarrow> ext (lk_Acquire locker key (dp_ownerID dp) (marketLeaseTTL cfg));
         (if generation > 0 \<and> err = None
          then modify (\<lambda>E. E\<lparr>eg_heldLeases := AList.update key generation (eg_heldLeases E)\<rparr>)
          else State_Monad.return ());
         State_Monad.return (generation, err)
       })"

definition releaseMarketLease :: "'w Deps \<Rightarrow> string \<Rightarrow> 64 word \<Rightarrow> ('w, string option) engine" where
  "releaseMarketLease dp key generation = do {
     held \<leftarrow> gets (\<lambda>E. map_of (eg_heldLeases E) key);
     case marketLocker dp of
       None \<Rightarrow> State_Monad.return None
     | Some locker \<Rightarrow>
         if held \<noteq> Some generation then State_Monad.return None
         else do {
           err \<leftarrow> ext (lk_Release locker key (dp_ownerID dp) generation);
           (if err = None
            then modify (\<lambda>E. if map_of (eg_heldLeases E) key = Some generation
                             then E\<lparr>eg_heldLeases := AList.delete key (eg_heldLeases E)\<rparr> else E)
            else State_Monad.return ());
           State_Monad.return err
         }
   }"

definition marketWriteGuard :: "'w Deps \<Rightarrow> time \<Rightarrow> string \<Rightarrow> 64 word \<Rightarrow> 'w WriteGuard" where
  "marketWriteGuard dp now key generation =
    (case marketLocker dp of
       None \<Rightarrow> None
     | Some locker \<Rightarrow> Some (\<lambda>w.
         case lk_Validate locker key (dp_ownerID dp) generation w of
           ((valid, Some e), w1) \<Rightarrow>
             (Some (''validate market lease generation '' @ utoa (unat generation) @ '': '' @ e),
              snd (au_Record (dp_audit dp) (ALeaseFenceRejected key (dp_ownerID dp) generation e) now w1))
         | ((valid, None), w1) \<Rightarrow>
             if \<not> valid
             then (Some (''stale market lease generation '' @ utoa (unat generation)),
                   snd (au_Record (dp_audit dp)
                     (ALeaseFenceRejected key (dp_ownerID dp) generation ''lease is no longer current'') now w1))
             else (None, w1)))"

text \<open>One tick of the goroutine that \<^verbatim>\<open>keepMarketLease\<close> starts: whether the renewal goes on; otherwise
  the context of the guarded calls is cancelled. The goroutine runs beside the operation.\<close>

definition renewMarketLease :: "'w MarketLocker \<Rightarrow> string \<Rightarrow> string \<Rightarrow> duration \<Rightarrow> 64 word \<Rightarrow> 'w \<Rightarrow> bool \<times> 'w" where
  "renewMarketLease locker owner key ttl generation w =
    (case lk_Acquire locker key owner ttl w of
       ((current, err), w') \<Rightarrow> (\<not> (err \<noteq> None \<or> current \<noteq> generation), w'))"

definition ownedByOther :: string where "ownedByOther = ''market is owned by another engine instance''"

text \<open>Cancelling under a guard, with the metrics.\<close>

definition cancelGuarded :: "'w Deps \<Rightarrow> 'w Client \<Rightarrow> string \<Rightarrow> string \<Rightarrow> string \<Rightarrow> 64 word \<Rightarrow> ('w, string option) engine" where
  "cancelGuarded dp client instrumentID symb leaseKey generation = do {
     now \<leftarrow> clock;
     (canceled, err) \<leftarrow> omsStep client (CancelManagedGuardedWithResult (omsStore dp) client instrumentID symb
        (marketWriteGuard dp now leaseKey generation));
     count_metric (recordOMS 0 canceled);
     State_Monad.return err
   }"

definition cancelManagedFenced :: "'w Deps \<Rightarrow> Config \<Rightarrow> string \<Rightarrow> string \<Rightarrow> VenueMarketConfig \<Rightarrow> 'w Client
    \<Rightarrow> ('w, string option) engine" where
  "cancelManagedFenced dp cfg venueName instrumentID market client = do {
     let leaseKey = marketLeaseKey venueName instrumentID market;
     (generation, err) \<leftarrow> acquireMarketLease dp cfg leaseKey;
     case err of
       Some e \<Rightarrow> State_Monad.return (Some (''acquire market lease: '' @ e))
     | None \<Rightarrow>
         if generation = 0 then State_Monad.return (Some ownedByOther)
         else cancelGuarded dp client instrumentID (m_Symbol market) leaseKey generation
   }"

definition markVenueFailure :: "'w Deps \<Rightarrow> Config \<Rightarrow> string \<Rightarrow> string \<Rightarrow> VenueConfig \<Rightarrow> VenueMarketConfig \<Rightarrow> 'w Client
    \<Rightarrow> string \<Rightarrow> string \<Rightarrow> bool \<Rightarrow> ('w, Snapshot \<times> string option) engine" where
  "markVenueFailure dp cfg instrumentID venueName venueCfg market client stage cause forceCancel = do {
     count_metric recordVenueFault;
     (decision, persistErr) \<leftarrow> faultStep (\<lambda>now. FailureWithContext (faultStore dp)
        (marketFaultKey venueName instrumentID market) stage (Some cause) forceCancel now);
     let shouldCancel = (d_ShouldCancel decision \<or> persistErr \<noteq> None);
     let state = (if persistErr \<noteq> None
                  then (d_State decision)\<lparr>sn_Status := Canceling, sn_OrdersRetained := False\<rparr> else d_State decision);
     if \<not> shouldCancel \<or> c_Mode cfg \<noteq> ModeLive \<or> \<not> v_TradingEnabled venueCfg
     then State_Monad.return (state, map_option (\<lambda>e. ''persist fault state: '' @ e) persistErr)
     else do {
       err \<leftarrow> cancelManagedFenced dp cfg venueName instrumentID market client;
       audit dp (AVenueFault instrumentID venueName stage cause state err persistErr);
       State_Monad.return (state, case persistErr of
           None \<Rightarrow> err
         | Some e \<Rightarrow> Some (appendError (errorString err) (''persist fault state: '' @ e)))
     }
   }"


section \<open>The cycle of a market\<close>

definition clientFor :: "'w Deps \<Rightarrow> string \<Rightarrow> string \<Rightarrow> 'w Client option" where
  "clientFor dp venueName instrumentID = dp_venues dp (ClientKey venueName instrumentID)"

definition newSnapshot :: "Config \<Rightarrow> InstrumentConfig \<Rightarrow> InstrumentSnapshot" where
  "newSnapshot cfg ins =
    \<lparr>is_InstrumentID = in_ID ins, is_BaseSymbol = as_Symbol (in_Base ins), is_QuoteSymbol = as_Symbol (in_Quote ins),
     is_Mode = c_Mode cfg, is_Status = ''running'', is_Paused = False, is_Pause = None, is_Reference = None,
     is_Inventory = 0, is_InventoryAvailable = False, is_TargetInventory = st_TargetBase (in_Strategy ins),
     is_MaxBaseDeviation = st_MaxBaseDeviation (in_Strategy ins), is_Venues = [],
     is_TradeSimulation = (if sim_Enabled (in_TradeSimulation ins)
        then Some \<lparr>ts_Enabled = True, ts_SourceVenue = sim_SourceVenue (in_TradeSimulation ins), ts_Status = ''waiting'',
          ts_LastGeneratedAt = zero_time, ts_NextAt = zero_time, ts_Fills = [], ts_Error = []\<rparr>
        else None),
     is_Error = [], is_UpdatedAt = zero_time, is_TickDurationMS = 0, is_ReferenceDurationMS = 0, is_BalanceDurationMS = 0\<rparr>"

definition venueSnapshotOf :: "string \<Rightarrow> VenueConfig \<Rightarrow> VenueMarketConfig \<Rightarrow> time \<Rightarrow> VenueSnapshot" where
  "venueSnapshotOf venueName venueCfg market now = zero_venue_snapshot\<lparr>vs_Name := venueName, vs_Type := v_Type venueCfg,
     vs_Symbol := m_Symbol market, vs_TradingEnabled := v_TradingEnabled venueCfg, vs_UpdatedAt := now\<rparr>"

definition addVenue :: "VenueSnapshot \<Rightarrow> InstrumentSnapshot \<Rightarrow> InstrumentSnapshot" where
  "addVenue vs snap = snap\<lparr>is_Venues := is_Venues snap @ [vs]\<rparr>"

definition addError :: "string \<Rightarrow> VenueSnapshot \<Rightarrow> VenueSnapshot" where
  "addError e vs = vs\<lparr>vs_Error := appendError (vs_Error vs) e\<rparr>"

definition emptyBook :: "string \<Rightarrow> string \<Rightarrow> Book" where
  "emptyBook venueName symb = \<lparr>b_Venue = venueName, b_Symbol = symb, b_BidPrice = 0, b_BidQty = 0, b_AskPrice = 0,
     b_AskQty = 0, b_Timestamp = zero_time\<rparr>"

text \<open>\<^verbatim>\<open>balanceCache.fetch\<close>: one lookup per account and cycle, its error included.\<close>

definition fetchBalances :: "string \<Rightarrow> 'w Client \<Rightarrow> ('w, string + Balance list) engine" where
  "fetchBalances key client = do {
     cached \<leftarrow> gets (\<lambda>E. eg_balances E key);
     case cached of
       Some entry \<Rightarrow> State_Monad.return entry
     | None \<Rightarrow> do {
         entry \<leftarrow> ext (cl_Balances client);
         modify (\<lambda>E. E\<lparr>eg_balances := (eg_balances E)(key \<mapsto> entry)\<rparr>);
         State_Monad.return entry
       }
   }"

record BalanceView =
  bv_byVenue :: "string \<Rightarrow> Balance list option"
  bv_total :: Decimal
  bv_count :: nat
  bv_errors :: "string \<Rightarrow> string option"

definition collectStep :: "'w Deps \<Rightarrow> Config \<Rightarrow> InstrumentConfig \<Rightarrow> string \<times> VenueConfig \<Rightarrow> BalanceView \<Rightarrow> ('w, BalanceView) engine" where
  "collectStep dp cfg ins v bv =
    (let (venueName, venueCfg) = v in
     if \<not> v_Enabled venueCfg \<or> (c_Mode cfg = ModeLive \<and> \<not> v_TradingEnabled venueCfg) then State_Monad.return bv
     else case map_of (v_Markets venueCfg) (in_ID ins) of
       None \<Rightarrow> State_Monad.return bv
     | Some market \<Rightarrow>
         if m_CredentialID market \<le> 0 then State_Monad.return bv
         else (case clientFor dp venueName (in_ID ins) of
                 None \<Rightarrow> State_Monad.return (bv\<lparr>bv_errors := (bv_errors bv)(venueName \<mapsto> ''client missing'')\<rparr>)
               | Some client \<Rightarrow> do {
                   reply \<leftarrow> fetchBalances (accountCacheKey (v_Type venueCfg) (m_CredentialID market)) client;
                   State_Monad.return (case reply of
                       Inl e \<Rightarrow> bv\<lparr>bv_errors := (bv_errors bv)(venueName \<mapsto> e)\<rparr>
                     | Inr balances \<Rightarrow>
                         bv\<lparr>bv_total := (case findBalance balances (m_BaseAsset market) of
                               None \<Rightarrow> bv_total bv | Some b \<Rightarrow> bv_total bv + bal_Free b + bal_Locked b),
                            bv_byVenue := (bv_byVenue bv)(venueName \<mapsto> balances), bv_count := bv_count bv + 1\<rparr>)
                 }))"

definition collectBalances :: "'w Deps \<Rightarrow> Config \<Rightarrow> InstrumentConfig \<Rightarrow> ('w, BalanceView) engine" where
  "collectBalances dp cfg ins = foldE (collectStep dp cfg ins) (c_Venues cfg)
     \<lparr>bv_byVenue = (\<lambda>_. None), bv_total = 0, bv_count = 0, bv_errors = (\<lambda>_. None)\<rparr>"

definition recentFills :: "string \<Rightarrow> string \<Rightarrow> 'w Client \<Rightarrow> string \<Rightarrow> ('w, Fill list \<times> string option) engine" where
  "recentFills venueName instrumentID client symb =
    (case cl_FillReader client of
       None \<Rightarrow> State_Monad.return ([], None)
     | Some reader \<Rightarrow> do {
         let key = ClientKey venueName instrumentID;
         now \<leftarrow> clock;
         cached \<leftarrow> gets (\<lambda>E. eg_fillCache E key);
         let fresh = (case cached of None \<Rightarrow> None
                      | Some entry \<Rightarrow> if time_sub now (fc_fetchedAt entry) < 10 * second then Some entry else None);
         case fresh of
           Some entry \<Rightarrow>
             State_Monad.return (fc_fills entry, if fc_errorText entry \<noteq> [] then Some (fc_errorText entry) else None)
         | None \<Rightarrow> do {
             reply \<leftarrow> ext (reader symb 50);
             let fills = (case reply of Inl _ \<Rightarrow> [] | Inr fs \<Rightarrow> fs);
             let err = (case reply of Inl e \<Rightarrow> Some e | Inr _ \<Rightarrow> None);
             modify (\<lambda>E. E\<lparr>eg_fillCache := (eg_fillCache E)(key \<mapsto>
               \<lparr>fc_fills = fills, fc_errorText = errorString err, fc_fetchedAt = now\<rparr>)\<rparr>);
             State_Monad.return (fills, err)
           }
       })"

text \<open>The account part of a venue's snapshot.\<close>

definition withBalances :: "VenueMarketConfig \<Rightarrow> Balance list \<Rightarrow> VenueSnapshot \<Rightarrow> VenueSnapshot" where
  "withBalances market balances vs =
    (let none = (\<lambda>asset. \<lparr>bal_Asset = asset, bal_Free = 0, bal_Locked = 0\<rparr>);
         pick = (\<lambda>asset. case findBalance balances asset of None \<Rightarrow> none asset | Some b \<Rightarrow> b)
     in vs\<lparr>vs_AccountConnected := True, vs_BaseBalance := Some (pick (m_BaseAsset market)),
           vs_QuoteBalance := Some (pick (m_QuoteAsset market))\<rparr>)"

text \<open>What the loop body over the venues returns: whether it panicked, the instrument's snapshot and the
  failures so far. A market that fails ends its iteration with its snapshot appended.\<close>

type_synonym MarketRun = "bool \<times> InstrumentSnapshot \<times> string list"

definition closeMarket :: "InstrumentSnapshot \<Rightarrow> VenueSnapshot \<Rightarrow> string list \<Rightarrow> ('w, MarketRun) engine" where
  "closeMarket snap vs failures = State_Monad.return (False, addVenue vs snap, failures)"

definition panicked :: "InstrumentSnapshot \<Rightarrow> string list \<Rightarrow> ('w, MarketRun) engine" where
  "panicked snap failures = State_Monad.return (True, snap, failures)"

text \<open>A stage that fails the market: the fault manager decides about the resting orders.\<close>

definition failMarket :: "'w Deps \<Rightarrow> Config \<Rightarrow> InstrumentConfig \<Rightarrow> string \<Rightarrow> VenueConfig \<Rightarrow> VenueMarketConfig \<Rightarrow> 'w Client
    \<Rightarrow> string \<Rightarrow> string \<Rightarrow> string \<Rightarrow> VenueSnapshot \<Rightarrow> InstrumentSnapshot \<Rightarrow> string list \<Rightarrow> ('w, MarketRun) engine" where
  "failMarket dp cfg ins venueName venueCfg market client stage label cause vs snap failures = do {
     (state, cancelErr) \<leftarrow> markVenueFailure dp cfg (in_ID ins) venueName venueCfg market client stage cause True;
     closeMarket snap
       (addError (appendError (label @ '': '' @ cause) (errorString cancelErr)) (vs\<lparr>vs_Fault := Some state\<rparr>))
       (failures @ [venueName @ '' '' @ label @ '': '' @ cause])
   }"

definition simulateTrades :: "'w Deps \<Rightarrow> InstrumentConfig \<Rightarrow> string \<Rightarrow> VenueMarketConfig \<Rightarrow> Book \<Rightarrow> InstrumentSnapshot
    \<Rightarrow> ('w, bool \<times> InstrumentSnapshot) engine" where
  "simulateTrades dp ins venueName market book snap =
    (if sim_Enabled (in_TradeSimulation ins) \<and> venueName = sim_SourceVenue (in_TradeSimulation ins)
     then do {
       observed \<leftarrow> simStep (\<lambda>now. Observe (dp_rng dp) ins venueName market book now);
       case observed of
         Inl Panic \<Rightarrow> State_Monad.return (True, snap)
       | Inl (Fail _) \<Rightarrow> State_Monad.return (True, snap)
       | Inr (simulation, None) \<Rightarrow> State_Monad.return (False, snap\<lparr>is_TradeSimulation := Some simulation\<rparr>)
       | Inr (simulation, Some fill) \<Rightarrow> do {
           err \<leftarrow> optionally (map_option (\<lambda>f. f (in_ID ins) fill) (Option.bind (dp_runtime dp) rt_AppendSimulatedFill));
           audit dp (ASimulatedTrade (in_ID ins) venueName fill);
           count_metric recordSimulatedTrade;
           State_Monad.return (False, snap\<lparr>is_TradeSimulation := Some (case err of
               None \<Rightarrow> simulation
             | Some e \<Rightarrow> simulation\<lparr>ts_Error := appendError (ts_Error simulation) (''publish stream: '' @ e)\<rparr>)\<rparr>)
         }
     }
     else State_Monad.return (False, snap))"

text \<open>Open orders and fills of a market with an account.\<close>

definition observeAccount :: "InstrumentConfig \<Rightarrow> string \<Rightarrow> VenueMarketConfig \<Rightarrow> 'w Client \<Rightarrow> VenueSnapshot
    \<Rightarrow> ('w, string option \<times> VenueSnapshot) engine" where
  "observeAccount ins venueName market client vs =
    (if m_CredentialID market > 0
     then do {
       reply \<leftarrow> ext (cl_OpenOrders client (m_Symbol market));
       let vs1 = (case reply of
           Inl e \<Rightarrow> addError (''orders: '' @ e) (vs\<lparr>vs_OpenOrders := [], vs_AccountConnected := False\<rparr>)
         | Inr orders \<Rightarrow> vs\<lparr>vs_OpenOrders := orders, vs_AccountConnected := True\<rparr>);
       (fills, err) \<leftarrow> recentFills venueName (in_ID ins) client (m_Symbol market);
       let vs2 = vs1\<lparr>vs_Fills := fills\<rparr>;
       State_Monad.return (case reply of Inl e \<Rightarrow> Some e | Inr _ \<Rightarrow> None,
         case err of None \<Rightarrow> vs2 | Some e \<Rightarrow> addError (''fills: '' @ e) vs2)
     }
     else State_Monad.return (None, vs))"

text \<open>The path of a market that must not trade: the health check only.\<close>

definition shadowMarket :: "'w Deps \<Rightarrow> InstrumentConfig \<Rightarrow> string \<Rightarrow> VenueMarketConfig \<Rightarrow> Book \<Rightarrow> Decimal \<Rightarrow> Quote list
    \<Rightarrow> VenueSnapshot \<Rightarrow> InstrumentSnapshot \<Rightarrow> string list \<Rightarrow> ('w, MarketRun) engine" where
  "shadowMarket dp ins venueName market book inventory quotes vs snap failures = do {
     (health, healthErr) \<leftarrow> faultStep (\<lambda>now. HealthyWithContext (faultStore dp)
        (marketFaultKey venueName (in_ID ins) market) 0 now);
     case healthErr of
       Some e \<Rightarrow> closeMarket snap (addError (''fault persistence: '' @ e) vs)
         (failures @ [venueName @ '' fault persistence: '' @ e])
     | None \<Rightarrow> do {
         audit dp (AQuotePlan (in_ID ins) venueName book inventory None (summarizeQuotes quotes));
         closeMarket snap (vs\<lparr>vs_Fault := Some (d_State health)\<rparr>)
           (if sn_Status (d_State health) \<noteq> Normal
            then failures @ [venueName @ '' fault state: '' @ status_text (sn_Status (d_State health))] else failures)
       }
   }"

definition refreshPolicy :: "StrategyConfig \<Rightarrow> nat \<Rightarrow> RefreshPolicy" where
  "refreshPolicy st n =
    (if st_QuoteRefreshSeconds st > 0
     then \<lparr>rf_MinOrderAge = EffectiveMinOrderLifetime st, rf_MaxOrderAge = EffectiveMaxOrderLifetime st,
           rf_MaxRefreshesPerCycle = RefreshOrdersPerCycle st (int n)\<rparr>
     else noRefresh)"

text \<open>The order manager's cycle, and on its error the cancellation of the market.\<close>

definition placeMarket :: "'w Deps \<Rightarrow> Config \<Rightarrow> InstrumentConfig \<Rightarrow> string \<Rightarrow> VenueConfig \<Rightarrow> VenueMarketConfig \<Rightarrow> 'w Client
    \<Rightarrow> string \<Rightarrow> 64 word \<Rightarrow> Quote list \<Rightarrow> VenueSnapshot \<Rightarrow> InstrumentSnapshot \<Rightarrow> string list \<Rightarrow> ('w, MarketRun) engine" where
  "placeMarket dp cfg ins venueName venueCfg market client leaseKey generation quotes vs snap failures = do {
     now \<leftarrow> clock;
     (result, err) \<leftarrow> omsStep client (ReconcileWithOrdersGuardedPolicy (omsStore dp) client (in_ID ins) quotes
        (st_RepriceThresholdBPS (in_Strategy ins)) (vs_OpenOrders vs) (marketWriteGuard dp now leaseKey generation) generation
        (refreshPolicy (in_Strategy ins) (length quotes)));
     case err of
       Some e \<Rightarrow> do {
         cancelErr \<leftarrow> cancelGuarded dp client (in_ID ins) (m_Symbol market) leaseKey generation;
         (state, _) \<leftarrow> markVenueFailure dp cfg (in_ID ins) venueName venueCfg market client ''oms'' e True;
         audit dp (AOmsError (in_ID ins) venueName e);
         (case cancelErr of None \<Rightarrow> State_Monad.return () | Some c \<Rightarrow> audit dp (AOmsCancelError (in_ID ins) venueName c));
         closeMarket snap (addError (''OMS: '' @ e) (vs\<lparr>vs_Fault := Some state\<rparr>)) (failures @ [venueName @ '' OMS: '' @ e])
       }
     | None \<Rightarrow> do {
         audit dp (AOmsResult (in_ID ins) venueName result);
         count_metric (recordOMS (rs_Placed result) (rs_Canceled result));
         closeMarket snap (vs\<lparr>vs_PendingOrders := rs_Pending result\<rparr>) failures
       }
   }"

text \<open>The health check before quoting.\<close>

definition healthyMarket :: "'w Deps \<Rightarrow> Config \<Rightarrow> InstrumentConfig \<Rightarrow> string \<Rightarrow> VenueConfig \<Rightarrow> VenueMarketConfig \<Rightarrow> 'w Client
    \<Rightarrow> string \<Rightarrow> 64 word \<Rightarrow> Book \<Rightarrow> Decimal \<Rightarrow> QuoteBudget \<Rightarrow> Quote list \<Rightarrow> Order list \<Rightarrow> VenueSnapshot \<Rightarrow> InstrumentSnapshot
    \<Rightarrow> string list \<Rightarrow> ('w, MarketRun) engine" where
  "healthyMarket dp cfg ins venueName venueCfg market client leaseKey generation book inventory budget quotes managed vs0 snap failures = do {
     (health, healthErr) \<leftarrow> faultStep (\<lambda>now. HealthyWithContext (faultStore dp)
        (marketFaultKey venueName (in_ID ins) market) (int (length managed)) now);
     case healthErr of
       Some e \<Rightarrow> closeMarket snap (addError (''fault persistence: '' @ e) vs0)
         (failures @ [venueName @ '' fault persistence: '' @ e])
     | None \<Rightarrow> do {
         let vs = vs0\<lparr>vs_Fault := Some (d_State health)\<rparr>;
         let faulted = failures @ [venueName @ '' fault state: '' @ status_text (sn_Status (d_State health))];
         if d_ShouldCancel health
         then do {
           cancelErr \<leftarrow> cancelGuarded dp client (in_ID ins) (m_Symbol market) leaseKey generation;
           closeMarket snap (case cancelErr of None \<Rightarrow> vs | Some e \<Rightarrow> addError (''fault cancel: '' @ e) vs) faulted
         }
         else if \<not> d_AllowQuotes health then closeMarket snap vs faulted
         else do {
           audit dp (AQuotePlan (in_ID ins) venueName book inventory (Some budget) (summarizeQuotes quotes));
           placeMarket dp cfg ins venueName venueCfg market client leaseKey generation quotes vs snap failures
         }
       }
   }"

text \<open>The trading path: lease, order limit, balance budget.\<close>

definition freeOf :: "Balance option \<Rightarrow> Decimal" where
  "freeOf b = (case b of None \<Rightarrow> 0 | Some x \<Rightarrow> bal_Free x)"

definition budgetedQuotes :: "InstrumentConfig \<Rightarrow> VenueMarketConfig \<Rightarrow> VenueSnapshot \<Rightarrow> Order list \<Rightarrow> Quote list
    \<Rightarrow> Quote list \<times> QuoteBudget" where
  "budgetedQuotes ins market vs managed quotes =
     ApplyBalanceBudget
       (ApplyOrderLimit quotes (int (length (vs_OpenOrders vs))) (int (length managed)) (m_MaxOpenOrders market))
       managed (freeOf (vs_BaseBalance vs)) (freeOf (vs_QuoteBalance vs)) (st_BalanceReserveBPS (in_Strategy ins))
       (m_MaxBaseCommitment market) (m_MaxQuoteCommitment market)"

definition budgetMarket :: "'w Deps \<Rightarrow> Config \<Rightarrow> InstrumentConfig \<Rightarrow> string \<Rightarrow> VenueConfig \<Rightarrow> VenueMarketConfig \<Rightarrow> 'w Client
    \<Rightarrow> string \<Rightarrow> 64 word \<Rightarrow> Book \<Rightarrow> Decimal \<Rightarrow> Quote list \<Rightarrow> VenueSnapshot \<Rightarrow> InstrumentSnapshot \<Rightarrow> string list
    \<Rightarrow> ('w, MarketRun) engine" where
  "budgetMarket dp cfg ins venueName venueCfg market client leaseKey generation book inventory quotes vs0 snap failures = do {
     let managed = ManagedOrdersFor client (vs_OpenOrders vs0);
     let (kept, budget) = budgetedQuotes ins market vs0 managed quotes;
     let vs = vs0\<lparr>vs_Budget := Some budget\<rparr>;
     if kept = []
     then do {
       let cause = ''balance budget allows no orders'';
       (state, cancelErr) \<leftarrow> markVenueFailure dp cfg (in_ID ins) venueName venueCfg market client ''budget'' cause True;
       let e = (case cancelErr of None \<Rightarrow> cause | Some c \<Rightarrow> cause @ ''; cancel: '' @ c);
       closeMarket snap (addError (''budget: '' @ e) (vs\<lparr>vs_Fault := Some state\<rparr>)) (failures @ [venueName @ '' budget: '' @ e])
     }
     else healthyMarket dp cfg ins venueName venueCfg market client leaseKey generation book inventory budget kept managed
       vs snap failures
   }"

definition liveMarket :: "'w Deps \<Rightarrow> Config \<Rightarrow> InstrumentConfig \<Rightarrow> string \<Rightarrow> VenueConfig \<Rightarrow> VenueMarketConfig \<Rightarrow> 'w Client
    \<Rightarrow> Book \<Rightarrow> Decimal \<Rightarrow> Quote list \<Rightarrow> VenueSnapshot \<Rightarrow> InstrumentSnapshot \<Rightarrow> string list \<Rightarrow> ('w, MarketRun) engine" where
  "liveMarket dp cfg ins venueName venueCfg market client book inventory quotes vs snap failures = do {
     let leaseKey = marketLeaseKey venueName (in_ID ins) market;
     (generation, leaseErr) \<leftarrow> acquireMarketLease dp cfg leaseKey;
     if leaseErr \<noteq> None \<or> generation = 0
     then (let e = (case leaseErr of None \<Rightarrow> ownedByOther | Some e \<Rightarrow> e)
           in closeMarket snap (addError (''lease: '' @ e) vs) (failures @ [venueName @ '' lease: '' @ e]))
     else budgetMarket dp cfg ins venueName venueCfg market client leaseKey generation book inventory quotes vs snap failures
   }"

text \<open>Strategy and quote filter, then the shadow or the trading path.\<close>

definition tradingMarket :: "Config \<Rightarrow> VenueConfig \<Rightarrow> bool" where
  "tradingMarket cfg venueCfg \<longleftrightarrow> c_Mode cfg = ModeLive \<and> v_TradingEnabled venueCfg"

definition targetMarket :: "'w Deps \<Rightarrow> Config \<Rightarrow> InstrumentConfig \<Rightarrow> ReferencePrice \<Rightarrow> Decimal \<Rightarrow> string \<Rightarrow> VenueConfig
    \<Rightarrow> VenueMarketConfig \<Rightarrow> 'w Client \<Rightarrow> Book \<Rightarrow> string option \<Rightarrow> VenueSnapshot \<Rightarrow> InstrumentSnapshot \<Rightarrow> string list
    \<Rightarrow> ('w, MarketRun) engine" where
  "targetMarket dp cfg ins ref inventory venueName venueCfg market client book ordersErr vs snap failures = do {
     now \<leftarrow> clock;
     case Generate ins venueName market ref book inventory now of
       Inl Panic \<Rightarrow> panicked snap failures
     | Inl (Fail e) \<Rightarrow>
         failMarket dp cfg ins venueName venueCfg market client ''strategy'' ''strategy'' (strategyText e) vs snap failures
     | Inr generated \<Rightarrow>
         (case FilterQuotes ins market book inventory generated now of
            Inl e \<Rightarrow> failMarket dp cfg ins venueName venueCfg market client ''risk'' ''risk'' (riskText e) vs snap failures
          | Inr quotes \<Rightarrow>
              if \<not> tradingMarket cfg venueCfg
              then shadowMarket dp ins venueName market book inventory quotes vs snap failures
              else (case ordersErr of
                Some e \<Rightarrow> do {
                  (state, cancelErr) \<leftarrow> markVenueFailure dp cfg (in_ID ins) venueName venueCfg market client ''open_orders'' e False;
                  closeMarket snap (addError (errorString cancelErr) (vs\<lparr>vs_Fault := Some state\<rparr>))
                    (failures @ [venueName @ '' orders: '' @ e])
                }
              | None \<Rightarrow> liveMarket dp cfg ins venueName venueCfg market client book inventory quotes vs snap failures))
   }"

text \<open>The book a market is quoted against; without one the quotes rest on the reference alone.\<close>

definition bookOf :: "string \<Rightarrow> VenueMarketConfig \<Rightarrow> string + Book \<Rightarrow> Book" where
  "bookOf venueName market reply = (case reply of Inl _ \<Rightarrow> emptyBook venueName (m_Symbol market) | Inr b \<Rightarrow> b)"

text \<open>Price protection and simulation.\<close>

definition protectMarket :: "'w Deps \<Rightarrow> Config \<Rightarrow> InstrumentConfig \<Rightarrow> ReferencePrice \<Rightarrow> Decimal \<Rightarrow> string \<Rightarrow> VenueConfig
    \<Rightarrow> VenueMarketConfig \<Rightarrow> 'w Client \<Rightarrow> Book \<Rightarrow> VenueSnapshot \<Rightarrow> InstrumentSnapshot \<Rightarrow> string list \<Rightarrow> ('w, MarketRun) engine" where
  "protectMarket dp cfg ins ref inventory venueName venueCfg market client book vs snap failures =
    (case ValidateMarketReference ref book (in_Strategy ins) of
       Some Panic \<Rightarrow> panicked snap failures
     | Some (Fail e) \<Rightarrow> failMarket dp cfg ins venueName venueCfg market client ''market_reference'' ''price protection''
         (riskText e) vs snap failures
     | None \<Rightarrow> do {
         (simPanic, snap1) \<leftarrow> simulateTrades dp ins venueName market book snap;
         if simPanic then panicked snap1 failures
         else do {
           (ordersErr, vs1) \<leftarrow> observeAccount ins venueName market client vs;
           targetMarket dp cfg ins ref inventory venueName venueCfg market client book ordersErr vs1 snap1 failures
         }
       })"

definition quoteMarket :: "'w Deps \<Rightarrow> Config \<Rightarrow> InstrumentConfig \<Rightarrow> ReferencePrice \<Rightarrow> Decimal \<Rightarrow> string \<Rightarrow> VenueConfig
    \<Rightarrow> VenueMarketConfig \<Rightarrow> 'w Client \<Rightarrow> VenueSnapshot \<Rightarrow> InstrumentSnapshot \<Rightarrow> string list \<Rightarrow> ('w, MarketRun) engine" where
  "quoteMarket dp cfg ins ref inventory venueName venueCfg market client vs snap failures = do {
     reply \<leftarrow> ext (cl_TopBook client (m_Symbol market));
     now \<leftarrow> clock;
     (case reply of Inl _ \<Rightarrow> State_Monad.return ()
      | Inr _ \<Rightarrow> modify (\<lambda>E. E\<lparr>eg_lastBookAt := (eg_lastBookAt E)(marketFaultKey venueName (in_ID ins) market := now)\<rparr>));
     protectMarket dp cfg ins ref inventory venueName venueCfg market client (bookOf venueName market reply)
       (case reply of Inl e \<Rightarrow> addError (bookUnavailable @ e) vs
        | Inr b \<Rightarrow> vs\<lparr>vs_MarketConnected := True, vs_Book := Some b\<rparr>) snap failures
   }"

definition runMarket :: "'w Deps \<Rightarrow> Config \<Rightarrow> InstrumentConfig \<Rightarrow> ReferencePrice \<Rightarrow> Decimal \<Rightarrow> BalanceView \<Rightarrow> string \<Rightarrow> VenueConfig
    \<Rightarrow> VenueMarketConfig \<Rightarrow> InstrumentSnapshot \<Rightarrow> string list \<Rightarrow> ('w, MarketRun) engine" where
  "runMarket dp cfg ins ref inventory bv venueName venueCfg market snap failures = do {
     now \<leftarrow> clock;
     let vs = (venueSnapshotOf venueName venueCfg market now)\<lparr>vs_Rules := Some (marketRulesFromConfig market)\<rparr>;
     case clientFor dp venueName (in_ID ins) of
       None \<Rightarrow> closeMarket snap (vs\<lparr>vs_Error := ''client missing''\<rparr>) (failures @ [venueName @ '': missing client''])
     | Some client \<Rightarrow>
         (case bv_errors bv venueName of
            Some e \<Rightarrow>
              if tradingMarket cfg venueCfg
              then do {
                (state, cancelErr) \<leftarrow> markVenueFailure dp cfg (in_ID ins) venueName venueCfg market client ''balance'' e False;
                closeMarket snap (vs\<lparr>vs_Fault := Some state,
                    vs_Error := appendError (''balance: '' @ e) (errorString cancelErr)\<rparr>)
                  (failures @ [venueName @ '' balance: '' @ e])
              }
              else quoteMarket dp cfg ins ref inventory venueName venueCfg market client
                (case bv_byVenue bv venueName of
                   Some balances \<Rightarrow> withBalances market balances vs | None \<Rightarrow> addError (''balance: '' @ e) vs) snap failures
          | None \<Rightarrow> quoteMarket dp cfg ins ref inventory venueName venueCfg market client
              (case bv_byVenue bv venueName of Some balances \<Rightarrow> withBalances market balances vs | None \<Rightarrow> vs) snap failures)
   }"


section \<open>The cycle of an instrument\<close>

definition publish :: "'w Deps \<Rightarrow> InstrumentSnapshot \<Rightarrow> ('w, string option) engine" where
  "publish dp snap = optionally (map_option (\<lambda>rt. rt_Publish rt snap) (dp_runtime dp))"

text \<open>The deferred end of \<^verbatim>\<open>runInstrument\<close>; after a panic it still runs, with no error set.\<close>

definition finishRun :: "'w Deps \<Rightarrow> InstrumentSnapshot \<Rightarrow> string option \<Rightarrow> ('w, unit) engine" where
  "finishRun dp snap runErr = do {
     now \<leftarrow> clock;
     let snap1 = snap\<lparr>is_UpdatedAt := now\<rparr>;
     _ \<leftarrow> publish dp (case runErr of None \<Rightarrow> snap1 | Some e \<Rightarrow> snap1\<lparr>is_Status := ''degraded'', is_Error := e\<rparr>);
     State_Monad.return ()
   }"

text \<open>The loop of the rejected reference: every trading market fails its stage; a stale reference
  forces the cancellation.\<close>

definition referenceFailure :: "'w Deps \<Rightarrow> Config \<Rightarrow> InstrumentConfig \<Rightarrow> string \<Rightarrow> bool \<Rightarrow> string \<times> VenueConfig \<Rightarrow> InstrumentSnapshot
    \<Rightarrow> ('w, InstrumentSnapshot) engine" where
  "referenceFailure dp cfg ins err stale v snap =
    (let (venueName, venueCfg) = v in
     case map_of (v_Markets venueCfg) (in_ID ins) of
       None \<Rightarrow> State_Monad.return snap
     | Some market \<Rightarrow>
         if \<not> v_Enabled venueCfg \<or> \<not> v_TradingEnabled venueCfg then State_Monad.return snap
         else (case clientFor dp venueName (in_ID ins) of
                 None \<Rightarrow> State_Monad.return snap
               | Some client \<Rightarrow> do {
                   (state, cancelErr) \<leftarrow> markVenueFailure dp cfg (in_ID ins) venueName venueCfg market client ''reference'' err stale;
                   now \<leftarrow> clock;
                   State_Monad.return (addVenue ((venueSnapshotOf venueName venueCfg market now)\<lparr>vs_Fault := Some state,
                     vs_Error := appendError err (errorString cancelErr)\<rparr>) snap)
                 }))"

record InstrumentRun =
  ir_panicked :: bool
  ir_snapshot :: InstrumentSnapshot
  ir_failures :: "string list"
  ir_active :: nat

definition marketStep :: "'w Deps \<Rightarrow> Config \<Rightarrow> InstrumentConfig \<Rightarrow> ReferencePrice \<Rightarrow> Decimal \<Rightarrow> BalanceView
    \<Rightarrow> string \<times> VenueConfig \<Rightarrow> InstrumentRun \<Rightarrow> ('w, InstrumentRun) engine" where
  "marketStep dp cfg ins ref inventory bv v ir =
    (let (venueName, venueCfg) = v in
     if ir_panicked ir \<or> \<not> v_Enabled venueCfg then State_Monad.return ir
     else case map_of (v_Markets venueCfg) (in_ID ins) of
       None \<Rightarrow> State_Monad.return ir
     | Some market \<Rightarrow> do {
         (p, snap, failures) \<leftarrow> runMarket dp cfg ins ref inventory bv venueName venueCfg market (ir_snapshot ir) (ir_failures ir);
         State_Monad.return \<lparr>ir_panicked = p, ir_snapshot = snap, ir_failures = failures, ir_active = ir_active ir + 1\<rparr>
       })"

text \<open>The inventory the strategy works with: in live mode the accounts', or the last complete one.\<close>

definition strategyInventoryOf :: "Config \<Rightarrow> InstrumentConfig \<Rightarrow> BalanceView \<Rightarrow> ('w, Decimal) engine" where
  "strategyInventoryOf cfg ins bv =
    (if c_Mode cfg = ModeLive
     then if list_all (\<lambda>(v, _). bv_errors bv v = None) (c_Venues cfg) \<and> bv_count bv > 0
       then do {
         modify (\<lambda>E. E\<lparr>eg_lastInventory := (eg_lastInventory E)(in_ID ins \<mapsto> bv_total bv)\<rparr>);
         State_Monad.return (bv_total bv)
       }
       else do {
         cached \<leftarrow> gets (\<lambda>E. eg_lastInventory E (in_ID ins));
         State_Monad.return (case cached of Some c \<Rightarrow> c | None \<Rightarrow> st_TargetBase (in_Strategy ins))
       }
     else State_Monad.return (st_TargetBase (in_Strategy ins)))"

definition noMarkets :: string where "noMarkets = ''no enabled venue markets''"

definition runMarkets :: "'w Deps \<Rightarrow> Config \<Rightarrow> InstrumentConfig \<Rightarrow> ReferencePrice \<Rightarrow> Decimal \<Rightarrow> BalanceView \<Rightarrow> InstrumentSnapshot
    \<Rightarrow> ('w, string failure option) engine" where
  "runMarkets dp cfg ins ref inventory bv snap = do {
     ir \<leftarrow> foldE (marketStep dp cfg ins ref inventory bv) (c_Venues cfg)
       \<lparr>ir_panicked = False, ir_snapshot = snap, ir_failures = [], ir_active = 0\<rparr>;
     if ir_panicked ir then do { finishRun dp (ir_snapshot ir) None; State_Monad.return (Some Panic) }
     else do {
       let err = (if ir_active ir = 0 then Some noMarkets else joinedError (ir_failures ir));
       finishRun dp (ir_snapshot ir) err;
       State_Monad.return (map_option Fail err)
     }
   }"

definition runInstrument :: "'w Deps \<Rightarrow> Config \<Rightarrow> InstrumentConfig \<Rightarrow> ('w, string failure option) engine" where
  "runInstrument dp cfg ins = do {
     let snap = newSnapshot cfg ins;
     now \<leftarrow> clock;
     reply \<leftarrow> ext (dp_oracle dp ins);
     case reply of
       Inl err \<Rightarrow> do {
         audit dp (AReferenceRejected (in_ID ins) err);
         lastValidUntil \<leftarrow> gets (\<lambda>E. eg_lastReferenceValidUntil E (in_ID ins));
         let stale = (IsZeroTime lastValidUntil \<or> now > lastValidUntil);
         snap1 \<leftarrow> (if c_Mode cfg = ModeLive then foldE (referenceFailure dp cfg ins err stale) (c_Venues cfg) snap
                   else State_Monad.return snap);
         finishRun dp snap1 (Some err);
         State_Monad.return (Some (Fail err))
       }
     | Inr ref \<Rightarrow> do {
         modify (\<lambda>E. E\<lparr>eg_lastReferenceValidUntil := (eg_lastReferenceValidUntil E)(in_ID ins := rp_ValidUntil ref)\<rparr>);
         bv \<leftarrow> collectBalances dp cfg ins;
         let snap1 = snap\<lparr>is_Reference := Some ref\<rparr>;
         let snap2 = (if bv_count bv > 0 then snap1\<lparr>is_Inventory := bv_total bv, is_InventoryAvailable := True\<rparr> else snap1);
         inventory \<leftarrow> strategyInventoryOf cfg ins bv;
         audit dp (AReferencePrice ref);
         runMarkets dp cfg ins ref inventory bv snap2
       }
   }"

text \<open>A paused instrument: observation only.\<close>

definition pauseView :: "EngineState \<Rightarrow> string \<Rightarrow> InstrumentSnapshot \<Rightarrow> InstrumentSnapshot" where
  "pauseView E instrumentID snap =
    (let applied = eg_pauseApplied E instrumentID;
         snap1 = (case eg_paused E instrumentID of Some state \<Rightarrow> snap\<lparr>is_Pause := Some state\<rparr> | None \<Rightarrow> snap)
     in snap1\<lparr>is_Paused := applied, is_Status := (if applied then ''paused'' else ''pausing'')\<rparr>)"

definition observeVenue :: "'w Deps \<Rightarrow> InstrumentConfig \<Rightarrow> BalanceView \<Rightarrow> string \<times> VenueConfig \<Rightarrow> InstrumentSnapshot \<times> string list
    \<Rightarrow> ('w, InstrumentSnapshot \<times> string list) engine" where
  "observeVenue dp ins bv v acc =
    (let (venueName, venueCfg) = v; (snap, failures) = acc in
     case map_of (v_Markets venueCfg) (in_ID ins) of
       None \<Rightarrow> State_Monad.return acc
     | Some market \<Rightarrow>
         if \<not> v_Enabled venueCfg then State_Monad.return acc
         else do {
           now \<leftarrow> clock;
           let vs = (venueSnapshotOf venueName venueCfg market now)\<lparr>vs_Rules := Some (marketRulesFromConfig market)\<rparr>;
           case clientFor dp venueName (in_ID ins) of
             None \<Rightarrow> State_Monad.return (addVenue (vs\<lparr>vs_Error := ''client missing''\<rparr>) snap,
                 failures @ [venueName @ '': client missing''])
           | Some client \<Rightarrow> do {
               let note = (\<lambda>label e fs. fs @ [venueName @ '' '' @ label @ '': '' @ e]);
               let (vs1, failures1) = (case bv_byVenue bv venueName of
                   Some balances \<Rightarrow> (withBalances market balances vs, failures)
                 | None \<Rightarrow> (case bv_errors bv venueName of
                     Some e \<Rightarrow> (addError (''balance: '' @ e) vs, note ''balance'' e failures) | None \<Rightarrow> (vs, failures)));
               reply \<leftarrow> ext (cl_TopBook client (m_Symbol market));
               let (vs2, failures2) = (case reply of
                   Inl e \<Rightarrow> (addError (''book: '' @ e) vs1, note ''book'' e failures1)
                 | Inr b \<Rightarrow> (vs1\<lparr>vs_MarketConnected := True, vs_Book := Some b\<rparr>, failures1));
               if m_CredentialID market > 0
               then do {
                 orders \<leftarrow> ext (cl_OpenOrders client (m_Symbol market));
                 let (vs3, failures3) = (case orders of
                     Inl e \<Rightarrow> (addError (''orders: '' @ e) (vs2\<lparr>vs_AccountConnected := False\<rparr>), note ''orders'' e failures2)
                   | Inr os \<Rightarrow> (vs2\<lparr>vs_AccountConnected := True, vs_OpenOrders := os\<rparr>, failures2));
                 (fills, err) \<leftarrow> recentFills venueName (in_ID ins) client (m_Symbol market);
                 State_Monad.return (case err of
                     Some e \<Rightarrow> (addVenue (addError (''fills: '' @ e) vs3) snap, note ''fills'' e failures3)
                   | None \<Rightarrow> (addVenue (vs3\<lparr>vs_Fills := fills\<rparr>) snap, failures3))
               }
               else State_Monad.return (addVenue vs2 snap, failures2)
             }
         })"

definition runPausedInstrument :: "'w Deps \<Rightarrow> Config \<Rightarrow> InstrumentConfig \<Rightarrow> ('w, string option) engine" where
  "runPausedInstrument dp cfg ins =
    (case dp_runtime dp of
       None \<Rightarrow> State_Monad.return None
     | Some _ \<Rightarrow> do {
         snap0 \<leftarrow> gets (\<lambda>E. pauseView E (in_ID ins) (newSnapshot cfg ins));
         reply \<leftarrow> ext (dp_oracle dp ins);
         let (snap1, failures) = (case reply of
             Inl e \<Rightarrow> (snap0, [''reference: '' @ e]) | Inr ref \<Rightarrow> (snap0\<lparr>is_Reference := Some ref\<rparr>, []));
         bv \<leftarrow> collectBalances dp cfg ins;
         cached \<leftarrow> gets (\<lambda>E. eg_lastInventory E (in_ID ins));
         (if bv_count bv > 0
          then modify (\<lambda>E. E\<lparr>eg_lastInventory := (eg_lastInventory E)(in_ID ins \<mapsto> bv_total bv)\<rparr>)
          else State_Monad.return ());
         let snap2 = (if bv_count bv > 0 then snap1\<lparr>is_Inventory := bv_total bv, is_InventoryAvailable := True\<rparr>
                      else (case cached of Some c \<Rightarrow> snap1\<lparr>is_Inventory := c\<rparr> | None \<Rightarrow> snap1));
         (snap3, failures1) \<leftarrow> foldE (observeVenue dp ins bv) (c_Venues cfg) (snap2, failures);
         now \<leftarrow> clock;
         publish dp (snap3\<lparr>is_UpdatedAt := now, is_Error := (if failures1 = [] then is_Error snap3 else joined failures1)\<rparr>)
       })"

definition blockedVenues :: "Config \<Rightarrow> InstrumentConfig \<Rightarrow> string \<Rightarrow> time \<Rightarrow> VenueSnapshot list" where
  "blockedVenues cfg ins failure now =
     sort_key vs_Name (List.map_filter (\<lambda>(venueName, venueCfg).
       if v_Enabled venueCfg
       then map_option (\<lambda>market. (venueSnapshotOf venueName venueCfg market now)\<lparr>
              vs_Rules := Some (marketRulesFromConfig market), vs_Error := failure\<rparr>) (map_of (v_Markets venueCfg) (in_ID ins))
       else None) (c_Venues cfg))"

definition publishPreflightBlocked :: "'w Deps \<Rightarrow> Config \<Rightarrow> InstrumentConfig \<Rightarrow> string \<Rightarrow> ('w, string option) engine" where
  "publishPreflightBlocked dp cfg ins failure = do {
     now \<leftarrow> clock;
     err \<leftarrow> publish dp ((newSnapshot cfg ins)\<lparr>is_Status := ''degraded'', is_Error := ''startup preflight: '' @ failure,
        is_UpdatedAt := now, is_Venues := blockedVenues cfg ins failure now\<rparr>);
     State_Monad.return (Some (case err of
         Some e \<Rightarrow> ''preflight blocked ('' @ failure @ ''); publish state: '' @ e
       | None \<Rightarrow> ''preflight blocked: '' @ failure))
   }"

text \<open>The account locks make the cycles of instruments that share an account exclude each other; they are
  the subject of a theory of their own. The barrier turns a panic into an error.\<close>

definition runInstrumentGuarded :: "'w Deps \<Rightarrow> Config \<Rightarrow> InstrumentConfig \<Rightarrow> ('w, string option) engine" where
  "runInstrumentGuarded dp cfg ins = do {
     paused \<leftarrow> gets (\<lambda>E. eg_paused E (in_ID ins));
     blocked \<leftarrow> gets (\<lambda>E. map_of (eg_preflightBlocked E) (in_ID ins));
     if paused \<noteq> None then runPausedInstrument dp cfg ins
     else case blocked of
       Some failure \<Rightarrow> publishPreflightBlocked dp cfg ins failure
     | None \<Rightarrow> do {
         out \<leftarrow> runInstrument dp cfg ins;
         State_Monad.return (case out of None \<Rightarrow> None | Some (Fail e) \<Rightarrow> Some e | Some Panic \<Rightarrow> Some ''panic'')
       }
   }"

section \<open>The cycle of the engine\<close>

definition concurrentLimit :: "Config \<Rightarrow> int" where
  "concurrentLimit cfg =
    (let n = int (length (c_Instruments cfg));
         l0 = (if c_MaxConcurrentInstruments cfg \<le> 0 then 4 else c_MaxConcurrentInstruments cfg);
         l1 = (if l0 > n then n else l0)
     in if l1 < 1 then 1 else l1)"

text \<open>One job of the worker pool. \<open>order\<close> is the order in which the pool works the jobs off.\<close>

definition runJob :: "'w Deps \<Rightarrow> Config \<Rightarrow> nat \<Rightarrow> (nat \<times> string option) list \<Rightarrow> ('w, (nat \<times> string option) list) engine" where
  "runJob dp cfg index results = do {
     err \<leftarrow> runInstrumentGuarded dp cfg (c_Instruments cfg ! index);
     _ \<leftarrow> optionally (Option.bind (dp_runtime dp) rt_ReportTradingProgress);
     State_Monad.return ((index, err) # results)
   }"

definition cycleFailures :: "Config \<Rightarrow> (nat \<times> string option) list \<Rightarrow> string list" where
  "cycleFailures cfg results =
     List.map_filter (\<lambda>index. case map_of results index of
         Some (Some e) \<Rightarrow> Some (in_ID (c_Instruments cfg ! index) @ '': '' @ e) | _ \<Rightarrow> None)
       [0..<length (c_Instruments cfg)]"

text \<open>The rate limit of the cycle's log line: the same text is not repeated within a minute.\<close>

definition logCycle :: "time \<Rightarrow> string list \<Rightarrow> EngineState \<Rightarrow> EngineState" where
  "logCycle now failures E =
    (let errorText = joined failures in
     if errorText = [] then E\<lparr>eg_lastCycleError := []\<rparr>
     else if errorText = eg_lastCycleError E \<and> time_sub now (eg_lastCycleErrorAt E) < 60 * second then E
     else E\<lparr>eg_lastCycleError := errorText, eg_lastCycleErrorAt := now\<rparr>)"

definition runCycle :: "'w Deps \<Rightarrow> nat list \<Rightarrow> Config \<Rightarrow> ('w, string option) engine" where
  "runCycle dp order cfg = do {
     now \<leftarrow> clock;
     modify (\<lambda>E. E\<lparr>eg_balances := (\<lambda>_. None)\<rparr>);
     results \<leftarrow> foldE (runJob dp cfg) order [];
     let failures = cycleFailures cfg results;
     let n = length (c_Instruments cfg);
     flushErr \<leftarrow> ext (au_Flush (dp_audit dp));
     (if flushErr \<noteq> None then count_metric recordAuditFlushError else State_Monad.return ());
     count_metric (recordCycle n (length failures));
     _ \<leftarrow> optionally (map_option (\<lambda>f. f \<lparr>cp_StartedAt = now, cp_DurationMS = 0, cp_Instruments = n,
          cp_Succeeded = n - length failures, cp_Failed = length failures, cp_ConcurrentLimit = concurrentLimit cfg\<rparr>)
        (Option.bind (dp_runtime dp) rt_ReportCyclePerformance));
     metrics \<leftarrow> gets eg_metrics;
     pending \<leftarrow> ext (\<lambda>w. (au_PendingCount (dp_audit dp) w, w));
     _ \<leftarrow> optionally (map_option (\<lambda>f. f \<lparr>ms_metrics = metrics, ms_UpdatedAt = now, ms_AuditPendingEvents = pending\<rparr>)
        (Option.bind (dp_runtime dp) rt_ReportMetrics));
     modify (logCycle now failures);
     State_Monad.return (if failures = [] then None else Some (''tick failures: '' @ joined failures))
   }"

definition RunOnce :: "'w Deps \<Rightarrow> nat list \<Rightarrow> ('w, string option) engine" where
  "RunOnce dp order = do { cfg \<leftarrow> gets eg_cfg; runCycle dp order cfg }"

end
