(* ===== verification/ConfigDiff.thy ===== *)
theory ConfigDiff
  imports Samples
begin

text \<open>
  \<^verbatim>\<open>internal/configdiff/plan.go\<close>: the plan that takes a running configuration to a newly published one,
  which says what has to be cancelled on the exchanges and whether the change may be applied in place.
  The maps of the Go code are association lists in the order a range loop visits them; a map built in the
  function (\<^verbatim>\<open>changes\<close>, \<^verbatim>\<open>instrumentMap\<close>) is one too, and the plan sorts what it reports. A value is compared as
  \<^verbatim>\<open>json.Marshal\<close> writes it: a decimal by its text of at most 18 places. The texts are the UTF-8 bytes of
  the Chinese messages.
\<close>

section \<open>Texts\<close>

definition txtAddInstrument :: string where
  "txtAddInstrument = [CHR 0xE6, CHR 0x96, CHR 0xB0, CHR 0xE5, CHR 0xA2, CHR 0x9E, CHR 0xE5, CHR 0xB8, CHR 0x81,
     CHR 0xE5, CHR 0xAF, CHR 0xB9]"

definition txtRemoveInstrument :: string where
  "txtRemoveInstrument = [CHR 0xE5, CHR 0x88, CHR 0xA0, CHR 0xE9, CHR 0x99, CHR 0xA4, CHR 0xE5, CHR 0xB8, CHR 0x81,
     CHR 0xE5, CHR 0xAF, CHR 0xB9]"

definition txtPolling :: string where
  "txtPolling = [CHR 0xE8, CHR 0xBD, CHR 0xAE, CHR 0xE8, CHR 0xAF, CHR 0xA2, CHR 0xE3, CHR 0x80, CHR 0x81,
     CHR 0xE5, CHR 0xB8, CHR 0x81, CHR 0xE5, CHR 0xAF, CHR 0xB9, CHR 0xE5, CHR 0xB9, CHR 0xB6,
     CHR 0xE5, CHR 0x8F, CHR 0x91, CHR 0xE4, CHR 0xB8, CHR 0x8E, CHR 0xE4, CHR 0xBA, CHR 0xA4,
     CHR 0xE6, CHR 0x98, CHR 0x93, CHR 0xE8, CHR 0xA7, CHR 0x84, CHR 0xE5, CHR 0x88, CHR 0x99,
     CHR 0xE5, CHR 0x88, CHR 0xB7, CHR 0xE6, CHR 0x96, CHR 0xB0]"

definition txtFaults :: string where
  "txtFaults = [CHR 0xE5, CHR 0xB8, CHR 0x82, CHR 0xE5, CHR 0x9C, CHR 0xBA, CHR 0xE6, CHR 0x95, CHR 0x85,
     CHR 0xE9, CHR 0x9A, CHR 0x9C, CHR 0xE5, CHR 0xAE, CHR 0xBD, CHR 0xE9, CHR 0x99, CHR 0x90,
     CHR 0xE4, CHR 0xB8, CHR 0x8E, CHR 0xE6, CHR 0x81, CHR 0xA2, CHR 0xE5, CHR 0xA4, CHR 0x8D,
     CHR 0xE9, CHR 0x98, CHR 0x88, CHR 0xE5, CHR 0x80, CHR 0xBC]"

definition txtAudit :: string where
  "txtAudit = [CHR 0xE5, CHR 0xAE, CHR 0xA1, CHR 0xE8, CHR 0xAE, CHR 0xA1, CHR 0xE6, CHR 0x96, CHR 0x87,
     CHR 0xE4, CHR 0xBB, CHR 0xB6, CHR 0xE4, CHR 0xB8, CHR 0x8E, CHR 0xE8, CHR 0xBD, CHR 0xAE,
     CHR 0xE8, CHR 0xBD, CHR 0xAC]"

definition txtWatchdog :: string where
  "txtWatchdog = [CHR 0x57, CHR 0x61, CHR 0x74, CHR 0x63, CHR 0x68, CHR 0x64, CHR 0x6F, CHR 0x67, CHR 0x20,
     CHR 0xE4, CHR 0xB8, CHR 0x8E, CHR 0xE5, CHR 0xBF, CHR 0x83, CHR 0xE8, CHR 0xB7, CHR 0xB3,
     CHR 0xE5, CHR 0x8F, CHR 0x82, CHR 0xE6, CHR 0x95, CHR 0xB0]"

definition txtRPC :: string where
  "txtRPC = [CHR 0x42, CHR 0x4E, CHR 0x42, CHR 0x20, CHR 0x43, CHR 0x68, CHR 0x61, CHR 0x69, CHR 0x6E,
     CHR 0x20, CHR 0x52, CHR 0x50, CHR 0x43, CHR 0xEF, CHR 0xBC, CHR 0x88, CHR 0xE9, CHR 0xAA,
     CHR 0x8C, CHR 0xE8, CHR 0xAF, CHR 0x81, CHR 0xE5, CHR 0x90, CHR 0x8E, CHR 0xE7, CHR 0x83,
     CHR 0xAD, CHR 0xE5, CHR 0x88, CHR 0x87, CHR 0xE6, CHR 0x8D, CHR 0xA2, CHR 0xEF, CHR 0xBC,
     CHR 0x89]"

definition txtSource :: string where
  "txtSource = [CHR 0xE4, CHR 0xBB, CHR 0xB7, CHR 0xE6, CHR 0xA0, CHR 0xBC, CHR 0xE6, CHR 0xBA, CHR 0x90,
     CHR 0xE8, CHR 0xBF, CHR 0x9E, CHR 0xE6, CHR 0x8E, CHR 0xA5, CHR 0xE5, CHR 0x8F, CHR 0x91,
     CHR 0xE7, CHR 0x94, CHR 0x9F, CHR 0xE5, CHR 0x8F, CHR 0x98, CHR 0xE5, CHR 0x8C, CHR 0x96]"

definition txtMode :: string where
  "txtMode = [CHR 0xE8, CHR 0xBF, CHR 0x90, CHR 0xE8, CHR 0xA1, CHR 0x8C, CHR 0xE6, CHR 0xA8, CHR 0xA1,
     CHR 0xE5, CHR 0xBC, CHR 0x8F]"

definition txtModeChanged :: string where
  "txtModeChanged = [CHR 0xE8, CHR 0xBF, CHR 0x90, CHR 0xE8, CHR 0xA1, CHR 0x8C, CHR 0xE6, CHR 0xA8, CHR 0xA1,
     CHR 0xE5, CHR 0xBC, CHR 0x8F, CHR 0xE5, CHR 0x8F, CHR 0x91, CHR 0xE7, CHR 0x94, CHR 0x9F,
     CHR 0xE5, CHR 0x8F, CHR 0x98, CHR 0xE5, CHR 0x8C, CHR 0x96]"

definition txtToken :: string where
  "txtToken = [CHR 0x54, CHR 0x6F, CHR 0x6B, CHR 0x65, CHR 0x6E, CHR 0x20, CHR 0xE4, CHR 0xBF, CHR 0xA1,
     CHR 0xE6, CHR 0x81, CHR 0xAF, CHR 0xE5, CHR 0x8F, CHR 0x91, CHR 0xE7, CHR 0x94, CHR 0x9F,
     CHR 0xE5, CHR 0x8F, CHR 0x98, CHR 0xE5, CHR 0x8C, CHR 0x96]"

definition txtPath :: string where
  "txtPath = [CHR 0x50, CHR 0x61, CHR 0x6E, CHR 0x63, CHR 0x61, CHR 0x6B, CHR 0x65, CHR 0x20, CHR 0xE4,
     CHR 0xBB, CHR 0xB7, CHR 0xE6, CHR 0xA0, CHR 0xBC, CHR 0xE8, CHR 0xB7, CHR 0xAF, CHR 0xE5,
     CHR 0xBE, CHR 0x84, CHR 0xE5, CHR 0x8F, CHR 0x91, CHR 0xE7, CHR 0x94, CHR 0x9F, CHR 0xE5,
     CHR 0x8F, CHR 0x98, CHR 0xE5, CHR 0x8C, CHR 0x96]"

definition txtStrategy :: string where
  "txtStrategy = [CHR 0xE7, CHR 0xAD, CHR 0x96, CHR 0xE7, CHR 0x95, CHR 0xA5, CHR 0xE6, CHR 0x88, CHR 0x96,
     CHR 0xE5, CHR 0xBA, CHR 0x93, CHR 0xE5, CHR 0xAD, CHR 0x98, CHR 0xE5, CHR 0x8F, CHR 0x82,
     CHR 0xE6, CHR 0x95, CHR 0xB0, CHR 0xE5, CHR 0x8F, CHR 0x91, CHR 0xE7, CHR 0x94, CHR 0x9F,
     CHR 0xE5, CHR 0x8F, CHR 0x98, CHR 0xE5, CHR 0x8C, CHR 0x96]"

definition txtSimulation :: string where
  "txtSimulation = [CHR 0xE5, CHR 0x86, CHR 0x85, CHR 0xE9, CHR 0x83, CHR 0xA8, CHR 0xE6, CHR 0x88, CHR 0x90,
     CHR 0xE4, CHR 0xBA, CHR 0xA4, CHR 0xE6, CHR 0xA8, CHR 0xA1, CHR 0xE6, CHR 0x8B, CHR 0x9F,
     CHR 0xE5, CHR 0x8F, CHR 0x82, CHR 0xE6, CHR 0x95, CHR 0xB0, CHR 0xE5, CHR 0x8F, CHR 0x91,
     CHR 0xE7, CHR 0x94, CHR 0x9F, CHR 0xE5, CHR 0x8F, CHR 0x98, CHR 0xE5, CHR 0x8C, CHR 0x96]"

definition txtMarket :: string where
  "txtMarket = [CHR 0xE4, CHR 0xBA, CHR 0xA4, CHR 0xE6, CHR 0x98, CHR 0x93, CHR 0xE5, CHR 0xB8, CHR 0x82,
     CHR 0xE5, CHR 0x9C, CHR 0xBA, CHR 0x20]"

definition txtChanged :: string where
  "txtChanged = [CHR 0x20, CHR 0xE5, CHR 0x8F, CHR 0x91, CHR 0xE7, CHR 0x94, CHR 0x9F, CHR 0xE5, CHR 0x8F,
     CHR 0x98, CHR 0xE5, CHR 0x8C, CHR 0x96]"

definition txtNewVenue :: string where
  "txtNewVenue = [CHR 0xE6, CHR 0x96, CHR 0xB0, CHR 0xE5, CHR 0xA2, CHR 0x9E, CHR 0xE4, CHR 0xBA, CHR 0xA4,
     CHR 0xE6, CHR 0x98, CHR 0x93, CHR 0xE6, CHR 0x89, CHR 0x80, CHR 0x20]"

definition txtNewMarket :: string where
  "txtNewMarket = [CHR 0xE6, CHR 0x96, CHR 0xB0, CHR 0xE5, CHR 0xA2, CHR 0x9E, CHR 0xE4, CHR 0xBA, CHR 0xA4,
     CHR 0xE6, CHR 0x98, CHR 0x93, CHR 0xE5, CHR 0xB8, CHR 0x82, CHR 0xE5, CHR 0x9C, CHR 0xBA,
     CHR 0x20]"

definition txtVenueGone :: string where
  "txtVenueGone = [CHR 0xE4, CHR 0xBA, CHR 0xA4, CHR 0xE6, CHR 0x98, CHR 0x93, CHR 0xE6, CHR 0x89, CHR 0x80,
     CHR 0xE8, CHR 0xA2, CHR 0xAB, CHR 0xE5, CHR 0x88, CHR 0xA0, CHR 0xE9, CHR 0x99, CHR 0xA4,
     CHR 0xE6, CHR 0x88, CHR 0x96, CHR 0xE5, CHR 0x81, CHR 0x9C, CHR 0xE7, CHR 0x94, CHR 0xA8]"

definition txtTradingOff :: string where
  "txtTradingOff = [CHR 0xE4, CHR 0xBA, CHR 0xA4, CHR 0xE6, CHR 0x98, CHR 0x93, CHR 0xE6, CHR 0x89, CHR 0x80,
     CHR 0xE5, CHR 0x85, CHR 0xB3, CHR 0xE9, CHR 0x97, CHR 0xAD, CHR 0xE5, CHR 0xAE, CHR 0x9E,
     CHR 0xE7, CHR 0x9B, CHR 0x98]"

definition txtMarketGone :: string where
  "txtMarketGone = [CHR 0xE4, CHR 0xBA, CHR 0xA4, CHR 0xE6, CHR 0x98, CHR 0x93, CHR 0xE5, CHR 0xB8, CHR 0x82,
     CHR 0xE5, CHR 0x9C, CHR 0xBA, CHR 0xE8, CHR 0xA2, CHR 0xAB, CHR 0xE5, CHR 0x88, CHR 0xA0,
     CHR 0xE9, CHR 0x99, CHR 0xA4]"

definition txtConnection :: string where
  "txtConnection = [CHR 0xE4, CHR 0xBA, CHR 0xA4, CHR 0xE6, CHR 0x98, CHR 0x93, CHR 0xE6, CHR 0x89, CHR 0x80,
     CHR 0xE8, CHR 0xBF, CHR 0x9E, CHR 0xE6, CHR 0x8E, CHR 0xA5, CHR 0xE5, CHR 0x8F, CHR 0x91,
     CHR 0xE7, CHR 0x94, CHR 0x9F, CHR 0xE5, CHR 0x8F, CHR 0x98, CHR 0xE5, CHR 0x8C, CHR 0x96]"

definition txtSymbol :: string where
  "txtSymbol = [CHR 0xE4, CHR 0xBA, CHR 0xA4, CHR 0xE6, CHR 0x98, CHR 0x93, CHR 0xE6, CHR 0x89, CHR 0x80,
     CHR 0x20, CHR 0x53, CHR 0x79, CHR 0x6D, CHR 0x62, CHR 0x6F, CHR 0x6C, CHR 0x20, CHR 0xE5,
     CHR 0x8F, CHR 0x91, CHR 0xE7, CHR 0x94, CHR 0x9F, CHR 0xE5, CHR 0x8F, CHR 0x98, CHR 0xE5,
     CHR 0x8C, CHR 0x96]"

definition txtCredential :: string where
  "txtCredential = [CHR 0xE4, CHR 0xBA, CHR 0xA4, CHR 0xE6, CHR 0x98, CHR 0x93, CHR 0xE5, CHR 0x87, CHR 0xAD,
     CHR 0xE8, CHR 0xAF, CHR 0x81, CHR 0xE5, CHR 0x8F, CHR 0x91, CHR 0xE7, CHR 0x94, CHR 0x9F,
     CHR 0xE5, CHR 0x8F, CHR 0x98, CHR 0xE5, CHR 0x8C, CHR 0x96]"

definition txtRebuild :: string where
  "txtRebuild = [CHR 0xE4, CHR 0xBA, CHR 0xA4, CHR 0xE6, CHR 0x98, CHR 0x93, CHR 0xE5, CHR 0xB8, CHR 0x82,
     CHR 0xE5, CHR 0x9C, CHR 0xBA, CHR 0xE9, CHR 0x9C, CHR 0x80, CHR 0xE8, CHR 0xA6, CHR 0x81,
     CHR 0xE9, CHR 0x87, CHR 0x8D, CHR 0xE5, CHR 0xBB, CHR 0xBA]"


section \<open>Definitions\<close>

record MarketTarget =
  mt_InstrumentID :: string
  mt_Venue :: string
  mt_Symbol :: string
  mt_Reason :: string

record InstrumentChange =
  ic_InstrumentID :: string
  ic_Action :: string
  ic_Reasons :: "string list"

record Plan =
  pl_FirstPublish :: bool
  pl_CancelAll :: bool
  pl_Structural :: bool
  pl_HotChanges :: "string list"
  pl_InstrumentChanges :: "InstrumentChange list"
  pl_CancelTargets :: "MarketTarget list"
  pl_AffectedInstruments :: nat
  pl_UnchangedInstruments :: nat

definition actionPriority :: "string \<Rightarrow> int" where
  "actionPriority action =
    (if action = ''hot_reload'' then 1 else if action = ''reconcile'' then 2 else if action = ''reconfigure'' then 3
     else if action = ''add'' then 4 else if action = ''remove'' then 5 else 0)"

text \<open>\<^verbatim>\<open>equalJSON\<close>, on the types it is used for: what the encoding of a value shows of it.\<close>

definition jsonAsset :: "AssetConfig \<Rightarrow> string \<times> string \<times> int" where
  "jsonAsset a = (as_Symbol a, as_Address a, as_Decimals a)"

definition jsonLeg :: "PairLegConfig \<Rightarrow> string \<times> string \<times> string \<times> string \<times> string \<times> int" where
  "jsonLeg l = (leg_PairAddress l, leg_ExpectedFactory l, leg_BaseToken l, leg_QuoteToken l,
     DecString (leg_MinQuoteReserve l), leg_MaxIdleSeconds l)"

definition jsonReference :: "ReferenceConfig \<Rightarrow> string \<times> (string \<times> string \<times> string \<times> string \<times> string \<times> int) list \<times> int \<times> int \<times> int \<times> bool" where
  "jsonReference r = (ref_Type r, map jsonLeg (ref_Legs r), ref_TWAPWindowSeconds r, ref_MaxSpotTWAPDeviationBPS r,
     ref_StaleAfterSeconds r, ref_AllowSpotDuringWarmup r)"

definition jsonStrategy :: "StrategyConfig \<Rightarrow> int list \<times> string list" where
  "jsonStrategy s =
    ([st_HalfSpreadBPS s, st_LevelSpacingBPS s, st_Levels s, st_RepriceThresholdBPS s, st_BalanceReserveBPS s,
      st_MaxVenueReferenceDeviationBPS s, st_MaxVenueSpreadBPS s, st_InventorySkewBPS s, st_QuoteRefreshSeconds s,
      st_QuoteRefreshRatioBPS s, st_MinOrderLifetimeSeconds s, st_MaxOrderLifetimeSeconds s,
      st_FillReplenishMinDelaySeconds s, st_FillReplenishMaxDelaySeconds s, st_PriceJitterTicks s, st_BestLevels s,
      st_BestLevelRefreshSeconds s],
     map DecString [st_OrderSize s, st_MinOrderNotional s, st_MaxOrderNotional s, st_TargetBase s, st_MaxBaseDeviation s])"

definition jsonSimulation :: "TradeSimulationConfig \<Rightarrow> bool \<times> string \<times> string \<times> string \<times> int list" where
  "jsonSimulation s = (sim_Enabled s, sim_SourceVenue s, DecString (sim_MinQuantity s), DecString (sim_MaxQuantity s),
     [sim_MinIntervalMS s, sim_MaxIntervalMS s, sim_BuyProbabilityBPS s, sim_RecentLimit s])"

definition jsonMarket :: "VenueMarketConfig \<Rightarrow> string list \<times> int \<times> int" where
  "jsonMarket m =
    ([m_Symbol m, m_BaseAsset m, m_QuoteAsset m] @
     map DecString [m_PriceTick m, m_QuantityStep m, m_MinNotional m, m_MinQuantity m, m_MaxQuantity m, m_MaxNotional m,
       m_MinPrice m, m_MaxPrice m, m_MaxBaseCommitment m, m_MaxQuoteCommitment m],
     m_MaxOpenOrders m, m_CredentialID m)"

definition jsonRPC :: "RPCConfig \<Rightarrow> string list \<times> 64 word \<times> int" where
  "jsonRPC r = (rpc_URLs r, rpc_ChainID r, rpc_RequestTimeoutMS r)"

text \<open>\<^verbatim>\<open>addChange\<close>: the closure over the map of changes.\<close>

definition mergeChange :: "string \<Rightarrow> string \<Rightarrow> InstrumentChange \<Rightarrow> InstrumentChange" where
  "mergeChange action reason item =
    (let a = (if actionPriority action > actionPriority (ic_Action item) then action else ic_Action item);
         rs = (if reason \<noteq> [] \<and> reason \<notin> set (ic_Reasons item) then ic_Reasons item @ [reason] else ic_Reasons item)
     in item\<lparr>ic_Action := a, ic_Reasons := rs\<rparr>)"

fun addChange :: "string \<Rightarrow> string \<Rightarrow> string \<Rightarrow> InstrumentChange list \<Rightarrow> InstrumentChange list" where
  "addChange ident action reason [] =
     [mergeChange action reason \<lparr>ic_InstrumentID = ident, ic_Action = action, ic_Reasons = []\<rparr>]"
| "addChange ident action reason (item # rest) =
     (if ic_InstrumentID item = ident then mergeChange action reason item # rest
      else item # addChange ident action reason rest)"

definition addTarget :: "MarketTarget \<Rightarrow> MarketTarget list \<Rightarrow> MarketTarget list" where
  "addTarget target targets =
    (if \<exists>current \<in> set targets. mt_InstrumentID current = mt_InstrumentID target \<and> mt_Venue current = mt_Venue target \<and>
          mt_Symbol current = mt_Symbol target
     then targets else targets @ [target])"

text \<open>Whether the running configuration trades on a venue.\<close>

definition tradesOn :: "Config \<Rightarrow> VenueConfig \<Rightarrow> bool" where
  "tradesOn c v \<longleftrightarrow> c_Mode c = ModeLive \<and> v_Enabled v \<and> v_TradingEnabled v"

definition addInstrumentMarkets :: "Config \<Rightarrow> string \<Rightarrow> string \<Rightarrow> MarketTarget list \<Rightarrow> MarketTarget list" where
  "addInstrumentMarkets cfg instrumentID reason targets =
    (if c_Mode cfg \<noteq> ModeLive then targets
     else fold (\<lambda>(venueName, venueCfg) ts.
       if \<not> v_Enabled venueCfg \<or> \<not> v_TradingEnabled venueCfg then ts
       else case map_of (v_Markets venueCfg) instrumentID of
         None \<Rightarrow> ts
       | Some market \<Rightarrow> addTarget \<lparr>mt_InstrumentID = instrumentID, mt_Venue = venueName, mt_Symbol = m_Symbol market, mt_Reason = reason\<rparr> ts)
       (c_Venues cfg) targets)"

definition marketCancelReason :: "VenueConfig option \<Rightarrow> VenueMarketConfig option \<Rightarrow> bool \<Rightarrow> VenueMarketConfig \<Rightarrow> string" where
  "marketCancelReason newVenue newMarket connectionChanged oldMarket =
    (case newVenue of None \<Rightarrow> txtVenueGone | Some nv \<Rightarrow>
       if \<not> v_Enabled nv then txtVenueGone
       else if \<not> v_TradingEnabled nv then txtTradingOff
       else case newMarket of None \<Rightarrow> txtMarketGone | Some nm \<Rightarrow>
         if connectionChanged then txtConnection
         else if m_Symbol oldMarket \<noteq> m_Symbol nm then txtSymbol
         else if m_CredentialID oldMarket \<noteq> m_CredentialID nm then txtCredential
         else txtRebuild)"

definition connectionChanged :: "VenueConfig \<Rightarrow> VenueConfig option \<Rightarrow> bool" where
  "connectionChanged ov newVenue =
    (case newVenue of None \<Rightarrow> True
     | Some nv \<Rightarrow> v_Type ov \<noteq> v_Type nv \<or> v_Environment ov \<noteq> v_Environment nv \<or> v_BaseURL ov \<noteq> v_BaseURL nv)"

definition newMarketOf :: "VenueConfig option \<Rightarrow> string \<Rightarrow> VenueMarketConfig option" where
  "newMarketOf newVenue ident = (case newVenue of None \<Rightarrow> None | Some nv \<Rightarrow> map_of (v_Markets nv) ident)"

definition mustCancel :: "Config \<Rightarrow> VenueConfig \<Rightarrow> VenueConfig option \<Rightarrow> string \<Rightarrow> VenueMarketConfig \<Rightarrow> bool" where
  "mustCancel old ov newVenue ident oldMarket \<longleftrightarrow>
    tradesOn old ov \<and>
    ((case newVenue of None \<Rightarrow> True | Some nv \<Rightarrow> \<not> v_Enabled nv \<or> \<not> v_TradingEnabled nv) \<or>
     connectionChanged ov newVenue \<or>
     (case newMarketOf newVenue ident of None \<Rightarrow> True
      | Some nm \<Rightarrow> m_Symbol oldMarket \<noteq> m_Symbol nm \<or> m_CredentialID oldMarket \<noteq> m_CredentialID nm))"

type_synonym Diff = "MarketTarget list \<times> InstrumentChange list"

definition diffOldMarket :: "Config \<Rightarrow> string \<Rightarrow> VenueConfig \<Rightarrow> VenueConfig option \<Rightarrow> string \<times> VenueMarketConfig \<Rightarrow> Diff \<Rightarrow> Diff" where
  "diffOldMarket old venueName ov newVenue im d =
    (case im of (instrumentID, oldMarket) \<Rightarrow> case d of (targets, changes) \<Rightarrow>
     let executionChanged = (connectionChanged ov newVenue \<or>
           (case newVenue of None \<Rightarrow> True
            | Some nv \<Rightarrow> v_SelfTradePrevention ov \<noteq> v_SelfTradePrevention nv \<or> v_DedicatedAccount ov \<noteq> v_DedicatedAccount nv));
         newMarket = newMarketOf newVenue instrumentID;
         targets' = (if mustCancel old ov newVenue instrumentID oldMarket
           then addTarget \<lparr>mt_InstrumentID = instrumentID, mt_Venue = venueName, mt_Symbol = m_Symbol oldMarket,
             mt_Reason = marketCancelReason newVenue newMarket (connectionChanged ov newVenue) oldMarket\<rparr> targets
           else targets)
     in case (newVenue, newMarket) of
          (Some nv, Some nm) \<Rightarrow>
            (targets', if executionChanged \<or> v_Enabled ov \<noteq> v_Enabled nv \<or> v_TradingEnabled ov \<noteq> v_TradingEnabled nv \<or>
                          jsonMarket oldMarket \<noteq> jsonMarket nm
                       then addChange instrumentID ''reconfigure'' (txtMarket @ venueName @ txtChanged) changes else changes)
        | _ \<Rightarrow> (targets', changes))"

definition diffOldVenue :: "Config \<Rightarrow> Config \<Rightarrow> string \<times> VenueConfig \<Rightarrow> Diff \<Rightarrow> Diff" where
  "diffOldVenue old next nv d =
    (case nv of (venueName, ov) \<Rightarrow> fold (diffOldMarket old venueName ov (map_of (c_Venues next) venueName)) (v_Markets ov) d)"

definition diffNewVenue :: "Config \<Rightarrow> string \<times> VenueConfig \<Rightarrow> InstrumentChange list \<Rightarrow> InstrumentChange list" where
  "diffNewVenue old nv changes =
    (case nv of (venueName, newVenue) \<Rightarrow>
      fold (\<lambda>(instrumentID, _) cs.
        case map_of (c_Venues old) venueName of
          None \<Rightarrow> addChange instrumentID ''reconfigure'' (txtNewVenue @ venueName) cs
        | Some ov \<Rightarrow> if map_of (v_Markets ov) instrumentID = None
                     then addChange instrumentID ''reconfigure'' (txtNewMarket @ venueName) cs else cs)
        (v_Markets newVenue) changes)"

definition diffVenues :: "Config \<Rightarrow> Config \<Rightarrow> Diff \<Rightarrow> Diff" where
  "diffVenues old next d =
    (case fold (diffOldVenue old next) (c_Venues old) d of
       (targets, changes) \<Rightarrow> (targets, fold (diffNewVenue old) (c_Venues next) changes))"

definition instrumentMap :: "InstrumentConfig list \<Rightarrow> string \<Rightarrow> InstrumentConfig option" where
  "instrumentMap values = map_of (rev (map (\<lambda>v. (in_ID v, v)) values))"

definition instrumentIDs :: "InstrumentConfig list \<Rightarrow> string list" where
  "instrumentIDs values = remdups (map in_ID values)"

definition onlyIf :: "bool \<Rightarrow> ('a \<Rightarrow> 'a) \<Rightarrow> 'a \<Rightarrow> 'a" where
  "onlyIf b f x = (if b then f x else x)"

definition diffOldInstrument :: "Config \<Rightarrow> Config \<Rightarrow> string \<Rightarrow> Diff \<Rightarrow> Diff" where
  "diffOldInstrument old next ident d =
    (case d of (targets, changes) \<Rightarrow>
     case (instrumentMap (c_Instruments old) ident, instrumentMap (c_Instruments next) ident) of
       (Some oi, Some ni) \<Rightarrow>
         (targets,
          onlyIf (jsonSimulation (in_TradeSimulation oi) \<noteq> jsonSimulation (in_TradeSimulation ni)) (addChange ident ''hot_reload'' txtSimulation)
          (onlyIf (jsonStrategy (in_Strategy oi) \<noteq> jsonStrategy (in_Strategy ni)) (addChange ident ''reconcile'' txtStrategy)
          (onlyIf (jsonReference (in_Reference oi) \<noteq> jsonReference (in_Reference ni)) (addChange ident ''reconfigure'' txtPath)
          (onlyIf (jsonAsset (in_Base oi) \<noteq> jsonAsset (in_Base ni) \<or> jsonAsset (in_Quote oi) \<noteq> jsonAsset (in_Quote ni))
             (addChange ident ''reconfigure'' txtToken) changes))))
     | (Some oi, None) \<Rightarrow>
         (addInstrumentMarkets old ident txtRemoveInstrument targets, addChange ident ''remove'' txtRemoveInstrument changes)
     | _ \<Rightarrow> d)"

definition diffNewInstrument :: "Config \<Rightarrow> string \<Rightarrow> Diff \<Rightarrow> Diff" where
  "diffNewInstrument old ident d =
    (case d of (targets, changes) \<Rightarrow>
     if instrumentMap (c_Instruments old) ident = None then (targets, addChange ident ''add'' txtAddInstrument changes) else d)"

text \<open>The comparison of the scalar parts: the hot changes, whether they are structural, and the changes they cause.\<close>

definition auditChanged :: "Config \<Rightarrow> Config \<Rightarrow> bool" where
  "auditChanged old next \<longleftrightarrow> c_AuditPath old \<noteq> c_AuditPath next \<or> c_AuditMaxBytes old \<noteq> c_AuditMaxBytes next \<or>
     c_AuditBackups old \<noteq> c_AuditBackups next"

definition watchdogChanged :: "Config \<Rightarrow> Config \<Rightarrow> bool" where
  "watchdogChanged old next \<longleftrightarrow> c_HeartbeatPath old \<noteq> c_HeartbeatPath next \<or> c_WatchdogTimeoutSeconds old \<noteq> c_WatchdogTimeoutSeconds next"

definition scalarHot :: "Config \<Rightarrow> Config \<Rightarrow> string list" where
  "scalarHot old next =
    (if c_PollIntervalMS old \<noteq> c_PollIntervalMS next \<or> c_MaxConcurrentInstruments old \<noteq> c_MaxConcurrentInstruments next \<or>
        c_RulesRefreshSeconds old \<noteq> c_RulesRefreshSeconds next then [txtPolling] else []) @
    (if c_MarketFailureThreshold old \<noteq> c_MarketFailureThreshold next \<or> c_MarketRecoveryThreshold old \<noteq> c_MarketRecoveryThreshold next \<or>
        c_MarketErrorGraceSeconds old \<noteq> c_MarketErrorGraceSeconds next \<or>
        c_TradingProgressTimeoutSeconds old \<noteq> c_TradingProgressTimeoutSeconds next then [txtFaults] else []) @
    (if auditChanged old next then [txtAudit] else []) @
    (if watchdogChanged old next then [txtWatchdog] else []) @
    (if jsonRPC (c_RPC old) \<noteq> jsonRPC (c_RPC next) then [txtRPC] else []) @
    (if c_Mode old \<noteq> c_Mode next then [txtMode] else [])"

definition scalarStructural :: "Config \<Rightarrow> Config \<Rightarrow> bool" where
  "scalarStructural old next \<longleftrightarrow> auditChanged old next \<or> watchdogChanged old next \<or> jsonRPC (c_RPC old) \<noteq> jsonRPC (c_RPC next) \<or>
     c_Mode old \<noteq> c_Mode next"

definition scalarChanges :: "Config \<Rightarrow> Config \<Rightarrow> InstrumentChange list" where
  "scalarChanges old next =
    onlyIf (c_Mode old \<noteq> c_Mode next) (fold (\<lambda>i. addChange (in_ID i) ''reconfigure'' txtModeChanged) (c_Instruments next))
    (onlyIf (jsonRPC (c_RPC old) \<noteq> jsonRPC (c_RPC next)) (fold (\<lambda>i. addChange (in_ID i) ''hot_reload'' txtSource) (c_Instruments next)) [])"

definition structuralAction :: "string \<Rightarrow> bool" where
  "structuralAction a \<longleftrightarrow> a = ''reconfigure'' \<or> a = ''add'' \<or> a = ''remove''"

definition targetKey :: "MarketTarget \<Rightarrow> string list" where
  "targetKey t = [mt_InstrumentID t, mt_Venue t]"

definition finish :: "Plan \<Rightarrow> Config \<Rightarrow> Plan" where
  "finish plan next =
    (let changes = sort_key ic_InstrumentID (pl_InstrumentChanges plan) in
     plan\<lparr>pl_Structural := pl_Structural plan \<or> pl_CancelAll plan \<or> pl_CancelTargets plan \<noteq> [] \<or>
            list_ex (\<lambda>c. structuralAction (ic_Action c)) (pl_InstrumentChanges plan),
          pl_HotChanges := sort (pl_HotChanges plan),
          pl_InstrumentChanges := changes,
          pl_CancelTargets := sort_key targetKey (pl_CancelTargets plan),
          pl_AffectedInstruments := length changes,
          pl_UnchangedInstruments := length (filter (\<lambda>i. in_ID i \<notin> ic_InstrumentID ` set changes) (c_Instruments next))\<rparr>)"

definition emptyPlan :: Plan where
  "emptyPlan = \<lparr>pl_FirstPublish = False, pl_CancelAll = False, pl_Structural = False, pl_HotChanges = [], pl_InstrumentChanges = [],
     pl_CancelTargets = [], pl_AffectedInstruments = 0, pl_UnchangedInstruments = 0\<rparr>"

definition firstPlan :: "Config \<Rightarrow> Plan" where
  "firstPlan next = finish (emptyPlan\<lparr>pl_FirstPublish := True, pl_Structural := True,
     pl_InstrumentChanges := map (\<lambda>i. \<lparr>ic_InstrumentID = in_ID i, ic_Action = ''add'', ic_Reasons = [txtAddInstrument]\<rparr>) (c_Instruments next)\<rparr>) next"

definition diffConfigs :: "Config \<Rightarrow> Config \<Rightarrow> Diff" where
  "diffConfigs old next =
    diffVenues old next
    (fold (diffNewInstrument old) (instrumentIDs (c_Instruments next))
    (fold (diffOldInstrument old next) (instrumentIDs (c_Instruments old)) ([], scalarChanges old next)))"

definition Build :: "Config option \<Rightarrow> Config \<Rightarrow> Plan" where
  "Build previous next =
    (case previous of None \<Rightarrow> firstPlan next
     | Some old \<Rightarrow>
         (case diffConfigs old next of (targets, changes) \<Rightarrow>
           finish (emptyPlan\<lparr>pl_CancelAll := (c_Mode old = ModeLive \<and> c_Mode next = ModeShadow),
             pl_Structural := scalarStructural old next, pl_HotChanges := scalarHot old next,
             pl_InstrumentChanges := map (\<lambda>c. c\<lparr>ic_Reasons := sort (ic_Reasons c)\<rparr>) changes, pl_CancelTargets := targets\<rparr>) next))"

section \<open>What a fold collects\<close>

lemma fold_collects:
  assumes "\<And>x s. x \<in> set xs \<Longrightarrow> K (f x s) = K s \<union> g x"
  shows "K (fold f xs s) = K s \<union> (\<Union>x \<in> set xs. g x)"
  using assms
proof (induction xs arbitrary: s)
  case (Cons x xs)
  then have "K (fold f xs (f x s)) = K (f x s) \<union> (\<Union>y \<in> set xs. g y)" by simp
  with Cons.prems [of x s] show ?case by auto
qed simp

definition targetKeys :: "MarketTarget list \<Rightarrow> (string \<times> string \<times> string) set" where
  "targetKeys ts = (\<lambda>t. (mt_InstrumentID t, mt_Venue t, mt_Symbol t)) ` set ts"

definition structuralIDs :: "InstrumentChange list \<Rightarrow> string set" where
  "structuralIDs cs = {ic_InstrumentID c |c. c \<in> set cs \<and> structuralAction (ic_Action c)}"

definition changedIDs :: "InstrumentChange list \<Rightarrow> string set" where
  "changedIDs cs = ic_InstrumentID ` set cs"

lemma targetKeys_add: "targetKeys (addTarget t ts) = targetKeys ts \<union> {(mt_InstrumentID t, mt_Venue t, mt_Symbol t)}"
  by (auto simp: targetKeys_def addTarget_def image_iff) metis

lemma structural_priority: "structuralAction a \<longleftrightarrow> 3 \<le> actionPriority a"
  by (simp add: structuralAction_def actionPriority_def)

lemma structural_merge:
  "structuralAction (ic_Action (mergeChange action reason item)) \<longleftrightarrow> structuralAction action \<or> structuralAction (ic_Action item)"
  by (auto simp: mergeChange_def structural_priority Let_def)

lemma merge_id [simp]: "ic_InstrumentID (mergeChange action reason item) = ic_InstrumentID item"
  by (simp add: mergeChange_def Let_def)

lemma structuralIDs_Cons:
  "structuralIDs (c # cs) = (if structuralAction (ic_Action c) then {ic_InstrumentID c} else {}) \<union> structuralIDs cs"
  by (auto simp: structuralIDs_def)

lemma structuralIDs_add:
  "structuralIDs (addChange ident action reason cs) = structuralIDs cs \<union> (if structuralAction action then {ident} else {})"
proof (induction cs)
  case Nil
  show ?case by (simp add: structuralIDs_def structural_merge)
next
  case (Cons c cs)
  then show ?case by (auto simp: structuralIDs_Cons structural_merge)
qed

lemma changedIDs_add: "changedIDs (addChange ident action reason cs) = changedIDs cs \<union> {ident}"
  by (induction cs) (auto simp: changedIDs_def)

lemma structural_actions [simp]: "structuralAction ''reconfigure''" "structuralAction ''add''" "structuralAction ''remove''"
  "\<not> structuralAction ''hot_reload''" "\<not> structuralAction ''reconcile''"
  by (simp_all add: structuralAction_def)

lemma onlyIf_simps [simp]: "onlyIf True f x = f x" "onlyIf False f x = x"
  by (simp_all add: onlyIf_def)


lemma structuralIDs_fold: "structuralIDs (fold (\<lambda>i. addChange (in_ID i) action reason) ins cs) =
  structuralIDs cs \<union> (if structuralAction action then in_ID ` set ins else {})"
  by (induction ins arbitrary: cs) (auto simp: structuralIDs_add)


lemma mem_if: "x \<in> (if c then A else {}) \<longleftrightarrow> c \<and> x \<in> A"
  by simp

lemma mem_case: "x \<in> (case opt of None \<Rightarrow> {} | Some m \<Rightarrow> {f m}) \<longleftrightarrow> (\<exists>m. opt = Some m \<and> x = f m)"
  by (simp split: option.split)


section \<open>The parts of the comparison\<close>

text \<open>Whether a market goes on being traded the same way, and whether an instrument is removed.\<close>

definition kept :: "Config \<Rightarrow> string \<Rightarrow> VenueConfig \<Rightarrow> string \<Rightarrow> VenueMarketConfig \<Rightarrow> bool" where
  "kept next vn ov ident m \<longleftrightarrow>
    (\<exists>nv nm. map_of (c_Venues next) vn = Some nv \<and> v_Enabled nv \<and> v_TradingEnabled nv \<and>
       v_Type nv = v_Type ov \<and> v_Environment nv = v_Environment ov \<and> v_BaseURL nv = v_BaseURL ov \<and>
       map_of (v_Markets nv) ident = Some nm \<and> m_Symbol nm = m_Symbol m \<and> m_CredentialID nm = m_CredentialID m)"

definition removed :: "Config \<Rightarrow> Config \<Rightarrow> string \<Rightarrow> bool" where
  "removed old next ident \<longleftrightarrow> instrumentMap (c_Instruments old) ident \<noteq> None \<and> instrumentMap (c_Instruments next) ident = None"

lemma mustCancel_iff: "mustCancel old ov (map_of (c_Venues next) vn) ident m \<longleftrightarrow> tradesOn old ov \<and> \<not> kept next vn ov ident m"
  by (auto simp: mustCancel_def kept_def connectionChanged_def newMarketOf_def split: option.splits)

lemma targetKeys_diffOldMarket:
  "targetKeys (fst (diffOldMarket old vn ov nv im d)) = targetKeys (fst d) \<union>
     (if mustCancel old ov nv (fst im) (snd im) then {(fst im, vn, m_Symbol (snd im))} else {})"
  by (cases im; cases d; cases nv; cases "newMarketOf nv (fst im)")
     (auto simp: diffOldMarket_def Let_def targetKeys_add)

lemma targetKeys_diffOldVenue:
  "targetKeys (fst (diffOldVenue old next v d)) = targetKeys (fst d) \<union>
     (\<Union>im \<in> set (v_Markets (snd v)). if mustCancel old (snd v) (map_of (c_Venues next) (fst v)) (fst im) (snd im)
        then {(fst im, fst v, m_Symbol (snd im))} else {})"
proof (cases v)
  case (Pair vn ov)
  show ?thesis unfolding Pair diffOldVenue_def prod.case fst_conv snd_conv
    by (rule fold_collects [where K = "\<lambda>d. targetKeys (fst d)"]) (rule targetKeys_diffOldMarket)
qed

lemma targetKeys_instrumentMarkets:
  "targetKeys (addInstrumentMarkets old ident reason ts) = targetKeys ts \<union>
     (\<Union>v \<in> set (c_Venues old). if tradesOn old (snd v) then
        (case map_of (v_Markets (snd v)) ident of None \<Rightarrow> {} | Some m \<Rightarrow> {(ident, fst v, m_Symbol m)}) else {})"
proof (cases "c_Mode old = ModeLive")
  case True
  let ?f = "\<lambda>(venueName, venueCfg) ts.
       if \<not> v_Enabled venueCfg \<or> \<not> v_TradingEnabled venueCfg then ts
       else case map_of (v_Markets venueCfg) ident of None \<Rightarrow> ts
       | Some market \<Rightarrow> addTarget \<lparr>mt_InstrumentID = ident, mt_Venue = venueName, mt_Symbol = m_Symbol market, mt_Reason = reason\<rparr> ts"
  have "targetKeys (fold ?f (c_Venues old) ts) = targetKeys ts \<union>
     (\<Union>v \<in> set (c_Venues old). if tradesOn old (snd v) then
        (case map_of (v_Markets (snd v)) ident of None \<Rightarrow> {} | Some m \<Rightarrow> {(ident, fst v, m_Symbol m)}) else {})"
    by (rule fold_collects [where K = targetKeys]) (auto simp: targetKeys_add tradesOn_def True split: option.splits)
  with True show ?thesis by (simp add: addInstrumentMarkets_def)
next
  case False
  then show ?thesis by (simp add: addInstrumentMarkets_def tradesOn_def)
qed

lemma targetKeys_diffOldInstrument:
  "targetKeys (fst (diffOldInstrument old next ident d)) = targetKeys (fst d) \<union>
     (if removed old next ident then (\<Union>v \<in> set (c_Venues old). if tradesOn old (snd v) then
        (case map_of (v_Markets (snd v)) ident of None \<Rightarrow> {} | Some m \<Rightarrow> {(ident, fst v, m_Symbol m)}) else {}) else {})"
  by (cases d; cases "instrumentMap (c_Instruments old) ident"; cases "instrumentMap (c_Instruments next) ident")
     (auto simp: diffOldInstrument_def removed_def targetKeys_instrumentMarkets)

lemma targetKeys_diffNewInstrument: "targetKeys (fst (diffNewInstrument old ident d)) = targetKeys (fst d)"
  by (cases d) (simp add: diffNewInstrument_def)

lemma instrumentIDs_iff: "ident \<in> set (instrumentIDs ins) \<longleftrightarrow> instrumentMap ins ident \<noteq> None"
  by (force simp: instrumentIDs_def instrumentMap_def map_of_eq_None_iff)

lemma fst_diffVenues: "fst (diffVenues old next d) = fst (fold (diffOldVenue old next) (c_Venues old) d)"
  by (simp add: diffVenues_def split: prod.split)

definition cancelled :: "Config \<Rightarrow> Config \<Rightarrow> (string \<times> string \<times> string) set" where
  "cancelled old next = {(ident, vn, sym). \<exists>ov m. (vn, ov) \<in> set (c_Venues old) \<and> tradesOn old ov \<and> m_Symbol m = sym \<and>
     ((ident, m) \<in> set (v_Markets ov) \<and> \<not> kept next vn ov ident m \<or>
      map_of (v_Markets ov) ident = Some m \<and> removed old next ident)}"

lemma targetKeys_diffConfigs: "targetKeys (fst (diffConfigs old next)) = cancelled old next"
proof -
  let ?d0 = "([], scalarChanges old next) :: Diff"
  let ?d1 = "fold (diffOldInstrument old next) (instrumentIDs (c_Instruments old)) ?d0"
  let ?d2 = "fold (diffNewInstrument old) (instrumentIDs (c_Instruments next)) ?d1"
  have k1: "targetKeys (fst ?d1) = targetKeys (fst ?d0) \<union> (\<Union>ident \<in> set (instrumentIDs (c_Instruments old)).
     (if removed old next ident then (\<Union>v \<in> set (c_Venues old). if tradesOn old (snd v) then
        (case map_of (v_Markets (snd v)) ident of None \<Rightarrow> {} | Some m \<Rightarrow> {(ident, fst v, m_Symbol m)}) else {}) else {}))"
    by (rule fold_collects [where K = "\<lambda>d. targetKeys (fst d)"]) (rule targetKeys_diffOldInstrument)
  have k2: "targetKeys (fst ?d2) = targetKeys (fst ?d1) \<union> (\<Union>ident \<in> set (instrumentIDs (c_Instruments next)). {})"
    by (rule fold_collects [where K = "\<lambda>d. targetKeys (fst d)"]) (simp add: targetKeys_diffNewInstrument)
  have k3: "targetKeys (fst (diffVenues old next ?d2)) = targetKeys (fst ?d2) \<union> (\<Union>v \<in> set (c_Venues old).
     (\<Union>im \<in> set (v_Markets (snd v)). if mustCancel old (snd v) (map_of (c_Venues next) (fst v)) (fst im) (snd im)
        then {(fst im, fst v, m_Symbol (snd im))} else {}))"
    unfolding fst_diffVenues by (rule fold_collects [where K = "\<lambda>d. targetKeys (fst d)"]) (rule targetKeys_diffOldVenue)
  have e: "targetKeys [] = {}" by (simp add: targetKeys_def)
  have a: "(i, vn, s) \<in> (\<Union>ident \<in> set (instrumentIDs (c_Instruments old)).
     (if removed old next ident then (\<Union>v \<in> set (c_Venues old). if tradesOn old (snd v) then
        (case map_of (v_Markets (snd v)) ident of None \<Rightarrow> {} | Some m \<Rightarrow> {(ident, fst v, m_Symbol m)}) else {}) else {})) \<longleftrightarrow>
    (\<exists>ov m. (vn, ov) \<in> set (c_Venues old) \<and> tradesOn old ov \<and> m_Symbol m = s \<and> map_of (v_Markets ov) i = Some m \<and> removed old next i)"
    for i vn s by (auto simp: mem_if mem_case instrumentIDs_iff removed_def Bex_def split_paired_Ex)
  have b: "(i, vn, s) \<in> (\<Union>v \<in> set (c_Venues old).
     (\<Union>im \<in> set (v_Markets (snd v)). if tradesOn old (snd v) \<and> \<not> kept next (fst v) (snd v) (fst im) (snd im)
        then {(fst im, fst v, m_Symbol (snd im))} else {})) \<longleftrightarrow>
    (\<exists>ov m. (vn, ov) \<in> set (c_Venues old) \<and> tradesOn old ov \<and> m_Symbol m = s \<and> (i, m) \<in> set (v_Markets ov) \<and> \<not> kept next vn ov i m)"
    for i vn s by (auto simp: mem_if Bex_def split_paired_Ex)
  have "x \<in> targetKeys (fst (diffVenues old next ?d2)) \<longleftrightarrow> x \<in> cancelled old next" for x
  proof (cases x)
    case (fields i vn s)
    show ?thesis unfolding fields k3 k2 k1 mustCancel_iff fst_conv e Un_iff a b cancelled_def by auto
  qed
  then show ?thesis unfolding diffConfigs_def by blast
qed

lemma targetKeys_Build: "targetKeys (pl_CancelTargets (Build (Some old) next)) = cancelled old next"
  using targetKeys_diffConfigs [of old "next"]
  by (cases "diffConfigs old next") (simp add: Build_def finish_def Let_def targetKeys_def)


section \<open>Changes that need a rebuild\<close>













section \<open>Properties\<close>



lemma CancelAll_Build: "pl_CancelAll (Build (Some old) next) \<longleftrightarrow> c_Mode old = ModeLive \<and> c_Mode next = ModeShadow"
  by (cases "diffConfigs old next") (simp add: Build_def finish_def Let_def)

text \<open>C20: what a plan cancels. It asks for everything to be cancelled exactly when a shadow configuration
  follows a live one. Its list of single markets names exactly the markets the running configuration
  trades live and the new one drops, stops, or moves to another connection, symbol or credential, and
  those of a removed instrument, each by its instrument, venue and old symbol; the new mode plays no
  part in that list. A first plan cancels nothing.\<close>

theorem plan_cancels_exactly:
  "(pl_CancelAll (Build (Some old) next) \<longleftrightarrow> c_Mode old = ModeLive \<and> c_Mode next = ModeShadow) \<and>
   ((\<exists>t \<in> set (pl_CancelTargets (Build (Some old) next)). mt_InstrumentID t = ident \<and> mt_Venue t = vn \<and> mt_Symbol t = symb) \<longleftrightarrow>
    (\<exists>ov m. (vn, ov) \<in> set (c_Venues old) \<and> c_Mode old = ModeLive \<and> v_Enabled ov \<and> v_TradingEnabled ov \<and> m_Symbol m = symb \<and>
      ((ident, m) \<in> set (v_Markets ov) \<and> \<not> kept next vn ov ident m \<or>
       map_of (v_Markets ov) ident = Some m \<and> removed old next ident))) \<and>
   \<not> pl_CancelAll (Build None next) \<and> pl_CancelTargets (Build None next) = []"
proof (intro conjI CancelAll_Build)
  have "(\<exists>t \<in> set (pl_CancelTargets (Build (Some old) next)). mt_InstrumentID t = ident \<and> mt_Venue t = vn \<and> mt_Symbol t = symb) \<longleftrightarrow>
      (ident, vn, symb) \<in> targetKeys (pl_CancelTargets (Build (Some old) next))"
    by (force simp: targetKeys_def)
  then show "(\<exists>t \<in> set (pl_CancelTargets (Build (Some old) next)). mt_InstrumentID t = ident \<and> mt_Venue t = vn \<and> mt_Symbol t = symb) \<longleftrightarrow>
    (\<exists>ov m. (vn, ov) \<in> set (c_Venues old) \<and> c_Mode old = ModeLive \<and> v_Enabled ov \<and> v_TradingEnabled ov \<and> m_Symbol m = symb \<and>
      ((ident, m) \<in> set (v_Markets ov) \<and> \<not> kept next vn ov ident m \<or>
       map_of (v_Markets ov) ident = Some m \<and> removed old next ident))"
    unfolding targetKeys_Build cancelled_def tradesOn_def by auto
qed (simp_all add: Build_def firstPlan_def finish_def emptyPlan_def Let_def)


lemma fold_unchanged: "(\<And>x. x \<in> set xs \<Longrightarrow> f x s = s) \<Longrightarrow> fold f xs s = s"
  by (induction xs) simp_all

lemma diff_same:
  assumes "distinct (map fst (c_Venues c))" and "\<forall>(vn, v) \<in> set (c_Venues c). distinct (map fst (v_Markets v))"
    and c': "c_Venues c' = c_Venues c" "c_Instruments c' = c_Instruments c" "c_Mode c' = c_Mode c" "c_RPC c' = c_RPC c"
  shows "diffConfigs c c' = ([], [])"
proof -
  have v: "map_of (c_Venues c) vn = Some ov" if "(vn, ov) \<in> set (c_Venues c)" for vn ov using assms(1) that by simp
  have m: "map_of (v_Markets ov) i = Some k" if "(vn, ov) \<in> set (c_Venues c)" "(i, k) \<in> set (v_Markets ov)" for vn ov i k
    using assms(2) that by fastforce
  have o: "fold (diffOldInstrument c c') ids ([], []) = ([], [])" for ids
    by (rule fold_unchanged) (auto simp: diffOldInstrument_def c' split: option.split)
  have n: "fold (diffNewInstrument c) (instrumentIDs (c_Instruments c)) ([], []) = ([], [])"
    by (rule fold_unchanged) (simp add: diffNewInstrument_def instrumentIDs_iff)
  have om: "diffOldVenue c c' x ([], []) = ([], [])" if "x \<in> set (c_Venues c)" for x
  proof (cases x)
    case (Pair vn ov)
    have "diffOldMarket c vn ov (map_of (c_Venues c') vn) im ([], []) = ([], [])" if im: "im \<in> set (v_Markets ov)" for im
    proof -
      obtain i k where ik: "im = (i, k)" by fastforce
      with im have "map_of (v_Markets ov) i = Some k" using m \<open>x \<in> set (c_Venues c)\<close> Pair by blast
      moreover have "map_of (c_Venues c') vn = Some ov" using v \<open>x \<in> set (c_Venues c)\<close> Pair c' by simp
      ultimately show ?thesis
        by (auto simp: ik diffOldMarket_def mustCancel_def newMarketOf_def connectionChanged_def tradesOn_def Let_def)
    qed
    then show ?thesis unfolding Pair diffOldVenue_def prod.case by (rule fold_unchanged)
  qed
  have nm: "diffNewVenue c x [] = []" if "x \<in> set (c_Venues c)" for x
  proof (cases x)
    case (Pair vn ov)
    then show ?thesis using that v [of vn ov] m [of vn ov] unfolding Pair diffNewVenue_def prod.case
      by (intro fold_unchanged) auto
  qed
  have "diffVenues c c' ([], []) = ([], [])"
    using fold_unchanged [of "c_Venues c" "diffOldVenue c c'" "([], [])", OF om] fold_unchanged [of "c_Venues c" "diffNewVenue c" "[]", OF nm]
    by (simp add: diffVenues_def c')
  then show ?thesis using o n by (simp add: diffConfigs_def scalarChanges_def c')
qed

text \<open>Publishing the running configuration again is a plan without effect: nothing is cancelled, nothing is
  changed, nothing is rebuilt and every instrument counts as unchanged.\<close>

theorem same_config_no_change:
  assumes "distinct (map fst (c_Venues c))" and "\<forall>(vn, v) \<in> set (c_Venues c). distinct (map fst (v_Markets v))"
  shows "Build (Some c) c = emptyPlan\<lparr>pl_UnchangedInstruments := length (c_Instruments c)\<rparr>"
proof -
  have "scalarHot c c = []" "\<not> scalarStructural c c" by (simp_all add: scalarHot_def scalarStructural_def auditChanged_def watchdogChanged_def)
  with diff_same [OF assms refl refl refl refl] show ?thesis by (simp add: Build_def finish_def emptyPlan_def Let_def)
qed


section \<open>Witnesses\<close>

definition plan_venue :: VenueConfig where
  "plan_venue = \<lparr>v_Type = ''binance'', v_Environment = ''production'', v_Enabled = True, v_TradingEnabled = True,
     v_DedicatedAccount = False, v_BaseURL = ''https://x'', v_SelfTradePrevention = ''EXPIRE_BOTH'', v_Markets = [(''i'', sample_market)]\<rparr>"

definition plan_config :: "Mode \<Rightarrow> (string \<times> VenueConfig) list \<Rightarrow> Config" where
  "plan_config mode venues = \<lparr>c_Mode = mode, c_PollIntervalMS = 1000, c_AuditPath = [], c_AuditMaxBytes = 0, c_AuditBackups = 0,
     c_HeartbeatPath = ''h'', c_WatchdogTimeoutSeconds = 30, c_MarketFailureThreshold = 3, c_MarketRecoveryThreshold = 3,
     c_MarketErrorGraceSeconds = 0, c_TradingProgressTimeoutSeconds = 0, c_MaxConcurrentInstruments = 4, c_RulesRefreshSeconds = 0,
     c_RPC = \<lparr>rpc_URLs = [''u''], rpc_ChainID = 56, rpc_RequestTimeoutMS = 1000\<rparr>, c_Instruments = [sample_instrument], c_Venues = venues\<rparr>"

theorem same_config_no_change_witness:
  "Build (Some (plan_config ModeLive [(''v'', plan_venue)])) (plan_config ModeLive [(''v'', plan_venue)]) = emptyPlan\<lparr>pl_UnchangedInstruments := 1\<rparr>"
  using same_config_no_change [of "plan_config ModeLive [(''v'', plan_venue)]"] by (simp add: plan_config_def plan_venue_def)

theorem plan_cancels_exactly_witness:
  "(\<exists>t \<in> set (pl_CancelTargets (Build (Some (plan_config ModeLive [(''v'', plan_venue)])) (plan_config ModeLive []))).
     mt_InstrumentID t = ''i'' \<and> mt_Venue t = ''v'' \<and> mt_Symbol t = ''BUSDT'') \<and>
   pl_CancelAll (Build (Some (plan_config ModeLive [(''v'', plan_venue)])) (plan_config ModeShadow [(''v'', plan_venue)]))"
proof
  show "\<exists>t \<in> set (pl_CancelTargets (Build (Some (plan_config ModeLive [(''v'', plan_venue)])) (plan_config ModeLive []))).
     mt_InstrumentID t = ''i'' \<and> mt_Venue t = ''v'' \<and> mt_Symbol t = ''BUSDT''"
    by (rule plan_cancels_exactly [THEN conjunct2, THEN conjunct1, THEN iffD2], rule exI [of _ plan_venue], rule exI [of _ sample_market])
      (simp add: plan_config_def plan_venue_def kept_def sample_market_def)
  show "pl_CancelAll (Build (Some (plan_config ModeLive [(''v'', plan_venue)])) (plan_config ModeShadow [(''v'', plan_venue)]))"
    by (rule plan_cancels_exactly [THEN conjunct1, THEN iffD2]) (simp add: plan_config_def)
qed


text \<open>A market that is dropped while the old configuration does not trade it goes unnoticed: the plan
  reports no change and is not structural, so the running engine keeps the market.\<close>

theorem dropped_market_unnoticed:
  "Build (Some (plan_config ModeShadow [(''v'', plan_venue), (''u'', plan_venue)])) (plan_config ModeShadow [(''v'', plan_venue)])
     = emptyPlan\<lparr>pl_UnchangedInstruments := 1\<rparr>"
proof -
  let ?o = "plan_config ModeShadow [(''v'', plan_venue), (''u'', plan_venue)]" and ?n = "plan_config ModeShadow [(''v'', plan_venue)]"
  have "diffConfigs ?o ?n = ([], [])"
    by (simp add: diffConfigs_def scalarChanges_def plan_config_def instrumentIDs_def instrumentMap_def diffOldInstrument_def
        diffNewInstrument_def diffVenues_def diffOldVenue_def plan_venue_def diffOldMarket_def mustCancel_def tradesOn_def
        newMarketOf_def connectionChanged_def diffNewVenue_def Let_def)
  then show ?thesis
    by (simp add: Build_def finish_def emptyPlan_def Let_def scalarStructural_def scalarHot_def auditChanged_def watchdogChanged_def plan_config_def)
qed

end
