(* ===== verification/EngineControl.thy ===== *)
theory EngineControl
  imports Engine ConfigDiff
begin

text \<open>
  \<^verbatim>\<open>internal/engine/engine.go\<close>, continued: what the scheduler does between cycles. Preflight of a
  candidate engine, retry of blocked instruments, refresh of the exchange rules, operator controls,
  targeted cancellation, hot parameter changes and shutdown.
\<close>

section \<open>Preflight\<close>

definition SetStartupFailures :: "(string \<times> string) list \<Rightarrow> EngineState \<Rightarrow> EngineState" where
  "SetStartupFailures failures E = E\<lparr>eg_startupFailures := filter (\<lambda>(_, f). TrimSpace f \<noteq> []) failures\<rparr>"

text \<open>The account part of a preflight: what the balances and the order limit leave of the quotes.\<close>

definition prepareAccount :: "InstrumentConfig \<Rightarrow> string \<Rightarrow> VenueMarketConfig \<Rightarrow> 'w Client \<Rightarrow> Quote list \<Rightarrow> ('w, string list) engine" where
  "prepareAccount ins venueName market client quotes = do {
     reply \<leftarrow> ext (cl_Balances client);
     case reply of
       Inl e \<Rightarrow> State_Monad.return [venueName @ '' account: '' @ e]
     | Inr balances \<Rightarrow> do {
         open \<leftarrow> ext (cl_OpenOrders client (m_Symbol market));
         case open of
           Inl e \<Rightarrow> State_Monad.return [venueName @ '' orders: '' @ e]
         | Inr orders \<Rightarrow>
             (let managed = ManagedOrdersFor client orders;
                  limited = ApplyOrderLimit quotes (int (length orders)) (int (length managed)) (m_MaxOpenOrders market);
                  kept = fst (ApplyBalanceBudget limited managed (freeOf (findBalance balances (m_BaseAsset market)))
                    (freeOf (findBalance balances (m_QuoteAsset market))) (st_BalanceReserveBPS (in_Strategy ins))
                    (m_MaxBaseCommitment market) (m_MaxQuoteCommitment market))
              in State_Monad.return (if kept = [] then [venueName @ '' budget allows no orders''] else []))
       }
   }"

text \<open>A panic of the strategy has no barrier here: the model stops with \<open>None\<close>.\<close>

definition prepareMarket :: "'w Deps \<Rightarrow> Config \<Rightarrow> InstrumentConfig \<Rightarrow> ReferencePrice \<Rightarrow> string \<Rightarrow> VenueConfig \<Rightarrow> VenueMarketConfig
    \<Rightarrow> ('w, string list option) engine" where
  "prepareMarket dp cfg ins ref venueName venueCfg market =
    (case clientFor dp venueName (in_ID ins) of
       None \<Rightarrow> State_Monad.return (Some [venueName @ '': client missing''])
     | Some client \<Rightarrow> do {
         now \<leftarrow> clock;
         reply \<leftarrow> ext (cl_TopBook client (m_Symbol market));
         (case reply of Inl _ \<Rightarrow> State_Monad.return ()
          | Inr _ \<Rightarrow> modify (\<lambda>E. E\<lparr>eg_lastBookAt := (eg_lastBookAt E)(marketFaultKey venueName (in_ID ins) market := now)\<rparr>));
         let book = bookOf venueName market reply;
         let inventory = st_TargetBase (in_Strategy ins);
         case ValidateMarketReference ref book (in_Strategy ins) of
           Some Panic \<Rightarrow> State_Monad.return None
         | Some (Fail e) \<Rightarrow> State_Monad.return (Some [venueName @ '' price protection: '' @ riskText e])
         | None \<Rightarrow>
             (case Generate ins venueName market ref book inventory now of
                Inl Panic \<Rightarrow> State_Monad.return None
              | Inl (Fail e) \<Rightarrow> State_Monad.return (Some [venueName @ '' strategy: '' @ strategyText e])
              | Inr generated \<Rightarrow>
                  (case FilterQuotes ins market book inventory generated now of
                     Inl e \<Rightarrow> State_Monad.return (Some [venueName @ '' risk: '' @ riskText e])
                   | Inr quotes \<Rightarrow>
                       if \<not> tradingMarket cfg venueCfg then State_Monad.return (Some [])
                       else do { fs \<leftarrow> prepareAccount ins venueName market client quotes; State_Monad.return (Some fs) }))
       })"

definition prepareStep :: "'w Deps \<Rightarrow> Config \<Rightarrow> InstrumentConfig \<Rightarrow> ReferencePrice \<Rightarrow> string \<times> VenueConfig \<Rightarrow> (nat \<times> string list) option
    \<Rightarrow> ('w, (nat \<times> string list) option) engine" where
  "prepareStep dp cfg ins ref v acc =
    (let (venueName, venueCfg) = v in
     case acc of
       None \<Rightarrow> State_Monad.return None
     | Some (active, failures) \<Rightarrow>
         if \<not> v_Enabled venueCfg then State_Monad.return acc
         else (case map_of (v_Markets venueCfg) (in_ID ins) of
                 None \<Rightarrow> State_Monad.return acc
               | Some market \<Rightarrow> do {
                   out \<leftarrow> prepareMarket dp cfg ins ref venueName venueCfg market;
                   State_Monad.return (map_option (\<lambda>fs. (active + 1, failures @ fs)) out)
                 }))"

text \<open>The result of a preflight: a panic, or the error if there is one.\<close>

definition prepareInstrument :: "'w Deps \<Rightarrow> Config \<Rightarrow> InstrumentConfig \<Rightarrow> string \<Rightarrow> ('w, string option option) engine" where
  "prepareInstrument dp cfg ins startupFailure = do {
     let startup = (if startupFailure \<noteq> [] then [''startup: '' @ startupFailure] else []);
     reply \<leftarrow> ext (dp_oracle dp ins);
     case reply of
       Inl e \<Rightarrow> State_Monad.return (Some (joinedError (startup @ [''reference: '' @ e])))
     | Inr ref \<Rightarrow> do {
         modify (\<lambda>E. E\<lparr>eg_lastReferenceValidUntil := (eg_lastReferenceValidUntil E)(in_ID ins := rp_ValidUntil ref)\<rparr>);
         if startupFailure \<noteq> [] then State_Monad.return (Some (joinedError startup))
         else do {
           out \<leftarrow> foldE (prepareStep dp cfg ins ref) (c_Venues cfg) (Some (0, []));
           State_Monad.return (map_option (\<lambda>(active, failures).
             joinedError (if active = 0 then failures @ [noMarkets] else failures)) out)
         }
       }
   }"

definition prepareJob :: "'w Deps \<Rightarrow> Config \<Rightarrow> InstrumentConfig \<Rightarrow> (nat \<times> (string \<times> string) list) option
    \<Rightarrow> ('w, (nat \<times> (string \<times> string) list) option) engine" where
  "prepareJob dp cfg ins acc =
    (case acc of
       None \<Rightarrow> State_Monad.return None
     | Some (ready, blocked) \<Rightarrow> do {
         startup \<leftarrow> gets (\<lambda>E. case map_of (eg_startupFailures E) (in_ID ins) of None \<Rightarrow> [] | Some f \<Rightarrow> f);
         out \<leftarrow> prepareInstrument dp cfg ins startup;
         State_Monad.return (map_option (\<lambda>err. case err of
             None \<Rightarrow> (ready + 1, blocked) | Some e \<Rightarrow> (ready, AList.update (in_ID ins) e blocked)) out)
       })"

text \<open>\<open>None\<close> stands for a panic, which ends the process.\<close>

definition Prepare :: "'w Deps \<Rightarrow> ('w, string option option) engine" where
  "Prepare dp = do {
     cfg \<leftarrow> gets eg_cfg;
     out \<leftarrow> foldE (prepareJob dp cfg) (c_Instruments cfg) (Some (0, []));
     case out of
       None \<Rightarrow> State_Monad.return None
     | Some (ready, blocked) \<Rightarrow> do {
         modify (\<lambda>E. E\<lparr>eg_preflightBlocked := blocked\<rparr>);
         State_Monad.return (Some (if ready > 0 then None
           else Some (''candidate preflight: no runnable instruments: '' @
                  joined (sort (map (\<lambda>(i, f). i @ '': '' @ f) blocked)))))
       }
   }"


section \<open>Exchange rules\<close>

definition assetMismatch :: "MarketRules \<Rightarrow> VenueMarketConfig \<Rightarrow> string \<Rightarrow> string \<Rightarrow> string \<Rightarrow> string option" where
  "assetMismatch rules market label verb link =
    (if mr_BaseAsset rules \<noteq> [] \<and> \<not> EqualFold (mr_BaseAsset rules) (m_BaseAsset market)
     then Some (label @ '': base asset '' @ verb @ m_BaseAsset market @ link @ mr_BaseAsset rules)
     else if mr_QuoteAsset rules \<noteq> [] \<and> \<not> EqualFold (mr_QuoteAsset rules) (m_QuoteAsset market)
     then Some (label @ '': quote asset '' @ verb @ m_QuoteAsset market @ link @ mr_QuoteAsset rules)
     else None)"

definition setMarket :: "string \<Rightarrow> string \<Rightarrow> VenueMarketConfig \<Rightarrow> EngineState \<Rightarrow> EngineState" where
  "setMarket venueName instrumentID market E =
    (let cfg = eg_cfg E in
     E\<lparr>eg_cfg := cfg\<lparr>c_Venues := map (\<lambda>(n, v). if n = venueName
        then (n, v\<lparr>v_Markets := AList.update instrumentID market (v_Markets v)\<rparr>) else (n, v)) (c_Venues cfg)\<rparr>\<rparr>)"

definition refreshVenueRules :: "'w Deps \<Rightarrow> string \<Rightarrow> string \<times> VenueConfig \<Rightarrow> nat \<times> string list \<Rightarrow> ('w, nat \<times> string list) engine" where
  "refreshVenueRules dp instrumentID v acc =
    (let (venueName, venueCfg) = v; (active, failures) = acc in
     if \<not> v_Enabled venueCfg then State_Monad.return acc
     else case map_of (v_Markets venueCfg) instrumentID of
       None \<Rightarrow> State_Monad.return acc
     | Some market \<Rightarrow>
         (let bad = (\<lambda>text. State_Monad.return (active + 1, failures @ [text])) in
          case clientFor dp venueName instrumentID of
            None \<Rightarrow> bad (venueName @ '': client unavailable'')
          | Some client \<Rightarrow>
              (case cl_RuleReader client of
                 None \<Rightarrow> bad (venueName @ '': trading rules unavailable'')
               | Some reader \<Rightarrow> do {
                   reply \<leftarrow> ext (reader (m_Symbol market));
                   case reply of
                     Inl e \<Rightarrow> bad (venueName @ '': load trading rules: '' @ e)
                   | Inr rules \<Rightarrow>
                       (case assetMismatch rules market venueName [] '' does not match exchange '' of
                          Some e \<Rightarrow> bad e
                        | None \<Rightarrow>
                            if \<not> IsPositive (mr_PriceTick rules) \<or> \<not> IsPositive (mr_QuantityStep rules)
                            then bad (venueName @ '': exchange returned non-positive price or quantity precision'')
                            else do {
                              modify (setMarket venueName instrumentID (applyMarketRules market rules));
                              State_Monad.return (active + 1, failures)
                            })
                 })))"

definition refreshInstrumentRules :: "'w Deps \<Rightarrow> string \<Rightarrow> ('w, string option) engine" where
  "refreshInstrumentRules dp instrumentID = do {
     cfg \<leftarrow> gets eg_cfg;
     (active, failures) \<leftarrow> foldE (refreshVenueRules dp instrumentID) (c_Venues cfg) (0, []);
     State_Monad.return (joinedError (if active = 0 then failures @ [noMarkets] else failures))
   }"

text \<open>The loop body of \<^verbatim>\<open>RetryBlocked\<close>; the accumulator is the number of recovered instruments and the
  failures, or \<open>None\<close> after a panic.\<close>

definition retryInstrument :: "'w Deps \<Rightarrow> string \<Rightarrow> (nat \<times> string list) option \<Rightarrow> ('w, (nat \<times> string list) option) engine" where
  "retryInstrument dp instrumentID acc =
    (case acc of
       None \<Rightarrow> State_Monad.return None
     | Some (recovered, failures) \<Rightarrow> do {
         ins \<leftarrow> gets (\<lambda>E. find (\<lambda>i. in_ID i = instrumentID) (rev (c_Instruments (eg_cfg E))));
         case ins of
           None \<Rightarrow> State_Monad.return (Some (recovered, failures @ [instrumentID @ '': instrument configuration missing'']))
         | Some i \<Rightarrow> do {
             rulesErr \<leftarrow> refreshInstrumentRules dp instrumentID;
             (if rulesErr = None
              then modify (\<lambda>E. E\<lparr>eg_startupFailures := AList.delete instrumentID (eg_startupFailures E)\<rparr>)
              else State_Monad.return ());
             cfg \<leftarrow> gets eg_cfg;
             out \<leftarrow> prepareInstrument dp cfg i (case rulesErr of None \<Rightarrow> [] | Some e \<Rightarrow> ''rule refresh: '' @ e);
             case out of
               None \<Rightarrow> State_Monad.return None
             | Some None \<Rightarrow> do {
                 modify (\<lambda>E. E\<lparr>eg_preflightBlocked := AList.delete instrumentID (eg_preflightBlocked E),
                               eg_startupFailures := AList.delete instrumentID (eg_startupFailures E)\<rparr>);
                 State_Monad.return (Some (recovered + 1, failures))
               }
             | Some (Some e) \<Rightarrow> do {
                 modify (\<lambda>E. E\<lparr>eg_preflightBlocked := AList.update instrumentID e (eg_preflightBlocked E)\<rparr>);
                 State_Monad.return (Some (recovered, failures @ [instrumentID @ '': '' @ e]))
               }
           }
       })"

definition RetryBlocked :: "'w Deps \<Rightarrow> ('w, (nat \<times> string option) option) engine" where
  "RetryBlocked dp = do {
     blocked \<leftarrow> gets eg_preflightBlocked;
     if blocked = [] then State_Monad.return (Some (0, None))
     else do {
       out \<leftarrow> foldE (retryInstrument dp) (sort (remdups (map fst blocked))) (Some (0, []));
       State_Monad.return (map_option (\<lambda>(recovered, failures).
         (recovered, if failures = [] then None else Some (''blocked instrument retry: '' @ joined failures))) out)
     }
   }"

definition refreshMarket :: "'w Deps \<Rightarrow> string \<Rightarrow> string \<times> VenueMarketConfig \<Rightarrow> nat \<times> string list \<Rightarrow> ('w, nat \<times> string list) engine" where
  "refreshMarket dp venueName im acc =
    (let (instrumentID, market) = im; (changes, failures) = acc; label = venueName @ ''/'' @ instrumentID;
         bad = (\<lambda>text. State_Monad.return (changes, failures @ [text])) in
     case Option.bind (clientFor dp venueName instrumentID) cl_RuleReader of
       None \<Rightarrow> bad (label @ '': trading rules unavailable'')
     | Some reader \<Rightarrow> do {
         reply \<leftarrow> ext (reader (m_Symbol market));
         case reply of
           Inl e \<Rightarrow> bad (label @ '': '' @ e)
         | Inr rules \<Rightarrow>
             (case assetMismatch rules market label ''changed from '' '' to '' of
                Some e \<Rightarrow> bad e
              | None \<Rightarrow>
                  (let updated = applyMarketRules market rules;
                       previous = marketRulesFromConfig market; current = marketRulesFromConfig updated in
                   if equalMarketRules previous current then State_Monad.return acc
                   else do {
                     now \<leftarrow> clock;
                     modify (setMarket venueName instrumentID updated);
                     let change = \<lparr>ru_InstrumentID = instrumentID, ru_Venue = venueName, ru_Symbol = m_Symbol updated,
                       ru_Previous = previous, ru_Current = current, ru_DetectedAt = now\<rparr>;
                     err \<leftarrow> optionally (map_option (\<lambda>f. f change) (Option.bind (dp_runtime dp) rt_ReportRuleChange));
                     count_metric recordRuleChange;
                     audit dp (ARulesChanged change);
                     State_Monad.return (changes + 1,
                       case err of None \<Rightarrow> failures | Some e \<Rightarrow> failures @ [label @ '' alert: '' @ e])
                   }))
       })"

definition refreshVenue :: "'w Deps \<Rightarrow> string \<times> VenueConfig \<Rightarrow> nat \<times> string list \<Rightarrow> ('w, nat \<times> string list) engine" where
  "refreshVenue dp v acc =
    (let (venueName, venueCfg) = v in
     if \<not> v_Enabled venueCfg then State_Monad.return acc else foldE (refreshMarket dp venueName) (v_Markets venueCfg) acc)"

definition RefreshMarketRules :: "'w Deps \<Rightarrow> ('w, nat \<times> string option) engine" where
  "RefreshMarketRules dp = do {
     cfg \<leftarrow> gets eg_cfg;
     (changes, failures) \<leftarrow> foldE (refreshVenue dp) (c_Venues cfg) (0, []);
     flushErr \<leftarrow> ext (au_Flush (dp_audit dp));
     (if flushErr \<noteq> None then count_metric recordAuditFlushError else State_Monad.return ());
     let all = (case flushErr of None \<Rightarrow> failures | Some e \<Rightarrow> failures @ [''audit: '' @ e]);
     State_Monad.return (changes, if all = [] then None else Some (''refresh trading rules: '' @ joined all))
   }"


section \<open>Controls\<close>

definition cancelVenue :: "'w Deps \<Rightarrow> Config \<Rightarrow> InstrumentConfig \<Rightarrow> string \<times> VenueConfig \<Rightarrow> string list \<Rightarrow> ('w, string list) engine" where
  "cancelVenue dp cfg ins v failures =
    (let (venueName, venueCfg) = v in
     if \<not> v_Enabled venueCfg \<or> \<not> v_TradingEnabled venueCfg then State_Monad.return failures
     else case map_of (v_Markets venueCfg) (in_ID ins) of
       None \<Rightarrow> State_Monad.return failures
     | Some market \<Rightarrow>
         (case clientFor dp venueName (in_ID ins) of
            None \<Rightarrow> State_Monad.return failures
          | Some client \<Rightarrow> do {
              err \<leftarrow> cancelManagedFenced dp cfg venueName (in_ID ins) market client;
              State_Monad.return (case err of None \<Rightarrow> failures | Some e \<Rightarrow> failures @ [venueName @ '': '' @ e])
            }))"

definition cancelInstrument :: "'w Deps \<Rightarrow> InstrumentConfig \<Rightarrow> ('w, string option) engine" where
  "cancelInstrument dp ins = do {
     cfg \<leftarrow> gets eg_cfg;
     blocked \<leftarrow> gets (\<lambda>E. map_of (eg_preflightBlocked E) (in_ID ins));
     if blocked \<noteq> None then State_Monad.return None
     else do {
       failures \<leftarrow> foldE (cancelVenue dp cfg ins) (c_Venues cfg) [];
       State_Monad.return (if failures = [] then None else Some (''cancel failures: '' @ joined failures))
     }
   }"

definition CancelMarket :: "'w Deps \<Rightarrow> string \<Rightarrow> string \<Rightarrow> ('w, string option) engine" where
  "CancelMarket dp instrumentID venueName = do {
     cfg \<leftarrow> gets eg_cfg;
     blocked \<leftarrow> gets (\<lambda>E. map_of (eg_preflightBlocked E) instrumentID);
     if blocked \<noteq> None then State_Monad.return None
     else case map_of (c_Venues cfg) venueName of
       None \<Rightarrow> State_Monad.return None
     | Some venueCfg \<Rightarrow>
         if \<not> v_Enabled venueCfg \<or> \<not> v_TradingEnabled venueCfg then State_Monad.return None
         else case map_of (v_Markets venueCfg) instrumentID of
           None \<Rightarrow> State_Monad.return None
         | Some market \<Rightarrow>
             (case clientFor dp venueName instrumentID of
                None \<Rightarrow> State_Monad.return (Some ''client missing'')
              | Some client \<Rightarrow> do {
                  let leaseKey = marketLeaseKey venueName instrumentID market;
                  (generation, leaseErr) \<leftarrow> acquireMarketLease dp cfg leaseKey;
                  case leaseErr of
                    Some e \<Rightarrow> State_Monad.return (Some e)
                  | None \<Rightarrow>
                      if generation = 0 then State_Monad.return (Some ownedByOther)
                      else do {
                        cancelErr \<leftarrow> cancelGuarded dp client instrumentID (m_Symbol market) leaseKey generation;
                        err \<leftarrow> (if cancelErr = None
                          then faultStep (\<lambda>_. ResetWithContext (faultStore dp) (marketFaultKey venueName instrumentID market))
                          else State_Monad.return cancelErr);
                        releaseErr \<leftarrow> releaseMarketLease dp leaseKey generation;
                        State_Monad.return (if err = None then releaseErr else err)
                      }
                })
   }"

definition clearVenueBlock :: "'w Deps \<Rightarrow> InstrumentConfig \<Rightarrow> string \<times> VenueConfig \<Rightarrow> string list \<Rightarrow> ('w, string list) engine" where
  "clearVenueBlock dp ins v failures =
    (let (venueName, venueCfg) = v in
     case map_of (v_Markets venueCfg) (in_ID ins) of
       None \<Rightarrow> State_Monad.return failures
     | Some market \<Rightarrow>
         if \<not> v_Enabled venueCfg \<or> \<not> v_TradingEnabled venueCfg then State_Monad.return failures
         else (case clientFor dp venueName (in_ID ins) of
                 None \<Rightarrow> State_Monad.return failures
               | Some client \<Rightarrow> do {
                   err \<leftarrow> omsStep client (ClearBlocked (omsStore dp) client (in_ID ins));
                   let label = venueName @ ''/'' @ m_Symbol market;
                   let failures1 = (case err of None \<Rightarrow> failures | Some e \<Rightarrow> failures @ [label @ '': '' @ e]);
                   err2 \<leftarrow> faultStep (\<lambda>_. ResetWithContext (faultStore dp) (marketFaultKey venueName (in_ID ins) market));
                   State_Monad.return (case err2 of None \<Rightarrow> failures1 | Some e \<Rightarrow> failures1 @ [label @ '' fault reset: '' @ e])
                 }))"

definition clearInstrumentBlocks :: "'w Deps \<Rightarrow> InstrumentConfig \<Rightarrow> ('w, string option) engine" where
  "clearInstrumentBlocks dp ins = do {
     cfg \<leftarrow> gets eg_cfg;
     failures \<leftarrow> foldE (clearVenueBlock dp ins) (c_Venues cfg) [];
     State_Monad.return (if failures = [] then None else Some (''clear OMS blocks: '' @ joined failures))
   }"

record Confirmation =
  cf_orders :: "(string \<times> Order list) list"
  cf_confirmed :: bool
  cf_failures :: "string list"

definition confirmVenue :: "'w Deps \<Rightarrow> InstrumentConfig \<Rightarrow> string \<times> VenueConfig \<Rightarrow> Confirmation \<Rightarrow> ('w, Confirmation) engine" where
  "confirmVenue dp ins v c =
    (let (venueName, venueCfg) = v in
     if \<not> v_Enabled venueCfg \<or> \<not> v_TradingEnabled venueCfg then State_Monad.return c
     else case map_of (v_Markets venueCfg) (in_ID ins) of
       None \<Rightarrow> State_Monad.return c
     | Some market \<Rightarrow>
         (case clientFor dp venueName (in_ID ins) of
            None \<Rightarrow> State_Monad.return (c\<lparr>cf_confirmed := False, cf_failures := cf_failures c @ [venueName @ '': client missing'']\<rparr>)
          | Some client \<Rightarrow> do {
              reply \<leftarrow> ext (cl_OpenOrders client (m_Symbol market));
              State_Monad.return (case reply of
                  Inl e \<Rightarrow> c\<lparr>cf_confirmed := False, cf_failures := cf_failures c @ [venueName @ '': '' @ e]\<rparr>
                | Inr orders \<Rightarrow> c\<lparr>cf_orders := AList.update venueName orders (cf_orders c),
                    cf_confirmed := (cf_confirmed c \<and> ManagedOrdersFor client orders = [])\<rparr>)
            }))"

definition instrumentCancellationConfirmed :: "'w Deps \<Rightarrow> InstrumentConfig
    \<Rightarrow> ('w, (string \<times> Order list) list \<times> bool \<times> string option) engine" where
  "instrumentCancellationConfirmed dp ins = do {
     cfg \<leftarrow> gets eg_cfg;
     c \<leftarrow> foldE (confirmVenue dp ins) (c_Venues cfg) \<lparr>cf_orders = [], cf_confirmed = True, cf_failures = []\<rparr>;
     State_Monad.return (if cf_failures c \<noteq> []
       then (cf_orders c, False, Some (''confirm cancellations: '' @ joined (cf_failures c)))
       else (cf_orders c, cf_confirmed c, None))
   }"

definition publishPaused :: "'w Deps \<Rightarrow> InstrumentConfig \<Rightarrow> string \<Rightarrow> (string \<times> Order list) list \<Rightarrow> ('w, unit) engine" where
  "publishPaused dp ins errorText ordersByVenue =
    (case dp_runtime dp of
       None \<Rightarrow> State_Monad.return ()
     | Some rt \<Rightarrow> do {
         cfg \<leftarrow> gets eg_cfg;
         now \<leftarrow> clock;
         reply \<leftarrow> ext (rt_Get rt (in_ID ins));
         let snap0 = (case reply of
             Some snap \<Rightarrow> if is_InstrumentID snap = [] then newSnapshot cfg ins else snap | None \<Rightarrow> newSnapshot cfg ins);
         snap1 \<leftarrow> gets (\<lambda>E. pauseView E (in_ID ins) snap0);
         _ \<leftarrow> publish dp (snap1\<lparr>is_Venues := map (\<lambda>vs. case map_of ordersByVenue (vs_Name vs) of
                Some orders \<Rightarrow> vs\<lparr>vs_OpenOrders := orders\<rparr> | None \<Rightarrow> vs) (is_Venues snap1),
              is_Error := errorText, is_UpdatedAt := now\<rparr>);
         State_Monad.return ()
       })"

definition markPauseApplied :: "string \<Rightarrow> EngineState \<Rightarrow> EngineState" where
  "markPauseApplied instrumentID E = E\<lparr>eg_pauseApplied := (eg_pauseApplied E)(instrumentID := True)\<rparr>"

text \<open>The first loop of \<^verbatim>\<open>ApplyControls\<close> for one instrument: resume, soft close or emergency stop.\<close>

definition emergencyStop :: "'w Deps \<Rightarrow> InstrumentConfig \<Rightarrow> PauseState \<Rightarrow> string list \<Rightarrow> ('w, string list) engine" where
  "emergencyStop dp ins state failures = do {
     cancelErr0 \<leftarrow> cancelInstrument dp ins;
     (orders, confirmed, cancelErr) \<leftarrow> (if cancelErr0 = None then instrumentCancellationConfirmed dp ins
        else State_Monad.return ([], False, cancelErr0));
     (if confirmed \<and> cancelErr = None
      then do { modify (markPauseApplied (in_ID ins)); audit dp (AInstrumentPaused (in_ID ins) state False) }
      else State_Monad.return ());
     publishPaused dp ins (errorString cancelErr) orders;
     State_Monad.return (case cancelErr of None \<Rightarrow> failures | Some e \<Rightarrow> failures @ [in_ID ins @ '': '' @ e])
   }"

definition controlInstrument :: "'w Deps \<Rightarrow> (string \<times> PauseState) list \<Rightarrow> InstrumentConfig \<Rightarrow> string list \<Rightarrow> ('w, string list) engine" where
  "controlInstrument dp paused ins failures =
    (case map_of paused (in_ID ins) of
       None \<Rightarrow> do {
         wasPaused \<leftarrow> gets (\<lambda>E. eg_paused E (in_ID ins) \<noteq> None);
         modify (\<lambda>E. E\<lparr>eg_paused := (eg_paused E)(in_ID ins := None),
                       eg_pauseApplied := (eg_pauseApplied E)(in_ID ins := False)\<rparr>);
         if wasPaused
         then do {
           err \<leftarrow> clearInstrumentBlocks dp ins;
           State_Monad.return (case err of None \<Rightarrow> failures | Some e \<Rightarrow> failures @ [in_ID ins @ '' unblock: '' @ e])
         }
         else State_Monad.return failures
       }
     | Some state \<Rightarrow> do {
         modify (\<lambda>E. E\<lparr>eg_paused := (eg_paused E)(in_ID ins \<mapsto> state)\<rparr>);
         alreadyApplied \<leftarrow> gets (\<lambda>E. eg_pauseApplied E (in_ID ins));
         if alreadyApplied then State_Monad.return failures
         else if pa_Reason state \<noteq> ReasonEmergencyCancel
         then do {
           modify (markPauseApplied (in_ID ins));
           audit dp (AInstrumentPaused (in_ID ins) state True);
           publishPaused dp ins [] [];
           State_Monad.return failures
         }
         else emergencyStop dp ins state failures
       })"

definition reconcileInstrument :: "'w Deps \<Rightarrow> 'w ReconcileController \<Rightarrow> (string \<times> ReconcileRequest) list \<Rightarrow> InstrumentConfig
    \<Rightarrow> string list \<Rightarrow> ('w, string list) engine" where
  "reconcileInstrument dp controller requests ins failures =
    (case map_of requests (in_ID ins) of
       None \<Rightarrow> State_Monad.return failures
     | Some request \<Rightarrow> do {
         err1 \<leftarrow> cancelInstrument dp ins;
         case err1 of
           Some e \<Rightarrow> State_Monad.return (failures @ [in_ID ins @ '' reconcile cancel: '' @ e])
         | None \<Rightarrow> do {
             err2 \<leftarrow> clearInstrumentBlocks dp ins;
             case err2 of
               Some e \<Rightarrow> State_Monad.return (failures @ [in_ID ins @ '' reconcile unblock: '' @ e])
             | None \<Rightarrow> do {
                 err3 \<leftarrow> ext (rn_ClearReconcile controller (in_ID ins));
                 case err3 of
                   Some e \<Rightarrow> State_Monad.return (failures @ [in_ID ins @ '' clear reconcile control: '' @ e])
                 | None \<Rightarrow> do {
                     audit dp (AInstrumentReconciled (in_ID ins) request);
                     State_Monad.return failures
                   }
               }
           }
       })"

definition ApplyControls :: "'w Deps \<Rightarrow> ('w, string option) engine" where
  "ApplyControls dp =
    (case dp_runtime dp of
       None \<Rightarrow> State_Monad.return None
     | Some rt \<Rightarrow> do {
         reply \<leftarrow> ext (rt_Paused rt);
         case reply of
           Inl e \<Rightarrow> State_Monad.return (Some e)
         | Inr paused \<Rightarrow> do {
             cfg \<leftarrow> gets eg_cfg;
             failures1 \<leftarrow> foldE (controlInstrument dp paused) (c_Instruments cfg) [];
             failures2 \<leftarrow> (case rt_ReconcileController rt of
                 None \<Rightarrow> State_Monad.return failures1
               | Some controller \<Rightarrow> do {
                   requests \<leftarrow> ext (rn_Reconciles controller);
                   case requests of
                     Inl e \<Rightarrow> State_Monad.return (failures1 @ [''load reconcile controls: '' @ e])
                   | Inr rs \<Rightarrow> foldE (reconcileInstrument dp controller rs) (c_Instruments cfg) failures1
                 });
             _ \<leftarrow> ext (au_Flush (dp_audit dp));
             State_Monad.return (if failures2 = [] then None else Some (''apply controls: '' @ joined failures2))
           }
       })"

definition shutdownInstrument :: "'w Deps \<Rightarrow> InstrumentConfig \<Rightarrow> string list \<Rightarrow> ('w, string list) engine" where
  "shutdownInstrument dp ins failures = do {
     err \<leftarrow> cancelInstrument dp ins;
     State_Monad.return (case err of None \<Rightarrow> failures | Some e \<Rightarrow> failures @ [in_ID ins @ '': '' @ e])
   }"

definition releaseHeld :: "'w Deps \<Rightarrow> string \<times> 64 word \<Rightarrow> string list \<Rightarrow> ('w, string list) engine" where
  "releaseHeld dp kg failures = do {
     err \<leftarrow> releaseMarketLease dp (fst kg) (snd kg);
     State_Monad.return (case err of None \<Rightarrow> failures | Some e \<Rightarrow> failures @ [''lease '' @ fst kg @ '': '' @ e])
   }"

definition Shutdown :: "'w Deps \<Rightarrow> ('w, string option) engine" where
  "Shutdown dp = do {
     cfg \<leftarrow> gets eg_cfg;
     failures1 \<leftarrow> foldE (shutdownInstrument dp) (c_Instruments cfg) [];
     held \<leftarrow> gets eg_heldLeases;
     failures2 \<leftarrow> foldE (releaseHeld dp) held failures1;
     _ \<leftarrow> ext (au_Flush (dp_audit dp));
     State_Monad.return (if failures2 = [] then None else Some (''shutdown cancel failures: '' @ joined failures2))
   }"


section \<open>Hot parameter changes\<close>

definition safeStrategy :: "StrategyConfig \<Rightarrow> StrategyConfig" where
  "safeStrategy st = st\<lparr>
     st_MaxVenueReferenceDeviationBPS := (if st_MaxVenueReferenceDeviationBPS st = 0 then 500 else st_MaxVenueReferenceDeviationBPS st),
     st_MaxVenueSpreadBPS := (if st_MaxVenueSpreadBPS st = 0 then 1000 else st_MaxVenueSpreadBPS st)\<rparr>"

definition applyInstrument :: "InstrumentConfig list \<Rightarrow> InstrumentConfig \<Rightarrow> InstrumentConfig" where
  "applyInstrument new current =
    (case find (\<lambda>i. in_ID i = in_ID current) (rev new) of
       None \<Rightarrow> current
     | Some updated \<Rightarrow> current\<lparr>in_Strategy := safeStrategy (in_Strategy updated),
         in_TradeSimulation := in_TradeSimulation updated\<rparr>)"

definition positiveOr :: "int \<Rightarrow> int \<Rightarrow> int" where
  "positiveOr new current = (if new > 0 then new else current)"

definition applyParametersTo :: "Config \<Rightarrow> Config \<Rightarrow> Config" where
  "applyParametersTo new cfg = cfg\<lparr>
     c_Instruments := map (applyInstrument (c_Instruments new)) (c_Instruments cfg),
     c_PollIntervalMS := positiveOr (c_PollIntervalMS new) (c_PollIntervalMS cfg),
     c_MaxConcurrentInstruments := positiveOr (c_MaxConcurrentInstruments new) (c_MaxConcurrentInstruments cfg),
     c_RulesRefreshSeconds := positiveOr (c_RulesRefreshSeconds new) (c_RulesRefreshSeconds cfg),
     c_MarketFailureThreshold := positiveOr (c_MarketFailureThreshold new) (c_MarketFailureThreshold cfg),
     c_MarketRecoveryThreshold := positiveOr (c_MarketRecoveryThreshold new) (c_MarketRecoveryThreshold cfg),
     c_MarketErrorGraceSeconds := positiveOr (c_MarketErrorGraceSeconds new) (c_MarketErrorGraceSeconds cfg),
     c_TradingProgressTimeoutSeconds := positiveOr (c_TradingProgressTimeoutSeconds new) (c_TradingProgressTimeoutSeconds cfg)\<rparr>"

definition ApplyParameters :: "Config \<Rightarrow> EngineState \<Rightarrow> EngineState" where
  "ApplyParameters new E = E\<lparr>eg_cfg := applyParametersTo new (eg_cfg E)\<rparr>"

definition InheritMetricsFrom :: "EngineState \<Rightarrow> EngineState \<Rightarrow> EngineState" where
  "InheritMetricsFrom previous E = E\<lparr>eg_metrics := eg_metrics previous\<rparr>"

end
