(* ===== verification/EngineProofs.thy ===== *)
theory EngineProofs
  imports EngineControl
begin

text \<open>
  Invariants of the engine's programs. A program keeps a predicate of the state when every run that
  starts in it ends in it; the locales below say what an invariant of the exchange log owes, and
  inside them every operation of the engine is shown to keep it.
\<close>

section \<open>Programs that keep a predicate\<close>

definition keeps :: "('s \<Rightarrow> bool) \<Rightarrow> ('s, 'a) state \<Rightarrow> bool" where
  "keeps I m \<longleftrightarrow> (\<forall>s. I s \<longrightarrow> I (snd (run_state m s)))"

named_theorems keeps_rules "introduction rules for programs that keep a predicate"

lemma keepsD: "keeps I m \<Longrightarrow> run_state m s = (a, s') \<Longrightarrow> I s \<Longrightarrow> I s'"
  unfolding keeps_def by (metis snd_conv)

lemma keeps_run: "keeps I m \<Longrightarrow> I s \<Longrightarrow> I (snd (run_state m s))"
  by (simp add: keeps_def)

lemma keeps_return [keeps_rules]: "keeps I (State_Monad.return x)"
  by (simp add: keeps_def)

lemma keeps_bind [keeps_rules]:
  "keeps I m \<Longrightarrow> (\<And>x. keeps I (f x)) \<Longrightarrow> keeps I (State_Monad.bind m f)"
  by (auto simp: keeps_def State_Monad.bind_def split: prod.split)

lemma keeps_if [keeps_rules]: "(c \<Longrightarrow> keeps I a) \<Longrightarrow> (\<not> c \<Longrightarrow> keeps I b) \<Longrightarrow> keeps I (if c then a else b)"
  by simp

lemma keeps_option [keeps_rules]:
  "(x = None \<Longrightarrow> keeps I a) \<Longrightarrow> (\<And>y. x = Some y \<Longrightarrow> keeps I (b y)) \<Longrightarrow> keeps I (case x of None \<Rightarrow> a | Some y \<Rightarrow> b y)"
  by (cases x) auto

lemma keeps_sum [keeps_rules]:
  "(\<And>y. x = Inl y \<Longrightarrow> keeps I (a y)) \<Longrightarrow> (\<And>y. x = Inr y \<Longrightarrow> keeps I (b y)) \<Longrightarrow>
    keeps I (case x of Inl y \<Rightarrow> a y | Inr y \<Rightarrow> b y)"
  by (cases x) auto

lemma keeps_failure [keeps_rules]:
  "(\<And>y. x = Fail y \<Longrightarrow> keeps I (a y)) \<Longrightarrow> (x = Panic \<Longrightarrow> keeps I b) \<Longrightarrow>
    keeps I (case x of Fail y \<Rightarrow> a y | Panic \<Rightarrow> b)"
  by (cases x) auto

lemma keeps_prod [keeps_rules]: "(\<And>a b. x = (a, b) \<Longrightarrow> keeps I (f a b)) \<Longrightarrow> keeps I (case x of (a, b) \<Rightarrow> f a b)"
  by (cases x) auto

lemma keeps_let [keeps_rules]: "(\<And>x. x = v \<Longrightarrow> keeps I (f x)) \<Longrightarrow> keeps I (let x = v in f x)"
  by simp

lemma keeps_foldE:
  "(\<And>x a. x \<in> set xs \<Longrightarrow> keeps I (f x a)) \<Longrightarrow> keeps I (foldE f xs a)"
proof (induction xs arbitrary: a)
  case (Cons x xs)
  then show ?case by (auto intro!: keeps_bind)
qed (auto intro: keeps_return)

lemma keeps_gets [keeps_rules]: "keeps I (gets f)" and keeps_clock [keeps_rules]: "keeps I clock"
  by (auto simp: keeps_def gets_def clock_def)


section \<open>Invariants of the log\<close>

text \<open>A predicate of the world that reads and writes outside the exchange do not disturb.\<close>

locale log_invariant =
  fixes J :: "'w World \<Rightarrow> bool"
  assumes undisturbed: "silent W W' \<Longrightarrow> J W \<Longrightarrow> J W'"
begin

definition I :: "EngineState \<times> 'w World \<Rightarrow> bool" where "I s \<longleftrightarrow> J (snd s)"

lemma I_pair [simp]: "I (E, W) \<longleftrightarrow> J W"
  by (simp add: I_def)

lemma keeps_modify: "keeps I (modify f)"
  by (auto simp: keeps_def modify_def)

lemma keeps_ext: "keeps I (ext f)"
  by (auto simp: keeps_def ext_def split: prod.split) (metis call_ext_silentD undisturbed)

lemma set_ext: "J W \<Longrightarrow> J (W\<lparr>w_ext := w\<rparr>)"
  by (rule undisturbed) (auto simp: silent_def)

lemma keeps_faultStep: "keeps I (faultStep f)" and keeps_simStep: "keeps I (simStep g)"
  by (auto simp: keeps_def faultStep_def simStep_def set_ext split: prod.split)

lemma keeps_omsStep:
  assumes "\<And>r W a r' W'. J W \<Longrightarrow> f r W = (a, r', W') \<Longrightarrow> J (stepped client W W')"
  shows "keeps I (omsStep client f)"
  using assms by (fastforce simp: keeps_def omsStep_def split: prod.split)

lemma stepped_silent: "silent W W' \<Longrightarrow> stepped client W W' = W'"
  by (simp add: stepped_def silent_def)

lemma keeps_count_metric: "keeps I (count_metric f)"
  unfolding count_metric_def by (rule keeps_modify)

lemma keeps_optionally: "keeps I (optionally f)"
  unfolding optionally_def by (intro keeps_rules keeps_ext)

lemma keeps_audit: "keeps I (audit dp event)"
  unfolding audit_def by (intro keeps_rules keeps_ext)

lemmas silent_rules = keeps_rules keeps_modify keeps_ext keeps_faultStep keeps_simStep keeps_count_metric keeps_optionally
  keeps_audit keeps_foldE

lemma keeps_leases:
  "keeps I (acquireMarketLease dp cfg key)" "keeps I (releaseMarketLease dp key generation)"
  unfolding acquireMarketLease_def releaseMarketLease_def by (intro silent_rules)+

lemma keeps_publish: "keeps I (publish dp snap)" "keeps I (finishRun dp snap err)"
  unfolding publish_def finishRun_def by (intro silent_rules)+

lemma keeps_recentFills: "keeps I (recentFills v ins client symb)"
  unfolding recentFills_def by (intro silent_rules)

lemma keeps_collectBalances: "keeps I (collectBalances dp cfg ins)"
  unfolding collectBalances_def collectStep_def fetchBalances_def by (intro silent_rules)

lemma keeps_market_reads:
  "keeps I (closeMarket snap vs failures)" "keeps I (panicked snap failures)"
  "keeps I (simulateTrades dp ins v market book snap)" "keeps I (observeAccount ins v market client vs)"
  "keeps I (shadowMarket dp ins v market book inventory quotes vs snap failures)"
  "keeps I (strategyInventoryOf cfg ins bv)"
  unfolding closeMarket_def panicked_def simulateTrades_def observeAccount_def shadowMarket_def strategyInventoryOf_def
  by (intro silent_rules keeps_recentFills)+

lemma keeps_runPaused: "keeps I (runPausedInstrument dp cfg ins)"
  unfolding runPausedInstrument_def observeVenue_def
  by (intro silent_rules keeps_recentFills keeps_collectBalances keeps_publish)

lemma keeps_blocked: "keeps I (publishPreflightBlocked dp cfg ins failure)"
  unfolding publishPreflightBlocked_def by (intro silent_rules keeps_publish)

lemma keeps_prepareInstrument: "keeps I (prepareInstrument dp cfg ins startup)"
  unfolding prepareInstrument_def prepareStep_def prepareMarket_def prepareAccount_def by (intro silent_rules)

lemma keeps_Prepare: "keeps I (Prepare dp)"
  unfolding Prepare_def prepareJob_def by (intro silent_rules keeps_prepareInstrument)

lemma keeps_RetryBlocked: "keeps I (RetryBlocked dp)"
  unfolding RetryBlocked_def retryInstrument_def refreshInstrumentRules_def refreshVenueRules_def
  by (intro silent_rules keeps_prepareInstrument) (simp_all add: keeps_return)

lemma keeps_RefreshMarketRules: "keeps I (RefreshMarketRules dp)"
  unfolding RefreshMarketRules_def refreshVenue_def refreshMarket_def by (intro silent_rules) (simp_all add: keeps_return)

end


text \<open>An invariant that also bears what the engine sends: cancellations of a market guarded by that market's
  lease, and cycles of a market guarded by its lease whose targets satisfy \<open>P\<close>. \<open>live\<close> says for which
  venue, instrument and client the engine may send anything.\<close>

locale write_invariant = log_invariant J for J :: "'w World \<Rightarrow> bool" +
  fixes dp :: "'w Deps" and live :: "string \<Rightarrow> string \<Rightarrow> 'w Client \<Rightarrow> bool" and P :: "VenueMarketConfig \<Rightarrow> Quote \<Rightarrow> bool"
  assumes cancel_kept: "live v ins client \<Longrightarrow> J W \<Longrightarrow>
      CancelManagedGuardedWithResult store client ins (m_Symbol market) (marketWriteGuard dp now (marketLeaseKey v ins market) gen) r W
        = (n, r', W') \<Longrightarrow> J (stepped client W W')"
    and cycle_kept: "live v ins client \<Longrightarrow> list_all (P market) quotes \<Longrightarrow> J W \<Longrightarrow>
      ReconcileWithOrdersGuardedPolicy store client ins quotes threshold orders (marketWriteGuard dp now (marketLeaseKey v ins market) gen)
        gen refresh r W = (out, r', W') \<Longrightarrow> J (stepped client W W')"
begin

lemma keeps_cancelGuarded: "live v ins client \<Longrightarrow> keeps I (cancelGuarded dp client ins (m_Symbol market) (marketLeaseKey v ins market) gen)"
  unfolding cancelGuarded_def by (intro silent_rules keeps_omsStep) (rule cancel_kept)

lemma keeps_cancelFenced: "live v ins client \<Longrightarrow> keeps I (cancelManagedFenced dp cfg v ins market client)"
  unfolding cancelManagedFenced_def Let_def by (intro silent_rules keeps_leases keeps_cancelGuarded)

lemma keeps_markVenueFailure:
  assumes "tradingMarket cfg venueCfg \<Longrightarrow> live v ins client"
  shows "keeps I (markVenueFailure dp cfg ins v venueCfg market client stage cause force)"
  unfolding markVenueFailure_def using assms
  by (intro silent_rules keeps_cancelFenced) (auto simp: tradingMarket_def)

lemma keeps_failMarket:
  assumes "tradingMarket cfg venueCfg \<Longrightarrow> live v (in_ID ins) client"
  shows "keeps I (failMarket dp cfg ins v venueCfg market client stage label cause vs snap failures)"
  unfolding failMarket_def by (intro silent_rules keeps_market_reads keeps_markVenueFailure [OF assms])

lemma keeps_placeMarket:
  assumes "live v (in_ID ins) client" and P: "list_all (P market) quotes"
  shows "keeps I (placeMarket dp cfg ins v venueCfg market client (marketLeaseKey v (in_ID ins) market) gen quotes vs snap failures)"
  unfolding placeMarket_def
  by (intro silent_rules keeps_market_reads keeps_cancelGuarded keeps_markVenueFailure keeps_omsStep assms(1))
    (rule cycle_kept [OF assms])

lemma keeps_healthyMarket:
  assumes "live v (in_ID ins) client" and "list_all (P market) quotes"
  shows "keeps I (healthyMarket dp cfg ins v venueCfg market client (marketLeaseKey v (in_ID ins) market) gen book inventory budget
    quotes managed vs snap failures)"
  unfolding healthyMarket_def
  by (intro silent_rules keeps_market_reads keeps_cancelGuarded keeps_placeMarket assms)

lemma budgetedQuotes_all: "list_all Q quotes \<Longrightarrow> list_all Q (fst (budgetedQuotes ins m vs managed quotes))"
  unfolding budgetedQuotes_def by (intro budget_stage.stage_all limit_stage.stage_all)

lemma keeps_budgetMarket:
  assumes "live v (in_ID ins) client" and P: "list_all (P market) quotes"
  shows "keeps I (budgetMarket dp cfg ins v venueCfg market client (marketLeaseKey v (in_ID ins) market) gen book inventory
    quotes vs snap failures)"
proof -
  have kept: "list_all (P market) kept" if "x = (kept, budget)" "x = budgetedQuotes ins market vs managed quotes" for managed x kept budget
    using budgetedQuotes_all [OF P, of ins market vs managed] that by (metis fst_conv)
  show ?thesis unfolding budgetMarket_def
    by (intro silent_rules keeps_market_reads keeps_markVenueFailure keeps_healthyMarket assms(1)) (rule kept)
qed

lemma keeps_liveMarket:
  assumes "live v (in_ID ins) client" and "list_all (P market) quotes"
  shows "keeps I (liveMarket dp cfg ins v venueCfg market client book inventory quotes vs snap failures)"
  unfolding liveMarket_def Let_def by (intro silent_rules keeps_market_reads keeps_leases keeps_budgetMarket assms)

text \<open>The quotes the strategy and the filter let through satisfy \<open>P\<close>.\<close>

definition sound :: "InstrumentConfig \<Rightarrow> ReferencePrice \<Rightarrow> Decimal \<Rightarrow> string \<Rightarrow> VenueMarketConfig \<Rightarrow> Book \<Rightarrow> bool" where
  "sound ins ref inventory v market book \<longleftrightarrow>
     (\<forall>now generated quotes. Generate ins v market ref book inventory now = Inr generated \<longrightarrow>
        FilterQuotes ins market book inventory generated now = Inr quotes \<longrightarrow> list_all (P market) quotes)"

lemma keeps_targetMarket:
  assumes "tradingMarket cfg venueCfg \<Longrightarrow> live v (in_ID ins) client" and "sound ins ref inventory v market book"
  shows "keeps I (targetMarket dp cfg ins ref inventory v venueCfg market client book ordersErr vs snap failures)"
  unfolding targetMarket_def
  by (intro silent_rules keeps_market_reads keeps_failMarket keeps_markVenueFailure keeps_liveMarket)
    (use assms in \<open>auto simp: sound_def\<close>)

lemma keeps_protectMarket:
  assumes "tradingMarket cfg venueCfg \<Longrightarrow> live v (in_ID ins) client" and "sound ins ref inventory v market book"
  shows "keeps I (protectMarket dp cfg ins ref inventory v venueCfg market client book vs snap failures)"
  unfolding protectMarket_def
  by (intro silent_rules keeps_market_reads keeps_failMarket keeps_targetMarket) (use assms in auto)

lemma keeps_quoteMarket:
  assumes "tradingMarket cfg venueCfg \<Longrightarrow> live v (in_ID ins) client" and "\<And>book. sound ins ref inventory v market book"
  shows "keeps I (quoteMarket dp cfg ins ref inventory v venueCfg market client vs snap failures)"
  unfolding quoteMarket_def by (intro silent_rules keeps_protectMarket) (use assms in auto)

lemma keeps_runMarket:
  assumes "\<And>client. clientFor dp v (in_ID ins) = Some client \<Longrightarrow> tradingMarket cfg venueCfg \<Longrightarrow> live v (in_ID ins) client" and "\<And>book. sound ins ref inventory v market book"
  shows "keeps I (runMarket dp cfg ins ref inventory bv v venueCfg market snap failures)"
  unfolding runMarket_def
  by (intro silent_rules keeps_market_reads keeps_markVenueFailure keeps_quoteMarket) (use assms in auto)

lemma keeps_runInstrument:
  assumes "\<And>n v m client. (n, v) \<in> set (c_Venues cfg) \<Longrightarrow> v_Enabled v \<Longrightarrow> map_of (v_Markets v) (in_ID ins) = Some m \<Longrightarrow>
      clientFor dp n (in_ID ins) = Some client \<Longrightarrow> tradingMarket cfg v \<Longrightarrow> live n (in_ID ins) client"
    and "\<And>ref inventory v market book. sound ins ref inventory v market book"
  shows "keeps I (runInstrument dp cfg ins)"
  unfolding runInstrument_def runMarkets_def marketStep_def referenceFailure_def
  by (intro silent_rules keeps_publish keeps_collectBalances keeps_market_reads keeps_markVenueFailure keeps_runMarket)
    (use assms in \<open>auto simp: tradingMarket_def\<close>)

lemma keeps_runCycle:
  assumes "\<And>v ins client. clientFor dp v ins = Some client \<Longrightarrow> c_Mode cfg = ModeLive \<Longrightarrow> live v ins client"
    and "\<And>ins ref inventory v market book. sound ins ref inventory v market book"
  shows "keeps I (runCycle dp order cfg)"
  unfolding runCycle_def runJob_def runInstrumentGuarded_def
  by (intro silent_rules keeps_runPaused keeps_blocked keeps_runInstrument) (use assms in \<open>auto simp: tradingMarket_def\<close>)

lemma keeps_cancelInstrument: "(\<And>v ins client. clientFor dp v ins = Some client \<Longrightarrow> live v ins client) \<Longrightarrow> keeps I (cancelInstrument dp ins)"
  unfolding cancelInstrument_def cancelVenue_def by (intro silent_rules keeps_cancelFenced)

lemma keeps_CancelMarket: "(\<And>v ins client. clientFor dp v ins = Some client \<Longrightarrow> live v ins client) \<Longrightarrow> keeps I (CancelMarket dp ins v)"
  unfolding CancelMarket_def Let_def by (intro silent_rules keeps_cancelGuarded keeps_leases)

lemma ClearBlocked_silent: "ClearBlocked store client ins r W = (e, r', W') \<Longrightarrow> silent W W'"
  by (auto simp: ClearBlocked_def Let_def split: prod.splits option.splits
      dest!: ensureLoadedOMS_silent persistState_silent intro: silent_trans)

lemma keeps_clearBlocks: "keeps I (clearInstrumentBlocks dp ins)"
  unfolding clearInstrumentBlocks_def clearVenueBlock_def
  by (intro silent_rules keeps_omsStep) (metis ClearBlocked_silent undisturbed stepped_silent)

lemma keeps_publishPaused: "keeps I (publishPaused dp ins err orders)"
  unfolding publishPaused_def by (intro silent_rules keeps_publish)

lemma keeps_confirmed: "keeps I (instrumentCancellationConfirmed dp ins)"
  unfolding instrumentCancellationConfirmed_def confirmVenue_def by (intro silent_rules)

lemma keeps_ApplyControls: "(\<And>v ins client. clientFor dp v ins = Some client \<Longrightarrow> live v ins client) \<Longrightarrow> keeps I (ApplyControls dp)"
  unfolding ApplyControls_def controlInstrument_def emergencyStop_def reconcileInstrument_def
  by (intro silent_rules keeps_cancelInstrument keeps_clearBlocks keeps_publishPaused keeps_confirmed)

lemma keeps_Shutdown: "(\<And>v ins client. clientFor dp v ins = Some client \<Longrightarrow> live v ins client) \<Longrightarrow> keeps I (Shutdown dp)"
  unfolding Shutdown_def shutdownInstrument_def releaseHeld_def by (intro silent_rules keeps_cancelInstrument keeps_leases)

end

end
