(* ===== verification/EngineProps.thy ===== *)
theory EngineProps
  imports EngineProofs
begin

text \<open>
  Properties of the engine: what a cycle may send to the exchanges, under which lease, for which
  quotes, and what the operations between cycles leave alone.
\<close>

section \<open>Silence\<close>

interpretation quiet: log_invariant "silent W0" for W0
  by unfold_locales (rule silent_trans)

interpretation shadow: write_invariant "silent W0" dp "\<lambda>_ _ _. False" "\<lambda>_ _. True" for W0 dp
  by unfold_locales simp_all

lemma keeps_silent:
  assumes "keeps (quiet.I W) m" "run_state m (E, W) = (out, E', W')"
  shows "silent W W'"
  using keepsD [OF assms(1,2)] by simp

lemma shadow_sound [simp]: "shadow.sound ins ref inventory v market book"
  by (simp add: shadow.sound_def list_all_iff)

text \<open>An instrument with a market on an enabled venue on which the engine trades.\<close>

definition may_trade :: "Config \<Rightarrow> InstrumentConfig \<Rightarrow> bool" where
  "may_trade cfg ins \<longleftrightarrow>
     list_ex (\<lambda>(_, v). v_Enabled v \<and> tradingMarket cfg v \<and> map_of (v_Markets v) (in_ID ins) \<noteq> None) (c_Venues cfg)"

lemma runInstrument_quiet: "\<not> may_trade cfg ins \<Longrightarrow> keeps (quiet.I W) (runInstrument dp cfg ins)"
  by (rule shadow.keeps_runInstrument) (auto simp: may_trade_def list_ex_iff)


section \<open>Safe orders\<close>

text \<open>The terms of an order the market accepts and that cannot take liquidity from the given book.\<close>

definition safe_terms :: "VenueMarketConfig \<Rightarrow> Book \<Rightarrow> string \<Rightarrow> Side \<Rightarrow> Decimal \<Rightarrow> Decimal \<Rightarrow> bool" where
  "safe_terms market book symb side price quantity \<longleftrightarrow>
     symb = m_Symbol market \<and> (side = Buy \<or> side = Sell) \<and>
     0 < price \<and> on_grid (m_PriceTick market) price \<and> 0 < quantity \<and> on_grid (m_QuantityStep market) quantity \<and>
     (HasAsk book \<and> side = Buy \<longrightarrow> price < b_AskPrice book) \<and> (HasBid book \<and> side = Sell \<longrightarrow> b_BidPrice book < price) \<and>
     m_MinNotional market \<le> price * quantity \<and>
     (0 < m_MinQuantity market \<longrightarrow> m_MinQuantity market \<le> quantity) \<and>
     (0 < m_MaxQuantity market \<longrightarrow> quantity \<le> m_MaxQuantity market) \<and>
     (0 < m_MaxNotional market \<longrightarrow> price * quantity \<le> m_MaxNotional market) \<and>
     (0 < m_MinPrice market \<longrightarrow> m_MinPrice market \<le> price) \<and> (0 < m_MaxPrice market \<longrightarrow> price \<le> m_MaxPrice market)"

definition safe_request :: "VenueMarketConfig \<Rightarrow> Book \<Rightarrow> PlaceRequest \<Rightarrow> bool" where
  "safe_request market book p \<longleftrightarrow> safe_terms market book (pr_Symbol p) (pr_Side p) (pr_Price p) (pr_Quantity p)"

definition safe_quote :: "VenueMarketConfig \<Rightarrow> Book \<Rightarrow> Quote \<Rightarrow> bool" where
  "safe_quote market book q \<longleftrightarrow> safe_terms market book (q_Symbol q) (q_Side q) (q_Price q) (q_Quantity q)"

lemma paired_sides: "paired qs \<Longrightarrow> q \<in> set qs \<Longrightarrow> q_Side q = Buy \<or> q_Side q = Sell"
  by (induction qs rule: paired.induct) auto

lemma generated_safe:
  assumes "Generate ins v market ref book inventory now = Inr generated"
    and "FilterQuotes ins market book inventory generated now = Inr quotes"
  shows "list_all (safe_quote market book) quotes"
proof -
  have g: "list_all (good_quote ins v market ref book now) generated" "paired generated"
    using GenerateAt_ok [OF assms(1) [unfolded Generate_def]] by simp_all
  from assms(2) have q: "list_all (quote_ok market book now) generated" "set quotes \<subseteq> set generated"
    by (auto simp: FilterQuotes_Inr)
  show ?thesis unfolding list_all_iff
  proof
    fix x assume "x \<in> set quotes"
    with q(2) have x: "x \<in> set generated" by blast
    with g q(1) have "good_quote ins v market ref book now x" "quote_ok market book now x" by (auto simp: list_all_iff)
    with paired_sides [OF g(2) x] show "safe_quote market book x"
      by (simp add: good_quote_def good_quantity_def quote_ok_def post_only_def notional_def safe_quote_def safe_terms_def)
  qed
qed

section \<open>Fencing\<close>

text \<open>What a step of the order manager may send for a market under a lease: its writes and the guard's
  verdicts alternate and a rejection is the last entry; every verdict is what the lease service answered
  about the market's key, the engine's owner identifier and the lease's generation when it was asked;
  every placement is for the market's symbol and carries that generation, and every cancellation is
  for the market's symbol.\<close>

fun call_for :: "VenueMarketConfig \<Rightarrow> 64 word \<Rightarrow> Call \<Rightarrow> bool" where
  "call_for market gen (CGuard b) = True"
| "call_for market gen (CPlace p) = (pr_Symbol p = m_Symbol market \<and> pr_FenceGeneration p = gen)"
| "call_for market gen (CPlaceBatch ps) = list_all (\<lambda>p. pr_Symbol p = m_Symbol market \<and> pr_FenceGeneration p = gen) ps"
| "call_for market gen (CCancel symb _) = (symb = m_Symbol market)"
| "call_for market gen (CCancelBatch symb _) = (symb = m_Symbol market)"

definition lease_step :: "'w Deps \<Rightarrow> 'w MarketLocker \<Rightarrow> 'w Client \<times> Call list \<times> 'w list \<Rightarrow> bool" where
  "lease_step dp locker s \<longleftrightarrow> (case s of (client, calls, worlds) \<Rightarrow>
     fenced calls \<and> (\<exists>v ins market gen. clientFor dp v ins = Some client \<and> list_all (call_for market gen) calls \<and>
        verdicts calls = map (\<lambda>w. fst (lk_Validate locker (marketLeaseKey v ins market) (dp_ownerID dp) gen w) = (True, None)) worlds))"

definition fence_log :: "'w Deps \<Rightarrow> 'w World \<Rightarrow> 'w World \<Rightarrow> bool" where
  "fence_log dp W0 W \<longleftrightarrow> (\<forall>locker. marketLocker dp = Some locker \<longrightarrow>
     (\<exists>steps. w_steps W = w_steps W0 @ steps \<and> w_log W = w_log W0 @ concat (map (fst \<circ> snd) steps) \<and>
        list_all (lease_step dp locker) steps))"

lemma accepts_marketWriteGuard:
  assumes "marketLocker dp = Some locker"
  shows "accepts (marketWriteGuard dp now key gen) w \<longleftrightarrow> fst (lk_Validate locker key (dp_ownerID dp) gen w) = (True, None)"
proof -
  obtain valid e w1 where "lk_Validate locker key (dp_ownerID dp) gen w = ((valid, e), w1)" by (metis prod.collapse)
  with assms show ?thesis by (cases e) (auto simp: accepts_def marketWriteGuard_def)
qed

lemma call_for_all:
  assumes "list_all (cancels_in (m_Symbol market)) cs"
    and "list_all (\<lambda>p. pr_Symbol p = m_Symbol market \<and> pr_FenceGeneration p = gen) (places cs)"
  shows "list_all (call_for market gen) cs"
  using assms
proof (induction cs)
  case (Cons c cs)
  then show ?case by (cases c) auto
qed simp

text \<open>A guarded step of the order manager on a market is such a step, and it enters the history.\<close>

lemma guard_fences:
  assumes J: "fence_log dp W0 W" and log: "w_log W' = w_log W @ cs" "guarded_by (marketWriteGuard dp now (marketLeaseKey v ins market) gen) cs"
    and t: "tied (marketWriteGuard dp now (marketLeaseKey v ins market) gen) (m_Symbol market) W W'"
    and p: "list_all (\<lambda>p. pr_Symbol p = m_Symbol market \<and> pr_FenceGeneration p = gen) (places cs)"
    and k: "clientFor dp v ins = Some client"
  shows "fence_log dp W0 (stepped client W W')"
  unfolding fence_log_def
proof (intro allI impI)
  fix locker assume l: "marketLocker dp = Some locker"
  with J obtain steps where s: "w_steps W = w_steps W0 @ steps" "w_log W = w_log W0 @ concat (map (fst \<circ> snd) steps)"
    "list_all (lease_step dp locker) steps" unfolding fence_log_def by blast
  from t log(1) obtain ws where ws: "w_steps W' = w_steps W" "w_asked W' = w_asked W @ ws" "list_all (cancels_in (m_Symbol market)) cs"
    "verdicts cs = map (accepts (marketWriteGuard dp now (marketLeaseKey v ins market) gen)) ws" unfolding tied_def by auto
  have "fenced cs" using log(2) l by (simp add: guarded_by_def marketWriteGuard_def)
  moreover have "list_all (call_for market gen) cs" by (rule call_for_all [OF ws(3) p])
  ultimately have n: "lease_step dp locker (client, cs, ws)"
    using ws(4) k unfolding lease_step_def prod.case accepts_marketWriteGuard [OF l] by blast
  show "\<exists>steps. w_steps (stepped client W W') = w_steps W0 @ steps \<and> w_log (stepped client W W') = w_log W0 @ concat (map (fst \<circ> snd) steps) \<and>
        list_all (lease_step dp locker) steps"
  proof (cases "cs = []")
    case True
    with log(1) s ws(1) show ?thesis by (intro exI [of _ steps]) (simp add: stepped_def)
  next
    case False
    with log(1) s ws(1,2) n show ?thesis by (intro exI [of _ "steps @ [(client, cs, ws)]"]) (simp add: stepped_def)
  qed
qed

lemma cancel_managed_guarded:
  assumes "CancelManagedGuardedWithResult store client ins symb guard r W = (out, r', W')"
  shows "tied guard symb W W' \<and> (\<exists>cs. w_log W' = w_log W @ cs \<and> guarded_by guard cs \<and> places cs = [] \<and> w_now W' = w_now W)"
proof -
  let ?key = "stateKey client ins"
  obtain reply W1 where o: "call_ext (cl_OpenOrders client symb) W = (reply, W1)" by fastforce
  note s1 = call_ext_silentD [OF o]
  show ?thesis
  proof (cases reply)
    case (Inl e)
    with assms o have "W' = W1" by (simp add: CancelManagedGuardedWithResult_def)
    with s1 show ?thesis by (auto simp: silent_def intro: silent_tied [OF s1])
  next
    case (Inr orders)
    obtain e1 r1 W2 where l: "ensureLoadedOMS store ?key r W1 = (e1, r1, W2)" by (metis prod.collapse)
    obtain wt r2 where wt: "waitingForCancelConfirmation ?key (ManagedOrdersFor client orders) (w_now W2) r1 = (wt, r2)" by fastforce
    obtain e2 W3 where p: "persistState store ?key r2 W2 = (e2, W3)" by fastforce
    note s3 = silent_trans [OF silent_trans [OF s1 ensureLoadedOMS_silent [OF l]] persistState_silent [OF p]]
    let ?t = "withPending (ManagedOrdersFor client orders) (rc_pendingCreates r2 ?key)"
    obtain e3 W4 where c: "cancelOrders client symb ?t guard W3 = (e3, W4)" by fastforce
    from cancelOrders_log [OF c] obtain cs where cs: "w_now W4 = w_now W3" "w_log W4 = w_log W3 @ cs" "guarded_by guard cs" "places cs = []"
      by blast
    have "silent W W' \<or> silent W4 W'"
      using assms o Inr l wt p c s1 ensureLoadedOMS_silent [OF l] s3
      by (auto simp: CancelManagedGuardedWithResult_def Let_def split: option.splits sum.splits bool.splits prod.splits
          dest!: block_silent persistState_silent intro: silent_trans)
    moreover have "tied guard symb W W4" by (rule tied_trans [OF silent_tied [OF s3] cancelOrders_tied [OF c]])
    ultimately have "tied guard symb W W'" by (auto intro: silent_tied tied_trans)
    with cs s3 \<open>silent W W' \<or> silent W4 W'\<close> show ?thesis by (auto simp: silent_def intro: exI [of _ "[]"])
  qed
qed

lemma reconcile_guarded:
  assumes "ReconcileWithOrdersGuardedPolicy store client ins quotes threshold orders guard gen refresh r W = (out, r', W')"
  shows "\<exists>cs. w_log W' = w_log W @ cs \<and> guarded_by guard cs \<and> list_all (request_for quotes gen) (places cs)"
proof -
  obtain res e where "out = (res, e)" by fastforce
  with reconcile_log(1,2) [of store client ins quotes threshold orders guard gen refresh r W res e r' W'] assms
  show ?thesis unfolding cycle_log_def by blast
qed

interpretation fence: write_invariant "fence_log dp W0" dp "\<lambda>v ins client. clientFor dp v ins = Some client" "\<lambda>market q. q_Symbol q = m_Symbol market" for dp W0
proof unfold_locales
  show "silent W W' \<Longrightarrow> fence_log dp W0 W \<Longrightarrow> fence_log dp W0 W'" for W W'
    by (simp add: fence_log_def silent_def)
  show "fence_log dp W0 (stepped client W W')"
    if k: "clientFor dp v ins = Some client" and J: "fence_log dp W0 W" and c: "CancelManagedGuardedWithResult store client ins (m_Symbol market)
      (marketWriteGuard dp now (marketLeaseKey v ins market) gen) r W = (n, r', W')"
    for W store client ins market now v gen r n r' W'
  proof -
    from cancel_managed_guarded [OF c] obtain cs where t: "tied (marketWriteGuard dp now (marketLeaseKey v ins market) gen) (m_Symbol market) W W'"
      and cs: "w_log W' = w_log W @ cs" "guarded_by (marketWriteGuard dp now (marketLeaseKey v ins market) gen) cs" "places cs = []" by blast
    from guard_fences [OF J cs(1,2) t _ k] show ?thesis by (simp add: cs(3))
  qed
  show "fence_log dp W0 (stepped client W W')"
    if k: "clientFor dp v ins = Some client" and q: "list_all (\<lambda>q. q_Symbol q = m_Symbol market) quotes" and J: "fence_log dp W0 W"
      and c: "ReconcileWithOrdersGuardedPolicy store client ins quotes threshold orders
        (marketWriteGuard dp now (marketLeaseKey v ins market) gen) gen refresh r W = (out, r', W')"
    for market quotes W store client ins threshold orders now v gen refresh r out r' W'
  proof (cases "quotes = []")
    case True
    from reconcile_empty [OF c [unfolded True]] J show ?thesis by (simp add: fence_log_def silent_def stepped_def)
  next
    case False
    then have h: "q_Symbol (hd quotes) = m_Symbol market" using q by (cases quotes) simp_all
    from reconcile_guarded [OF c] obtain cs where cs: "w_log W' = w_log W @ cs"
      "guarded_by (marketWriteGuard dp now (marketLeaseKey v ins market) gen) cs" "list_all (request_for quotes gen) (places cs)" by blast
    have "list_all (\<lambda>p. pr_Symbol p = m_Symbol market \<and> pr_FenceGeneration p = gen) (places cs)"
      using cs(3) q by (auto simp: list_all_iff list_ex_iff request_for_def)
    with guard_fences [OF J cs(1,2) reconcile_tied [OF c, unfolded h] _ k] show ?thesis .
  qed
qed

lemma fence_sound [simp]: "fence.sound ins ref inventory v market book"
  unfolding fence.sound_def
proof (intro allI impI)
  fix now generated quotes
  assume "Generate ins v market ref book inventory now = Inr generated" "FilterQuotes ins market book inventory generated now = Inr quotes"
  from generated_safe [OF this] show "list_all (\<lambda>q. q_Symbol q = m_Symbol market) quotes"
    by (auto simp: list_all_iff safe_quote_def safe_terms_def)
qed


text \<open>The operations the scheduler calls, and the runs of an engine: operations in any order, between
  which the world outside and the clock change in any way.\<close>

datatype EngineOp = OpCycle "nat list" | OpControls | OpCancelMarket string string | OpShutdown
  | OpPrepare | OpRetryBlocked | OpRefreshRules | OpParameters Config

fun exec :: "'w Deps \<Rightarrow> EngineOp \<Rightarrow> EngineState \<times> 'w World \<Rightarrow> EngineState \<times> 'w World" where
  "exec dp (OpCycle order) s = snd (run_state (RunOnce dp order) s)"
| "exec dp OpControls s = snd (run_state (ApplyControls dp) s)"
| "exec dp (OpCancelMarket ins v) s = snd (run_state (CancelMarket dp ins v) s)"
| "exec dp OpShutdown s = snd (run_state (Shutdown dp) s)"
| "exec dp OpPrepare s = snd (run_state (Prepare dp) s)"
| "exec dp OpRetryBlocked s = snd (run_state (RetryBlocked dp) s)"
| "exec dp OpRefreshRules s = snd (run_state (RefreshMarketRules dp) s)"
| "exec dp (OpParameters new) s = (ApplyParameters new (fst s), snd s)"

inductive engine_run :: "'w Deps \<Rightarrow> EngineState \<times> 'w World \<Rightarrow> EngineState \<times> 'w World \<Rightarrow> bool" for dp s0 where
  run_start: "engine_run dp s0 s0"
| run_op: "engine_run dp s0 s \<Longrightarrow> engine_run dp s0 (exec dp op s)"
| run_outside: "engine_run dp s0 (E, W) \<Longrightarrow> engine_run dp s0 (E, W\<lparr>w_ext := w, w_now := t\<rparr>)"

lemma keeps_exec:
  assumes "fence.I dp W0 s" shows "fence.I dp W0 (exec dp op s)"
proof -
  have cycle: "keeps (fence.I dp W0) (RunOnce dp order)" for order
    unfolding RunOnce_def by (intro keeps_bind keeps_gets fence.keeps_runCycle) simp_all
  show ?thesis
  proof (cases op)
    case (OpParameters new)
    with assms show ?thesis by (simp add: fence.I_def)
  qed (use assms in \<open>auto intro!: keeps_run cycle fence.keeps_ApplyControls fence.keeps_CancelMarket fence.keeps_Shutdown
      fence.keeps_Prepare fence.keeps_RetryBlocked fence.keeps_RefreshMarketRules\<close>)
qed

lemma engine_run_fenced:
  assumes "engine_run dp s0 s" shows "fence_log dp (snd s0) (snd s)"
  using assms
proof (induction rule: engine_run.induct)
  case run_start
  show ?case by (simp add: fence_log_def)
next
  case (run_op s op)
  then show ?case using keeps_exec by (simp add: fence.I_def)
next
  case (run_outside E W w t)
  then show ?case by (simp add: fence_log_def)
qed


text \<open>The log grows by placements that satisfy \<open>P\<close> and by cancellations.\<close>

definition places_log :: "(Quote \<Rightarrow> bool) \<Rightarrow> 'w World \<Rightarrow> 'w World \<Rightarrow> bool" where
  "places_log P W0 W \<longleftrightarrow> (\<exists>cs. w_log W = w_log W0 @ cs \<and>
     list_all (\<lambda>p. \<exists>q. P q \<and> pr_Symbol p = q_Symbol q \<and> pr_Side p = q_Side q \<and> pr_Price p = q_Price q \<and>
       pr_Quantity p = q_Quantity q) (places cs))"

lemma places_log_step:
  assumes "places_log P W0 W" "w_log W' = w_log W @ cs" "list_all P quotes" "list_all (request_for quotes gen) (places cs)"
  shows "places_log P W0 W'"
proof -
  have "list_all (\<lambda>p. \<exists>q. P q \<and> pr_Symbol p = q_Symbol q \<and> pr_Side p = q_Side q \<and> pr_Price p = q_Price q \<and>
       pr_Quantity p = q_Quantity q) (places cs)"
    using assms(3,4) unfolding list_all_iff request_for_def list_ex_iff by blast
  with assms(1,2) show ?thesis unfolding places_log_def by auto
qed

interpretation placing: write_invariant "places_log P W0" dp "\<lambda>_ _ _. True" "\<lambda>_. P" for P W0 dp
proof unfold_locales
  show "silent W W' \<Longrightarrow> places_log P W0 W \<Longrightarrow> places_log P W0 W'" for W W'
    by (simp add: places_log_def silent_def)
  show "places_log P W0 (stepped client W W')"
    if J: "places_log P W0 W" and c: "CancelManagedGuardedWithResult store client ins (m_Symbol market)
      (marketWriteGuard dp now (marketLeaseKey v ins market) gen) r W = (n, r', W')"
    for W store client ins market now v gen r n r' W'
  proof -
    from cancel_managed_guarded [OF c] obtain cs where "w_log W' = w_log W @ cs" "places cs = []" by blast
    then show ?thesis using places_log_step [OF J, of W' cs "[]"] by (simp add: places_log_def)
  qed
  show "places_log P W0 (stepped client W W')"
    if P: "list_all P quotes" and J: "places_log P W0 W" and c: "ReconcileWithOrdersGuardedPolicy store client ins quotes threshold orders
        (marketWriteGuard dp now (marketLeaseKey v ins market) gen) gen refresh r W = (out, r', W')"
    for market :: VenueMarketConfig and quotes W store client ins threshold orders now v gen refresh r out r' W'
    using reconcile_guarded [OF c] places_log_step [OF J _ P] by (auto simp: places_log_def)
qed

lemma places_log_sent: "places_log P W W' \<Longrightarrow> list_all (\<lambda>p. \<exists>q. P q \<and> pr_Symbol p = q_Symbol q \<and> pr_Side p = q_Side q \<and>
    pr_Price p = q_Price q \<and> pr_Quantity p = q_Quantity q) (places (sent W W'))"
  by (auto simp: places_log_def sent_def)

lemma places_log_none: "places_log (\<lambda>_. False) W W' \<Longrightarrow> places (sent W W') = []"
  using places_log_sent [of "\<lambda>_. False" W W'] by (cases "places (sent W W')") simp_all

text \<open>At most a cycle's worth of orders: a program that places nothing, then runs the order manager's
  cycle once, then places nothing again, leads from the one invariant to the other.\<close>

definition leads :: "('s \<Rightarrow> bool) \<Rightarrow> ('s \<Rightarrow> bool) \<Rightarrow> ('s, 'a) state \<Rightarrow> bool" where
  "leads I Q m \<longleftrightarrow> (\<forall>s. I s \<longrightarrow> Q (snd (run_state m s)))"

lemma leadsD: "leads I Q m \<Longrightarrow> run_state m s = (a, s') \<Longrightarrow> I s \<Longrightarrow> Q s'"
  unfolding leads_def by (metis snd_conv)

lemma leads_keeps: "keeps I m \<Longrightarrow> (\<And>s. I s \<Longrightarrow> Q s) \<Longrightarrow> leads I Q m"
  by (simp add: leads_def keeps_def)

lemma leads_first: "leads I Q m \<Longrightarrow> (\<And>x. keeps Q (f x)) \<Longrightarrow> leads I Q (State_Monad.bind m f)"
  by (auto simp: leads_def keeps_def State_Monad.bind_def split: prod.split)

lemma leads_rest: "keeps I m \<Longrightarrow> (\<And>x. leads I Q (f x)) \<Longrightarrow> leads I Q (State_Monad.bind m f)"
  by (auto simp: leads_def keeps_def State_Monad.bind_def split: prod.split)

lemma leads_cases:
  "(c \<Longrightarrow> leads I Q a) \<Longrightarrow> (\<not> c \<Longrightarrow> leads I Q b) \<Longrightarrow> leads I Q (if c then a else b)"
  "leads I Q n \<Longrightarrow> (\<And>y. leads I Q (g y)) \<Longrightarrow> leads I Q (case x of None \<Rightarrow> n | Some y \<Rightarrow> g y)"
  "(\<And>y. leads I Q (l y)) \<Longrightarrow> (\<And>z. leads I Q (r z)) \<Longrightarrow> leads I Q (case s of Inl y \<Rightarrow> l y | Inr z \<Rightarrow> r z)"
  "(\<And>y. leads I Q (fl y)) \<Longrightarrow> leads I Q pn \<Longrightarrow> leads I Q (case f of Fail y \<Rightarrow> fl y | Panic \<Rightarrow> pn)"
  "(\<And>y z. leads I Q (h y z)) \<Longrightarrow> leads I Q (case p of (y, z) \<Rightarrow> h y z)"
  "(\<And>y. leads I Q (k y)) \<Longrightarrow> leads I Q (let y = v in k y)"
  by (auto split: option.split sum.split failure.split prod.split)

definition places_few :: "'w World \<Rightarrow> 'w World \<Rightarrow> bool" where
  "places_few W0 W \<longleftrightarrow> (\<exists>cs. w_log W = w_log W0 @ cs \<and> length (places cs) \<le> 20)"

interpretation few: write_invariant "places_few W0" dp "\<lambda>_ _ _. True" "\<lambda>_ _. False" for W0 dp
proof unfold_locales
  show "silent W W' \<Longrightarrow> places_few W0 W \<Longrightarrow> places_few W0 W'" for W W'
    by (simp add: places_few_def silent_def)
  show "places_few W0 (stepped client W W')"
    if J: "places_few W0 W" and c: "CancelManagedGuardedWithResult store client ins (m_Symbol market)
      (marketWriteGuard dp now (marketLeaseKey v ins market) gen) r W = (n, r', W')"
    for W store client ins market now v gen r n r' W'
  proof -
    from cancel_managed_guarded [OF c] obtain cs where "w_log W' = w_log W @ cs" "places cs = []" by blast
    with J show ?thesis by (auto simp: places_few_def)
  qed
  show "places_few W0 (stepped client W W')"
    if q: "list_all (\<lambda>_. False) quotes" and J: "places_few W0 W" and c: "ReconcileWithOrdersGuardedPolicy store client ins quotes threshold orders
        (marketWriteGuard dp now (marketLeaseKey v ins market) gen) gen refresh r W = (out, r', W')"
    for market :: VenueMarketConfig and quotes W store client ins threshold orders now v gen refresh r out r' W'
  proof -
    have "quotes = []" using q by (cases quotes) simp_all
    from reconcile_empty [OF c [unfolded this]] J show ?thesis by (simp add: places_few_def silent_def)
  qed
qed

lemma none_few: "placing.I (\<lambda>_. False) W0 s \<Longrightarrow> few.I W0 s"
  using places_log_none by (cases s) (fastforce simp: places_log_def places_few_def sent_def)

lemma leads_closeMarket: "leads (placing.I (\<lambda>_. False) W0) (few.I W0) (closeMarket snap vs failures)"
  "leads (placing.I (\<lambda>_. False) W0) (few.I W0) (panicked snap failures)"
  "leads (placing.I (\<lambda>_. False) W0) (few.I W0)
     (failMarket dp cfg ins v venueCfg market client stage label cause vs snap failures)"
  "leads (placing.I (\<lambda>_. False) W0) (few.I W0) (shadowMarket dp ins v market book inventory quotes vs snap failures)"
  by (intro leads_keeps placing.keeps_market_reads placing.keeps_failMarket none_few TrueI; assumption)+

lemma leads_placeMarket:
  "leads (placing.I (\<lambda>_. False) W0) (few.I W0)
     (placeMarket dp cfg ins v venueCfg market client (marketLeaseKey v (in_ID ins) market) gen quotes vs snap failures)"
  unfolding placeMarket_def
proof (rule leads_rest [OF keeps_clock], rule leads_first)
  fix now
  show "leads (placing.I (\<lambda>_. False) W0) (few.I W0) (omsStep client (ReconcileWithOrdersGuardedPolicy (omsStore dp) client (in_ID ins) quotes
        (st_RepriceThresholdBPS (in_Strategy ins)) (vs_OpenOrders vs) (marketWriteGuard dp now (marketLeaseKey v (in_ID ins) market) gen) gen
        (refreshPolicy (in_Strategy ins) (length quotes))))"
    unfolding leads_def
  proof (intro allI impI)
    fix s assume I: "placing.I (\<lambda>_. False) W0 s"
    obtain E W where s: "s = (E, W)" by fastforce
    obtain res e r W' where c: "ReconcileWithOrdersGuardedPolicy (omsStore dp) client (in_ID ins) quotes
        (st_RepriceThresholdBPS (in_Strategy ins)) (vs_OpenOrders vs) (marketWriteGuard dp now (marketLeaseKey v (in_ID ins) market) gen) gen
        (refreshPolicy (in_Strategy ins) (length quotes)) (eg_reconciler E) W = ((res, e), r, W')" by (metis prod.collapse)
    from I s obtain cs where "w_log W = w_log W0 @ cs" "places cs = []"
      using places_log_none [of W0 W] by (auto simp: places_log_def sent_def)
    with reconcile_log(1,2) [OF c] have "places_few W0 W'"
      by (auto simp: places_few_def cycle_log_def)
    then show "few.I W0 (snd (run_state (omsStep client (ReconcileWithOrdersGuardedPolicy (omsStore dp) client (in_ID ins) quotes
        (st_RepriceThresholdBPS (in_Strategy ins)) (vs_OpenOrders vs) (marketWriteGuard dp now (marketLeaseKey v (in_ID ins) market) gen) gen
        (refreshPolicy (in_Strategy ins) (length quotes)))) s))"
      by (simp add: s c omsStep_def places_few_def)
  qed
next
  fix out :: "Result \<times> string option"
  show "keeps (few.I W0) (case out of (result, err) \<Rightarrow> (case err of
       Some e \<Rightarrow> do {
         cancelErr \<leftarrow> cancelGuarded dp client (in_ID ins) (m_Symbol market) (marketLeaseKey v (in_ID ins) market) gen;
         (state, _) \<leftarrow> markVenueFailure dp cfg (in_ID ins) v venueCfg market client ''oms'' e True;
         audit dp (AOmsError (in_ID ins) v e);
         (case cancelErr of None \<Rightarrow> State_Monad.return () | Some c \<Rightarrow> audit dp (AOmsCancelError (in_ID ins) v c));
         closeMarket snap (addError (''OMS: '' @ e) (vs\<lparr>vs_Fault := Some state\<rparr>)) (failures @ [v @ '' OMS: '' @ e])
       }
     | None \<Rightarrow> do {
         audit dp (AOmsResult (in_ID ins) v result);
         count_metric (recordOMS (rs_Placed result) (rs_Canceled result));
         closeMarket snap (vs\<lparr>vs_PendingOrders := rs_Pending result\<rparr>) failures
       }))"
    by (intro few.silent_rules few.keeps_market_reads few.keeps_cancelGuarded few.keeps_markVenueFailure TrueI)
qed

lemmas leads_rules = leads_rest leads_cases leads_closeMarket leads_placeMarket placing.silent_rules placing.keeps_cancelGuarded
  placing.keeps_markVenueFailure placing.keeps_leases placing.keeps_market_reads TrueI

lemma leads_budgetMarket:
  "leads (placing.I (\<lambda>_. False) W0) (few.I W0)
     (budgetMarket dp cfg ins v venueCfg market client (marketLeaseKey v (in_ID ins) market) gen book inventory quotes vs snap failures)"
  unfolding budgetMarket_def healthyMarket_def by (intro leads_rules)

lemma leads_protectMarket:
  "leads (placing.I (\<lambda>_. False) W0) (few.I W0)
     (protectMarket dp cfg ins ref inventory v venueCfg market client book vs snap failures)"
  unfolding protectMarket_def targetMarket_def liveMarket_def Let_def by (intro leads_rules leads_budgetMarket)

lemma protectMarket_few:
  assumes "run_state (protectMarket dp cfg ins ref inventory v venueCfg market client book vs snap failures) (E, W) = (out, E', W')"
  shows "length (places (sent W W')) \<le> 20"
proof -
  have "placing.I (\<lambda>_. False) W (E, W)" by (simp add: places_log_def)
  from leadsD [OF leads_protectMarket assms this] show ?thesis by (auto simp: places_few_def sent_def)
qed

lemma protectMarket_places:
  assumes "run_state (protectMarket dp cfg ins ref inventory v venueCfg market client book vs snap failures) (E, W) = (out, E', W')"
  shows "list_all (safe_request market book) (places (sent W W'))"
    and "places (sent W W') \<noteq> [] \<Longrightarrow> tradingMarket cfg venueCfg \<and> ValidateMarketReference ref book (in_Strategy ins) = None"
proof -
  let ?m = "protectMarket dp cfg ins ref inventory v venueCfg market client book vs snap failures"
  have "placing.sound (safe_quote market book) ins ref inventory v market book"
    unfolding placing.sound_def using generated_safe by blast
  then have "keeps (placing.I (safe_quote market book) W) ?m" by (intro placing.keeps_protectMarket) auto
  from keepsD [OF this assms] have "places_log (safe_quote market book) W W'" by (simp add: places_log_def)
  from places_log_sent [OF this] show "list_all (safe_request market book) (places (sent W W'))"
    by (auto simp: list_all_iff safe_quote_def safe_request_def)
  show "tradingMarket cfg venueCfg \<and> ValidateMarketReference ref book (in_Strategy ins) = None" if "places (sent W W') \<noteq> []"
  proof (rule ccontr)
    assume n: "\<not> (tradingMarket cfg venueCfg \<and> ValidateMarketReference ref book (in_Strategy ins) = None)"
    have "places (sent W W') = []"
    proof (cases "tradingMarket cfg venueCfg")
      case False
      then have "keeps (quiet.I W) ?m" by (intro shadow.keeps_protectMarket) simp_all
      from keeps_silent [OF this assms] show ?thesis by (simp add: silent_sent)
    next
      case True
      with n obtain f where "ValidateMarketReference ref book (in_Strategy ins) = Some f" by auto
      then have "keeps (placing.I (\<lambda>_. False) W) ?m" unfolding protectMarket_def
        by (auto intro!: keeps_failure placing.keeps_failMarket placing.keeps_market_reads)
      from keepsD [OF this assms] show ?thesis by (intro places_log_none) (simp add: places_log_def)
    qed
    with that show False ..
  qed
qed

lemma run_ext_bind: "run_state (State_Monad.bind (ext f) g) (E, W) =
    run_state (g (fst (f (w_ext W)))) (E, W\<lparr>w_ext := snd (f (w_ext W))\<rparr>)"
  by (simp add: State_Monad.bind_def ext_def call_ext_def split: prod.split)

lemma quoteMarket_run:
  assumes "run_state (quoteMarket dp cfg ins ref inventory v venueCfg market client vs snap failures) (E, W) = (out, E', W')"
    and "cl_TopBook client (m_Symbol market) (w_ext W) = (reply, w)"
  obtains vs1 E1 W1 where "silent W W1" "eg_faults E1 = eg_faults E"
    "run_state (protectMarket dp cfg ins ref inventory v venueCfg market client (bookOf v market reply) vs1 snap failures) (E1, W1)
      = (out, E', W')"
proof (cases reply)
  case (Inl e)
  with assms(1) have "run_state (protectMarket dp cfg ins ref inventory v venueCfg market client (bookOf v market reply)
      (addError (bookUnavailable @ e) vs) snap failures) (E, W\<lparr>w_ext := w\<rparr>) = (out, E', W')"
    unfolding quoteMarket_def run_ext_bind assms(2) by (simp add: State_Monad.bind_def clock_def)
  then show ?thesis by (rule that [rotated 2]) (simp_all add: silent_def)
next
  case (Inr b)
  with assms(1) have "run_state (protectMarket dp cfg ins ref inventory v venueCfg market client (bookOf v market reply)
      (vs\<lparr>vs_MarketConnected := True, vs_Book := Some b\<rparr>) snap failures)
      (E\<lparr>eg_lastBookAt := (eg_lastBookAt E)(marketFaultKey v (in_ID ins) market := w_now W)\<rparr>, W\<lparr>w_ext := w\<rparr>) = (out, E', W')"
    unfolding quoteMarket_def run_ext_bind assms(2) by (simp add: State_Monad.bind_def clock_def modify_def)
  then show ?thesis by (rule that [rotated 2]) (simp_all add: silent_def)
qed


section \<open>The fault gate\<close>

definition gate_closed :: "FaultManager \<Rightarrow> string \<Rightarrow> time \<Rightarrow> bool" where
  "gate_closed m key now \<longleftrightarrow> fm_loaded m key \<and>
     (\<forall>n. \<not> d_AllowQuotes (healthyDecision (fm_recoveryThreshold m) (faultStateOf m key now) n now))"

lemma gate_closed_Healthy:
  assumes "gate_closed m key now" "HealthyWithContext store key n now m w = ((health, e), m', w')"
  shows "\<not> d_AllowQuotes health"
  using assms by (auto simp: gate_closed_def HealthyWithContext_def ensureLoaded_def applyDecision_def split: prod.splits)

lemma run_faultStep_bind: "f (w_now W) (eg_faults E) (w_ext W) = (a, m, w) \<Longrightarrow>
    run_state (State_Monad.bind (faultStep f) g) (E, W) = run_state (g a) (E\<lparr>eg_faults := m\<rparr>, W\<lparr>w_ext := w\<rparr>)"
  by (simp add: State_Monad.bind_def faultStep_def)

lemma no_places_keepsD:
  assumes "keeps (placing.I (\<lambda>_. False) W) m" "run_state m (E1, W1) = (out, E', W')" "silent W W1"
  shows "places (sent W W') = []"
proof -
  have "placing.I (\<lambda>_. False) W (E1, W1)" using assms(3) by (simp add: places_log_def silent_def)
  from keepsD [OF assms(1,2) this] show ?thesis by (intro places_log_none) simp
qed

lemma healthyMarket_gate:
  assumes "run_state (healthyMarket dp cfg ins v venueCfg market client (marketLeaseKey v (in_ID ins) market) gen book inventory budget quotes managed vs snap failures) (E, W)
      = (out, E', W')" and "gate_closed (eg_faults E) (marketFaultKey v (in_ID ins) market) (w_now W)"
  shows "places (sent W W') = []"
proof -
  obtain health e m w where h: "HealthyWithContext (faultStore dp) (marketFaultKey v (in_ID ins) market) (int (length managed)) (w_now W)
      (eg_faults E) (w_ext W) = ((health, e), m, w)" by (metis prod.collapse)
  note shut = gate_closed_Healthy [OF assms(2) h]
  note run = assms(1) [unfolded healthyMarket_def, unfolded run_faultStep_bind [where f = "HealthyWithContext (faultStore dp)
      (marketFaultKey v (in_ID ins) market) (int (length managed))", OF h] prod.case]
  show ?thesis
    by (rule no_places_keepsD [OF _ run])
      (auto simp: shut silent_def intro!: keeps_option keeps_let keeps_if keeps_bind placing.keeps_market_reads placing.keeps_cancelGuarded)
qed

lemma acquireMarketLease_run:
  assumes "run_state (acquireMarketLease dp cfg key) (E, W) = (out, E', W')"
  shows "silent W W' \<and> eg_faults E' = eg_faults E"
proof -
  have "silent W W'" using keeps_silent [OF quiet.keeps_leases(1) assms] .
  moreover have "eg_faults E' = eg_faults E" using assms
    by (auto simp: acquireMarketLease_def State_Monad.bind_def ext_def modify_def split: option.splits prod.splits if_splits)
  ultimately show ?thesis ..
qed

lemma run_bindE:
  assumes "run_state (State_Monad.bind m g) s = (out, s')"
  obtains a s1 where "run_state m s = (a, s1)" "run_state (g a) s1 = (out, s')"
  using assms by (auto simp: State_Monad.bind_def split: prod.splits)

lemma budgetMarket_gate:
  assumes "run_state (budgetMarket dp cfg ins v venueCfg market client (marketLeaseKey v (in_ID ins) market) gen book inventory quotes vs snap failures) (E, W) = (out, E', W')"
    and "gate_closed (eg_faults E) (marketFaultKey v (in_ID ins) market) (w_now W)"
  shows "places (sent W W') = []"
proof (cases "budgetedQuotes ins market vs (ManagedOrdersFor client (vs_OpenOrders vs)) quotes")
  case (Pair kept budget)
  show ?thesis
  proof (cases "kept = []")
    case True
    have "keeps (placing.I (\<lambda>_. False) W)
        (budgetMarket dp cfg ins v venueCfg market client (marketLeaseKey v (in_ID ins) market) gen book inventory quotes vs snap failures)"
      unfolding budgetMarket_def Let_def Pair prod.case True
      by (auto intro!: keeps_bind keeps_prod placing.keeps_market_reads placing.keeps_markVenueFailure)
    from no_places_keepsD [OF this assms(1)] show ?thesis by simp
  next
    case False
    with assms(1) Pair show ?thesis by (intro healthyMarket_gate [OF _ assms(2)]) (simp add: budgetMarket_def)
  qed
qed

lemma liveMarket_gate:
  assumes "run_state (liveMarket dp cfg ins v venueCfg market client book inventory quotes vs snap failures) (E, W) = (out, E', W')"
    and gate: "gate_closed (eg_faults E) (marketFaultKey v (in_ID ins) market) (w_now W)"
  shows "places (sent W W') = []"
proof -
  let ?key = "marketLeaseKey v (in_ID ins) market"
  obtain gen e E1 W1 where a: "run_state (acquireMarketLease dp cfg ?key) (E, W) = ((gen, e), E1, W1)" by (metis prod.collapse)
  then have b: "run_state (if e \<noteq> None \<or> gen = 0
      then (let x = (case e of None \<Rightarrow> ownedByOther | Some x \<Rightarrow> x)
        in closeMarket snap (addError (''lease: '' @ x) vs) (failures @ [v @ '' lease: '' @ x]))
      else budgetMarket dp cfg ins v venueCfg market client ?key gen book inventory quotes vs snap failures) (E1, W1) = (out, E', W')"
    using assms(1) unfolding liveMarket_def Let_def by (simp only: State_Monad.run_state_bind prod.case)
  have r: "e = None \<and> gen \<noteq> 0 \<Longrightarrow> run_state (budgetMarket dp cfg ins v venueCfg market client ?key gen
      book inventory quotes vs snap failures) (E1, W1) = (out, E', W')" using b by simp
  have n: "\<not> (e = None \<and> gen \<noteq> 0) \<Longrightarrow> W' = W1" using b by (auto simp: closeMarket_def Let_def)
  from acquireMarketLease_run [OF a] have s: "silent W W1" "eg_faults E1 = eg_faults E" "w_now W1 = w_now W" by (auto simp: silent_def)
  show ?thesis
  proof (cases "e = None \<and> gen \<noteq> 0")
    case True
    from budgetMarket_gate [OF r [OF True]] gate s show ?thesis by (simp add: sent_silent_left [OF s(1)])
  qed (use n s(1) in \<open>simp add: silent_sent\<close>)
qed

lemma targetMarket_gate:
  assumes "run_state (targetMarket dp cfg ins ref inventory v venueCfg market client book ordersErr vs snap failures) (E, W) = (out, E', W')"
    and gate: "gate_closed (eg_faults E) (marketFaultKey v (in_ID ins) market) (w_now W)"
  shows "places (sent W W') = []"
proof -
  let ?go = "\<lambda>quotes. run_state (liveMarket dp cfg ins v venueCfg market client book inventory quotes vs snap failures) (E, W) = (out, E', W')"
  have "(\<exists>quotes. ?go quotes) \<or> places (sent W W') = []"
  proof (cases "\<exists>generated quotes. Generate ins v market ref book inventory (w_now W) = Inr generated \<and>
      FilterQuotes ins market book inventory generated (w_now W) = Inr quotes \<and> tradingMarket cfg venueCfg \<and> ordersErr = None")
    case True
    then show ?thesis using assms(1) by (auto simp: targetMarket_def State_Monad.bind_def clock_def)
  next
    case False
    define m where "m = (case Generate ins v market ref book inventory (w_now W) of
       Inl Panic \<Rightarrow> panicked snap failures
     | Inl (Fail e) \<Rightarrow>
         failMarket dp cfg ins v venueCfg market client ''strategy'' ''strategy'' (strategyText e) vs snap failures
     | Inr generated \<Rightarrow>
         (case FilterQuotes ins market book inventory generated (w_now W) of
            Inl e \<Rightarrow> failMarket dp cfg ins v venueCfg market client ''risk'' ''risk'' (riskText e) vs snap failures
          | Inr quotes \<Rightarrow>
              if \<not> tradingMarket cfg venueCfg
              then shadowMarket dp ins v market book inventory quotes vs snap failures
              else (case ordersErr of
                Some e \<Rightarrow> do {
                  (state, cancelErr) \<leftarrow> markVenueFailure dp cfg (in_ID ins) v venueCfg market client ''open_orders'' e False;
                  closeMarket snap (addError (errorString cancelErr) (vs\<lparr>vs_Fault := Some state\<rparr>))
                    (failures @ [v @ '' orders: '' @ e])
                }
              | None \<Rightarrow> liveMarket dp cfg ins v venueCfg market client book inventory quotes vs snap failures)))"
    have run: "run_state m (E, W) = (out, E', W')"
      using assms(1) by (simp add: targetMarket_def m_def State_Monad.bind_def clock_def)
    have "keeps (placing.I (\<lambda>_. False) W) m" unfolding m_def
      by (intro keeps_sum keeps_failure keeps_if keeps_option keeps_bind keeps_prod placing.keeps_market_reads placing.keeps_failMarket
          placing.keeps_markVenueFailure TrueI) (use False in blast)
    from no_places_keepsD [OF this run] show ?thesis by simp
  qed
  then show ?thesis using liveMarket_gate [OF _ gate] by blast
qed

end
