(* ===== verification/EngineClaims.thy ===== *)
theory EngineClaims
  imports EngineProps
begin

text \<open>
  The engine, continued: forced cancellation, the emergency stop, shutdown, and the properties of the
  component.
\<close>

section \<open>Steps that leave the fault manager alone\<close>

definition same_faults :: "FaultManager \<Rightarrow> 'w World \<Rightarrow> EngineState \<times> 'w World \<Rightarrow> bool" where
  "same_faults m W0 s \<longleftrightarrow> eg_faults (fst s) = m \<and> silent W0 (snd s)"

lemma same_faults_modify: "(\<And>E. eg_faults (f E) = eg_faults E) \<Longrightarrow> keeps (same_faults m W0) (modify f)"
  by (auto simp: keeps_def modify_def same_faults_def)

lemma same_faults_ext: "keeps (same_faults m W0) (ext f)"
  by (auto simp: keeps_def ext_def same_faults_def split: prod.splits dest!: call_ext_silentD intro: silent_trans)

lemma same_faults_simStep: "keeps (same_faults m W0) (simStep f)"
  by (auto simp: keeps_def simStep_def same_faults_def silent_def split: prod.splits)

lemma same_faults_reads:
  "keeps (same_faults m W0) (simulateTrades dp ins v market book snap)"
  "keeps (same_faults m W0) (observeAccount ins v market client vs)"
  unfolding simulateTrades_def observeAccount_def recentFills_def audit_def optionally_def count_metric_def
  by (intro keeps_rules same_faults_ext same_faults_simStep same_faults_modify; simp)+

lemma protectMarket_gate:
  assumes "run_state (protectMarket dp cfg ins ref inventory v venueCfg market client book vs snap failures) (E, W) = (out, E', W')"
    and gate: "gate_closed (eg_faults E) (marketFaultKey v (in_ID ins) market) (w_now W)"
  shows "places (sent W W') = []"
proof (cases "ValidateMarketReference ref book (in_Strategy ins)")
  case (Some f)
  with protectMarket_places(2) [OF assms(1)] show ?thesis by auto
next
  case None
  obtain p snap1 E1 W1 where a: "run_state (simulateTrades dp ins v market book snap) (E, W) = ((p, snap1), E1, W1)"
    by (metis prod.collapse)
  obtain oe vs1 E2 W2 where b: "run_state (observeAccount ins v market client vs) (E1, W1) = ((oe, vs1), E2, W2)"
    by (metis prod.collapse)
  have s1: "same_faults (eg_faults E) W (E1, W1)"
    by (rule keepsD [OF same_faults_reads(1) a]) (simp add: same_faults_def)
  note s2 = keepsD [OF same_faults_reads(2) b s1]
  show ?thesis
  proof (cases p)
    case True
    with assms(1) None a s1 show ?thesis by (auto simp: protectMarket_def panicked_def same_faults_def silent_sent)
  next
    case False
    with assms(1) None a b have t: "run_state (targetMarket dp cfg ins ref inventory v venueCfg market client book oe vs1 snap1 failures) (E2, W2)
        = (out, E', W')" by (simp add: protectMarket_def)
    have s: "silent W W2" "eg_faults E2 = eg_faults E" "w_now W2 = w_now W" using s2 by (auto simp: same_faults_def silent_def)
    with targetMarket_gate [OF t] gate show ?thesis by (simp add: sent_silent_left [OF s(1)])
  qed
qed


section \<open>Forced cancellation\<close>

text \<open>A field of the engine that a cancellation leaves as it is.\<close>

definition unchanged :: "(EngineState \<Rightarrow> 'a) \<Rightarrow> EngineState \<Rightarrow> EngineState \<times> 'w World \<Rightarrow> bool" where
  "unchanged g E0 s \<longleftrightarrow> g (fst s) = g E0"

definition apart :: "(EngineState \<Rightarrow> 'a) \<Rightarrow> bool" where
  "apart g \<longleftrightarrow> (\<forall>E r m l. g (E\<lparr>eg_reconciler := r\<rparr>) = g E \<and> g (E\<lparr>eg_metrics := m\<rparr>) = g E \<and>
     g (E\<lparr>eg_heldLeases := l\<rparr>) = g E)"

lemma unchanged_steps:
  "(\<And>E. g (f E) = g E) \<Longrightarrow> keeps (unchanged g E0) (modify f)" "keeps (unchanged g E0) (ext h)"
  "apart g \<Longrightarrow> keeps (unchanged g E0) (omsStep client k)"
  by (auto simp: keeps_def modify_def ext_def omsStep_def unchanged_def apart_def split: prod.splits)

lemma unchanged_cancel:
  assumes "apart g"
  shows "keeps (unchanged g E0) (cancelManagedFenced dp cfg v ins market client)"
    and "keeps (unchanged g E0) (cancelInstrument dp i)"
  unfolding cancelInstrument_def cancelVenue_def cancelManagedFenced_def cancelGuarded_def acquireMarketLease_def count_metric_def
  by (intro keeps_rules keeps_foldE unchanged_steps assms; use assms in \<open>simp add: apart_def\<close>)+

lemma cancelManagedFenced_complete:
  assumes "run_state (cancelManagedFenced dp cfg v ins market client) (E, W) = (None, E', W')"
    and "rc_loaded (eg_reconciler E) (stateKey client ins)"
    and "run_state (acquireMarketLease dp cfg (marketLeaseKey v ins market)) (E, W) = (g, E1, W1)"
  shows "\<exists>orders. fst (cl_OpenOrders client (m_Symbol market) (w_ext W1)) = Inr orders \<and>
    (fst (waitingForCancelConfirmation (stateKey client ins) (ManagedOrdersFor client orders) (w_now W) (eg_reconciler E)) \<noteq> Inr True \<longrightarrow>
      set (cancels (sent W W')) = o_OrderID ` set (ManagedOrdersFor client orders) \<union> fst ` set (rc_pendingCreates (eg_reconciler E) (stateKey client ins)))"
proof -
  let ?key = "marketLeaseKey v ins market"
  obtain gen e where g: "g = (gen, e)" by fastforce
  note a = assms(3) [unfolded g]
  from acquireMarketLease_run [OF a] have s: "silent W W1" "w_now W1 = w_now W" by (auto simp: silent_def)
  have r: "eg_reconciler E1 = eg_reconciler E" using a
    by (auto simp: acquireMarketLease_def ext_def modify_def split: option.splits prod.splits if_splits)
  from assms(1) a have e: "e = None" "gen \<noteq> 0" and c: "run_state (cancelGuarded dp client ins (m_Symbol market) ?key gen) (E1, W1) = (None, E', W')"
    by (auto simp: cancelManagedFenced_def Let_def split: option.splits if_splits)
  obtain n err r' W2 where k: "CancelManagedGuardedWithResult (omsStore dp) client ins (m_Symbol market) (marketWriteGuard dp (w_now W1) ?key gen)
      (eg_reconciler E) W1 = ((n, err), r', W2)" by (metis prod.collapse)
  with c r have fin: "err = None" "w_log W' = w_log W2"
    by (auto simp: cancelGuarded_def clock_def omsStep_def count_metric_def modify_def)
  obtain reply W3 where o: "call_ext (cl_OpenOrders client (m_Symbol market)) W1 = (reply, W3)" by fastforce
  with k fin(1) obtain orders where reply: "reply = Inr orders" by (cases reply) (auto simp: CancelManagedGuardedWithResult_def)
  have f: "fst (cl_OpenOrders client (m_Symbol market) (w_ext W1)) = Inr orders"
    using o reply by (auto simp: call_ext_def split: prod.splits)
  from cancel_managed_log [OF k o [unfolded reply] assms(2)] fin(1) obtain cs where cs: "w_log W2 = w_log W1 @ cs"
    "fst (waitingForCancelConfirmation (stateKey client ins) (ManagedOrdersFor client orders) (w_now W1) (eg_reconciler E)) = Inr True \<or>
      cancels cs = map o_OrderID (withPending (ManagedOrdersFor client orders) (rc_pendingCreates (eg_reconciler E) (stateKey client ins)))"
    by auto
  have "sent W W' = cs" using cs(1) fin(2) by (simp add: sent_silent_left [OF s(1)] sentI)
  with cs(2) s(2) f withPending_ids [of "ManagedOrdersFor client orders" "rc_pendingCreates (eg_reconciler E) (stateKey client ins)"]
  show ?thesis by metis
qed


lemma failureDecision_forced:
  "sn_Status (d_State (failureDecision ft st stage cause True now)) = Canceling \<and> d_ShouldCancel (failureDecision ft st stage cause True now)"
  by (simp add: failureDecision_def Let_def)

lemma FailureWithContext_forced:
  assumes "FailureWithContext store key stage cause True now m w = ((d, e), m', w')"
  shows "e = None \<longrightarrow> sn_Status (d_State d) = Canceling \<and> d_ShouldCancel d \<and> fm_states m' key = Some (d_State d)"
  using assms failureDecision_forced
  by (auto simp: FailureWithContext_def applyDecision_def persist_def split: option.splits prod.splits if_splits)

lemma FailureWithContext_unstored:
  "\<exists>d m'. FailureWithContext None key stage cause True now m w = ((d, None), m', w) \<and> d_ShouldCancel d"
  by (cases "fm_loaded m key")
    (simp_all add: FailureWithContext_def ensureLoaded_def applyDecision_def persist_def failureDecision_forced)

text \<open>The world in which a failing market's open orders are read: the fault manager has been told, the lease
  has been asked for.\<close>

definition withdraw_world :: "'w Deps \<Rightarrow> Config \<Rightarrow> string \<Rightarrow> string \<Rightarrow> VenueMarketConfig \<Rightarrow> string \<Rightarrow> string
    \<Rightarrow> EngineState \<times> 'w World \<Rightarrow> 'w" where
  "withdraw_world dp cfg ins v market stage cause s = w_ext (snd (snd (run_state (do {
     count_metric recordVenueFault;
     _ \<leftarrow> faultStep (FailureWithContext (faultStore dp) (marketFaultKey v ins market) stage (Some cause) True);
     acquireMarketLease dp cfg (marketLeaseKey v ins market)
   }) s)))"

lemma markVenueFailure_forced:
  assumes "run_state (markVenueFailure dp cfg ins v venueCfg market client stage cause True) (E, W) = ((state, None), E', W')"
    and "tradingMarket cfg venueCfg"
  obtains E1 W1 W2 g E3 W3 where "silent W W1" "w_now W1 = w_now W" "eg_reconciler E1 = eg_reconciler E" "sn_Status state = Canceling"
    "fm_states (eg_faults E') (marketFaultKey v ins market) = Some state"
    "run_state (cancelManagedFenced dp cfg v ins market client) (E1, W1) = (None, E', W2)" "silent W2 W'"
    "run_state (acquireMarketLease dp cfg (marketLeaseKey v ins market)) (E1, W1) = (g, E3, W3)"
    "w_ext W3 = withdraw_world dp cfg ins v market stage cause (E, W)"
proof -
  obtain d e m w where f: "FailureWithContext (faultStore dp) (marketFaultKey v ins market) stage (Some cause) True (w_now W)
      (eg_faults E) (w_ext W) = ((d, e), m, w)" by (metis prod.collapse)
  define E1 where "E1 = E\<lparr>eg_metrics := recordVenueFault (eg_metrics E), eg_faults := m\<rparr>"
  define W1 where "W1 = W\<lparr>w_ext := w\<rparr>"
  obtain err E2 W2 where c: "run_state (cancelManagedFenced dp cfg v ins market client) (E1, W1) = (err, E2, W2)" by (metis prod.collapse)
  define st where "st = (if e \<noteq> None then (d_State d)\<lparr>sn_Status := Canceling, sn_OrdersRetained := False\<rparr> else d_State d)"
  have should: "d_ShouldCancel d \<or> e \<noteq> None" using FailureWithContext_forced [OF f] by blast
  have live: "c_Mode cfg = ModeLive" "v_TradingEnabled venueCfg" using assms(2) by (auto simp: tradingMarket_def)
  obtain E3 W3 where a: "run_state (audit dp (AVenueFault ins v stage cause st err e)) (E2, W2) = ((), E3, W3)" by (metis prod.collapse old.unit.exhaust)
  have out: "state = st" "(case e of None \<Rightarrow> err | Some x \<Rightarrow> Some (appendError (errorString err) (''persist fault state: '' @ x))) = None" "E3 = E'" "W3 = W'"
    using assms(1) f c a should live
    by (auto simp: markVenueFailure_def count_metric_def modify_def faultStep_def Let_def E1_def W1_def st_def split: if_splits)
  then have none: "err = None" "e = None" by (auto split: option.splits)
  then have stc: "sn_Status st = Canceling" "fm_states m (marketFaultKey v ins market) = Some st"
    using FailureWithContext_forced [OF f] by (auto simp: st_def)
  have E3: "E3 = E2" using a by (auto simp: audit_def clock_def ext_def split: prod.splits)
  have "unchanged eg_faults E1 (E2, W2)"
    by (rule keepsD [OF unchanged_cancel(1) c]) (simp_all add: apart_def unchanged_def)
  then have faults: "eg_faults E' = m" using out(3) E3 by (simp add: unchanged_def E1_def)
  obtain g E4 W4 where q: "run_state (acquireMarketLease dp cfg (marketLeaseKey v ins market)) (E1, W1) = (g, E4, W4)" by (metis prod.collapse)
  then have "w_ext W4 = withdraw_world dp cfg ins v market stage cause (E, W)"
    using f by (simp add: withdraw_world_def count_metric_def modify_def faultStep_def E1_def W1_def)
  moreover have "silent W2 W3" using keeps_silent [OF quiet.keeps_audit a] .
  ultimately show ?thesis using c out stc none E3 faults q
    by (intro that [of W1 E1 W2 g E4 W4]) (auto simp: W1_def E1_def silent_def)
qed


section \<open>The emergency stop\<close>

text \<open>In the given world the request for the open orders fails, or shows a managed order.\<close>

definition still_open :: "'w Client \<Rightarrow> string \<Rightarrow> 'w \<Rightarrow> bool" where
  "still_open client symb w \<longleftrightarrow>
     (case fst (cl_OpenOrders client symb w) of Inl _ \<Rightarrow> True | Inr orders \<Rightarrow> ManagedOrdersFor client orders \<noteq> [])"

definition no_confirmation :: Confirmation where
  "no_confirmation = \<lparr>cf_orders = [], cf_confirmed = True, cf_failures = []\<rparr>"

text \<open>The world in which the confirmation reads the venue that follows \<open>vs\<close>: the cancellation of the
  instrument is done, the venues \<open>vs\<close> have been read.\<close>

definition confirm_world :: "'w Deps \<Rightarrow> InstrumentConfig \<Rightarrow> (string \<times> VenueConfig) list \<Rightarrow> EngineState \<times> 'w World \<Rightarrow> 'w" where
  "confirm_world dp ins vs s = w_ext (snd (snd (run_state (do {
     _ \<leftarrow> cancelInstrument dp ins;
     foldE (confirmVenue dp ins) vs no_confirmation
   }) s)))"

definition confirming :: "Confirmation \<Rightarrow> bool" where
  "confirming c \<longleftrightarrow> cf_confirmed c \<and> cf_failures c = []"

lemma confirm_step:
  assumes "run_state (confirmVenue dp ins v c) s = (c', s')" "confirming c'"
  shows "confirming c"
  using assms unfolding confirming_def confirmVenue_def
  by (auto simp: ext_def split: prod.splits if_splits option.splits sum.splits)

lemma confirm_loop:
  "run_state (foldE (confirmVenue dp ins) vs c) s = (c', s') \<Longrightarrow> confirming c' \<Longrightarrow> confirming c"
proof (induction vs arbitrary: c s)
  case (Cons v vs)
  from Cons.prems(1) obtain c1 s1 where "run_state (confirmVenue dp ins v c) s = (c1, s1)"
    "run_state (foldE (confirmVenue dp ins) vs c1) s1 = (c', s')" unfolding foldE.simps by (rule run_bindE)
  with Cons.IH Cons.prems(2) confirm_step show ?case by blast
qed simp

lemma confirm_reads:
  assumes "run_state (confirmVenue dp ins (v, venueCfg) c) s = (c', s')" "confirming c'"
    and "v_Enabled venueCfg" "v_TradingEnabled venueCfg" "map_of (v_Markets venueCfg) (in_ID ins) = Some market"
  shows "\<exists>client. clientFor dp v (in_ID ins) = Some client \<and> \<not> still_open client (m_Symbol market) (w_ext (snd s))"
  using assms unfolding confirming_def confirmVenue_def still_open_def
  by (cases s) (auto simp: ext_def call_ext_def split: prod.splits option.splits sum.splits)

lemma foldE_append: "foldE f (xs @ ys) = (\<lambda>a. State_Monad.bind (foldE f xs a) (foldE f ys))"
proof (induction xs)
  case (Cons x xs)
  show ?case by (rule ext) (simp add: Cons.IH)
qed simp

lemma emergencyStop_confirmed:
  assumes "run_state (emergencyStop dp ins state fs) (E, W) = (out, E', W')"
    and "\<not> eg_pauseApplied E (in_ID ins)" "eg_pauseApplied E' (in_ID ins)"
    and "c_Venues (eg_cfg E) = vs1 @ (v, venueCfg) # vs2"
    and "v_Enabled venueCfg" "v_TradingEnabled venueCfg" "map_of (v_Markets venueCfg) (in_ID ins) = Some market"
  shows "\<exists>client. clientFor dp v (in_ID ins) = Some client \<and> \<not> still_open client (m_Symbol market) (confirm_world dp ins vs1 (E, W))"
proof -
  let ?f = "confirmVenue dp ins" and ?g = "\<lambda>E. (eg_cfg E, eg_pauseApplied E)"
  obtain e0 E1 W1 where a: "run_state (cancelInstrument dp ins) (E, W) = (e0, E1, W1)" by (metis prod.collapse)
  have f1: "eg_cfg E1 = eg_cfg E" "eg_pauseApplied E1 = eg_pauseApplied E"
    using keepsD [OF unchanged_cancel(2) a, of ?g E] by (simp_all add: apart_def unchanged_def)
  obtain orders ok e E2 W2 where b: "run_state (if e0 = None then instrumentCancellationConfirmed dp ins
      else State_Monad.return ([], False, e0)) (E1, W1) = ((orders, ok, e), E2, W2)" by (metis prod.collapse)
  have "keeps (unchanged ?g E1) (instrumentCancellationConfirmed dp ins)"
    unfolding instrumentCancellationConfirmed_def confirmVenue_def by (intro keeps_rules keeps_foldE unchanged_steps)
  from keepsD [OF this] have f2: "eg_pauseApplied E2 = eg_pauseApplied E"
    using b f1 by (cases "e0 = None") (fastforce simp: unchanged_def)+
  have "ok \<and> e = None"
  proof (rule ccontr)
    assume "\<not> (ok \<and> e = None)"
    with assms(1) a b have "eg_pauseApplied E' = eg_pauseApplied E2"
      by (auto simp: emergencyStop_def publishPaused_def publish_def optionally_def gets_def clock_def ext_def
          split: option.splits prod.splits if_splits)
    with f2 assms(2,3) show False by simp
  qed
  then have c: "run_state (instrumentCancellationConfirmed dp ins) (E1, W1) = ((orders, True, None), E2, W2)"
    using b by (auto split: if_splits)
  obtain c1 s1 where l1: "run_state (foldE ?f vs1 no_confirmation) (E1, W1) = (c1, s1)" by (metis prod.collapse)
  obtain c2 s2 where l2: "run_state (?f (v, venueCfg) c1) s1 = (c2, s2)" by (metis prod.collapse)
  obtain c3 s3 where l3: "run_state (foldE ?f vs2 c2) s2 = (c3, s3)" by (metis prod.collapse)
  have "confirming c3" using c l1 l2 l3
    by (auto simp: instrumentCancellationConfirmed_def gets_def f1 assms(4) foldE_append confirming_def no_confirmation_def [symmetric] split: if_splits)
  from confirm_reads [OF l2 confirm_loop [OF l3 this] assms(5-7)] have
    "\<exists>client. clientFor dp v (in_ID ins) = Some client \<and> \<not> still_open client (m_Symbol market) (w_ext (snd s1))" .
  moreover have "w_ext (snd s1) = confirm_world dp ins vs1 (E, W)"
    using a l1 by (simp add: confirm_world_def)
  ultimately show ?thesis by simp
qed


section \<open>Shutdown\<close>

text \<open>The release of leases at the lease service, one after another, with its answers.\<close>

fun release_all :: "'w MarketLocker \<Rightarrow> string \<Rightarrow> (string \<times> 64 word) list \<Rightarrow> 'w \<Rightarrow> string option list \<times> 'w" where
  "release_all locker owner [] w = ([], w)"
| "release_all locker owner ((key, gen) # leases) w =
     (case lk_Release locker key owner gen w of (answer, w1) \<Rightarrow>
        (case release_all locker owner leases w1 of (answers, w2) \<Rightarrow> (answer # answers, w2)))"

text \<open>The leases whose release failed.\<close>

definition kept_leases :: "(string \<times> 64 word) list \<Rightarrow> string option list \<Rightarrow> (string \<times> 64 word) list" where
  "kept_leases leases answers = map fst (filter (\<lambda>(_, answer). answer \<noteq> None) (zip leases answers))"

lemma delete_fresh: "k \<notin> fst ` set xs \<Longrightarrow> AList.delete k xs = xs"
  by (simp add: AList.delete_eq filter_id_conv) force

lemma releaseHeld_run:
  assumes "marketLocker dp = Some locker" "eg_heldLeases E = failed @ (key, gen) # rest" "distinct (map fst (failed @ (key, gen) # rest))"
    and "lk_Release locker key (dp_ownerID dp) gen (w_ext W) = (answer, w)"
  shows "run_state (releaseHeld dp (key, gen) fs) (E, W) =
    (case answer of None \<Rightarrow> fs | Some x \<Rightarrow> fs @ [''lease '' @ key @ '': '' @ x],
     E\<lparr>eg_heldLeases := failed @ (if answer = None then [] else [(key, gen)]) @ rest\<rparr>, W\<lparr>w_ext := w\<rparr>)"
proof -
  have fresh: "key \<notin> fst ` set failed" "key \<notin> fst ` set rest" using assms(3) by auto
  then have m: "map_of (eg_heldLeases E) key = Some gen"
    by (simp add: assms(2) map_add_Some_iff map_of_eq_None_iff)
  have d: "AList.delete key (eg_heldLeases E) = failed @ rest"
    using delete_fresh [OF fresh(1)] delete_fresh [OF fresh(2)] by (simp add: assms(2) AList.delete_eq)
  show ?thesis
    by (cases answer) (simp_all add: releaseHeld_def releaseMarketLease_def gets_def ext_def call_ext_def modify_def assms(1,4) m d,
      simp_all add: assms(2) [symmetric])
qed

lemma release_loop:
  assumes "marketLocker dp = Some locker" "eg_heldLeases E = failed @ leases" "distinct (map fst (failed @ leases))"
    and "release_all locker (dp_ownerID dp) leases (w_ext W) = (answers, w)"
    and "run_state (foldE (releaseHeld dp) leases fs) (E, W) = (fs', E', W')"
  shows "eg_heldLeases E' = failed @ kept_leases leases answers \<and> W' = W\<lparr>w_ext := w\<rparr> \<and>
    (fs' = [] \<longleftrightarrow> fs = [] \<and> list_all (\<lambda>answer. answer = None) answers)"
  using assms(2-5)
proof (induction leases arbitrary: failed E W answers fs)
  case Nil
  then show ?case by (simp add: kept_leases_def)
next
  case (Cons l leases)
  obtain key gen where l: "l = (key, gen)" by fastforce
  obtain answer w1 where r: "lk_Release locker key (dp_ownerID dp) gen (w_ext W) = (answer, w1)" by fastforce
  obtain rest w2 where q: "release_all locker (dp_ownerID dp) leases w1 = (rest, w2)" by fastforce
  have a: "answers = answer # rest" "w = w2" using Cons.prems(3) by (simp_all add: l r q)
  let ?failed = "failed @ (if answer = None then [] else [(key, gen)])"
  let ?E = "E\<lparr>eg_heldLeases := ?failed @ leases\<rparr>" and ?W = "W\<lparr>w_ext := w1\<rparr>"
    and ?fs = "case answer of None \<Rightarrow> fs | Some x \<Rightarrow> fs @ [''lease '' @ key @ '': '' @ x]"
  have "run_state (foldE (releaseHeld dp) leases ?fs) (?E, ?W) = (fs', E', W')"
    using Cons.prems(4) releaseHeld_run [OF assms(1) Cons.prems(1,2) [unfolded l] r, of fs] by (simp add: l)
  note IH = Cons.IH [OF _ _ _ this, of ?failed rest]
  have "distinct (map fst (?failed @ leases))" using Cons.prems(2) by (cases answer) (auto simp: l)
  with IH q a have
    "eg_heldLeases E' = ?failed @ kept_leases leases rest \<and> W' = W\<lparr>w_ext := w2\<rparr> \<and>
      (fs' = [] \<longleftrightarrow> ?fs = [] \<and> list_all (\<lambda>answer. answer = None) rest)"
    by simp
  then show ?case by (cases answer) (simp_all add: a l kept_leases_def)
qed

text \<open>A cancellation only adds leases.\<close>

definition holds_leases :: "string set \<Rightarrow> EngineState \<times> 'w World \<Rightarrow> bool" where
  "holds_leases K s \<longleftrightarrow> distinct (map fst (eg_heldLeases (fst s))) \<and> K \<subseteq> fst ` set (eg_heldLeases (fst s))"

lemma holds_leases_steps:
  "(\<And>E. eg_heldLeases (f E) = eg_heldLeases E) \<Longrightarrow> keeps (holds_leases K) (modify f)"
  "keeps (holds_leases K) (modify (\<lambda>E. E\<lparr>eg_heldLeases := AList.update key gen (eg_heldLeases E)\<rparr>))"
  "keeps (holds_leases K) (ext g)" "keeps (holds_leases K) (omsStep client h)"
  by (auto simp: keeps_def modify_def ext_def omsStep_def holds_leases_def distinct_update update_conv' dom_map_of_conv_image_fst [symmetric]
      split: prod.splits)

lemma holds_leases_cancel: "keeps (holds_leases K) (shutdownInstrument dp ins fs)"
  unfolding shutdownInstrument_def cancelInstrument_def cancelVenue_def cancelManagedFenced_def cancelGuarded_def acquireMarketLease_def
    count_metric_def
  by (intro keeps_rules keeps_foldE holds_leases_steps(2) holds_leases_steps(1,3,4); simp)

lemma Shutdown_releases:
  assumes "run_state (Shutdown dp) (E, W) = (out, E', W')" "marketLocker dp = Some locker" "distinct (map fst (eg_heldLeases E))"
  shows "\<exists>fs E1 W1 answers w. run_state (foldE (shutdownInstrument dp) (c_Instruments (eg_cfg E)) []) (E, W) = (fs, E1, W1) \<and>
    fst ` set (eg_heldLeases E) \<subseteq> fst ` set (eg_heldLeases E1) \<and>
    release_all locker (dp_ownerID dp) (eg_heldLeases E1) (w_ext W1) = (answers, w) \<and>
    w_ext W' = snd (au_Flush (dp_audit dp) w) \<and> eg_heldLeases E' = kept_leases (eg_heldLeases E1) answers \<and>
    (out = None \<longleftrightarrow> fs = [] \<and> list_all (\<lambda>answer. answer = None) answers)"
proof -
  obtain fs1 E1 W1 where a: "run_state (foldE (shutdownInstrument dp) (c_Instruments (eg_cfg E)) []) (E, W) = (fs1, E1, W1)"
    by (metis prod.collapse)
  have h: "holds_leases (fst ` set (eg_heldLeases E)) (E1, W1)"
    by (rule keepsD [OF keeps_foldE [OF holds_leases_cancel] a]) (simp add: holds_leases_def assms(3))
  obtain fs2 E2 W2 where b: "run_state (foldE (releaseHeld dp) (eg_heldLeases E1) fs1) (E1, W1) = (fs2, E2, W2)" by (metis prod.collapse)
  obtain answers w where r: "release_all locker (dp_ownerID dp) (eg_heldLeases E1) (w_ext W1) = (answers, w)" by fastforce
  have l: "eg_heldLeases E2 = kept_leases (eg_heldLeases E1) answers" "W2 = W1\<lparr>w_ext := w\<rparr>"
    "fs2 = [] \<longleftrightarrow> fs1 = [] \<and> list_all (\<lambda>answer. answer = None) answers"
    using release_loop [OF assms(2) _ _ r b, of "[]"] h by (simp_all add: holds_leases_def)
  have "E' = E2" "w_ext W' = snd (au_Flush (dp_audit dp) (w_ext W2))" "out = None \<longleftrightarrow> fs2 = []"
    using assms(1) a b by (auto simp: Shutdown_def gets_def ext_def call_ext_def split: if_splits prod.splits)
  with a r l h show ?thesis by (simp add: holds_leases_def)
qed


section \<open>A concrete engine\<close>

definition sample_locker :: "unit MarketLocker" where
  "sample_locker = \<lparr>lk_Acquire = (\<lambda>_ _ _ w. ((7, None), w)), lk_Validate = (\<lambda>_ _ _ w. ((True, None), w)),
     lk_Release = (\<lambda>_ _ _ w. (None, w))\<rparr>"

definition sample_runtime :: "unit Runtime" where
  "sample_runtime = \<lparr>rt_Publish = (\<lambda>_ w. (None, w)), rt_Get = (\<lambda>_ w. (None, w)), rt_Paused = (\<lambda>w. (Inr [], w)),
     rt_MarketLocker = Some sample_locker, rt_ReconcileController = None, rt_ReportTradingProgress = None,
     rt_ReportCyclePerformance = None, rt_ReportMetrics = None, rt_ReportRuleChange = None, rt_AppendSimulatedFill = None,
     rt_OMSStore = None, rt_FaultStore = None\<rparr>"

definition sample_deps :: "Order list \<Rightarrow> unit Deps" where
  "sample_deps orders = \<lparr>dp_oracle = (\<lambda>_ w. (Inr sample_reference, w)), dp_venues = (\<lambda>_. Some (sample_client orders)),
     dp_audit = \<lparr>au_Record = (\<lambda>_ _ w. (None, w)), au_Flush = (\<lambda>w. (None, w)), au_PendingCount = (\<lambda>_. 0)\<rparr>,
     dp_runtime = Some sample_runtime, dp_rng = (\<lambda>w _. (Inr 0, w)), dp_ownerID = ''o''\<rparr>"

definition engine_venue :: VenueConfig where
  "engine_venue = \<lparr>v_Type = ''binance'', v_Environment = ''production'', v_Enabled = True, v_TradingEnabled = True,
     v_DedicatedAccount = False, v_BaseURL = [], v_SelfTradePrevention = ''EXPIRE_BOTH'', v_Markets = [(''i'', sample_market)]\<rparr>"

definition engine_config :: "Mode \<Rightarrow> Config" where
  "engine_config mode = \<lparr>c_Mode = mode, c_PollIntervalMS = 1000, c_AuditPath = [], c_AuditMaxBytes = 0, c_AuditBackups = 0,
     c_HeartbeatPath = [], c_WatchdogTimeoutSeconds = 30, c_MarketFailureThreshold = 3, c_MarketRecoveryThreshold = 3,
     c_MarketErrorGraceSeconds = 15, c_TradingProgressTimeoutSeconds = 120, c_MaxConcurrentInstruments = 4,
     c_RulesRefreshSeconds = 300, c_RPC = \<lparr>rpc_URLs = [], rpc_ChainID = 56, rpc_RequestTimeoutMS = 1000\<rparr>,
     c_Instruments = [ladder_instrument], c_Venues = [(''v'', engine_venue)]\<rparr>"

definition sample_engine :: "Mode \<Rightarrow> EngineState" where
  "sample_engine mode = (NewWithOwner (engine_config mode) sample_now)\<lparr>eg_reconciler := NewReconciler\<lparr>rc_loaded := (\<lambda>_. True)\<rparr>\<rparr>"

lemma quiet_run: "keeps (quiet.I W) m \<Longrightarrow> silent W (snd (snd (run_state m (E, W))))"
  using keeps_run [of "quiet.I W" m "(E, W)"] by (simp add: quiet.I_def)

lemma sample_guard_eq: "marketWriteGuard (sample_deps orders) now key gen = sample_guard"
  by (simp add: marketWriteGuard_def marketLocker_def sample_deps_def sample_runtime_def sample_locker_def sample_guard_def fun_eq_iff)

lemma sample_acquire: "run_state (acquireMarketLease (sample_deps orders) cfg key) (E, W) =
    ((7, None), E\<lparr>eg_heldLeases := AList.update key 7 (eg_heldLeases E)\<rparr>, W)"
  by (simp add: acquireMarketLease_def marketLocker_def sample_deps_def sample_runtime_def sample_locker_def ext_def call_ext_def modify_def)

lemma sample_singles:
  "cancelSingles (sample_client orders) sample_guard symb ids W = (e, W') \<Longrightarrow>
   e = None \<and> w_log W' = w_log W @ concat (map (\<lambda>i. [CGuard True, CCancel symb i]) ids)"
  by (induction ids arbitrary: W)
    (auto simp: checkWriteGuard_def sample_guard_def call_ext_def mutate_def sample_client_def)

lemma sample_ids: "ManagedOrdersFor (sample_client exact_orders) exact_orders = exact_orders"
  "map o_OrderID (withPending exact_orders []) = [''1'', ''2'', ''3'', ''4'']" "withPending exact_orders [] \<noteq> []"
  "length (withPending exact_orders []) = 4"
  by code_simp+

lemma sample_cancel_run:
  obtains r W where "CancelManagedGuardedWithResult None (sample_client exact_orders) ''i'' ''BUSDT'' sample_guard
     (NewReconciler\<lparr>rc_loaded := (\<lambda>_. True)\<rparr>) sample_world = ((4, None), r, W)"
    "w_log W = [CGuard True, CCancel ''BUSDT'' ''1'', CGuard True, CCancel ''BUSDT'' ''2'', CGuard True, CCancel ''BUSDT'' ''3'',
      CGuard True, CCancel ''BUSDT'' ''4'']"
proof -
  obtain e W where c: "cancelSingles (sample_client exact_orders) sample_guard ''BUSDT'' [''1'', ''2'', ''3'', ''4''] sample_world = (e, W)"
    by fastforce
  have o: "call_ext (cl_OpenOrders (sample_client exact_orders) ''BUSDT'') sample_world = (Inr exact_orders, sample_world)"
    "cl_BatchCanceler (sample_client exact_orders) = None"
    by (simp_all add: call_ext_def sample_client_def)
  from sample_singles [OF c] c o that show ?thesis
    by (simp add: CancelManagedGuardedWithResult_def ensureLoadedOMS_def NewReconciler_def Let_def
       waitingForCancelConfirmation_def persistState_def cancelOrders_def sample_ids sample_world_def)
qed

lemma sample_lookup: "map_of (c_Venues (engine_config mode)) ''v'' = Some engine_venue" "v_Enabled engine_venue" "v_TradingEnabled engine_venue"
  "map_of (v_Markets engine_venue) ''i'' = Some sample_market" "clientFor (sample_deps orders) v ins = Some (sample_client orders)"
  "omsStore (sample_deps orders) = None" "faultStore (sample_deps orders) = None" "m_Symbol sample_market = ''BUSDT''"
  by (simp_all add: engine_config_def engine_venue_def clientFor_def sample_deps_def omsStore_def faultStore_def sample_runtime_def sample_market_def)

lemma sample_cancel:
  "w_log (snd (exec (sample_deps exact_orders) (OpCancelMarket ''i'' ''v'') (sample_engine ModeLive, sample_world))) =
     [CGuard True, CCancel ''BUSDT'' ''1'', CGuard True, CCancel ''BUSDT'' ''2'', CGuard True, CCancel ''BUSDT'' ''3'',
      CGuard True, CCancel ''BUSDT'' ''4'']"
proof -
  have e: "eg_cfg (sample_engine ModeLive) = engine_config ModeLive" "eg_preflightBlocked (sample_engine ModeLive) = []"
    "eg_reconciler (sample_engine ModeLive) = NewReconciler\<lparr>rc_loaded := (\<lambda>_. True)\<rparr>"
    by (simp_all add: sample_engine_def NewWithOwner_def)
  obtain r W where c: "CancelManagedGuardedWithResult None (sample_client exact_orders) ''i'' ''BUSDT'' sample_guard
     (NewReconciler\<lparr>rc_loaded := (\<lambda>_. True)\<rparr>) sample_world = ((4, None), r, W)"
    "w_log W = [CGuard True, CCancel ''BUSDT'' ''1'', CGuard True, CCancel ''BUSDT'' ''2'', CGuard True, CCancel ''BUSDT'' ''3'',
      CGuard True, CCancel ''BUSDT'' ''4'']" by (rule sample_cancel_run)
  define rest where "rest = (\<lambda>gen cancelErr. do {
      err \<leftarrow> (if cancelErr = None then faultStep (\<lambda>_. ResetWithContext None (marketFaultKey ''v'' ''i'' sample_market)) else State_Monad.return cancelErr);
      releaseErr \<leftarrow> releaseMarketLease (sample_deps exact_orders) (marketLeaseKey ''v'' ''i'' sample_market) gen;
      State_Monad.return (if err = None then releaseErr else err)})"
  have q: "keeps (quiet.I V) (rest gen x)" for V gen x unfolding rest_def by (intro quiet.silent_rules quiet.keeps_leases)
  have "\<exists>E. snd (exec (sample_deps exact_orders) (OpCancelMarket ''i'' ''v'') (sample_engine ModeLive, sample_world)) =
      snd (snd (run_state (rest 7 None) (E, stepped (sample_client exact_orders) sample_world W)))"
    using c(1) by (auto simp: CancelMarket_def gets_def e sample_lookup Let_def sample_acquire cancelGuarded_def clock_def omsStep_def
        sample_guard_eq count_metric_def modify_def rest_def)
  then show ?thesis using quiet_run [OF q] c(2) by (auto simp: silent_def)
qed


text \<open>A venue with funds for the sample quotes, and the cycle of its market on an empty book of the engine's
  own orders.\<close>

definition funded_venue :: VenueSnapshot where
  "funded_venue = zero_venue_snapshot\<lparr>vs_BaseBalance := Some \<lparr>bal_Asset = ''B'', bal_Free = 1000, bal_Locked = 0\<rparr>,
     vs_QuoteBalance := Some \<lparr>bal_Asset = ''USDT'', bal_Free = 1000, bal_Locked = 0\<rparr>\<rparr>"

definition grown :: "'w World \<Rightarrow> bool" where "grown W \<longleftrightarrow> places (w_log W) \<noteq> []"

interpretation grown: write_invariant grown dp "\<lambda>_ _ _. True" "\<lambda>_ _. True" for dp
proof unfold_locales
  show "silent W W' \<Longrightarrow> grown W \<Longrightarrow> grown W'" for W W'
    by (simp add: grown_def silent_def)
  show "grown (stepped client W W')"
    if "grown W" "CancelManagedGuardedWithResult store client ins (m_Symbol market)
      (marketWriteGuard dp now (marketLeaseKey v ins market) gen) r W = (n, r', W')"
    for W store client ins market now v gen r n r' W'
    using cancel_managed_guarded [OF that(2)] that(1) by (auto simp: grown_def)
  show "grown (stepped client W W')"
    if "grown W" "ReconcileWithOrdersGuardedPolicy store client ins quotes threshold orders
        (marketWriteGuard dp now (marketLeaseKey v ins market) gen) gen refresh r W = (out, r', W')"
    for market :: VenueMarketConfig and quotes W store client ins threshold orders now v gen refresh r out r' W'
    using reconcile_guarded [OF that(2)] that(1) by (auto simp: grown_def)
qed

lemma sample_placeLoop:
  "placeLoop (sample_client os) (guardClosure sample_guard) n requests orders W = (out, W') \<Longrightarrow>
   places (w_log W') = places (w_log W) @ requests"
  by (induction requests arbitrary: n orders W)
    (auto simp: run_before_def guardClosure_def checkWriteGuard_def sample_guard_def call_ext_def mutate_def sample_client_def)

lemma sample_placement:
  assumes "ReconcileWithOrdersGuardedPolicy None (sample_client os) ''i'' sample_quotes t [] sample_guard 7 noRefresh
    (NewReconciler\<lparr>rc_loaded := (\<lambda>_. True)\<rparr>) sample_world = (out, r, W)"
  shows "grown W"
proof -
  let ?key = "stateKey (sample_client os) ''i''" and ?requests = "placeRequests ''i'' sample_quotes 7 (w_now sample_world)"
  have q: "sample_quotes \<noteq> []" "length sample_quotes = 4" "selectMissing sample_quotes (replicate 4 False) 4 = sample_quotes"
    "ManagedOrdersFor (sample_client os) [] = []" "w_ext sample_world = ()"
    by (simp_all add: sample_quotes_def selectMissing_def ManagedOrdersFor_def ManagedOrders_def sample_world_def eval_nat_numeral)
  have "\<exists>r0 res0. placeMissing None (sample_client os) ?key ''i'' sample_quotes (replicate 4 False) 4 res0 sample_guard 7 r0 sample_world
      = (out, r, W)"
    using assms q by (auto simp: ReconcileWithOrdersGuardedPolicy_def ensureLoadedOMS_def NewReconciler_def Let_def
        waitingForCancelConfirmation_def persistState_def activePendingCreates_def converge_def matchTargets_def noRefresh_def
        maxOrderMutationsPerCycle_def)
  then obtain r0 res0 where m: "placeMissing None (sample_client os) ?key ''i'' sample_quotes (replicate 4 False) 4 res0 sample_guard 7 r0 sample_world
      = (out, r, W)" by blast
  obtain orders e W1 where p: "PlacePostOnlyBatch (sample_client os) ?requests (guardClosure sample_guard) (sample_world\<lparr>w_guardErr := None\<rparr>)
      = ((orders, e), W1)" by (metis prod.collapse)
  obtain res1 ce r1 W2 where c: "confirmLoop None ?key (zip orders sample_quotes) res0 r0 W1 = ((res1, ce), r1, W2)" by (metis prod.collapse)
  have "silent W2 W" using m unfolding placeMissing_def Let_def q(3) p c prod.case
    by (auto split: option.splits if_splits prod.splits dest!: block_silent)
  with confirmLoop_log [OF c] have s: "silent W1 W" by (blast intro: silent_trans)
  have n: "?requests \<noteq> []" using q(1) by (simp add: placeRequests_def)
  have "cl_BatchPlacer (sample_client os) = None" by (simp add: sample_client_def)
  then have "places (w_log W1) = places (w_log sample_world) @ ?requests" using p n sample_placeLoop [of os 0 ?requests]
    by (fastforce simp: PlacePostOnlyBatch_def Let_def)
  with n have "grown W1" by (simp add: grown_def)
  with s show ?thesis by (rule grown.undisturbed)
qed

lemma sample_targets:
  "Generate ladder_instrument ''v'' sample_market sample_reference sample_book 0 sample_now = Inr sample_quotes"
  "FilterQuotes ladder_instrument sample_market sample_book 0 sample_quotes sample_now = Inr sample_quotes"
  "ValidateMarketReference sample_reference sample_book (in_Strategy ladder_instrument) = None"
  "fst (budgetedQuotes ladder_instrument sample_market funded_venue [] sample_quotes) = sample_quotes"
  by code_simp+

lemma sample_deps_audit: "au_Record (dp_audit (sample_deps orders)) event now w = (None, w)"
  by (simp add: sample_deps_def)

lemma run_clock: "run_state (State_Monad.bind clock f) (E, W) = run_state (f (w_now W)) (E, W)"
  by (simp add: State_Monad.bind_def clock_def)

lemma sample_placeMarket:
  assumes "run_state (placeMarket (sample_deps []) cfg ladder_instrument v venueCfg market (sample_client [])
      (marketLeaseKey v (in_ID ladder_instrument) market) 7 sample_quotes vs snap failures) (E, sample_world) = (out, E', W')"
    and "vs_OpenOrders vs = []" "eg_reconciler E = NewReconciler\<lparr>rc_loaded := (\<lambda>_. True)\<rparr>"
  shows "grown W'"
proof -
  have i: "in_ID ladder_instrument = ''i''" "refreshPolicy (in_Strategy ladder_instrument) (length sample_quotes) = noRefresh"
    by (simp_all add: sample_defs refreshPolicy_def)
  obtain s1 W1 where s: "run_state (omsStep (sample_client []) (ReconcileWithOrdersGuardedPolicy None (sample_client []) ''i'' sample_quotes
      (st_RepriceThresholdBPS (in_Strategy ladder_instrument)) [] sample_guard 7 noRefresh)) (E, sample_world) = (s1, W1)" "grown (snd W1)"
  proof -
    obtain o1 r1 V where c: "ReconcileWithOrdersGuardedPolicy None (sample_client []) ''i'' sample_quotes
      (st_RepriceThresholdBPS (in_Strategy ladder_instrument)) [] sample_guard 7 noRefresh (NewReconciler\<lparr>rc_loaded := (\<lambda>_. True)\<rparr>)
      sample_world = (o1, r1, V)" by (metis prod.collapse)
    from sample_placement [OF c] have "grown V" .
    with c assms(3) that show ?thesis by (simp add: omsStep_def grown_def)
  qed
  have r: "run_state (State_Monad.bind (omsStep (sample_client []) (ReconcileWithOrdersGuardedPolicy None (sample_client []) ''i'' sample_quotes
      (st_RepriceThresholdBPS (in_Strategy ladder_instrument)) [] sample_guard 7 noRefresh)) g) (E, sample_world) = run_state (g s1) W1" for g
    using s(1) by (simp add: State_Monad.bind_def)
  have "keeps grown.I m \<Longrightarrow> run_state m W1 = (out, E', W') \<Longrightarrow> grown W'" for m :: "(unit, MarketRun) engine"
    using s(2) keepsD [of grown.I m "(fst W1, snd W1)" out "(E', W')"] by (simp add: grown.I_def)
  note fin = this [rotated]
  show ?thesis using assms(1) unfolding placeMarket_def assms(2) i sample_guard_eq sample_lookup(6) run_clock r
    by (rule fin) (intro grown.silent_rules grown.keeps_market_reads grown.keeps_cancelGuarded grown.keeps_markVenueFailure TrueI)
qed

lemma sample_quoting:
  assumes "run_state (quoteMarket (sample_deps []) (engine_config ModeLive) ladder_instrument sample_reference 0 ''v'' engine_venue
      sample_market (sample_client []) funded_venue (newSnapshot (engine_config ModeLive) ladder_instrument) [])
      (sample_engine ModeLive, sample_world) = (out, E', W')"
  shows "places (sent sample_world W') \<noteq> []"
proof -
  let ?E = "sample_engine ModeLive" and ?cfg = "engine_config ModeLive" and ?market = sample_market and ?ins = ladder_instrument
    and ?client = "sample_client []" and ?dp = "sample_deps []" and ?key = "marketLeaseKey ''v'' ''i'' sample_market"
  have w: "w_ext sample_world = ()" "sample_world\<lparr>w_ext := ()\<rparr> = sample_world" "w_now sample_world = sample_now"
    by (simp_all add: sample_world_def)
  have b: "cl_TopBook ?client (m_Symbol ?market) () = (Inr sample_book, ())" by (simp add: sample_client_def)
  have i: "in_ID ?ins = ''i''" "\<not> sim_Enabled (in_TradeSimulation ?ins)" "\<not> m_CredentialID ?market > 0" "tradingMarket ?cfg engine_venue"
    by (simp_all add: sample_defs tradingMarket_def engine_config_def engine_venue_def)
  have e: "eg_reconciler ?E = NewReconciler\<lparr>rc_loaded := (\<lambda>_. True)\<rparr>" "eg_faults ?E = NewWithStateStore 3 3"
    "vs_OpenOrders funded_venue = []"
    by (simp_all add: sample_engine_def NewWithOwner_def engine_config_def funded_venue_def zero_venue_snapshot_def)
  define E1 where "E1 = ?E\<lparr>eg_lastBookAt := (eg_lastBookAt ?E)(marketFaultKey ''v'' ''i'' ?market := sample_now),
    eg_heldLeases := AList.update ?key 7 (eg_heldLeases ?E)\<rparr>"
  define vs1 where "vs1 = funded_venue\<lparr>vs_MarketConnected := True, vs_Book := Some sample_book\<rparr>"
  define snap1 where "snap1 = newSnapshot ?cfg ?ins"
  have E1: "eg_reconciler E1 = NewReconciler\<lparr>rc_loaded := (\<lambda>_. True)\<rparr>" "eg_faults E1 = NewWithStateStore 3 3"
    and vs1: "vs_OpenOrders vs1 = []" "vs_BaseBalance vs1 = vs_BaseBalance funded_venue" "vs_QuoteBalance vs1 = vs_QuoteBalance funded_venue"
    by (simp_all add: E1_def vs1_def e)
  have r1: "run_state (budgetMarket ?dp ?cfg ?ins ''v'' engine_venue ?market ?client ?key 7 sample_book 0 sample_quotes vs1 snap1 [])
      (E1, sample_world) = (out, E', W')"
    using assms unfolding quoteMarket_def run_ext_bind w b fst_conv snd_conv run_clock E1_def vs1_def snap1_def
    by (simp add: protectMarket_def simulateTrades_def observeAccount_def bookOf_def sample_targets i modify_def
        targetMarket_def clock_def w liveMarket_def Let_def sample_acquire)
  obtain budget where bq: "budgetedQuotes ?ins ?market vs1 [] sample_quotes = (sample_quotes, budget)"
    using sample_targets(4) vs1 by (cases "budgetedQuotes ?ins ?market vs1 [] sample_quotes") (auto simp: budgetedQuotes_def funded_venue_def zero_venue_snapshot_def)
  have q: "sample_quotes \<noteq> []" "ManagedOrdersFor ?client [] = []"
    by (simp_all add: sample_quotes_def ManagedOrdersFor_def ManagedOrders_def)
  obtain health m where h: "HealthyWithContext None (marketFaultKey ''v'' ''i'' ?market) (int (length ([] :: Order list))) sample_now (eg_faults E1) ()
      = ((health, None), m, ())" "d_AllowQuotes health" "\<not> d_ShouldCancel health"
    by (simp add: E1 HealthyWithContext_def ensureLoaded_def NewWithStateStore_def faultStateOf_def healthyDecision_def healthySwitch_def
        applyDecision_def persist_def Let_def)
  define vs2 where "vs2 = vs1\<lparr>vs_Budget := Some budget, vs_Fault := Some (d_State health)\<rparr>"
  have r2: "run_state (placeMarket ?dp ?cfg ?ins ''v'' engine_venue ?market ?client ?key 7 sample_quotes vs2 snap1 [])
      (E1\<lparr>eg_faults := m\<rparr>, sample_world) = (out, E', W')"
    using r1 h vs1(1) by (simp add: budgetMarket_def bq q healthyMarket_def faultStep_def sample_lookup w i audit_def clock_def ext_def
        call_ext_def sample_deps_audit vs2_def Let_def)
  have "grown W'" using sample_placeMarket [of ?cfg "''v''" engine_venue ?market vs2 snap1 "[]" "E1\<lparr>eg_faults := m\<rparr>"] r2 E1 vs1 i
    by (simp add: vs2_def)
  then show ?thesis by (simp add: grown_def sent_def sample_world_def)
qed

section \<open>Properties\<close>

text \<open>C1: fencing of the whole engine. In every run of an engine with a lease service, whatever operations
  the scheduler calls and whatever happens outside in between, what the engine sent is a sequence of
  steps of the order manager. In a step the writes and the guard's verdicts alternate, every write
  directly follows an accepted check and a rejected check is the last entry; there are a market and
  a generation such that the step's client is the one the engine uses for the market's venue and
  instrument, every write is for the market's symbol, every placement carries the generation, and
  each verdict is what the lease service answered, in the world in which it was asked, about the
  market's lease key, the engine's owner identifier and that generation.\<close>

theorem engine_writes_fenced:
  assumes "engine_run dp s0 s" and "marketLocker dp = Some locker"
  shows "\<exists>steps. w_steps (snd s) = w_steps (snd s0) @ steps \<and> w_log (snd s) = w_log (snd s0) @ concat (map (fst \<circ> snd) steps) \<and>
    list_all (lease_step dp locker) steps"
  using engine_run_fenced [OF assms(1)] assms(2) by (auto simp: fence_log_def)

theorem engine_writes_fenced_witness:
  "\<exists>steps. list_all (lease_step (sample_deps exact_orders) sample_locker) steps \<and> concat (map (fst \<circ> snd) steps) =
    [CGuard True, CCancel ''BUSDT'' ''1'', CGuard True, CCancel ''BUSDT'' ''2'', CGuard True, CCancel ''BUSDT'' ''3'',
      CGuard True, CCancel ''BUSDT'' ''4'']"
proof -
  have "engine_run (sample_deps exact_orders) (sample_engine ModeLive, sample_world)
      (exec (sample_deps exact_orders) (OpCancelMarket ''i'' ''v'') (sample_engine ModeLive, sample_world))"
    by (intro run_op run_start)
  moreover have "marketLocker (sample_deps exact_orders) = Some sample_locker"
    by (simp add: marketLocker_def sample_deps_def sample_runtime_def)
  ultimately obtain steps where "list_all (lease_step (sample_deps exact_orders) sample_locker) steps"
    "w_log (snd (exec (sample_deps exact_orders) (OpCancelMarket ''i'' ''v'') (sample_engine ModeLive, sample_world))) =
      w_log (snd (sample_engine ModeLive, sample_world)) @ concat (map (fst \<circ> snd) steps)"
    by (rule engine_writes_fenced [THEN exE]) blast
  moreover have "w_log (snd (sample_engine ModeLive, sample_world)) = []" by (simp add: sample_world_def)
  ultimately show ?thesis unfolding sample_cancel by auto
qed

text \<open>C5: who may trade. The cycle of an instrument that is paused, that failed its preflight, or that has no
  market on an enabled trading venue of a live configuration sends nothing to any exchange.\<close>

theorem quiet_unless_trading:
  assumes "run_state (runInstrumentGuarded dp cfg ins) (E, W) = (out, E', W')"
    and "eg_paused E (in_ID ins) \<noteq> None \<or> map_of (eg_preflightBlocked E) (in_ID ins) \<noteq> None \<or> \<not> may_trade cfg ins"
  shows "w_log W' = w_log W"
proof -
  have "silent W W'"
  proof (cases "eg_paused E (in_ID ins) \<noteq> None \<or> map_of (eg_preflightBlocked E) (in_ID ins) \<noteq> None")
    case True
    define m where "m = (if eg_paused E (in_ID ins) \<noteq> None then runPausedInstrument dp cfg ins
      else publishPreflightBlocked dp cfg ins (the (map_of (eg_preflightBlocked E) (in_ID ins))))"
    have "run_state m (E, W) = (out, E', W')"
      using assms(1) True by (auto simp: runInstrumentGuarded_def gets_def m_def split: if_splits)
    moreover have "keeps (quiet.I W) m" unfolding m_def by (intro keeps_if quiet.keeps_runPaused quiet.keeps_blocked)
    ultimately show ?thesis by (intro keeps_silent)
  next
    case False
    with assms(2) have "\<not> may_trade cfg ins" by blast
    then have "keeps (quiet.I W) (runInstrumentGuarded dp cfg ins)" unfolding runInstrumentGuarded_def
      by (intro keeps_rules quiet.keeps_runPaused quiet.keeps_blocked runInstrument_quiet)
    then show ?thesis using assms(1) by (rule keeps_silent)
  qed
  then show ?thesis by (simp add: silent_def)
qed

theorem quiet_unless_trading_witness:
  "\<exists>W'. (\<exists>out E'. run_state (runInstrumentGuarded (sample_deps exact_orders) (engine_config ModeShadow) ladder_instrument)
      (sample_engine ModeShadow, sample_world) = (out, E', W')) \<and> w_log W' = []"
proof -
  obtain out E' W' where r: "run_state (runInstrumentGuarded (sample_deps exact_orders) (engine_config ModeShadow) ladder_instrument)
      (sample_engine ModeShadow, sample_world) = (out, E', W')" by (metis prod.collapse)
  have "\<not> may_trade (engine_config ModeShadow) ladder_instrument"
    by (simp add: may_trade_def engine_config_def tradingMarket_def)
  with quiet_unless_trading [OF r] r show ?thesis by (auto simp: sample_world_def)
qed

text \<open>C29: the scheduler's other work. Preflight, the retry of blocked instruments, the refresh of the exchange
  rules and a hot parameter change send nothing to any exchange.\<close>

theorem between_cycles_quiet:
  assumes "op = OpPrepare \<or> op = OpRetryBlocked \<or> op = OpRefreshRules \<or> op = OpParameters new"
  shows "w_log (snd (exec dp op (E, W))) = w_log W"
proof -
  have "silent W (snd (exec dp op (E, W)))"
    using assms quiet_run [OF quiet.keeps_Prepare] quiet_run [OF quiet.keeps_RetryBlocked] quiet_run [OF quiet.keeps_RefreshMarketRules]
    by auto
  then show ?thesis by (simp add: silent_def)
qed

theorem between_cycles_quiet_witness:
  "w_log (snd (exec (sample_deps exact_orders) OpPrepare (sample_engine ModeLive, sample_world))) = []"
  using between_cycles_quiet [of OpPrepare undefined "sample_deps exact_orders" "sample_engine ModeLive" sample_world]
  by (simp add: sample_world_def)


text \<open>C2: what a market's cycle places. Against the book the venue reported, or none, every order has the
  market's symbol, a positive price and quantity on the exchange's grids and within its limits, and
  cannot take liquidity; a cycle places at most 20 orders; and orders are placed only on a trading
  venue whose book passed the price protection.\<close>

theorem market_orders_safe:
  assumes "run_state (quoteMarket dp cfg ins ref inventory v venueCfg market client vs snap failures) (E, W) = (out, E', W')"
    and "cl_TopBook client (m_Symbol market) (w_ext W) = (reply, w)"
  shows "list_all (safe_request market (bookOf v market reply)) (places (sent W W')) \<and> length (places (sent W W')) \<le> 20 \<and>
    (places (sent W W') \<noteq> [] \<longrightarrow>
       tradingMarket cfg venueCfg \<and> ValidateMarketReference ref (bookOf v market reply) (in_Strategy ins) = None)"
proof -
  obtain vs1 E1 W1 where s: "silent W W1" "eg_faults E1 = eg_faults E" and
    r: "run_state (protectMarket dp cfg ins ref inventory v venueCfg market client (bookOf v market reply) vs1 snap failures) (E1, W1)
      = (out, E', W')" by (rule quoteMarket_run [OF assms])
  from protectMarket_places [OF r] protectMarket_few [OF r] show ?thesis unfolding sent_silent_left [OF s(1)] by blast
qed

theorem market_orders_safe_witness:
  "\<exists>W'. places (sent sample_world W') \<noteq> [] \<and> list_all (safe_request sample_market sample_book) (places (sent sample_world W'))"
proof -
  obtain out E' W' where r: "run_state (quoteMarket (sample_deps []) (engine_config ModeLive) ladder_instrument sample_reference 0 ''v'' engine_venue
      sample_market (sample_client []) funded_venue (newSnapshot (engine_config ModeLive) ladder_instrument) [])
      (sample_engine ModeLive, sample_world) = (out, E', W')" by (metis prod.collapse)
  have "cl_TopBook (sample_client []) (m_Symbol sample_market) (w_ext sample_world) = (Inr sample_book, ())"
    by (simp add: sample_client_def sample_world_def)
  from market_orders_safe [OF r this] have "list_all (safe_request sample_market sample_book) (places (sent sample_world W'))"
    by (simp add: bookOf_def)
  with sample_quoting [OF r] show ?thesis by blast
qed

text \<open>C9: the fault gate. While the fault manager's state of a market does not allow quotes, whatever the
  number of open orders, the market's cycle places no order.\<close>

theorem fault_gate_no_orders:
  assumes "run_state (quoteMarket dp cfg ins ref inventory v venueCfg market client vs snap failures) (E, W) = (out, E', W')"
    and "fm_loaded (eg_faults E) (marketFaultKey v (in_ID ins) market)"
    and "\<And>n. \<not> d_AllowQuotes (healthyDecision (fm_recoveryThreshold (eg_faults E))
      (faultStateOf (eg_faults E) (marketFaultKey v (in_ID ins) market) (w_now W)) n (w_now W))"
  shows "places (sent W W') = []"
proof -
  obtain reply w where t: "cl_TopBook client (m_Symbol market) (w_ext W) = (reply, w)" by fastforce
  obtain vs1 E1 W1 where s: "silent W W1" "eg_faults E1 = eg_faults E" and
    r: "run_state (protectMarket dp cfg ins ref inventory v venueCfg market client (bookOf v market reply) vs1 snap failures) (E1, W1)
      = (out, E', W')" by (rule quoteMarket_run [OF assms(1) t])
  have "gate_closed (eg_faults E1) (marketFaultKey v (in_ID ins) market) (w_now W1)"
    using assms(2,3) s by (simp add: gate_closed_def silent_def)
  from protectMarket_gate [OF r this] show ?thesis unfolding sent_silent_left [OF s(1)] .
qed

definition paused_faults :: FaultManager where
  "paused_faults = (NewWithStateStore 3 3)\<lparr>fm_loaded := (\<lambda>_. True), fm_states := (\<lambda>_. Some (zero_snapshot\<lparr>sn_Status := Paused\<rparr>))\<rparr>"

theorem fault_gate_no_orders_witness:
  "\<exists>W'. (\<exists>out E'. run_state (quoteMarket (sample_deps []) (engine_config ModeLive) ladder_instrument sample_reference 0 ''v'' engine_venue
      sample_market (sample_client []) zero_venue_snapshot (newSnapshot (engine_config ModeLive) ladder_instrument) [])
      (sample_engine ModeLive\<lparr>eg_faults := paused_faults\<rparr>, sample_world) = (out, E', W')) \<and> places (sent sample_world W') = []"
proof -
  obtain out E' W' where r: "run_state (quoteMarket (sample_deps []) (engine_config ModeLive) ladder_instrument sample_reference 0 ''v'' engine_venue
      sample_market (sample_client []) zero_venue_snapshot (newSnapshot (engine_config ModeLive) ladder_instrument) [])
      (sample_engine ModeLive\<lparr>eg_faults := paused_faults\<rparr>, sample_world) = (out, E', W')" by (metis prod.collapse)
  have "places (sent sample_world W') = []"
    by (rule fault_gate_no_orders [OF r])
      (simp_all add: paused_faults_def NewWithStateStore_def faultStateOf_def healthyDecision_def healthySwitch_def Let_def)
  with r show ?thesis by blast
qed

text \<open>C10: a forced failure withdraws the market. When a stage fails a trading market with force (a stale
  reference, a book far from it, a rejected target) and no error is reported, the fault manager's
  state of the market is the one returned and says that it is being cancelled; the open orders
  were read, and unless an earlier batch of cancellations is still unconfirmed, every managed order
  of that reply and every order still being created was cancelled. The order manager's state of
  the market is taken to be loaded already.\<close>

theorem forced_failure_withdraws:
  assumes "run_state (markVenueFailure dp cfg ins v venueCfg market client stage cause True) (E, W) = ((state, None), E', W')"
    and "tradingMarket cfg venueCfg" and "rc_loaded (eg_reconciler E) (stateKey client ins)"
  shows "fm_states (eg_faults E') (marketFaultKey v ins market) = Some state \<and> sn_Status state = Canceling \<and>
    (\<exists>orders. fst (cl_OpenOrders client (m_Symbol market) (withdraw_world dp cfg ins v market stage cause (E, W))) = Inr orders \<and>
      (fst (waitingForCancelConfirmation (stateKey client ins) (ManagedOrdersFor client orders) (w_now W) (eg_reconciler E)) \<noteq> Inr True \<longrightarrow>
        set (cancels (sent W W')) = o_OrderID ` set (ManagedOrdersFor client orders) \<union>
          fst ` set (rc_pendingCreates (eg_reconciler E) (stateKey client ins))))"
proof -
  obtain E1 W1 W2 g E3 W3 where s: "silent W W1" "w_now W1 = w_now W" "eg_reconciler E1 = eg_reconciler E"
    and st: "sn_Status state = Canceling" "fm_states (eg_faults E') (marketFaultKey v ins market) = Some state" and
    c: "run_state (cancelManagedFenced dp cfg v ins market client) (E1, W1) = (None, E', W2)" and s2: "silent W2 W'" and
    a: "run_state (acquireMarketLease dp cfg (marketLeaseKey v ins market)) (E1, W1) = (g, E3, W3)"
    "w_ext W3 = withdraw_world dp cfg ins v market stage cause (E, W)"
    by (rule markVenueFailure_forced [OF assms(1,2)])
  note sent = sent_silent_left [OF s(1), of W'] sent_silent_right [OF s2, of W1]
  from cancelManagedFenced_complete [OF c _ a(1)] assms(3) s(2,3) st a(2) show ?thesis unfolding sent by simp
qed

theorem forced_failure_withdraws_witness:
  "\<exists>(E' :: EngineState) W'. (\<exists>state. fm_states (eg_faults E') (marketFaultKey ''v'' ''i'' sample_market) = Some state \<and> sn_Status state = Canceling) \<and>
    set (cancels (sent sample_world W')) = {''1'', ''2'', ''3'', ''4''}"
proof -
  let ?m = "markVenueFailure (sample_deps exact_orders) (engine_config ModeLive) ''i'' ''v'' engine_venue sample_market
    (sample_client exact_orders) ''risk'' ''x'' True"
  obtain state e E' W' where r: "run_state ?m (sample_engine ModeLive, sample_world) = ((state, e), E', W')" by (metis prod.collapse)
  have k: "eg_reconciler (sample_engine ModeLive) = NewReconciler\<lparr>rc_loaded := (\<lambda>_. True)\<rparr>" "w_ext sample_world = ()"
    "sample_world\<lparr>w_ext := ()\<rparr> = sample_world"
    by (simp_all add: sample_engine_def NewWithOwner_def sample_world_def)
  have t: "tradingMarket (engine_config ModeLive) engine_venue" by (simp add: tradingMarket_def engine_config_def sample_lookup)
  obtain d m where f: "FailureWithContext None (marketFaultKey ''v'' ''i'' sample_market) ''risk'' (Some ''x'') True (w_now sample_world)
      (eg_faults (sample_engine ModeLive)) () = ((d, None), m, ())" "d_ShouldCancel d"
    using FailureWithContext_unstored [of "marketFaultKey ''v'' ''i'' sample_market" "''risk''" "Some ''x''" "w_now sample_world"
      "eg_faults (sample_engine ModeLive)" "()"] by blast
  obtain r1 W1 where c: "CancelManagedGuardedWithResult None (sample_client exact_orders) ''i'' ''BUSDT'' sample_guard
     (NewReconciler\<lparr>rc_loaded := (\<lambda>_. True)\<rparr>) sample_world = ((4, None), r1, W1)" by (rule sample_cancel_run)
  have "e = None" using r f c t
    by (auto simp: markVenueFailure_def count_metric_def modify_def faultStep_def sample_lookup Let_def tradingMarket_def
        cancelManagedFenced_def sample_acquire cancelGuarded_def clock_def omsStep_def sample_guard_eq k split: prod.splits)
  then have r: "run_state ?m (sample_engine ModeLive, sample_world) = ((state, None), E', W')" using r by simp
  have o: "fst (cl_OpenOrders (sample_client exact_orders) (m_Symbol sample_market) w) = Inr orders \<longleftrightarrow> orders = exact_orders" for w orders
    by (auto simp: sample_client_def)
  have ids: "o_OrderID ` set (ManagedOrdersFor (sample_client exact_orders) exact_orders) = {''1'', ''2'', ''3'', ''4''}" by code_simp
  have l: "rc_loaded (eg_reconciler (sample_engine ModeLive)) key" "rc_pendingCreates (eg_reconciler (sample_engine ModeLive)) key = []"
    "fst (waitingForCancelConfirmation key orders now (eg_reconciler (sample_engine ModeLive))) = Inr False" for key orders now
    by (simp_all add: k(1) NewReconciler_def waitingForCancelConfirmation_def)
  note T = forced_failure_withdraws [OF r t l(1)]
  from T [THEN conjunct2, THEN conjunct2] obtain orders where
    d: "fst (cl_OpenOrders (sample_client exact_orders) (m_Symbol sample_market) (withdraw_world (sample_deps exact_orders)
      (engine_config ModeLive) ''i'' ''v'' sample_market ''risk'' ''x'' (sample_engine ModeLive, sample_world))) = Inr orders" and
    w: "fst (waitingForCancelConfirmation (stateKey (sample_client exact_orders) ''i'') (ManagedOrdersFor (sample_client exact_orders) orders)
        (w_now sample_world) (eg_reconciler (sample_engine ModeLive))) \<noteq> Inr True \<longrightarrow>
      set (cancels (sent sample_world W')) = o_OrderID ` set (ManagedOrdersFor (sample_client exact_orders) orders) \<union>
        fst ` set (rc_pendingCreates (eg_reconciler (sample_engine ModeLive)) (stateKey (sample_client exact_orders) ''i''))"
    by (elim exE conjE) (rule that)
  have c: "set (cancels (sent sample_world W')) = {''1'', ''2'', ''3'', ''4''}"
    using w unfolding l(2,3) d [unfolded o] ids by simp
  show ?thesis
    by (rule exI [of _ E'], rule exI [of _ W'], rule conjI [OF exI [of _ state]], rule conjI)
      (rule T [THEN conjunct1] T [THEN conjunct2, THEN conjunct1] c)+
qed


text \<open>C12: the emergency stop. When the venue that follows \<open>vs1\<close> trades the instrument and has no client, or,
  in the world in which the confirmation reads it, answers the request for the open orders with an
  error or with a managed order, then the stop is not marked as applied, so that the next controls
  cancel again. That world is the one after the cancellation of the instrument and the reads of the
  venues before it.\<close>

theorem emergency_stop_unconfirmed:
  assumes "run_state (emergencyStop dp ins state fs) (E, W) = (out, E', W')" and "\<not> eg_pauseApplied E (in_ID ins)"
    and "c_Venues (eg_cfg E) = vs1 @ (v, venueCfg) # vs2" "v_Enabled venueCfg" "v_TradingEnabled venueCfg"
    and "map_of (v_Markets venueCfg) (in_ID ins) = Some market"
    and "case clientFor dp v (in_ID ins) of None \<Rightarrow> True
      | Some client \<Rightarrow> still_open client (m_Symbol market) (confirm_world dp ins vs1 (E, W))"
  shows "\<not> eg_pauseApplied E' (in_ID ins)"
proof
  assume "eg_pauseApplied E' (in_ID ins)"
  from emergencyStop_confirmed [OF assms(1,2) this assms(3-6)] assms(7) show False by auto
qed

theorem emergency_stop_unconfirmed_witness:
  "\<exists>E'. (\<exists>out W'. run_state (emergencyStop (sample_deps exact_orders) ladder_instrument
      \<lparr>pa_InstrumentID = ''i'', pa_Paused = True, pa_Reason = ReasonEmergencyCancel, pa_RequestedBy = 1, pa_RequestedAt = 0\<rparr> [])
      (sample_engine ModeLive, sample_world) = (out, E', W')) \<and> \<not> eg_pauseApplied E' ''i''"
proof -
  obtain out E' W' where r: "run_state (emergencyStop (sample_deps exact_orders) ladder_instrument
      \<lparr>pa_InstrumentID = ''i'', pa_Paused = True, pa_Reason = ReasonEmergencyCancel, pa_RequestedBy = 1, pa_RequestedAt = 0\<rparr> [])
      (sample_engine ModeLive, sample_world) = (out, E', W')" by (metis prod.collapse)
  have i: "in_ID ladder_instrument = ''i''" by (simp add: sample_defs)
  have e: "\<not> eg_pauseApplied (sample_engine ModeLive) (in_ID ladder_instrument)"
    "c_Venues (eg_cfg (sample_engine ModeLive)) = [] @ (''v'', engine_venue) # []"
    by (simp_all add: sample_engine_def NewWithOwner_def engine_config_def)
  have "still_open (sample_client exact_orders) ''BUSDT'' w" for w
    using sample_ids(1) by (simp add: still_open_def) (simp add: sample_client_def exact_orders_def)
  then have "\<not> eg_pauseApplied E' (in_ID ladder_instrument)"
    by (intro emergency_stop_unconfirmed [OF r e, where market = sample_market]) (simp_all add: i sample_lookup)
  with r i show ?thesis by auto
qed

text \<open>C30: shutdown. Whatever fails, a shutdown with a lease service asks it, one after another, to release every
  lease that the engine holds once the instruments are cancelled, each under its key, owner and
  generation; the leases held at the start are among them. The engine still holds exactly the leases
  whose release failed, and reports no failure exactly when every cancellation and every release
  succeeded. What it does after that is to flush the audit log.\<close>

theorem shutdown_releases_leases:
  assumes "run_state (Shutdown dp) (E, W) = (out, E', W')" and "marketLocker dp = Some locker"
    and "distinct (map fst (eg_heldLeases E))"
  shows "\<exists>fs E1 W1 answers w. run_state (foldE (shutdownInstrument dp) (c_Instruments (eg_cfg E)) []) (E, W) = (fs, E1, W1) \<and>
    fst ` set (eg_heldLeases E) \<subseteq> fst ` set (eg_heldLeases E1) \<and>
    release_all locker (dp_ownerID dp) (eg_heldLeases E1) (w_ext W1) = (answers, w) \<and>
    w_ext W' = snd (au_Flush (dp_audit dp) w) \<and> eg_heldLeases E' = kept_leases (eg_heldLeases E1) answers \<and>
    (out = None \<longleftrightarrow> fs = [] \<and> list_all (\<lambda>answer. answer = None) answers)"
  using assms by (rule Shutdown_releases)

theorem shutdown_releases_leases_witness:
  "\<exists>E' W'. (\<exists>out. run_state (Shutdown (sample_deps []))
      (sample_engine ModeLive\<lparr>eg_cfg := (engine_config ModeLive)\<lparr>c_Instruments := []\<rparr>, eg_heldLeases := [(''k'', 7)]\<rparr>, sample_world) = (out, E', W')) \<and>
    eg_heldLeases E' = []"
proof -
  let ?E = "sample_engine ModeLive\<lparr>eg_cfg := (engine_config ModeLive)\<lparr>c_Instruments := []\<rparr>, eg_heldLeases := [(''k'', 7)]\<rparr>"
  have l: "marketLocker (sample_deps []) = Some sample_locker" by (simp add: marketLocker_def sample_deps_def sample_runtime_def)
  obtain out E' W' where r: "run_state (Shutdown (sample_deps [])) (?E, sample_world) = (out, E', W')" by (metis prod.collapse)
  from shutdown_releases_leases [OF r l] have "eg_heldLeases E' = []"
    by (auto simp: sample_locker_def kept_leases_def)
  with r show ?thesis by blast
qed

end
