(* ===== verification/ConfigValidate.thy ===== *)
theory ConfigValidate
  imports Strategy Venue
begin

text \<open>
  \<^verbatim>\<open>internal/config/config.go\<close>, the validation of a published configuration. The checks are written in the
  order of the source and the first that fails gives the error text. The parser of URLs
  (\<^verbatim>\<open>net/url.Parse\<close>) is a parameter that returns the scheme, the host and the host name of a URL. The maps of
  venues and markets are association lists in the order a Go range loop visits them.
\<close>

section \<open>Definitions\<close>

record UrlParts =
  url_Scheme :: string
  url_Host :: string
  url_Hostname :: string

type_synonym UrlParser = "string \<Rightarrow> UrlParts option"

text \<open>A sequence of \<^verbatim>\<open>if condition { return error }\<close> statements.\<close>

definition first_error :: "(bool \<times> string) list \<Rightarrow> string option" where
  "first_error checks = map_option snd (List.find fst checks)"

definition orElse :: "string option \<Rightarrow> string option \<Rightarrow> string option" where
  "orElse a b = (case a of Some e \<Rightarrow> Some e | None \<Rightarrow> b)"

definition is_hex_char :: "char \<Rightarrow> bool" where
  "is_hex_char r \<longleftrightarrow> (let n = of_char r :: nat in (48 \<le> n \<and> n \<le> 57) \<or> (97 \<le> n \<and> n \<le> 102) \<or> (65 \<le> n \<and> n \<le> 70))"

definition looksLikeAddress :: "string \<Rightarrow> bool" where
  "looksLikeAddress value0 \<longleftrightarrow>
    (let value = TrimSpace value0 in
     length value = 42 \<and> HasPrefix (ToLower value) ''0x'' \<and> list_all is_hex_char (drop 2 value))"

definition globalErrors :: "Config \<Rightarrow> string option" where
  "globalErrors c = first_error
    [(c_Mode c \<noteq> ModeShadow \<and> c_Mode c \<noteq> ModeLive, ''mode must be shadow or live''),
     (c_PollIntervalMS c < 250, ''poll_interval_ms must be >= 250''),
     (c_Mode c = ModeLive \<and> (c_HeartbeatPath c = [] \<or> c_WatchdogTimeoutSeconds c \<le> 0),
        ''live mode requires heartbeat_path and positive watchdog_timeout_seconds''),
     (c_MarketFailureThreshold c < 0 \<or> c_MarketRecoveryThreshold c < 0 \<or> c_MarketErrorGraceSeconds c < 0 \<or>
        c_TradingProgressTimeoutSeconds c < 0, ''market fault thresholds must not be negative''),
     (c_MaxConcurrentInstruments c < 0 \<or> c_MaxConcurrentInstruments c > 32, ''max_concurrent_instruments must be 0..32''),
     (c_RulesRefreshSeconds c < 0 \<or> (c_RulesRefreshSeconds c > 0 \<and> c_RulesRefreshSeconds c < 30),
        ''rules_refresh_seconds must be zero or at least 30''),
     (c_TradingProgressTimeoutSeconds c > 0 \<and> c_TradingProgressTimeoutSeconds c < 30,
        ''trading progress timeout must be at least 30 seconds''),
     (c_AuditMaxBytes c < 0 \<or> c_AuditBackups c < 0 \<or> c_AuditBackups c > 30, ''audit rotation limits are invalid''),
     (c_AuditMaxBytes c > 0 \<and> c_AuditMaxBytes c < 1048576, ''audit rotation requires at least 1 MiB''),
     (rpc_URLs (c_RPC c) = [], ''at least one rpc url is required''),
     (rpc_ChainID (c_RPC c) = 0, ''rpc.chain_id must be positive''),
     (rpc_RequestTimeoutMS (c_RPC c) \<le> 0, ''rpc.request_timeout_ms must be positive''),
     (c_Instruments c = [], ''at least one instrument is required'')]"

definition about_instrument :: "InstrumentConfig \<Rightarrow> string \<Rightarrow> string" where
  "about_instrument ins text = ''instrument '' @ in_ID ins @ '': '' @ text"

definition sameToken :: "string \<Rightarrow> string \<Rightarrow> bool" where
  "sameToken a b = EqualFold (TrimSpace a) (TrimSpace b)"

definition legErrors :: "InstrumentConfig \<Rightarrow> nat \<Rightarrow> string \<Rightarrow> PairLegConfig \<Rightarrow> string option" where
  "legErrors ins legIndex expectedInput leg = first_error
    [(\<not> looksLikeAddress (leg_PairAddress leg) \<or> \<not> looksLikeAddress (leg_BaseToken leg) \<or> \<not> looksLikeAddress (leg_QuoteToken leg),
        about_instrument ins ''invalid Pancake V2 leg address''),
     (\<not> sameToken (leg_BaseToken leg) expectedInput,
        about_instrument ins (''leg '' @ utoa (legIndex + 1) @ '' base token does not continue the price path'')),
     (leg_ExpectedFactory leg \<noteq> [] \<and> \<not> looksLikeAddress (leg_ExpectedFactory leg), about_instrument ins ''invalid expected factory''),
     (leg_MaxIdleSeconds leg < 0 \<or> Sign (leg_MinQuoteReserve leg) < 0, about_instrument ins ''invalid leg safety limits'')]"

fun pathErrors :: "InstrumentConfig \<Rightarrow> nat \<Rightarrow> string \<Rightarrow> PairLegConfig list \<Rightarrow> string option" where
  "pathErrors ins i expectedInput [] =
     (if \<not> sameToken expectedInput (as_Address (in_Quote ins))
      then Some (about_instrument ins ''price path does not end at quote token'') else None)"
| "pathErrors ins i expectedInput (leg # legs) =
     orElse (legErrors ins i expectedInput leg) (pathErrors ins (Suc i) (leg_QuoteToken leg) legs)"

definition referenceErrors :: "Config \<Rightarrow> (string \<Rightarrow> bool) \<Rightarrow> InstrumentConfig \<Rightarrow> string option" where
  "referenceErrors c seen ins = first_error
    [(TrimSpace (in_ID ins) = [] \<or> seen (in_ID ins), ''instrument id must be unique and non-empty''),
     (\<not> looksLikeAddress (as_Address (in_Base ins)) \<or> \<not> looksLikeAddress (as_Address (in_Quote ins)),
        about_instrument ins ''invalid base or quote token address''),
     (ref_Type (in_Reference ins) \<noteq> ''pancake_v2'', about_instrument ins ''unsupported reference type''),
     (ref_Legs (in_Reference ins) = [], about_instrument ins ''reference legs required''),
     (c_Mode c = ModeLive \<and> ref_AllowSpotDuringWarmup (in_Reference ins),
        about_instrument ins ''live mode forbids allow_spot_during_warmup'')]"

definition outermostSpreadBPS :: "StrategyConfig \<Rightarrow> int" where
  "outermostSpreadBPS s = int64 (st_HalfSpreadBPS s + int64 (int64 (st_Levels s - 1) * st_LevelSpacingBPS s))"

definition sizingErrors :: "InstrumentConfig \<Rightarrow> StrategyConfig \<Rightarrow> string option" where
  "sizingErrors ins s =
    (if UsesOrderNotionalRange s then first_error
       [(\<not> IsPositive (st_MinOrderNotional s) \<or> \<not> IsPositive (st_MaxOrderNotional s),
           about_instrument ins ''minimum and maximum order notional must be positive''),
        (Cmp (st_MaxOrderNotional s) (st_MinOrderNotional s) < 0,
           about_instrument ins ''maximum order notional must be greater than or equal to minimum order notional'')]
     else first_error
       [(\<not> IsPositive (st_OrderSize s), about_instrument ins ''order notional range or legacy order size is required'')])"

definition levelErrors :: "InstrumentConfig \<Rightarrow> StrategyConfig \<Rightarrow> string option" where
  "levelErrors ins s = first_error
    [(ref_TWAPWindowSeconds (in_Reference ins) \<le> 0, about_instrument ins ''twap window must be positive''),
     (st_Levels s < 1 \<or> st_Levels s > MaxStrategyLevels, about_instrument ins (''levels must be 1..'' @ itoa MaxStrategyLevels))]"

definition strategyErrors :: "InstrumentConfig \<Rightarrow> StrategyConfig \<Rightarrow> string option" where
  "strategyErrors ins s = first_error
    [(st_HalfSpreadBPS s < 0 \<or> st_LevelSpacingBPS s < 0 \<or> st_RepriceThresholdBPS s < 0,
        about_instrument ins ''spread, spacing and reprice threshold must not be negative''),
     (st_QuoteRefreshSeconds s < 0 \<or> (st_QuoteRefreshSeconds s > 0 \<and> st_QuoteRefreshSeconds s < 10),
        about_instrument ins ''quote refresh interval must be zero or at least 10 seconds''),
     (st_QuoteRefreshRatioBPS s < 0 \<or> st_QuoteRefreshRatioBPS s > 10000,
        about_instrument ins ''quote refresh ratio must be 0..10000 bps''),
     (st_MinOrderLifetimeSeconds s < 0 \<or> (st_MinOrderLifetimeSeconds s > 0 \<and> st_MinOrderLifetimeSeconds s < 5),
        about_instrument ins ''minimum order lifetime must be zero or at least 5 seconds''),
     (st_MaxOrderLifetimeSeconds s < 0 \<or> (st_MaxOrderLifetimeSeconds s > 0 \<and> st_MaxOrderLifetimeSeconds s < 10),
        about_instrument ins ''maximum order lifetime must be zero or at least 10 seconds''),
     (EffectiveMaxOrderLifetime s < EffectiveMinOrderLifetime s,
        about_instrument ins ''maximum order lifetime must be greater than or equal to minimum order lifetime''),
     (st_FillReplenishMinDelaySeconds s < 0 \<or> st_FillReplenishMinDelaySeconds s > 3600 \<or>
        st_FillReplenishMaxDelaySeconds s < 0 \<or> st_FillReplenishMaxDelaySeconds s > 3600,
        about_instrument ins ''fill replenishment delays must be 0..3600 seconds''),
     (EffectiveFillReplenishMaxDelay s < EffectiveFillReplenishMinDelay s,
        about_instrument ins ''maximum fill replenishment delay must be greater than or equal to minimum fill replenishment delay''),
     (st_PriceJitterTicks s < 0 \<or> st_PriceJitterTicks s > 100, about_instrument ins ''price jitter must be 0..100 ticks''),
     (st_BestLevels s < 0 \<or> st_BestLevels s > st_Levels s, about_instrument ins ''best levels must be 0..levels''),
     (st_BestLevelRefreshSeconds s < 0 \<or>
        (st_BestLevelRefreshSeconds s > 0 \<and> st_BestLevelRefreshSeconds s < EffectiveQuoteRefreshSeconds s),
        about_instrument ins ''best-level refresh interval must not be shorter than the regular refresh interval''),
     (st_BalanceReserveBPS s < 0 \<or> st_BalanceReserveBPS s > 10000, about_instrument ins ''balance reserve must be 0..10000 bps''),
     (st_MaxVenueReferenceDeviationBPS s < 0 \<or> st_MaxVenueReferenceDeviationBPS s > 10000 \<or>
        st_MaxVenueSpreadBPS s < 0 \<or> st_MaxVenueSpreadBPS s > 10000,
        about_instrument ins ''venue price protection limits must be 0..10000 bps''),
     (outermostSpreadBPS s \<ge> 10000, about_instrument ins ''outermost quote spread must be below 10000 bps''),
     (Sign (st_TargetBase s) < 0 \<or> Sign (st_MaxBaseDeviation s) < 0 \<or> st_InventorySkewBPS s < 0,
        about_instrument ins ''inventory controls must not be negative'')]"

definition simulationErrors :: "InstrumentConfig \<Rightarrow> TradeSimulationConfig \<Rightarrow> string option" where
  "simulationErrors ins sim =
    (if \<not> sim_Enabled sim then None else first_error
      [(TrimSpace (sim_SourceVenue sim) = [], about_instrument ins ''trade simulation source venue is required''),
       (\<not> IsPositive (sim_MinQuantity sim) \<or> Cmp (sim_MaxQuantity sim) (sim_MinQuantity sim) < 0,
          about_instrument ins ''trade simulation quantity range is invalid''),
       (sim_MinIntervalMS sim < 100 \<or> sim_MaxIntervalMS sim < sim_MinIntervalMS sim,
          about_instrument ins ''trade simulation interval must be at least 100ms and max >= min''),
       (sim_BuyProbabilityBPS sim < 0 \<or> sim_BuyProbabilityBPS sim > 10000,
          about_instrument ins ''trade simulation buy probability must be 0..10000 bps''),
       (sim_RecentLimit sim < 1 \<or> sim_RecentLimit sim > 200,
          about_instrument ins ''trade simulation recent limit must be 1..200'')])"

definition instrumentErrors :: "Config \<Rightarrow> (string \<Rightarrow> bool) \<Rightarrow> InstrumentConfig \<Rightarrow> string option" where
  "instrumentErrors c seen ins =
    orElse (referenceErrors c seen ins)
    (orElse (pathErrors ins 0 (as_Address (in_Base ins)) (ref_Legs (in_Reference ins)))
    (orElse (levelErrors ins (in_Strategy ins))
    (orElse (sizingErrors ins (in_Strategy ins))
    (orElse (strategyErrors ins (in_Strategy ins))
      (simulationErrors ins (in_TradeSimulation ins))))))"

fun instrumentsLoop :: "Config \<Rightarrow> (string \<Rightarrow> bool) \<Rightarrow> InstrumentConfig list \<Rightarrow> string option" where
  "instrumentsLoop c seen [] = None"
| "instrumentsLoop c seen (ins # rest) =
     orElse (instrumentErrors c seen ins) (instrumentsLoop c (seen(in_ID ins := True)) rest)"

definition about_venue :: "string \<Rightarrow> string \<Rightarrow> string" where
  "about_venue name text = ''venue '' @ name @ '': '' @ text"

definition about_market :: "string \<Rightarrow> string \<Rightarrow> string \<Rightarrow> string" where
  "about_market name ident text = ''venue '' @ name @ '' market '' @ ident @ '': '' @ text"

definition isHttps :: "UrlParser \<Rightarrow> string \<Rightarrow> bool" where
  "isHttps parse text = (case parse text of None \<Rightarrow> False | Some u \<Rightarrow> url_Scheme u = ''https'' \<and> url_Host u \<noteq> [])"

definition hostnameOf :: "UrlParser \<Rightarrow> string \<Rightarrow> string" where
  "hostnameOf parse text = (case parse text of None \<Rightarrow> [] | Some u \<Rightarrow> url_Hostname u)"

definition endpointErrors :: "UrlParser \<Rightarrow> string \<Rightarrow> VenueConfig \<Rightarrow> AdapterSpec \<Rightarrow> string option" where
  "endpointErrors parse name v adapter = first_error
    [(v_BaseURL v = [], about_venue name ''base_url required''),
     (v_Environment v \<noteq> [] \<and> v_Environment v \<noteq> ''production'' \<and> v_Environment v \<noteq> ''testnet'',
        about_venue name ''environment must be production or testnet''),
     (\<not> isHttps parse (v_BaseURL v), about_venue name ''base_url must be an https URL''),
     (v_Environment v = ''testnet'' \<and> asp_TestnetBaseURL adapter \<noteq> [] \<and>
        \<not> EqualFold (hostnameOf parse (v_BaseURL v)) (hostnameOf parse (asp_TestnetBaseURL adapter)),
        about_venue name (asp_Name adapter @ '' testnet must use '' @ asp_TestnetBaseURL adapter)),
     (asp_RequiresSelfTradePrevention adapter \<and> v_TradingEnabled v \<and>
        (v_SelfTradePrevention v = [] \<or> EqualFold (v_SelfTradePrevention v) ''NONE''),
        about_venue name (asp_Name adapter @ '' trading requires self-trade prevention'')),
     (asp_RequiresDedicatedAccount adapter \<and> v_TradingEnabled v \<and> \<not> v_DedicatedAccount v,
        about_venue name (asp_Name adapter @ '' live trading requires dedicated_account=true''))]"

definition marketErrors :: "Config \<Rightarrow> (string \<Rightarrow> bool) \<Rightarrow> string \<Rightarrow> VenueConfig \<Rightarrow> string \<Rightarrow> VenueMarketConfig \<Rightarrow> string option" where
  "marketErrors c seen name v ident m = first_error
    [(\<not> seen ident, about_venue name (''market references unknown instrument '' @ ident)),
     (m_Symbol m = [] \<or> m_BaseAsset m = [] \<or> m_QuoteAsset m = [] \<or> \<not> IsPositive (m_PriceTick m) \<or>
        \<not> IsPositive (m_QuantityStep m) \<or> \<not> IsPositive (m_MinNotional m), about_market name ident ''invalid symbol/ticks''),
     (Sign (m_MaxBaseCommitment m) < 0 \<or> Sign (m_MaxQuoteCommitment m) < 0,
        about_market name ident ''commitment limits must not be negative''),
     (c_Mode c = ModeLive \<and> v_TradingEnabled v \<and> m_CredentialID m \<le> 0,
        about_market name ident ''credential is required for live trading'')]"

fun marketsLoop :: "Config \<Rightarrow> (string \<Rightarrow> bool) \<Rightarrow> string \<Rightarrow> VenueConfig \<Rightarrow> (string \<times> VenueMarketConfig) list \<Rightarrow> string option" where
  "marketsLoop c seen name v [] = None"
| "marketsLoop c seen name v ((ident, m) # rest) =
     orElse (marketErrors c seen name v ident m) (marketsLoop c seen name v rest)"

definition venueErrors :: "UrlParser \<Rightarrow> Config \<Rightarrow> (string \<Rightarrow> bool) \<Rightarrow> string \<Rightarrow> VenueConfig \<Rightarrow> string option" where
  "venueErrors parse c seen name v =
    (if \<not> v_Enabled v then None
     else case AdapterSpecFor (v_Type v) of
       None \<Rightarrow> Some (about_venue name ''unsupported type'')
     | Some adapter \<Rightarrow> orElse (endpointErrors parse name v adapter) (marketsLoop c seen name v (v_Markets v)))"

fun venuesLoop :: "UrlParser \<Rightarrow> Config \<Rightarrow> (string \<Rightarrow> bool) \<Rightarrow> (string \<times> VenueConfig) list \<Rightarrow> string option" where
  "venuesLoop parse c seen [] = None"
| "venuesLoop parse c seen ((name, v) # rest) =
     orElse (venueErrors parse c seen name v) (venuesLoop parse c seen rest)"

text \<open>The counts \<^verbatim>\<open>enabledMarkets\<close> and \<^verbatim>\<open>marketsByInstrument\<close>.\<close>

definition enabledMarketIDs :: "Config \<Rightarrow> string list" where
  "enabledMarketIDs c = concat (map (\<lambda>(_, v). if v_Enabled v then map fst (v_Markets v) else []) (c_Venues c))"

definition coverageErrors :: "Config \<Rightarrow> InstrumentConfig \<Rightarrow> string option" where
  "coverageErrors c ins =
    (let sim = in_TradeSimulation ins; source = sim_SourceVenue sim in
     if in_ID ins \<notin> set (enabledMarketIDs c) then Some (''instrument '' @ in_ID ins @ '' has no enabled venue market'')
     else if sim_Enabled sim then
       (case map_of (c_Venues c) source of
          None \<Rightarrow> Some (about_instrument ins (''trade simulation source venue '' @ source @ '' is not enabled''))
        | Some v \<Rightarrow>
            if \<not> v_Enabled v then Some (about_instrument ins (''trade simulation source venue '' @ source @ '' is not enabled''))
            else if map_of (v_Markets v) (in_ID ins) = None
            then Some (about_instrument ins (''trade simulation source venue '' @ source @ '' has no market mapping''))
            else None)
     else None)"

fun coverageLoop :: "Config \<Rightarrow> InstrumentConfig list \<Rightarrow> string option" where
  "coverageLoop c [] = None"
| "coverageLoop c (ins # rest) = orElse (coverageErrors c ins) (coverageLoop c rest)"

definition Validate :: "UrlParser \<Rightarrow> Config \<Rightarrow> string option" where
  "Validate parse c =
    orElse (globalErrors c)
    (orElse (instrumentsLoop c (\<lambda>_. False) (c_Instruments c))
    (orElse (venuesLoop parse c (\<lambda>ident. ident \<in> in_ID ` set (c_Instruments c)) (c_Venues c))
    (orElse (if enabledMarketIDs c = [] then Some ''at least one enabled venue market is required'' else None)
      (coverageLoop c (c_Instruments c)))))"

definition ValidateRuntime :: "UrlParser \<Rightarrow> Config \<Rightarrow> string option" where
  "ValidateRuntime parse c = Validate parse c"

section \<open>Normalisation and validation\<close>

lemma first_error_None: "first_error checks = None \<longleftrightarrow> list_all (\<lambda>c. \<not> fst c) checks"
  by (induction checks) (auto simp: first_error_def)

lemma orElse_None [simp]: "orElse a b = None \<longleftrightarrow> a = None \<and> b = None"
  by (simp add: orElse_def split: option.split)

lemma orElse_cong: "a = a' \<Longrightarrow> (a' = None \<Longrightarrow> b = b') \<Longrightarrow> orElse a b = orElse a' b'"
  by (simp add: orElse_def split: option.split)

lemma normalize_effective [simp]:
  "EffectiveMinOrderLifetime (normalize_strategy s) = EffectiveMinOrderLifetime s"
  "EffectiveMaxOrderLifetime (normalize_strategy s) = EffectiveMaxOrderLifetime s"
  "EffectiveFillReplenishMinDelay (normalize_strategy s) = EffectiveFillReplenishMinDelay s"
  "EffectiveFillReplenishMaxDelay (normalize_strategy s) = EffectiveFillReplenishMaxDelay s"
  "EffectiveQuoteRefreshSeconds (normalize_strategy s) = EffectiveQuoteRefreshSeconds s"
  "EffectiveQuoteRefreshRatioBPS (normalize_strategy s) = EffectiveQuoteRefreshRatioBPS s"
  "EffectivePriceJitterTicks (normalize_strategy s) = EffectivePriceJitterTicks s"
  by (simp_all add: EffectiveMinOrderLifetime_def EffectiveMaxOrderLifetime_def EffectiveFillReplenishMinDelay_def
      EffectiveFillReplenishMaxDelay_def EffectiveQuoteRefreshSeconds_def EffectiveQuoteRefreshRatioBPS_def
      EffectivePriceJitterTicks_def normalize_strategy_def or_default_def Let_def)

lemma normalize_untouched [simp]:
  "st_Levels (normalize_strategy s) = st_Levels s" "st_HalfSpreadBPS (normalize_strategy s) = st_HalfSpreadBPS s"
  "st_LevelSpacingBPS (normalize_strategy s) = st_LevelSpacingBPS s"
  "st_RepriceThresholdBPS (normalize_strategy s) = st_RepriceThresholdBPS s"
  "st_BalanceReserveBPS (normalize_strategy s) = st_BalanceReserveBPS s"
  "st_MaxVenueReferenceDeviationBPS (normalize_strategy s) = st_MaxVenueReferenceDeviationBPS s"
  "st_MaxVenueSpreadBPS (normalize_strategy s) = st_MaxVenueSpreadBPS s"
  "st_TargetBase (normalize_strategy s) = st_TargetBase s" "st_MaxBaseDeviation (normalize_strategy s) = st_MaxBaseDeviation s"
  "st_InventorySkewBPS (normalize_strategy s) = st_InventorySkewBPS s"
  "st_MinOrderNotional (normalize_strategy s) = st_MinOrderNotional s" "st_MaxOrderNotional (normalize_strategy s) = st_MaxOrderNotional s"
  "outermostSpreadBPS (normalize_strategy s) = outermostSpreadBPS s" "UsesOrderNotionalRange (normalize_strategy s) = UsesOrderNotionalRange s"
  by (simp_all add: normalize_strategy_def outermostSpreadBPS_def UsesOrderNotionalRange_def Let_def)

lemma normalize_ranges:
  fixes s defines "n \<equiv> normalize_strategy s"
  shows "(st_QuoteRefreshSeconds n < 0 \<or> (st_QuoteRefreshSeconds n > 0 \<and> st_QuoteRefreshSeconds n < 10)) \<longleftrightarrow>
      (st_QuoteRefreshSeconds s < 0 \<or> (st_QuoteRefreshSeconds s > 0 \<and> st_QuoteRefreshSeconds s < 10))"
    "(st_QuoteRefreshRatioBPS n < 0 \<or> st_QuoteRefreshRatioBPS n > 10000) \<longleftrightarrow> (st_QuoteRefreshRatioBPS s < 0 \<or> st_QuoteRefreshRatioBPS s > 10000)"
    "(st_MinOrderLifetimeSeconds n < 0 \<or> (st_MinOrderLifetimeSeconds n > 0 \<and> st_MinOrderLifetimeSeconds n < 5)) \<longleftrightarrow>
      (st_MinOrderLifetimeSeconds s < 0 \<or> (st_MinOrderLifetimeSeconds s > 0 \<and> st_MinOrderLifetimeSeconds s < 5))"
    "(st_MaxOrderLifetimeSeconds n < 0 \<or> (st_MaxOrderLifetimeSeconds n > 0 \<and> st_MaxOrderLifetimeSeconds n < 10)) \<longleftrightarrow>
      (st_MaxOrderLifetimeSeconds s < 0 \<or> (st_MaxOrderLifetimeSeconds s > 0 \<and> st_MaxOrderLifetimeSeconds s < 10))"
    "(st_FillReplenishMinDelaySeconds n < 0 \<or> st_FillReplenishMinDelaySeconds n > 3600 \<or>
        st_FillReplenishMaxDelaySeconds n < 0 \<or> st_FillReplenishMaxDelaySeconds n > 3600) \<longleftrightarrow>
      (st_FillReplenishMinDelaySeconds s < 0 \<or> st_FillReplenishMinDelaySeconds s > 3600 \<or>
        st_FillReplenishMaxDelaySeconds s < 0 \<or> st_FillReplenishMaxDelaySeconds s > 3600)"
    "(st_PriceJitterTicks n < 0 \<or> st_PriceJitterTicks n > 100) \<longleftrightarrow> (st_PriceJitterTicks s < 0 \<or> st_PriceJitterTicks s > 100)"
    "(st_BestLevelRefreshSeconds n < 0 \<or> (st_BestLevelRefreshSeconds n > 0 \<and> st_BestLevelRefreshSeconds n < EffectiveQuoteRefreshSeconds s)) \<longleftrightarrow>
      (st_BestLevelRefreshSeconds s < 0 \<or> (st_BestLevelRefreshSeconds s > 0 \<and> st_BestLevelRefreshSeconds s < EffectiveQuoteRefreshSeconds s))"
    "1 \<le> st_Levels s \<Longrightarrow> (st_BestLevels n < 0 \<or> st_BestLevels n > st_Levels s) \<longleftrightarrow> (st_BestLevels s < 0 \<or> st_BestLevels s > st_Levels s)"
  unfolding n_def by (auto simp: normalize_strategy_def or_default_def EffectiveQuoteRefreshSeconds_def Let_def)

lemma strategyErrors_normalize:
  "1 \<le> st_Levels s \<Longrightarrow> strategyErrors ins (normalize_strategy s) = strategyErrors ins s"
  unfolding strategyErrors_def by (simp only: normalize_effective normalize_untouched normalize_ranges)

lemma sizingErrors_normalize: "sizingErrors ins (normalize_strategy s) = sizingErrors ins s"
  by (simp add: sizingErrors_def UsesOrderNotionalRange_def normalize_strategy_def Let_def)

lemma strategy_part_normalize:
  "orElse (levelErrors ins (normalize_strategy s)) (orElse (sizingErrors ins (normalize_strategy s)) (orElse (strategyErrors ins (normalize_strategy s)) e)) =
   orElse (levelErrors ins s) (orElse (sizingErrors ins s) (orElse (strategyErrors ins s) e))"
proof (rule orElse_cong)
  show "levelErrors ins (normalize_strategy s) = levelErrors ins s" by (simp add: levelErrors_def)
  assume "levelErrors ins s = None"
  then have "1 \<le> st_Levels s" by (simp add: levelErrors_def first_error_None)
  then show "orElse (sizingErrors ins (normalize_strategy s)) (orElse (strategyErrors ins (normalize_strategy s)) e) =
      orElse (sizingErrors ins s) (orElse (strategyErrors ins s) e)"
    by (simp add: sizingErrors_normalize strategyErrors_normalize)
qed


lemma about_instrument_strategy [simp]: "about_instrument (ins\<lparr>in_Strategy := x\<rparr>) = about_instrument ins"
  by (simp add: about_instrument_def fun_eq_iff)

lemma errors_strategy [simp]:
  "referenceErrors c seen (ins\<lparr>in_Strategy := x\<rparr>) = referenceErrors c seen ins"
  "legErrors (ins\<lparr>in_Strategy := x\<rparr>) = legErrors ins"
  "levelErrors (ins\<lparr>in_Strategy := x\<rparr>) s = levelErrors ins s"
  "sizingErrors (ins\<lparr>in_Strategy := x\<rparr>) s = sizingErrors ins s"
  "strategyErrors (ins\<lparr>in_Strategy := x\<rparr>) s = strategyErrors ins s"
  "simulationErrors (ins\<lparr>in_Strategy := x\<rparr>) m = simulationErrors ins m"
  by (simp_all add: referenceErrors_def legErrors_def levelErrors_def sizingErrors_def strategyErrors_def simulationErrors_def fun_eq_iff)

lemma pathErrors_strategy [simp]: "pathErrors (ins\<lparr>in_Strategy := x\<rparr>) i e legs = pathErrors ins i e legs"
  by (induction legs arbitrary: i e) simp_all

lemma instrumentErrors_normalize:
  "instrumentErrors c seen (ins\<lparr>in_Strategy := normalize_strategy (in_Strategy ins)\<rparr>) = instrumentErrors c seen ins"
  by (simp add: instrumentErrors_def strategy_part_normalize)

lemma instrumentErrors_instruments [simp]:
  "instrumentErrors (c\<lparr>c_Instruments := x\<rparr>) seen ins = instrumentErrors c seen ins"
  by (simp add: instrumentErrors_def referenceErrors_def)

lemma instrumentsLoop_normalize:
  "instrumentsLoop (c\<lparr>c_Instruments := x\<rparr>) seen (map (\<lambda>i. i\<lparr>in_Strategy := normalize_strategy (in_Strategy i)\<rparr>) ins) =
   instrumentsLoop c seen ins"
  by (induction ins arbitrary: seen) (simp_all add: instrumentErrors_normalize)

lemma marketsLoop_instruments [simp]:
  "marketsLoop (c\<lparr>c_Instruments := x\<rparr>) seen name v ms = marketsLoop c seen name v ms"
  by (induction ms) (auto simp: marketErrors_def)

lemma venuesLoop_instruments [simp]:
  "venuesLoop parse (c\<lparr>c_Instruments := x\<rparr>) seen vs = venuesLoop parse c seen vs"
  by (induction vs) (auto simp: venueErrors_def split: option.split)

lemma enabledMarketIDs_instruments [simp]: "enabledMarketIDs (c\<lparr>c_Instruments := x\<rparr>) = enabledMarketIDs c"
  by (simp add: enabledMarketIDs_def)

lemma coverageErrors_strategy [simp]:
  "coverageErrors (c\<lparr>c_Instruments := x\<rparr>) (ins\<lparr>in_Strategy := y\<rparr>) = coverageErrors c ins"
  by (auto simp: coverageErrors_def Let_def split: option.split)

lemma coverageLoop_normalize:
  "coverageLoop (c\<lparr>c_Instruments := x\<rparr>) (map (\<lambda>i. i\<lparr>in_Strategy := normalize_strategy (in_Strategy i)\<rparr>) ins) = coverageLoop c ins"
  by (induction ins) simp_all

text \<open>C37: Filling in the defaults of a configuration neither makes a rejected configuration acceptable nor
  an accepted one unacceptable, the verdict and its message are the same, and filling in twice changes nothing more.\<close>

theorem Validate_NormalizeStrategySizing:
  "Validate parse (NormalizeStrategySizing c) = Validate parse c \<and>
   NormalizeStrategySizing (NormalizeStrategySizing c) = NormalizeStrategySizing c"
proof
  let ?ins = "map (\<lambda>i. i\<lparr>in_Strategy := normalize_strategy (in_Strategy i)\<rparr>) (c_Instruments c)"
  have n: "NormalizeStrategySizing c = c\<lparr>c_Instruments := ?ins\<rparr>" by (simp add: NormalizeStrategySizing_def)
  have sel: "c_Instruments (c\<lparr>c_Instruments := ?ins\<rparr>) = ?ins" "c_Venues (c\<lparr>c_Instruments := ?ins\<rparr>) = c_Venues c" by simp_all
  have g: "globalErrors (c\<lparr>c_Instruments := ?ins\<rparr>) = globalErrors c" by (simp add: globalErrors_def)
  have ids: "(\<lambda>x. x \<in> in_ID ` set ?ins) = (\<lambda>x. x \<in> in_ID ` set (c_Instruments c))" by (auto simp: image_iff)
  show "Validate parse (NormalizeStrategySizing c) = Validate parse c"
    unfolding n Validate_def g sel venuesLoop_instruments coverageLoop_normalize instrumentsLoop_normalize ids
      enabledMarketIDs_instruments ..
  show "NormalizeStrategySizing (NormalizeStrategySizing c) = NormalizeStrategySizing c"
    by (simp add: NormalizeStrategySizing_def comp_def normalize_strategy_idem)
qed


section \<open>What validation guarantees\<close>

lemma instrumentsLoop_None:
  assumes "instrumentsLoop c seen ins = None"
  shows "\<forall>i \<in> set ins. \<exists>seen'. instrumentErrors c seen' i = None" "distinct (map in_ID ins)" "\<forall>i \<in> set ins. \<not> seen (in_ID i)"
proof -
  have "(\<forall>i \<in> set ins. \<exists>seen'. instrumentErrors c seen' i = None) \<and> distinct (map in_ID ins) \<and> (\<forall>i \<in> set ins. \<not> seen (in_ID i))"
    using assms
  proof (induction ins arbitrary: seen)
    case (Cons i ins)
    have e: "instrumentErrors c seen i = None" and l: "instrumentsLoop c (seen(in_ID i := True)) ins = None"
      using Cons.prems by auto
    have "\<not> seen (in_ID i)" using e by (simp add: instrumentErrors_def referenceErrors_def first_error_None)
    with Cons.IH [OF l] e show ?case by (auto split: if_splits)
  qed simp
  then show "\<forall>i \<in> set ins. \<exists>seen'. instrumentErrors c seen' i = None" "distinct (map in_ID ins)" "\<forall>i \<in> set ins. \<not> seen (in_ID i)"
    by auto
qed

lemma marketsLoop_None: "marketsLoop c seen name v ms = None \<Longrightarrow> (i, m) \<in> set ms \<Longrightarrow> marketErrors c seen name v i m = None"
  by (induction ms) auto

lemma venuesLoop_None: "venuesLoop parse c seen vs = None \<Longrightarrow> (name, v) \<in> set vs \<Longrightarrow> venueErrors parse c seen name v = None"
  by (induction vs) auto

lemma coverageLoop_None: "coverageLoop c ins = None \<Longrightarrow> i \<in> set ins \<Longrightarrow> coverageErrors c i = None"
  by (induction ins) auto

lemma validated_instrument:
  assumes "Validate parse c = None" "ins \<in> set (c_Instruments c)"
  obtains seen where "instrumentErrors c seen ins = None"
  using assms instrumentsLoop_None(1) [of c "\<lambda>_. False" "c_Instruments c"] by (auto simp: Validate_def)

lemma validated_venue:
  assumes "Validate parse c = None" "(name, v) \<in> set (c_Venues c)" "v_Enabled v"
  obtains adapter where "AdapterSpecFor (v_Type v) = Some adapter" "endpointErrors parse name v adapter = None"
    "marketsLoop c (\<lambda>i. i \<in> in_ID ` set (c_Instruments c)) name v (v_Markets v) = None"
proof -
  have "venueErrors parse c (\<lambda>i. i \<in> in_ID ` set (c_Instruments c)) name v = None"
    using assms(1) venuesLoop_None [OF _ assms(2)] by (simp add: Validate_def)
  with assms(3) that show thesis by (auto simp: venueErrors_def split: option.splits)
qed

lemma validated_market:
  assumes "Validate parse c = None" "(name, v) \<in> set (c_Venues c)" "v_Enabled v" "(i, m) \<in> set (v_Markets v)"
  shows "i \<in> in_ID ` set (c_Instruments c)" "0 < m_PriceTick m" "0 < m_QuantityStep m" "0 < m_MinNotional m"
    "0 \<le> m_MaxBaseCommitment m" "0 \<le> m_MaxQuoteCommitment m"
    "c_Mode c = ModeLive \<and> v_TradingEnabled v \<Longrightarrow> 0 < m_CredentialID m"
proof -
  from validated_venue [OF assms(1-3)] have "marketsLoop c (\<lambda>i. i \<in> in_ID ` set (c_Instruments c)) name v (v_Markets v) = None" .
  from marketsLoop_None [OF this assms(4)]
  show "i \<in> in_ID ` set (c_Instruments c)" "0 < m_PriceTick m" "0 < m_QuantityStep m" "0 < m_MinNotional m"
    "0 \<le> m_MaxBaseCommitment m" "0 \<le> m_MaxQuoteCommitment m"
    "c_Mode c = ModeLive \<and> v_TradingEnabled v \<Longrightarrow> 0 < m_CredentialID m"
    by (auto simp: marketErrors_def first_error_None)
qed

lemma outermost_exact:
  assumes "1 \<le> st_Levels s" "st_Levels s \<le> 100" "0 \<le> st_LevelSpacingBPS s" "st_LevelSpacingBPS s < 2 ^ 55"
    "0 \<le> st_HalfSpreadBPS s" "st_HalfSpreadBPS s < 2 ^ 61"
  shows "outermostSpreadBPS s = st_HalfSpreadBPS s + (st_Levels s - 1) * st_LevelSpacingBPS s"
proof -
  let ?p = "(st_Levels s - 1) * st_LevelSpacingBPS s"
  have "?p \<le> 99 * 2 ^ 55" using assms by (intro mult_mono) auto
  then have p: "0 \<le> ?p" "?p < 2 ^ 62" using assms by auto
  obtain q where q: "q = ?p" by simp
  have "int64 (st_Levels s - 1) = st_Levels s - 1" "int64 q = q" "int64 (st_HalfSpreadBPS s + q) = st_HalfSpreadBPS s + q"
    using assms p [folded q] by (auto intro!: int64_id)
  then show ?thesis by (simp add: outermostSpreadBPS_def q)
qed

text \<open>C23: For every market of a validated configuration the strategy does not panic, whatever the reference
  price, the inventory and the clocks, provided the inventory skew is at most 100%, the spread parameters are small
  enough for their 64-bit sum and an ask of the book is at least one tick.\<close>

theorem validated_strategy_no_panic:
  assumes v: "Validate parse c = None" "ins \<in> set (c_Instruments c)"
    and m: "(name, vc) \<in> set (c_Venues c)" "v_Enabled vc" "(in_ID ins, market) \<in> set (v_Markets vc)"
    and skew: "st_InventorySkewBPS (in_Strategy ins) \<le> 10000"
    and small: "st_LevelSpacingBPS (in_Strategy ins) < 2 ^ 55" "st_HalfSpreadBPS (in_Strategy ins) < 2 ^ 61"
    and ask: "HasAsk book \<Longrightarrow> m_PriceTick market \<le> b_AskPrice book"
  shows "GenerateAt ins name market ref book inventory now clock \<noteq> Inl Panic"
proof -
  obtain seen where e: "instrumentErrors c seen ins = None" using validated_instrument [OF v] .
  let ?s = "in_Strategy ins"
  have l: "1 \<le> st_Levels ?s" "st_Levels ?s \<le> 100"
    using e by (auto simp: instrumentErrors_def levelErrors_def first_error_None)
  have s: "0 \<le> st_HalfSpreadBPS ?s" "0 \<le> st_LevelSpacingBPS ?s" "outermostSpreadBPS ?s < 10000"
    using e by (auto simp: instrumentErrors_def strategyErrors_def first_error_None)
  have z: "\<not> UsesOrderNotionalRange ?s \<longrightarrow> 0 \<le> st_OrderSize ?s"
    using e by (auto simp: instrumentErrors_def sizingErrors_def first_error_None)
  note mk = validated_market [OF v(1) m]
  have "strategy_domain ?s market book"
    unfolding strategy_domain_def using l s z mk skew ask outermost_exact [OF l s(2) small(1) s(1) small(2)]
    by (auto simp: effectiveMinimum_def)
  then show ?thesis by (rule no_panic_in_domain)
qed


text \<open>A chain of legs leads from one token to another, up to case and surrounding space.\<close>

fun price_path :: "string \<Rightarrow> PairLegConfig list \<Rightarrow> string \<Rightarrow> bool" where
  "price_path a [] b \<longleftrightarrow> ToLower (TrimSpace a) = ToLower (TrimSpace b)"
| "price_path a (leg # legs) b \<longleftrightarrow>
     ToLower (TrimSpace (leg_BaseToken leg)) = ToLower (TrimSpace a) \<and> price_path (leg_QuoteToken leg) legs b"

lemma pathErrors_None:
  "pathErrors ins i a legs = None \<Longrightarrow> price_path a legs (as_Address (in_Quote ins)) \<and>
     list_all (\<lambda>l. looksLikeAddress (leg_PairAddress l) \<and> 0 \<le> leg_MaxIdleSeconds l \<and> 0 \<le> leg_MinQuoteReserve l) legs"
  by (induction ins i a legs rule: pathErrors.induct)
     (auto simp: sameToken_def EqualFold_def legErrors_def first_error_None split: if_splits)

text \<open>C22: In a validated configuration instrument ids are distinct; every instrument is priced by a non-empty
  chain of pairs from its base to its quote token and has a market on an enabled venue; every market of an enabled
  venue belongs to a configured instrument, has positive price and quantity steps and a positive minimal notional;
  a venue is enabled only with a supported adapter; in live mode no instrument may quote from the spot price, and a
  venue that trades names a credential for each market, prevents self-trades and owns a dedicated account where its
  adapter requires it.\<close>

theorem validated_config:
  assumes v: "Validate parse c = None"
  shows "distinct (map in_ID (c_Instruments c)) \<and>
    (\<forall>ins \<in> set (c_Instruments c).
       ref_Legs (in_Reference ins) \<noteq> [] \<and> price_path (as_Address (in_Base ins)) (ref_Legs (in_Reference ins)) (as_Address (in_Quote ins)) \<and>
       (c_Mode c = ModeLive \<longrightarrow> \<not> ref_AllowSpotDuringWarmup (in_Reference ins)) \<and>
       (\<exists>(name, vc) \<in> set (c_Venues c). v_Enabled vc \<and> in_ID ins \<in> fst ` set (v_Markets vc))) \<and>
    (\<forall>(name, vc) \<in> set (c_Venues c). v_Enabled vc \<longrightarrow>
       (\<exists>adapter. AdapterSpecFor (v_Type vc) = Some adapter \<and>
          (v_TradingEnabled vc \<and> asp_RequiresSelfTradePrevention adapter \<longrightarrow> v_SelfTradePrevention vc \<noteq> []) \<and>
          (v_TradingEnabled vc \<and> asp_RequiresDedicatedAccount adapter \<longrightarrow> v_DedicatedAccount vc)) \<and>
       (\<forall>(i, m) \<in> set (v_Markets vc). i \<in> in_ID ` set (c_Instruments c) \<and> 0 < m_PriceTick m \<and> 0 < m_QuantityStep m \<and>
          0 < m_MinNotional m \<and> (c_Mode c = ModeLive \<and> v_TradingEnabled vc \<longrightarrow> 0 < m_CredentialID m)))"
proof (intro conjI ballI)
  show "distinct (map in_ID (c_Instruments c))" using v instrumentsLoop_None(2) by (auto simp: Validate_def)
next
  fix ins assume i: "ins \<in> set (c_Instruments c)"
  obtain seen where e: "instrumentErrors c seen ins = None" using validated_instrument [OF v i] .
  then have p: "pathErrors ins 0 (as_Address (in_Base ins)) (ref_Legs (in_Reference ins)) = None" by (simp add: instrumentErrors_def)
  from e show "ref_Legs (in_Reference ins) \<noteq> []" "c_Mode c = ModeLive \<longrightarrow> \<not> ref_AllowSpotDuringWarmup (in_Reference ins)"
    by (auto simp: instrumentErrors_def referenceErrors_def first_error_None)
  show "price_path (as_Address (in_Base ins)) (ref_Legs (in_Reference ins)) (as_Address (in_Quote ins))"
    using pathErrors_None [OF p] by simp
  have "coverageErrors c ins = None" using v coverageLoop_None [OF _ i] by (simp add: Validate_def)
  then have "in_ID ins \<in> set (enabledMarketIDs c)" by (auto simp: coverageErrors_def Let_def split: if_splits)
  then show "\<exists>(name, vc) \<in> set (c_Venues c). v_Enabled vc \<and> in_ID ins \<in> fst ` set (v_Markets vc)"
    by (auto simp: enabledMarketIDs_def split: if_splits)
next
  fix nv assume nv: "nv \<in> set (c_Venues c)"
  obtain name vc where n: "nv = (name, vc)" by fastforce
  have "\<exists>adapter. AdapterSpecFor (v_Type vc) = Some adapter \<and>
          (v_TradingEnabled vc \<and> asp_RequiresSelfTradePrevention adapter \<longrightarrow> v_SelfTradePrevention vc \<noteq> []) \<and>
          (v_TradingEnabled vc \<and> asp_RequiresDedicatedAccount adapter \<longrightarrow> v_DedicatedAccount vc)" if on: "v_Enabled vc"
    using validated_venue [OF v nv [unfolded n] on] by (auto simp: endpointErrors_def first_error_None)
  moreover have "\<forall>(i, m) \<in> set (v_Markets vc). i \<in> in_ID ` set (c_Instruments c) \<and> 0 < m_PriceTick m \<and> 0 < m_QuantityStep m \<and>
          0 < m_MinNotional m \<and> (c_Mode c = ModeLive \<and> v_TradingEnabled vc \<longrightarrow> 0 < m_CredentialID m)" if on: "v_Enabled vc"
    using validated_market [OF v nv [unfolded n] on] by blast
  ultimately show "case nv of (name, vc) \<Rightarrow> v_Enabled vc \<longrightarrow>
       (\<exists>adapter. AdapterSpecFor (v_Type vc) = Some adapter \<and>
          (v_TradingEnabled vc \<and> asp_RequiresSelfTradePrevention adapter \<longrightarrow> v_SelfTradePrevention vc \<noteq> []) \<and>
          (v_TradingEnabled vc \<and> asp_RequiresDedicatedAccount adapter \<longrightarrow> v_DedicatedAccount vc)) \<and>
       (\<forall>(i, m) \<in> set (v_Markets vc). i \<in> in_ID ` set (c_Instruments c) \<and> 0 < m_PriceTick m \<and> 0 < m_QuantityStep m \<and>
          0 < m_MinNotional m \<and> (c_Mode c = ModeLive \<and> v_TradingEnabled vc \<longrightarrow> 0 < m_CredentialID m))"
    by (simp add: n)
qed

section \<open>Witnesses\<close>

definition sample_address :: "char \<Rightarrow> string" where "sample_address ch = ''0x'' @ replicate 40 ch"

definition sample_leg :: PairLegConfig where
  "sample_leg = \<lparr>leg_PairAddress = sample_address (CHR ''c''), leg_ExpectedFactory = [], leg_BaseToken = sample_address (CHR ''a''),
     leg_QuoteToken = sample_address (CHR ''b''), leg_MinQuoteReserve = 0, leg_MaxIdleSeconds = 0\<rparr>"

definition valid_instrument :: InstrumentConfig where
  "valid_instrument = sample_instrument\<lparr>in_Base := \<lparr>as_Symbol = ''B'', as_Address = sample_address (CHR ''a''), as_Decimals = 18\<rparr>,
     in_Quote := \<lparr>as_Symbol = ''USDT'', as_Address = sample_address (CHR ''b''), as_Decimals = 18\<rparr>,
     in_Reference := (in_Reference sample_instrument)\<lparr>ref_Legs := [sample_leg]\<rparr>\<rparr>"

definition sample_venue :: VenueConfig where
  "sample_venue = \<lparr>v_Type = ''binance'', v_Environment = ''production'', v_Enabled = True, v_TradingEnabled = True,
     v_DedicatedAccount = False, v_BaseURL = ''https://x'', v_SelfTradePrevention = ''EXPIRE_BOTH'',
     v_Markets = [(''i'', sample_market\<lparr>m_CredentialID := 1\<rparr>)]\<rparr>"

definition sample_config :: "InstrumentConfig \<Rightarrow> Config" where
  "sample_config ins = \<lparr>c_Mode = ModeLive, c_PollIntervalMS = 1000, c_AuditPath = [], c_AuditMaxBytes = 0, c_AuditBackups = 0,
     c_HeartbeatPath = ''h'', c_WatchdogTimeoutSeconds = 30, c_MarketFailureThreshold = 3, c_MarketRecoveryThreshold = 3,
     c_MarketErrorGraceSeconds = 0, c_TradingProgressTimeoutSeconds = 0, c_MaxConcurrentInstruments = 4, c_RulesRefreshSeconds = 0,
     c_RPC = \<lparr>rpc_URLs = [''u''], rpc_ChainID = 56, rpc_RequestTimeoutMS = 1000\<rparr>, c_Instruments = [ins],
     c_Venues = [(''v'', sample_venue)]\<rparr>"

definition sample_parser :: UrlParser where
  "sample_parser text = Some \<lparr>url_Scheme = ''https'', url_Host = ''x'', url_Hostname = ''x''\<rparr>"

lemma sample_valid: "Validate sample_parser (sample_config valid_instrument) = None"
  by code_simp


theorem validated_config_witness:
  "Validate sample_parser (sample_config valid_instrument) = None \<and>
   price_path (sample_address (CHR ''a'')) [sample_leg] (sample_address (CHR ''b''))"
  using validated_config [OF sample_valid] sample_valid by (simp add: sample_config_def valid_instrument_def)

theorem validated_strategy_no_panic_witness:
  "GenerateAt valid_instrument ''v'' (sample_market\<lparr>m_CredentialID := 1\<rparr>) sample_reference sample_book 50 sample_now sample_now \<noteq> Inl Panic"
  by (rule validated_strategy_no_panic [OF sample_valid, where vc = sample_venue])
    (simp_all add: sample_config_def sample_venue_def valid_instrument_def sample_defs)

text \<open>Validation bounds the inventory skew from below only: a skew above 100% is accepted, and the strategy
  panics on the negative price it leads to.\<close>

definition skewed_instrument :: InstrumentConfig where
  "skewed_instrument = valid_instrument\<lparr>in_Strategy := sample_strategy\<lparr>st_InventorySkewBPS := 20000\<rparr>\<rparr>"

theorem validated_skew_panics:
  "Validate sample_parser (sample_config skewed_instrument) = None \<and>
   GenerateAt skewed_instrument ''v'' sample_market sample_reference sample_book 100 sample_now sample_now = Inl Panic"
proof
  show "Validate sample_parser (sample_config skewed_instrument) = None" by code_simp
  show "GenerateAt skewed_instrument ''v'' sample_market sample_reference sample_book 100 sample_now sample_now = Inl Panic"
    by code_simp
qed

text \<open>The outermost spread is summed in 64 bits: a level spacing of \<open>2 ^ 62\<close> wraps to a negative spread and is
  accepted.\<close>

definition wide_instrument :: InstrumentConfig where
  "wide_instrument = valid_instrument\<lparr>in_Strategy := sample_strategy\<lparr>st_Levels := 3, st_LevelSpacingBPS := 2 ^ 62\<rparr>\<rparr>"

theorem validated_spread_overflow:
  "Validate sample_parser (sample_config wide_instrument) = None \<and>
   st_HalfSpreadBPS (in_Strategy wide_instrument) + 2 * st_LevelSpacingBPS (in_Strategy wide_instrument) > 10000"
proof
  show "Validate sample_parser (sample_config wide_instrument) = None" by code_simp
  show "st_HalfSpreadBPS (in_Strategy wide_instrument) + 2 * st_LevelSpacingBPS (in_Strategy wide_instrument) > 10000"
    by (simp add: wide_instrument_def sample_strategy_def)
qed

end
