(* ===== verification/AccountLocks.thy ===== *)
theory AccountLocks
  imports Engine ConfigValidate
begin

text \<open>
  \<^verbatim>\<open>internal/engine/engine.go\<close>, the account locks of the worker pool: \<^verbatim>\<open>buildInstrumentAccountLocks\<close>,
  \<^verbatim>\<open>lockInstrumentAccounts\<close> and the workers of \<^verbatim>\<open>RunOnce\<close>. A mutex is identified by the key of its account.
  The pool is a step relation on the progress of its jobs, one per instrument: a worker takes a job,
  locks its accounts in their order, runs the cycle, unlocks in reverse order. Every interleaving of
  the workers is a run of the relation.
\<close>

section \<open>Definitions\<close>

definition accountKeys :: "Config \<Rightarrow> string \<Rightarrow> string list" where
  "accountKeys cfg instrumentID =
     concat (map (\<lambda>(_, venueCfg).
       if v_Enabled venueCfg
       then List.map_filter (\<lambda>(i, market). if i = instrumentID \<and> m_CredentialID market > 0
              then Some (accountCacheKey (v_Type venueCfg) (m_CredentialID market)) else None) (v_Markets venueCfg)
       else []) (c_Venues cfg))"

definition buildInstrumentAccountLocks :: "Config \<Rightarrow> string \<Rightarrow> string list" where
  "buildInstrumentAccountLocks cfg instrumentID = sort (remdups (accountKeys cfg instrumentID))"

definition cycleLocks :: "Config \<Rightarrow> string list list" where
  "cycleLocks cfg = map (buildInstrumentAccountLocks cfg \<circ> in_ID) (c_Instruments cfg)"

text \<open>The progress of a job: in the channel, so many locks taken, so many still to be unlocked, finished.\<close>

datatype JobState = Queued | Locking nat | Unlocking nat | Done

fun held :: "string list \<Rightarrow> JobState \<Rightarrow> string set" where
  "held locks (Locking k) = set (take k locks)"
| "held locks (Unlocking k) = set (take k locks)"
| "held locks _ = {}"

fun active :: "JobState \<Rightarrow> bool" where
  "active (Locking _) = True" | "active (Unlocking _) = True" | "active _ = False"

inductive pool_step :: "string list list \<Rightarrow> nat \<Rightarrow> JobState list \<Rightarrow> JobState list \<Rightarrow> bool" for locks limit where
  take_job: "i < length s \<Longrightarrow> s ! i = Queued \<Longrightarrow> (\<And>j. j < i \<Longrightarrow> s ! j \<noteq> Queued) \<Longrightarrow>
    length (filter active s) < limit \<Longrightarrow> pool_step locks limit s (s[i := Locking 0])"
| take_lock: "i < length s \<Longrightarrow> s ! i = Locking k \<Longrightarrow> k < length (locks ! i) \<Longrightarrow>
    (\<And>j. j < length s \<Longrightarrow> locks ! i ! k \<notin> held (locks ! j) (s ! j)) \<Longrightarrow> pool_step locks limit s (s[i := Locking (Suc k)])"
| run_cycle: "i < length s \<Longrightarrow> s ! i = Locking k \<Longrightarrow> k = length (locks ! i) \<Longrightarrow> pool_step locks limit s (s[i := Unlocking k])"
| unlock: "i < length s \<Longrightarrow> s ! i = Unlocking (Suc k) \<Longrightarrow> pool_step locks limit s (s[i := Unlocking k])"
| job_done: "i < length s \<Longrightarrow> s ! i = Unlocking 0 \<Longrightarrow> pool_step locks limit s (s[i := Done])"

inductive pool_reach :: "string list list \<Rightarrow> nat \<Rightarrow> JobState list \<Rightarrow> bool" for locks limit where
  pool_start: "pool_reach locks limit (replicate (length locks) Queued)"
| pool_next: "pool_reach locks limit s \<Longrightarrow> pool_step locks limit s s' \<Longrightarrow> pool_reach locks limit s'"


section \<open>Invariant\<close>

definition exclusive :: "string list list \<Rightarrow> JobState list \<Rightarrow> bool" where
  "exclusive locks s \<longleftrightarrow> (\<forall>i < length s. \<forall>j < length s. i \<noteq> j \<longrightarrow> held (locks ! i) (s ! i) \<inter> held (locks ! j) (s ! j) = {})"

definition within_locks :: "string list list \<Rightarrow> JobState list \<Rightarrow> bool" where
  "within_locks locks s \<longleftrightarrow> length s = length locks \<and>
     (\<forall>i < length s. \<forall>k. s ! i = Locking k \<or> s ! i = Unlocking k \<longrightarrow> k \<le> length (locks ! i))"

lemma exclusive_update:
  assumes "exclusive locks s" "i < length s"
    and "\<And>j. j < length s \<Longrightarrow> j \<noteq> i \<Longrightarrow> held (locks ! i) x \<inter> held (locks ! j) (s ! j) = {}"
  shows "exclusive locks (s[i := x])"
  using assms unfolding exclusive_def by (auto simp: nth_list_update)

lemma held_shrinks:
  assumes "exclusive locks s" "i < length s" "held (locks ! i) x \<subseteq> held (locks ! i) (s ! i)"
  shows "exclusive locks (s[i := x])"
  using assms by (intro exclusive_update) (auto simp: exclusive_def)

lemma pool_step_invariant:
  assumes "pool_step locks limit s s'" "exclusive locks s" "within_locks locks s"
  shows "exclusive locks s' \<and> within_locks locks s'"
  using assms
proof (induction rule: pool_step.induct)
  case (take_lock i s k)
  have h: "held (locks ! i) (Locking (Suc k)) = insert (locks ! i ! k) (held (locks ! i) (s ! i))"
    using take_lock by (simp add: take_Suc_conv_app_nth)
  have "held (locks ! i) (s ! i) \<inter> held (locks ! j) (s ! j) = {}" if "j < length s" "j \<noteq> i" for j
    using take_lock that by (metis exclusive_def)
  then have "exclusive locks (s[i := Locking (Suc k)])"
    using take_lock.hyps take_lock.prems(1) by (intro exclusive_update) (simp_all add: take_Suc_conv_app_nth)
  with take_lock show ?case by (auto simp: within_locks_def nth_list_update)
next
  case (unlock i s k)
  then have "exclusive locks (s[i := Unlocking k])"
    using set_take_subset_set_take [of k "Suc k" "locks ! i"] by (intro held_shrinks) auto
  with unlock show ?case by (auto simp: within_locks_def nth_list_update)
qed (auto intro!: held_shrinks simp: within_locks_def nth_list_update)

lemma pool_reach_invariant: "pool_reach locks limit s \<Longrightarrow> exclusive locks s \<and> within_locks locks s"
proof (induction rule: pool_reach.induct)
  case (pool_next s s')
  then show ?case using pool_step_invariant by blast
qed (auto simp: exclusive_def within_locks_def)


section \<open>Termination\<close>

fun remaining :: "string list \<Rightarrow> JobState \<Rightarrow> nat" where
  "remaining locks Queued = 2 * length locks + 3"
| "remaining locks (Locking k) = 2 * length locks + 2 - k"
| "remaining locks (Unlocking k) = k + 1"
| "remaining locks Done = 0"

definition work_left :: "string list list \<Rightarrow> JobState list \<Rightarrow> nat" where
  "work_left locks s = sum_list (map (\<lambda>i. remaining (locks ! i) (s ! i)) [0..<length s])"

lemma work_left_update:
  assumes "i < length s" "remaining (locks ! i) x < remaining (locks ! i) (s ! i)"
  shows "work_left locks (s[i := x]) < work_left locks s"
proof -
  let ?f = "\<lambda>t j. remaining (locks ! j) (t ! j)"
  have "work_left locks t = (\<Sum>j < length t. ?f t j)" for t
    by (simp add: work_left_def sum_list_distinct_conv_sum_set atLeast0LessThan)
  moreover have "(\<Sum>j < length s. ?f (s[i := x]) j) < (\<Sum>j < length s. ?f s j)"
    by (rule sum_strict_mono_ex1) (use assms in \<open>auto simp: nth_list_update\<close>)
  ultimately show ?thesis by simp
qed

lemma pool_step_decreases:
  assumes "pool_step locks limit s s'" "within_locks locks s" shows "work_left locks s' < work_left locks s"
  using assms by (induction rule: pool_step.induct) (auto intro!: work_left_update simp: within_locks_def)


section \<open>Deadlock freedom\<close>

text \<open>The key a job that is still locking waits for.\<close>

definition wants :: "string list list \<Rightarrow> JobState list \<Rightarrow> nat \<Rightarrow> string \<Rightarrow> bool" where
  "wants locks s i key \<longleftrightarrow> i < length s \<and> (\<exists>k < length (locks ! i). s ! i = Locking k \<and> key = locks ! i ! k)"

locale lock_order =
  fixes locks :: "string list list"
  assumes ordered: "i < length locks \<Longrightarrow> sorted_wrt (<) (locks ! i)"
begin

lemma waits_for_larger:
  assumes "within_locks locks s" "wants locks s j want" "key \<in> held (locks ! j) (s ! j)" shows "key < want"
proof -
  from assms obtain k where k: "j < length locks" "k < length (locks ! j)" "s ! j = Locking k" "want = locks ! j ! k"
    by (auto simp: wants_def within_locks_def)
  with assms obtain i where "i < k" "key = locks ! j ! i" by (auto simp: in_set_conv_nth)
  with k ordered [of j] show ?thesis by (simp add: sorted_wrt_iff_nth_less)
qed

lemma largest_wanted_free:
  assumes "within_locks locks s" and waiting: "\<And>j. j < length s \<Longrightarrow> active (s ! j) \<Longrightarrow> \<exists>key. wants locks s j key"
    and "wants locks s i want"
  obtains j k where "j < length s" "s ! j = Locking k" "k < length (locks ! j)"
    "\<And>l. l < length s \<Longrightarrow> locks ! j ! k \<notin> held (locks ! l) (s ! l)"
proof -
  let ?W = "{key. \<exists>j. wants locks s j key}"
  have "?W \<subseteq> (\<Union>i < length s. set (locks ! i))" by (auto simp: wants_def)
  then have fin: "finite ?W" by (rule finite_subset) simp
  with assms(3) have "Max ?W \<in> ?W" by (intro Max_in) auto
  then obtain j where j: "wants locks s j (Max ?W)" by blast
  then obtain k where k: "j < length s" "s ! j = Locking k" "k < length (locks ! j)" "locks ! j ! k = Max ?W"
    by (auto simp: wants_def)
  have "Max ?W \<notin> held (locks ! l) (s ! l)" if l: "l < length s" for l
  proof
    assume h: "Max ?W \<in> held (locks ! l) (s ! l)"
    then have "active (s ! l)" by (cases "s ! l") auto
    then obtain key where key: "wants locks s l key" using waiting l by blast
    then have "key \<le> Max ?W" using fin by (intro Max_ge) auto
    with waits_for_larger [OF assms(1) key h] show False by simp
  qed
  with k that show thesis by simp
qed

theorem progress:
  assumes "pool_reach locks limit s" "0 < limit" "\<exists>i < length s. s ! i \<noteq> Done"
  shows "\<exists>s'. pool_step locks limit s s'"
proof (rule ccontr)
  assume stuck: "\<nexists>s'. pool_step locks limit s s'"
  have inside: "within_locks locks s" using pool_reach_invariant [OF assms(1)] by simp
  have waiting: "\<exists>key. wants locks s j key" if j: "j < length s" and act: "active (s ! j)" for j
  proof (cases "s ! j")
    case (Locking k)
    with inside j have "k \<le> length (locks ! j)" by (auto simp: within_locks_def)
    moreover have "k \<noteq> length (locks ! j)" using Locking stuck j pool_step.run_cycle by blast
    ultimately show ?thesis using Locking j by (auto simp: wants_def)
  next
    case (Unlocking k)
    with stuck j show ?thesis by (cases k) (auto dest: pool_step.unlock pool_step.job_done)
  qed (use act in auto)
  show False
  proof (cases "\<exists>j < length s. active (s ! j)")
    case True
    then obtain i want where "wants locks s i want" using waiting by blast
    from largest_wanted_free [OF inside waiting this] stuck show False by (metis pool_step.take_lock)
  next
    case False
    then have "filter active s = []" by (auto simp: filter_empty_conv in_set_conv_nth)
    moreover obtain i where "i < length s" "s ! i = Queued"
      using assms(3) False by (metis active.simps(1,2) JobState.exhaust)
    then obtain i where "i < length s" "s ! i = Queued" "\<And>j. j < i \<Longrightarrow> s ! j \<noteq> Queued"
      using exists_least_iff [of "\<lambda>i. i < length s \<and> s ! i = Queued"] by (meson less_trans)
    ultimately show False using pool_step.take_job [of i s limit locks] stuck \<open>0 < limit\<close> by auto
  qed
qed

theorem bounded:
  assumes "pool_reach locks limit s"
  shows "work_left locks s \<le> work_left locks (replicate (length locks) Queued)"
  using assms
proof (induction rule: pool_reach.induct)
  case (pool_next s s')
  then show ?case using pool_step_decreases [of locks limit s s'] pool_reach_invariant [of locks limit s] by simp
qed simp

end


text \<open>The workers are as many as the limit: no more jobs than that are active.\<close>

lemma active_update:
  assumes "i < length s" "active (s ! i) \<or> \<not> active x"
  shows "length (filter active (s[i := x])) \<le> length (filter active s)"
  unfolding length_filter_conv_card using assms by (intro card_mono) (auto simp: nth_list_update split: if_splits)

lemma active_start:
  assumes "i < length s" shows "length (filter active (s[i := x])) \<le> Suc (length (filter active s))"
proof -
  have "{j. j < length s \<and> active (s[i := x] ! j)} \<subseteq> insert i {j. j < length s \<and> active (s ! j)}"
    by (auto simp: nth_list_update split: if_splits)
  then have "card {j. j < length s \<and> active (s[i := x] ! j)} \<le> card (insert i {j. j < length s \<and> active (s ! j)})"
    by (intro card_mono) auto
  also have "\<dots> \<le> Suc (card {j. j < length s \<and> active (s ! j)})" by (simp add: card_insert_le_m1)
  finally show ?thesis by (simp add: length_filter_conv_card)
qed

lemma pool_step_active:
  assumes "pool_step locks limit s s'" "length (filter active s) \<le> limit" shows "length (filter active s') \<le> limit"
  using assms
proof (induction rule: pool_step.induct)
  case (take_job i s)
  then show ?case using active_start [of i s "Locking 0"] by simp
qed (auto intro: le_trans [OF active_update])

lemma pool_reach_active: "pool_reach locks limit s \<Longrightarrow> length (filter active s) \<le> limit"
  by (induction rule: pool_reach.induct) (simp_all add: pool_step_active)

lemma buildInstrumentAccountLocks_ordered: "sorted_wrt (<) (buildInstrumentAccountLocks cfg i)"
  by (simp add: buildInstrumentAccountLocks_def strict_sorted_iff)

lemma concurrentLimit_positive: "0 < concurrentLimit cfg"
  by (simp add: concurrentLimit_def Let_def)

interpretation cycle: lock_order "cycleLocks cfg" for cfg
  by unfold_locales (simp add: cycleLocks_def buildInstrumentAccountLocks_ordered)


lemma running_owns_accounts:
  assumes inv: "exclusive (cycleLocks cfg) s" "length s = length (c_Instruments cfg)"
    and "i < length s" "j < length s" "i \<noteq> j" "s ! i = Locking (length (cycleLocks cfg ! i))"
    and "key \<in> set (accountKeys cfg (in_ID (c_Instruments cfg ! i)))"
  shows "key \<notin> held (cycleLocks cfg ! j) (s ! j)"
proof -
  have "key \<in> held (cycleLocks cfg ! i) (s ! i)"
    using assms by (simp add: cycleLocks_def buildInstrumentAccountLocks_def)
  with assms show ?thesis unfolding exclusive_def by blast
qed


section \<open>Properties\<close>

text \<open>C13: the worker pool of a cycle, whatever the interleaving of its workers: no more instruments run
  at a time than the configured limit, no account of an instrument in its cycle is held by another
  instrument's job, the pool is never stuck before every job is done, and every step brings it closer to the end.
\<close>

theorem cycle_locking:
  assumes reach: "pool_reach (cycleLocks cfg) (nat (concurrentLimit cfg)) s"
  shows "length (filter active s) \<le> nat (concurrentLimit cfg) \<and>
    (\<forall>i j key. i < length s \<and> j < length s \<and> i \<noteq> j \<and> s ! i = Locking (length (cycleLocks cfg ! i)) \<and>
       key \<in> set (accountKeys cfg (in_ID (c_Instruments cfg ! i))) \<longrightarrow> key \<notin> held (cycleLocks cfg ! j) (s ! j)) \<and>
    ((\<exists>s'. pool_step (cycleLocks cfg) (nat (concurrentLimit cfg)) s s') \<or> s = replicate (length (c_Instruments cfg)) Done) \<and>
    (\<forall>s'. pool_step (cycleLocks cfg) (nat (concurrentLimit cfg)) s s' \<longrightarrow>
       work_left (cycleLocks cfg) s' < work_left (cycleLocks cfg) s)"
proof (intro conjI allI impI)
  note inv = pool_reach_invariant [OF reach]
  have len: "length s = length (c_Instruments cfg)" using inv by (simp add: within_locks_def cycleLocks_def)
  show "length (filter active s) \<le> nat (concurrentLimit cfg)" by (rule pool_reach_active [OF reach])
  show "key \<notin> held (cycleLocks cfg ! j) (s ! j)"
    if "i < length s \<and> j < length s \<and> i \<noteq> j \<and> s ! i = Locking (length (cycleLocks cfg ! i)) \<and>
      key \<in> set (accountKeys cfg (in_ID (c_Instruments cfg ! i)))" for i j key
    using that inv len running_owns_accounts by metis
  show "(\<exists>s'. pool_step (cycleLocks cfg) (nat (concurrentLimit cfg)) s s') \<or> s = replicate (length (c_Instruments cfg)) Done"
    using cycle.progress [OF reach] concurrentLimit_positive [of cfg] len by (auto simp: list_eq_iff_nth_eq)
  show "work_left (cycleLocks cfg) s' < work_left (cycleLocks cfg) s"
    if "pool_step (cycleLocks cfg) (nat (concurrentLimit cfg)) s s'" for s'
    using pool_step_decreases [OF that] inv by simp
qed

text \<open>Two instruments trading on one account: the second waits while the first is in its cycle.\<close>

definition shared_config :: Config where
  "shared_config = (sample_config valid_instrument)\<lparr>c_Instruments := [valid_instrument, valid_instrument\<lparr>in_ID := ''j''\<rparr>],
     c_Venues := [(''v'', sample_venue\<lparr>v_Markets := [(''i'', sample_market\<lparr>m_CredentialID := 1\<rparr>), (''j'', sample_market\<lparr>m_CredentialID := 1\<rparr>)]\<rparr>)]\<rparr>"

lemma shared_locks: "cycleLocks shared_config = [[''binance/1''], [''binance/1'']]"
  "nat (concurrentLimit shared_config) = 2" "accountKeys shared_config ''i'' = [''binance/1'']"
  "in_ID (c_Instruments shared_config ! 0) = ''i''"
  by code_simp+

lemma shared_reach: "pool_reach (cycleLocks shared_config) (nat (concurrentLimit shared_config)) [Locking 1, Locking 0]"
proof -
  let ?R = "pool_reach [[''binance/1''], [''binance/1'']] 2"
  have "?R [Queued, Queued]" using pool_start [of "[[''binance/1''], [''binance/1'']]" 2] by (simp add: numeral_2_eq_2)
  from pool_next [OF this take_job [of 0]] have "?R [Locking 0, Queued]" by simp
  from pool_next [OF this take_job [of 1]] have "?R [Locking 0, Locking 0]" by (simp add: less_Suc_eq)
  from pool_next [OF this take_lock [of 0 _ 0]] have "?R [Locking 1, Locking 0]" by (simp add: less_Suc_eq) (force simp: nth_Cons split: nat.splits)
  then show ?thesis by (simp add: shared_locks)
qed

theorem cycle_locking_witness:
  "length (filter active [Locking 1, Locking 0]) \<le> nat (concurrentLimit shared_config) \<and>
   ''binance/1'' \<notin> held (cycleLocks shared_config ! 1) (Locking 0) \<and>
   (\<exists>s'. pool_step (cycleLocks shared_config) (nat (concurrentLimit shared_config)) [Locking 1, Locking 0] s')"
  using cycle_locking [OF shared_reach]
  by (auto simp: shared_locks Cons_replicate_eq)

end
