(* ===== verification/Spec2Isabelle.thy ===== *)
theory Spec2Isabelle
  imports Rpc EngineClaims AccountLocks
begin

text \<open>x\<close>

end
